(* ===== verification/Prelude.thy ===== *)
theory Prelude
  imports Main "HOL-Library.Word"
begin

text \<open>
  What every component shares: the clock and \<open>time.Duration\<close> of Go (a signed 64-bit number of
  nanoseconds, with its wrap-around), \<open>time.Time\<close> values that may be the zero time, and small
  facts on lists and options. The collection \<open>state_defs\<close> gathers the definitions of the
  elementary state updates, so that component proofs can unfold them together.
\<close>

named_theorems state_defs \<open>definitions of the elementary state updates\<close>

section \<open>64-bit signed arithmetic and durations\<close>

text \<open>A duration is an \<open>int64\<close> number of nanoseconds; products and sums wrap around.\<close>

type_synonym duration = int

definition wrap64 :: "int \<Rightarrow> int" where
  "wrap64 x = (x + 2 ^ 63) mod 2 ^ 64 - 2 ^ 63"

definition fits64 :: "int \<Rightarrow> bool" where
  "fits64 x \<longleftrightarrow> - (2 ^ 63) \<le> x \<and> x < 2 ^ 63"

lemma wrap64_id: "fits64 x \<Longrightarrow> wrap64 x = x"
  by (simp add: fits64_def wrap64_def)

lemma fits64_wrap64 [simp]: "fits64 (wrap64 x)"
proof -
  have "0 \<le> (x + 2 ^ 63) mod 2 ^ 64" and "(x + 2 ^ 63) mod 2 ^ 64 < 2 ^ 64"
    by (rule pos_mod_sign, simp) (rule pos_mod_bound, simp)
  then show ?thesis by (simp add: fits64_def wrap64_def)
qed

text \<open>The wrap-around is the two's-complement reading of a 64-bit word.\<close>

lemma wrap64_sint: "wrap64 x = sint (word_of_int x :: 64 word)"
  by (simp add: wrap64_def sint_sbintrunc' signed_take_bit_eq_take_bit_shift take_bit_eq_mod)

definition dur_mul :: "int \<Rightarrow> duration \<Rightarrow> duration" where
  "dur_mul n d = wrap64 (n * d)"

lemma dur_mul_exact: "fits64 (n * d) \<Longrightarrow> dur_mul n d = n * d"
  by (simp add: dur_mul_def wrap64_id)

definition millisecond :: duration where
  "millisecond = 1000000"

definition second :: duration where
  "second = 1000000000"

definition minute :: duration where
  "minute = 60 * second"

lemmas unit_defs = millisecond_def second_def minute_def

section \<open>Points in time\<close>

text \<open>
  The clock reading is an integer number of nanoseconds. A \<open>time.Time\<close> field is an option: \<open>None\<close>
  is the zero value \<open>time.Time{}\<close>, which lies before every clock reading.
\<close>

type_synonym time = int

fun before :: "time \<Rightarrow> time option \<Rightarrow> bool" where
  "before now None = False"
| "before now (Some t) = (now < t)"

lemma before_mono: "before t d \<Longrightarrow> t' \<le> t \<Longrightarrow> before t' d"
  by (cases d) auto

section \<open>Lists and options\<close>

lemma option_set_eq_empty [simp]: "set_option x = {} \<longleftrightarrow> x = None"
  by (cases x) auto

lemma find_SomeD: "find P xs = Some x \<Longrightarrow> x \<in> set xs \<and> P x"
  by (auto simp: find_Some_iff)

lemma find_None_all: "find P xs = None \<longleftrightarrow> (\<forall>x \<in> set xs. \<not> P x)"
  by (auto simp: find_None_iff)

lemma takeWhile_all: "(\<And>x. x \<in> set xs \<Longrightarrow> P x) \<Longrightarrow> takeWhile P xs = xs"
  by (induction xs) auto

lemma dropWhile_all: "(\<And>x. x \<in> set xs \<Longrightarrow> P x) \<Longrightarrow> dropWhile P xs = []"
  by (induction xs) auto

text \<open>The number of elements at the end of a list that satisfy \<open>P\<close>, up to the first that does not.\<close>

definition trailing :: "('a \<Rightarrow> bool) \<Rightarrow> 'a list \<Rightarrow> nat" where
  "trailing P xs = length (takeWhile P (rev xs))"

lemma trailing_Nil [simp]: "trailing P [] = 0"
  by (simp add: trailing_def)

lemma trailing_snoc [simp]: "trailing P (xs @ [x]) = (if P x then Suc (trailing P xs) else 0)"
  by (simp add: trailing_def)

lemma trailing_le: "trailing P xs \<le> length xs"
  using length_takeWhile_le [of P "rev xs"] by (simp add: trailing_def)

text \<open>A trailing count of at least \<open>n\<close> says that the last \<open>n\<close> elements all satisfy \<open>P\<close>.\<close>

lemma trailing_ge_last:
  assumes "n \<le> trailing P xs" and "x \<in> set (drop (length xs - n) xs)"
  shows "P x"
proof -
  have "x \<in> set (take n (rev xs))"
    using assms(2) by (simp add: take_rev)
  moreover have "take n (takeWhile P (rev xs) @ dropWhile P (rev xs)) = take n (takeWhile P (rev xs))"
    using assms(1) by (simp only: trailing_def take_append) simp
  ultimately show ?thesis
    by (simp only: takeWhile_dropWhile_id) (metis in_set_takeD set_takeWhileD)
qed

end
