(* ===== verification/GoStrings.thy ===== *)
theory GoStrings
  imports Prelude "HOL-Library.Sublist" "HOL-Library.Char_ord"
begin

text \<open>
  The part of Go's standard library on strings that the program calls: \<open>strings\<close> (Index, Cut,
  Split, Join, TrimSpace, ToLower, HasPrefix, HasSuffix, Contains), \<open>strconv.Atoi\<close>,
  \<open>encoding/hex\<close> and \<open>net.SplitHostPort\<close>/\<open>JoinHostPort\<close>. A Go string is a sequence of bytes,
  which is what HOL's \<open>char list\<close> is. These definitions have no source lines in the repository;
  they follow the library's documented behaviour, its error cases included.
\<close>

section \<open>Searching\<close>

fun index_byte :: "string \<Rightarrow> char \<Rightarrow> nat option" where
  "index_byte [] c = None"
| "index_byte (x # xs) c = (if x = c then Some 0 else map_option Suc (index_byte xs c))"

definition last_index_byte :: "string \<Rightarrow> char \<Rightarrow> nat option" where
  "last_index_byte s c = map_option (\<lambda>k. length s - Suc k) (index_byte (rev s) c)"

fun strings_Index :: "string \<Rightarrow> string \<Rightarrow> nat option" where
  "strings_Index s sub =
     (if prefix sub s then Some 0
      else case s of [] \<Rightarrow> None | _ # cs \<Rightarrow> map_option Suc (strings_Index cs sub))"

declare strings_Index.simps [simp del]

fun strings_IndexAny :: "string \<Rightarrow> string \<Rightarrow> nat option" where
  "strings_IndexAny [] chars = None"
| "strings_IndexAny (x # xs) chars =
     (if x \<in> set chars then Some 0 else map_option Suc (strings_IndexAny xs chars))"

definition strings_Contains :: "string \<Rightarrow> string \<Rightarrow> bool" where
  "strings_Contains s sub = (strings_Index s sub \<noteq> None)"

definition strings_HasPrefix :: "string \<Rightarrow> string \<Rightarrow> bool" where
  "strings_HasPrefix s p = prefix p s"

definition strings_HasSuffix :: "string \<Rightarrow> string \<Rightarrow> bool" where
  "strings_HasSuffix s p = suffix p s"

definition strings_TrimPrefix :: "string \<Rightarrow> string \<Rightarrow> string" where
  "strings_TrimPrefix s p = (if prefix p s then drop (length p) s else s)"

lemma index_byte_None: "index_byte s c = None \<longleftrightarrow> c \<notin> set s"
  by (induction s) auto

lemma index_byte_Some:
  "index_byte s c = Some i \<Longrightarrow> i < length s \<and> s ! i = c \<and> c \<notin> set (take i s)"
  by (induction s arbitrary: i) (auto split: if_splits)

lemma index_byte_append:
  "index_byte (a @ b) c =
     (if c \<in> set a then index_byte a c else map_option (\<lambda>k. length a + k) (index_byte b c))"
proof (induction a)
  case (Cons x a)
  then show ?case by (auto simp: option.map_comp comp_def)
next
  case Nil
  have "((+) (0 :: nat)) = id" by auto
  then show ?case by (simp add: option.map_id)
qed

lemma last_index_byte_app: "c \<notin> set b \<Longrightarrow> last_index_byte (a @ c # b) c = Some (length a)"
  by (simp add: last_index_byte_def index_byte_append)

lemma last_index_byte_None: "last_index_byte s c = None \<longleftrightarrow> c \<notin> set s"
  by (simp add: last_index_byte_def index_byte_None)

lemma last_index_byte_Some:
  assumes "last_index_byte s c = Some i"
  shows "i < length s \<and> s ! i = c \<and> c \<notin> set (drop (Suc i) s)"
proof -
  obtain k where k: "index_byte (rev s) c = Some k" and i: "i = length s - Suc k"
    using assms by (auto simp: last_index_byte_def)
  from index_byte_Some [OF k] have "k < length s" "rev s ! k = c" "c \<notin> set (take k (rev s))"
    by auto
  then show ?thesis using i
    by (simp add: rev_nth take_rev Suc_diff_Suc)
qed

section \<open>Splitting and joining\<close>

text \<open>\<open>strings.Split\<close> with a separator of one byte; the result is never empty.\<close>

fun strings_Split :: "string \<Rightarrow> char \<Rightarrow> string list" where
  "strings_Split [] c = [[]]"
| "strings_Split (x # xs) c =
     (if x = c then [] # strings_Split xs c
      else case strings_Split xs c of [] \<Rightarrow> [[x]] | y # ys \<Rightarrow> (x # y) # ys)"

fun strings_Join :: "string list \<Rightarrow> char \<Rightarrow> string" where
  "strings_Join [] c = []"
| "strings_Join [s] c = s"
| "strings_Join (s # ss) c = s @ c # strings_Join ss c"

text \<open>\<open>strings.Cut\<close> at a one-byte separator: what is before, what is after, and whether it was found.\<close>

definition strings_Cut :: "string \<Rightarrow> char \<Rightarrow> string \<times> string \<times> bool" where
  "strings_Cut s c =
     (case index_byte s c of None \<Rightarrow> (s, [], False) | Some i \<Rightarrow> (take i s, drop (Suc i) s, True))"

lemma strings_Split_not_Nil [simp]: "strings_Split s c \<noteq> []"
  by (induction s) (auto split: list.splits)

lemma strings_Split_none: "c \<notin> set s \<Longrightarrow> strings_Split s c = [s]"
  by (induction s) auto

lemma strings_Split_app:
  "c \<notin> set a \<Longrightarrow> strings_Split (a @ c # b) c = a # strings_Split b c"
  by (induction a) auto

lemma strings_Split_parts: "x \<in> set (strings_Split s c) \<Longrightarrow> c \<notin> set x"
proof (induction s arbitrary: x)
  case (Cons a s)
  then show ?case
    by (cases "strings_Split s c") (auto split: if_splits)
qed simp

lemma strings_Split_Join:
  "ss \<noteq> [] \<Longrightarrow> (\<And>s. s \<in> set ss \<Longrightarrow> c \<notin> set s) \<Longrightarrow> strings_Split (strings_Join ss c) c = ss"
  by (induction ss c rule: strings_Join.induct)
    (simp_all add: strings_Split_none strings_Split_app)

lemma strings_Cut_found:
  "c \<notin> set k \<Longrightarrow> strings_Cut (k @ c # v) c = (k, v, True)"
  by (simp add: strings_Cut_def index_byte_append)

lemma strings_Cut_missing: "c \<notin> set s \<Longrightarrow> strings_Cut s c = (s, [], False)"
  by (simp add: strings_Cut_def index_byte_None [THEN iffD2])

section \<open>White space and case\<close>

text \<open>
  The UTF-8 encodings of the code points for which \<open>unicode.IsSpace\<close> holds: the ASCII ones,
  U+0085, U+00A0, U+1680, U+2000 to U+200A, U+2028, U+2029, U+202F, U+205F and U+3000.
\<close>

definition space_encodings :: "string list" where
  "space_encodings =
     map (\<lambda>n. [char_of (n :: nat)]) [9, 10, 11, 12, 13, 32]
     @ [[char_of (194 :: nat), char_of (133 :: nat)], [char_of (194 :: nat), char_of (160 :: nat)],
        [char_of (225 :: nat), char_of (154 :: nat), char_of (128 :: nat)]]
     @ map (\<lambda>n. [char_of (226 :: nat), char_of (128 :: nat), char_of (n :: nat)])
         [128, 129, 130, 131, 132, 133, 134, 135, 136, 137, 138, 168, 169, 175]
     @ [[char_of (226 :: nat), char_of (129 :: nat), char_of (159 :: nat)],
        [char_of (227 :: nat), char_of (128 :: nat), char_of (128 :: nat)]]"

text \<open>Strips one encoded space at the front, if there is one.\<close>

definition strip_one :: "string list \<Rightarrow> string \<Rightarrow> string option" where
  "strip_one encs s =
     map_option (\<lambda>e. drop (length e) s) (find (\<lambda>e. prefix e s) encs)"

lemma strip_one_length:
  "[] \<notin> set encs \<Longrightarrow> strip_one encs s = Some t \<Longrightarrow> length t < length s"
  by (auto simp: strip_one_def find_Some_iff prefix_def) (metis nth_mem)

fun strip_all :: "nat \<Rightarrow> string list \<Rightarrow> string \<Rightarrow> string" where
  "strip_all 0 encs s = s"
| "strip_all (Suc n) encs s =
     (case strip_one encs s of None \<Rightarrow> s | Some t \<Rightarrow> strip_all n encs t)"

definition trim_left :: "string list \<Rightarrow> string \<Rightarrow> string" where
  "trim_left encs s = strip_all (length s) encs s"

text \<open>\<open>strings.TrimSpace\<close>: the right end is the left end of the reversed string.\<close>

definition strings_TrimSpace :: "string \<Rightarrow> string" where
  "strings_TrimSpace s =
     rev (trim_left (map rev space_encodings) (rev (trim_left space_encodings s)))"

lemma space_encodings_nonempty: "[] \<notin> set space_encodings" "[] \<notin> set (map rev space_encodings)"
  by (simp_all add: space_encodings_def)

lemma strip_one_None: "strip_one encs s = None \<longleftrightarrow> (\<forall>e \<in> set encs. \<not> prefix e s)"
  by (auto simp: strip_one_def find_None_iff)

lemma strip_one_suffix: "strip_one encs s = Some t \<Longrightarrow> suffix t s"
  by (auto simp: strip_one_def suffix_drop)

lemma strip_all_suffix: "suffix (strip_all n encs s) s"
proof (induction n arbitrary: s)
  case (Suc n)
  then show ?case
    by (auto split: option.splits dest: strip_one_suffix intro: suffix_order.order_trans)
qed simp

lemma strip_all_done:
  "[] \<notin> set encs \<Longrightarrow> length s \<le> n \<Longrightarrow> strip_one encs (strip_all n encs s) = None"
proof (induction n arbitrary: s)
  case 0
  then show ?case by (auto simp: strip_one_None)
next
  case (Suc n)
  show ?case
  proof (cases "strip_one encs s")
    case (Some t)
    with Suc.prems have "length t \<le> n" by (auto dest: strip_one_length)
    with Some Suc show ?thesis by simp
  qed simp
qed

lemma trim_left_id: "strip_one encs s = None \<Longrightarrow> trim_left encs s = s"
  by (cases s) (simp_all add: trim_left_def)

text \<open>The result of a trim starts and ends with no space, and trimming it again changes nothing.\<close>

definition trimmed :: "string \<Rightarrow> bool" where
  "trimmed s \<longleftrightarrow>
     strip_one space_encodings s = None \<and> strip_one (map rev space_encodings) (rev s) = None"

lemma trimmed_TrimSpace: "trimmed s \<Longrightarrow> strings_TrimSpace s = s"
  by (simp add: trimmed_def strings_TrimSpace_def trim_left_id)

lemma TrimSpace_trimmed: "trimmed (strings_TrimSpace s)"
proof -
  let ?l = "trim_left space_encodings s"
  let ?r = "trim_left (map rev space_encodings) (rev ?l)"
  have l: "strip_one space_encodings ?l = None"
    unfolding trim_left_def by (rule strip_all_done) (simp_all add: space_encodings_nonempty)
  have r: "strip_one (map rev space_encodings) ?r = None"
    unfolding trim_left_def by (rule strip_all_done) (simp_all only: space_encodings_nonempty, simp_all)
  have "prefix (rev ?r) ?l"
    using strip_all_suffix [of "length ?l" "map rev space_encodings" "rev ?l"]
    by (simp add: trim_left_def suffix_to_prefix)
  with l have "strip_one space_encodings (rev ?r) = None"
    by (auto simp: strip_one_None dest: prefix_order.order_trans)
  with r show ?thesis by (simp add: trimmed_def strings_TrimSpace_def)
qed

lemma TrimSpace_idem [simp]: "strings_TrimSpace (strings_TrimSpace s) = strings_TrimSpace s"
  by (rule trimmed_TrimSpace [OF TrimSpace_trimmed])

text \<open>Strings of printable ASCII characters have no space to trim.\<close>

lemma space_borders:
  "list_all (\<lambda>e. e \<noteq> [] \<and> \<not> (33 \<le> (of_char (hd e) :: nat) \<and> (of_char (hd e) :: nat) \<le> 126)
       \<and> \<not> (33 \<le> (of_char (last e) :: nat) \<and> (of_char (last e) :: nat) \<le> 126)) space_encodings"
  by code_simp

lemma trimmed_printable:
  assumes "\<And>c. c \<in> set s \<Longrightarrow> 33 \<le> (of_char c :: nat) \<and> (of_char c :: nat) \<le> 126"
  shows "trimmed s"
proof -
  have b: "e \<noteq> []" "\<not> (33 \<le> (of_char (hd e) :: nat) \<and> (of_char (hd e) :: nat) \<le> 126)"
      "\<not> (33 \<le> (of_char (last e) :: nat) \<and> (of_char (last e) :: nat) \<le> 126)"
    if "e \<in> set space_encodings" for e
    using space_borders that by (auto simp: list_all_iff)
  have "\<not> prefix e s" if "e \<in> set space_encodings" for e
  proof
    assume "prefix e s"
    with b(1) [OF that] have "hd e \<in> set s" by (metis hd_in_set prefixE in_set_conv_decomp append_is_Nil_conv hd_append2)
    with assms b(2) [OF that] show False by blast
  qed
  moreover have "\<not> prefix (rev e) (rev s)" if "e \<in> set space_encodings" for e
  proof
    assume "prefix (rev e) (rev s)"
    then have "suffix e s" by (simp add: suffix_to_prefix)
    with b(1) [OF that] have "last e \<in> set s" by (metis last_in_set set_mono_suffix subsetD)
    with assms b(3) [OF that] show False by blast
  qed
  ultimately show ?thesis by (simp add: trimmed_def strip_one_None)
qed

lemma TrimSpace_Nil [simp]: "strings_TrimSpace [] = []"
  by (rule trimmed_TrimSpace, rule trimmed_printable) simp

text \<open>
  \<open>strings.ToLower\<close>: bytes are mapped one by one when the string is ASCII; otherwise the library
  maps code points by the Unicode tables, which are the argument \<open>uni\<close>.
\<close>

definition ascii_lower :: "char \<Rightarrow> char" where
  "ascii_lower c =
     (let n = (of_char c :: nat) in if 65 \<le> n \<and> n \<le> 90 then char_of (n + 32) else c)"

definition is_ascii :: "string \<Rightarrow> bool" where
  "is_ascii s = list_all (\<lambda>c. (of_char c :: nat) < 128) s"

definition strings_ToLower :: "(string \<Rightarrow> string) \<Rightarrow> string \<Rightarrow> string" where
  "strings_ToLower uni s = (if is_ascii s then map ascii_lower s else uni s)"

section \<open>Decimal numbers\<close>

definition is_digit :: "char \<Rightarrow> bool" where
  "is_digit c = (48 \<le> (of_char c :: nat) \<and> (of_char c :: nat) \<le> 57)"

definition digit_val :: "char \<Rightarrow> nat" where
  "digit_val c = of_char c - 48"

definition digits_val :: "string \<Rightarrow> nat" where
  "digits_val s = foldl (\<lambda>n c. 10 * n + digit_val c) 0 s"

text \<open>
  \<open>strconv.Atoi\<close> on a 64-bit platform: an optional sign, at least one decimal digit and nothing
  else, and a value that fits. \<open>None\<close> is a non-nil error (syntax or range).
\<close>

definition strconv_Atoi :: "string \<Rightarrow> int option" where
  "strconv_Atoi s =
     (let neg = (s \<noteq> [] \<and> hd s = CHR ''-'');
          ds = (if s \<noteq> [] \<and> (hd s = CHR ''-'' \<or> hd s = CHR ''+'') then tl s else s)
      in if ds = [] \<or> \<not> list_all is_digit ds then None
         else let v = (if neg then - int (digits_val ds) else int (digits_val ds))
              in if fits64 v then Some v else None)"

fun fmt_d :: "nat \<Rightarrow> string" where
  "fmt_d n = (if n < 10 then [char_of (48 + n)] else fmt_d (n div 10) @ [char_of (48 + n mod 10)])"

declare fmt_d.simps [simp del]

lemma digit_char: "n < 10 \<Longrightarrow> is_digit (char_of (48 + n)) \<and> digit_val (char_of (48 + n)) = n"
  by (simp add: is_digit_def digit_val_def)

lemma fmt_d_digits: "list_all is_digit (fmt_d n)"
proof (induction n rule: fmt_d.induct)
  case (1 n)
  then show ?case
    by (subst fmt_d.simps) (simp add: digit_char)
qed

lemma fmt_d_not_Nil [simp]: "fmt_d n \<noteq> []"
  by (subst fmt_d.simps) simp

lemma digits_val_fmt_d: "digits_val (fmt_d n) = n"
proof (induction n rule: fmt_d.induct)
  case (1 n)
  then show ?case
    by (subst fmt_d.simps) (simp add: digits_val_def digit_char)
qed

lemma is_digit_no_sign: "is_digit c \<Longrightarrow> c \<noteq> CHR ''-'' \<and> c \<noteq> CHR ''+''"
  by (auto simp: is_digit_def)

lemma Atoi_fmt_d: "fits64 (int n) \<Longrightarrow> strconv_Atoi (fmt_d n) = Some (int n)"
proof -
  have "is_digit (hd (fmt_d n))"
    using fmt_d_digits [of n] by (cases "fmt_d n") auto
  then show "fits64 (int n) \<Longrightarrow> ?thesis"
    by (auto simp: strconv_Atoi_def fmt_d_digits digits_val_fmt_d dest: is_digit_no_sign)
qed

lemma Atoi_range: "strconv_Atoi s = Some n \<Longrightarrow> fits64 n"
  by (auto simp: strconv_Atoi_def Let_def split: if_splits)

section \<open>Hexadecimal\<close>

definition hex_val :: "char \<Rightarrow> nat option" where
  "hex_val c =
     (let n = (of_char c :: nat)
      in if 48 \<le> n \<and> n \<le> 57 then Some (n - 48)
         else if 97 \<le> n \<and> n \<le> 102 then Some (n - 87)
         else if 65 \<le> n \<and> n \<le> 70 then Some (n - 55)
         else None)"

definition hex_digit :: "nat \<Rightarrow> char" where
  "hex_digit n = (if n < 10 then char_of (48 + n) else char_of (87 + n))"

text \<open>\<open>hex.DecodeString\<close>; \<open>None\<close> is an error (odd length or a byte that is no hex digit).\<close>

fun hex_DecodeString :: "string \<Rightarrow> string option" where
  "hex_DecodeString [] = Some []"
| "hex_DecodeString [x] = None"
| "hex_DecodeString (x # y # r) =
     (case (hex_val x, hex_val y, hex_DecodeString r) of
        (Some a, Some b, Some bs) \<Rightarrow> Some (char_of (16 * a + b) # bs)
      | _ \<Rightarrow> None)"

fun hex_EncodeToString :: "string \<Rightarrow> string" where
  "hex_EncodeToString [] = []"
| "hex_EncodeToString (c # cs) =
     hex_digit (of_char c div 16) # hex_digit (of_char c mod 16) # hex_EncodeToString cs"

lemma hex_val_digit: "n < 16 \<Longrightarrow> hex_val (hex_digit n) = Some n"
  by (auto simp: hex_val_def hex_digit_def)

lemma hex_roundtrip: "hex_DecodeString (hex_EncodeToString bs) = Some bs"
proof (induction bs)
  case (Cons c cs)
  have "(of_char c :: nat) < 16 * 16"
    by simp
  then have "(of_char c :: nat) div 16 < 16"
    by (rule less_mult_imp_div_less)
  moreover have "(of_char c :: nat) mod 16 < 16"
    by simp
  ultimately show ?case
    using Cons by (simp add: hex_val_digit)
qed simp

lemma hex_Decode_length: "hex_DecodeString s = Some bs \<Longrightarrow> length s = 2 * length bs"
  by (induction s arbitrary: bs rule: hex_DecodeString.induct) (auto split: option.splits)

lemma hex_Encode_length: "length (hex_EncodeToString bs) = 2 * length bs"
  by (induction bs) auto

section \<open>Host and port\<close>

datatype addr_error =
  MissingPort | TooManyColons | MissingBracket | UnexpectedOpen | UnexpectedClose

text \<open>\<open>net.SplitHostPort\<close>: the last checks and the result, once the host is found.\<close>

definition shp_finish :: "string \<Rightarrow> string \<Rightarrow> nat \<Rightarrow> nat \<Rightarrow> nat \<Rightarrow> addr_error + (string \<times> string)" where
  "shp_finish s host j k i =
     (if CHR ''['' \<in> set (drop j s) then Inl UnexpectedOpen
      else if CHR '']'' \<in> set (drop k s) then Inl UnexpectedClose
      else Inr (host, drop (Suc i) s))"

definition net_SplitHostPort :: "string \<Rightarrow> addr_error + (string \<times> string)" where
  "net_SplitHostPort s =
     (case last_index_byte s CHR '':'' of
        None \<Rightarrow> Inl MissingPort
      | Some i \<Rightarrow>
          if hd s = CHR ''['' then
            (case index_byte s CHR '']'' of
               None \<Rightarrow> Inl MissingBracket
             | Some e \<Rightarrow>
                 if Suc e = length s then Inl MissingPort
                 else if Suc e = i then shp_finish s (take (e - 1) (tl s)) 1 (Suc e) i
                 else if s ! Suc e = CHR '':'' then Inl TooManyColons
                 else Inl MissingPort)
          else if CHR '':'' \<in> set (take i s) then Inl TooManyColons
          else shp_finish s (take i s) 0 0 i)"

definition net_JoinHostPort :: "string \<Rightarrow> string \<Rightarrow> string" where
  "net_JoinHostPort host port =
     (if CHR '':'' \<in> set host then ''['' @ host @ '']:'' @ port else host @ '':'' @ port)"

text \<open>A host or a port that \<open>JoinHostPort\<close> can combine and \<open>SplitHostPort\<close> take apart again.\<close>

definition plain_part :: "string \<Rightarrow> bool" where
  "plain_part s \<longleftrightarrow> CHR ''['' \<notin> set s \<and> CHR '']'' \<notin> set s"

lemma Split_Join_HostPort:
  assumes "plain_part host" and "plain_part port" and "CHR '':'' \<notin> set port"
  shows "net_SplitHostPort (net_JoinHostPort host port) = Inr (host, port)"
proof (cases "CHR '':'' \<in> set host")
  case True
  let ?s = "(CHR ''['' # host @ [CHR '']'']) @ CHR '':'' # port"
  have l: "last_index_byte ?s CHR '':'' = Some (length host + 2)"
    using assms(3) by (subst last_index_byte_app) auto
  have e: "index_byte ?s CHR '']'' = Some (length host + 1)"
    using assms(1) by (simp add: plain_part_def index_byte_append)
  show ?thesis
    using True l e assms
    by (simp add: net_SplitHostPort_def net_JoinHostPort_def shp_finish_def plain_part_def)
next
  case False
  have l: "last_index_byte (host @ CHR '':'' # port) CHR '':'' = Some (length host)"
    using assms(3) by (rule last_index_byte_app)
  have h: "hd (host @ CHR '':'' # port) \<noteq> CHR ''[''"
    using assms(1) by (cases host) (auto simp: plain_part_def)
  show ?thesis
    using False l h assms
    by (simp add: net_SplitHostPort_def net_JoinHostPort_def shp_finish_def plain_part_def)
qed

text \<open>
  What \<open>SplitHostPort\<close> takes apart, \<open>JoinHostPort\<close> puts together again, unless brackets
  enclose a host with no colon.
\<close>

lemma Join_Split_HostPort:
  assumes "net_SplitHostPort s = Inr (host, port)" and "hd s = CHR ''['' \<Longrightarrow> CHR '':'' \<in> set host"
  shows "net_JoinHostPort host port = s"
proof -
  obtain i where i: "last_index_byte s CHR '':'' = Some i"
    using assms(1) by (auto simp: net_SplitHostPort_def split: option.splits)
  note ci = last_index_byte_Some [OF i]
  have tail: "s = take i s @ CHR '':'' # drop (Suc i) s"
    using ci id_take_nth_drop by metis
  show ?thesis
  proof (cases "hd s = CHR ''[''")
    case True
    then obtain e where e: "index_byte s CHR '']'' = Some e" and ei: "Suc e = i"
      and host: "host = take (e - 1) (tl s)" and port: "port = drop (Suc i) s"
      using assms(1) i
      by (auto simp: net_SplitHostPort_def shp_finish_def split: option.splits if_splits)
    note ce = index_byte_Some [OF e]
    obtain t where t: "s = CHR ''['' # t"
      using True ce by (cases s) auto
    with ce have "e \<noteq> 0" by (cases e) auto
    then obtain e' where e': "e = Suc e'" by (cases e) auto
    have "take i s = CHR ''['' # take e' t @ [CHR '']'']"
      using ei e' ce t by (simp add: take_Suc_conv_app_nth flip: ei)
    with tail show ?thesis
      using assms(2) True host port t e' by (simp add: net_JoinHostPort_def)
  next
    case False
    then have "host = take i s" "port = drop (Suc i) s" "CHR '':'' \<notin> set host"
      using assms(1) i by (auto simp: net_SplitHostPort_def shp_finish_def split: if_splits)
    with tail show ?thesis by (simp add: net_JoinHostPort_def)
  qed
qed

end
