(* ===== verification/Address.thy ===== *)
theory Address
  imports GoStrings
begin

text \<open>
  Addresses of the direct (UDP) path: \<open>parseHostPort\<close> and \<open>resolveUDP\<close> of
  \<^verbatim>\<open>internal/yggss/direct.go\<close>, the choice of the local socket's family on both sides, and the
  host handling of the failover probe (\<open>portOf\<close> and the start of \<open>probeDirect\<close> in
  \<^verbatim>\<open>internal/yggss/failover.go\<close>). The textual IP parser and the name resolver of the platform are
  the fields of the record \<open>resolver\<close>.
\<close>

section \<open>parseHostPort\<close>

datatype parse_error = InvalidAddress addr_error | InvalidPort

text \<open>The part of a URI \<open>scheme://host:port/path?query\<close> that is split; other strings are unchanged.\<close>

definition uri_authority :: "string \<Rightarrow> string" where
  "uri_authority s =
     (case strings_Index s ''://'' of
        None \<Rightarrow> s
      | Some i \<Rightarrow>
          (let t = drop (i + 3) s
           in case strings_IndexAny t ''/?'' of None \<Rightarrow> t | Some j \<Rightarrow> take j t))"

definition parseHostPort :: "string \<Rightarrow> parse_error + (string \<times> int)" where
  "parseHostPort s =
     (case net_SplitHostPort (uri_authority s) of
        Inl e \<Rightarrow> Inl (InvalidAddress e)
      | Inr (host, portStr) \<Rightarrow>
          (case strconv_Atoi portStr of
             None \<Rightarrow> Inl InvalidPort
           | Some port \<Rightarrow> Inr (host, port)))"

section \<open>IP addresses and resolveUDP\<close>

text \<open>\<open>net.IP\<close> is a byte slice of length 4 or 16; \<open>To4\<close> recognises IPv4 in both forms.\<close>

type_synonym ip = "8 word list"

definition ip_To4 :: "ip \<Rightarrow> ip option" where
  "ip_To4 ip =
     (if length ip = 4 then Some ip
      else if length ip = 16 \<and> list_all (\<lambda>b. b = 0) (take 10 ip) \<and> ip ! 10 = 255 \<and> ip ! 11 = 255
        then Some (drop 12 ip)
      else None)"

definition IPv4zero :: ip where
  "IPv4zero = [0, 0, 0, 0, 0, 0, 0, 0, 0, 0, 255, 255, 0, 0, 0, 0]"

definition IPv6unspecified :: ip where
  "IPv6unspecified = [0, 0, 0, 0, 0, 0, 0, 0, 0, 0, 0, 0, 0, 0, 0, 0]"

type_synonym udp_addr = "ip \<times> int"

text \<open>The platform: \<open>net.ParseIP\<close> and \<open>net.LookupIP\<close> (\<open>None\<close> is nil, or an error).\<close>

record resolver =
  parse_ip :: "string \<Rightarrow> ip option"
  lookup_ip :: "string \<Rightarrow> ip list option"

definition resolveUDP :: "resolver \<Rightarrow> string \<Rightarrow> int \<Rightarrow> udp_addr option" where
  "resolveUDP R host port =
     (case parse_ip R host of
        Some ip \<Rightarrow> Some (ip, port)
      | None \<Rightarrow>
          (case lookup_ip R host of
             None \<Rightarrow> None
           | Some [] \<Rightarrow> None
           | Some (ip0 # rest) \<Rightarrow>
               (case find (\<lambda>ip. ip_To4 ip = None) (ip0 # rest) of
                  Some ip \<Rightarrow> Some (ip, port)
                | None \<Rightarrow> Some (ip0, port))))"

text \<open>The local address of the client's UDP socket, from the resolved remote one.\<close>

definition dial_laddr :: "udp_addr \<Rightarrow> udp_addr" where
  "dial_laddr raddr = (if ip_To4 (fst raddr) \<noteq> None then (IPv4zero, 0) else (IPv6unspecified, 0))"

text \<open>The address the server's UDP listener binds to (the first part of \<open>startDirectListener\<close>).\<close>

definition listener_laddr :: "resolver \<Rightarrow> string \<Rightarrow> parse_error + udp_addr" where
  "listener_laddr R bind =
     (case parseHostPort bind of
        Inl e \<Rightarrow> Inl e
      | Inr (host, port) \<Rightarrow>
          (case parse_ip R host of
             Some ip \<Rightarrow> Inr (if ip_To4 ip \<noteq> None then IPv4zero else IPv6unspecified, port)
           | None \<Rightarrow> Inr (IPv6unspecified, port)))"

section \<open>portOf and the host of the failover probe\<close>

definition portOf :: "string \<Rightarrow> string" where
  "portOf hostport = (case net_SplitHostPort hostport of Inl _ \<Rightarrow> [] | Inr (_, port) \<Rightarrow> port)"

definition probe_host :: "string \<Rightarrow> string" where
  "probe_host directHost =
     (if strings_HasPrefix directHost ''['' then
        (case net_SplitHostPort directHost of
           Inr (h, _) \<Rightarrow> net_JoinHostPort h (portOf directHost)
         | Inl _ \<Rightarrow> directHost)
      else directHost)"

section \<open>Properties\<close>

lemma Index_free: "hd sub \<notin> set s \<Longrightarrow> sub \<noteq> [] \<Longrightarrow> strings_Index s sub = None"
proof (induction s)
  case Nil
  then show ?case by (simp add: strings_Index.simps)
next
  case (Cons x s)
  then show ?case
    by (cases sub) (auto simp: strings_Index.simps [of "x # s"])
qed

lemma Index_scheme:
  "CHR '':'' \<notin> set scheme \<Longrightarrow> strings_Index (scheme @ ''://'' @ rest) ''://'' = Some (length scheme)"
proof (induction scheme)
  case Nil
  then show ?case by (simp add: strings_Index.simps)
next
  case (Cons x scheme)
  then show ?case
    by (simp add: strings_Index.simps [of "x # _"])
qed

lemma IndexAny_stop:
  "(\<And>c. c \<in> set a \<Longrightarrow> c \<notin> set chars) \<Longrightarrow> x \<in> set chars
     \<Longrightarrow> strings_IndexAny (a @ x # b) chars = Some (length a)"
  by (induction a) auto

lemma IndexAny_None: "(\<And>c. c \<in> set a \<Longrightarrow> c \<notin> set chars) \<Longrightarrow> strings_IndexAny a chars = None"
  by (induction a) auto

lemma digits_free: "list_all is_digit s \<Longrightarrow> \<not> is_digit c \<Longrightarrow> c \<notin> set s"
  by (auto simp: list_all_iff)

lemma Index_two: "strings_Index s sub = Some i \<Longrightarrow> prefix sub (drop i s) \<and> i \<le> length s"
proof (induction s arbitrary: i)
  case Nil
  then show ?case by (auto simp: strings_Index.simps split: if_splits)
next
  case (Cons x s)
  then show ?case by (auto simp: strings_Index.simps [of "x # s"] split: if_splits)
qed

lemma Index_no_slash: "CHR ''/'' \<notin> set s \<Longrightarrow> strings_Index s ''://'' = None"
proof (rule ccontr)
  assume s: "CHR ''/'' \<notin> set s" and "strings_Index s ''://'' \<noteq> None"
  then obtain i where "strings_Index s ''://'' = Some i" by auto
  then have "prefix ''://'' (drop i s)" by (auto dest: Index_two)
  then have "CHR ''/'' \<in> set (drop i s)" by (auto simp: prefix_def)
  with s show False by (auto dest: in_set_dropD)
qed

lemma Join_free:
  "c \<notin> set host \<Longrightarrow> c \<notin> set port \<Longrightarrow> c \<notin> {CHR ''['', CHR '']'', CHR '':''}
     \<Longrightarrow> c \<notin> set (net_JoinHostPort host port)"
  by (auto simp: net_JoinHostPort_def)

text \<open>The conditions under which a host can stand in an address: no brackets, slashes or queries.\<close>

definition good_host :: "string \<Rightarrow> bool" where
  "good_host h \<longleftrightarrow> plain_part h \<and> CHR ''/'' \<notin> set h \<and> CHR ''?'' \<notin> set h"

lemma fmt_d_parts:
  "plain_part (fmt_d p)" "CHR '':'' \<notin> set (fmt_d p)" "CHR ''/'' \<notin> set (fmt_d p)"
  "CHR ''?'' \<notin> set (fmt_d p)"
  using fmt_d_digits [of p] by (auto simp: plain_part_def list_all_iff is_digit_def)

lemma split_join_port:
  assumes "good_host host" and "fits64 (int port)"
  shows "(case net_SplitHostPort (net_JoinHostPort host (fmt_d port)) of
        Inl e \<Rightarrow> Inl (InvalidAddress e)
      | Inr (host, portStr) \<Rightarrow>
          (case strconv_Atoi portStr of
             None \<Rightarrow> Inl InvalidPort
           | Some port \<Rightarrow> Inr (host, port))) = Inr (host, int port)"
  using assms by (simp add: good_host_def Split_Join_HostPort fmt_d_parts Atoi_fmt_d)

lemma uri_authority_plain:
  "good_host host \<Longrightarrow> uri_authority (net_JoinHostPort host (fmt_d port)) = net_JoinHostPort host (fmt_d port)"
  by (simp add: uri_authority_def good_host_def Join_free fmt_d_parts Index_no_slash)

lemma uri_authority_uri:
  assumes "CHR '':'' \<notin> set scheme" and "good_host host" and "rest = [] \<or> hd rest = CHR ''/'' \<or> hd rest = CHR ''?''"
  shows "uri_authority (scheme @ ''://'' @ net_JoinHostPort host (fmt_d port) @ rest)
    = net_JoinHostPort host (fmt_d port)"
proof -
  let ?j = "net_JoinHostPort host (fmt_d port)"
  have free: "c \<notin> set ''/?''" if "c \<in> set ?j" for c
    using that assms(2) Join_free [of c host "fmt_d port"]
    by (auto simp: good_host_def Join_free fmt_d_parts)
  have any: "(case strings_IndexAny (?j @ rest) ''/?'' of None \<Rightarrow> ?j @ rest | Some j \<Rightarrow> take j (?j @ rest)) = ?j"
  proof (cases rest)
    case Nil
    with free show ?thesis by (simp add: IndexAny_None)
  next
    case (Cons x xs)
    with assms(3) have "x \<in> set ''/?''" by auto
    then have "strings_IndexAny (?j @ x # xs) ''/?'' = Some (length ?j)"
      by (intro IndexAny_stop free)
    with Cons show ?thesis by simp
  qed
  show ?thesis
    unfolding uri_authority_def Index_scheme [OF assms(1)] using any by simp
qed

text \<open>
  C20 (roundtrip). For every host without brackets, slashes or question marks (an IPv6 literal
  included) and every port number, \<open>parseHostPort\<close> reads back the host and the port from the
  plain address \<open>JoinHostPort\<close> writes, and from a URI with any colon-free scheme and any path
  or query behind that address.
\<close>

theorem parseHostPort_roundtrip:
  assumes "good_host host" and "fits64 (int port)" and "CHR '':'' \<notin> set scheme"
    and "rest = [] \<or> hd rest = CHR ''/'' \<or> hd rest = CHR ''?''"
  shows "parseHostPort (net_JoinHostPort host (fmt_d port)) = Inr (host, int port)
    \<and> parseHostPort (scheme @ ''://'' @ net_JoinHostPort host (fmt_d port) @ rest) = Inr (host, int port)"
  unfolding parseHostPort_def uri_authority_plain [OF assms(1)] uri_authority_uri [OF assms(3,1,4)]
  using split_join_port [OF assms(1,2)] by simp

theorem parseHostPort_roundtrip_witness:
  "parseHostPort ''tls://[::1]:443?sni=a'' = Inr (''::1'', 443)"
proof -
  have "fmt_d 443 = ''443''" by code_simp
  then show ?thesis
    using parseHostPort_roundtrip [of "''::1''" 443 "''tls''" "''?sni=a''"]
    by (simp add: good_host_def plain_part_def fits64_def net_JoinHostPort_def)
qed

text \<open>
  Whatever \<open>resolveUDP\<close> returns carries the requested port; a literal address is
  used as it stands, a name gives one of the resolver's answers, an IPv6 one whenever there is
  one; and the client's local socket has the address family of the resolved server.
\<close>

lemma resolveUDP_choice:
  assumes "resolveUDP R host port = Some (ip, p)"
  shows "p = port
    \<and> (case parse_ip R host of
         Some lit \<Rightarrow> ip = lit
       | None \<Rightarrow> (\<exists>ips. lookup_ip R host = Some ips \<and> ip \<in> set ips
             \<and> ((\<exists>x \<in> set ips. ip_To4 x = None) \<longrightarrow> ip_To4 ip = None)))
    \<and> (ip_To4 (fst (dial_laddr (ip, p))) = None \<longleftrightarrow> ip_To4 ip = None)"
proof -
  have fam: "ip_To4 IPv4zero \<noteq> None" "ip_To4 IPv6unspecified = None"
    by (simp_all add: ip_To4_def IPv4zero_def IPv6unspecified_def)
  have "p = port \<and> (case parse_ip R host of
         Some lit \<Rightarrow> ip = lit
       | None \<Rightarrow> (\<exists>ips. lookup_ip R host = Some ips \<and> ip \<in> set ips
             \<and> ((\<exists>x \<in> set ips. ip_To4 x = None) \<longrightarrow> ip_To4 ip = None)))"
    using assms
    by (auto simp: resolveUDP_def find_None_all dest!: find_SomeD
        split: option.splits list.splits if_splits)
  with fam show ?thesis by (auto simp: dial_laddr_def)
qed

definition sample_resolver :: resolver where
  "sample_resolver = \<lparr>parse_ip = (\<lambda>_. None), lookup_ip = (\<lambda>_. Some [IPv4zero, IPv6unspecified])\<rparr>"

lemma resolveUDP_choice_sample:
  "resolveUDP sample_resolver ''example.org'' 443 = Some (IPv6unspecified, 443)
   \<and> ip_To4 (fst (dial_laddr (IPv6unspecified, 443))) = None"
proof -
  have r: "resolveUDP sample_resolver ''example.org'' 443 = Some (IPv6unspecified, 443)"
    by (simp add: resolveUDP_def sample_resolver_def ip_To4_def IPv4zero_def IPv6unspecified_def)
  moreover have "ip_To4 IPv6unspecified = None"
    by (simp add: ip_To4_def IPv6unspecified_def)
  ultimately show ?thesis using resolveUDP_choice [OF r] by blast
qed

text \<open>
  The special treatment of bracketed hosts in \<open>probeDirect\<close> never changes the
  address it dials, as long as brackets enclose an address with a colon (an IPv6 literal).
\<close>

lemma probe_host_unchanged:
  assumes "\<And>h p. net_SplitHostPort directHost = Inr (h, p) \<Longrightarrow> hd directHost = CHR ''[''
             \<Longrightarrow> CHR '':'' \<in> set h"
  shows "probe_host directHost = directHost"
proof (cases "net_SplitHostPort directHost")
  case (Inr hp)
  obtain h p where hp: "hp = (h, p)" by (cases hp)
  with Inr assms have "net_JoinHostPort h p = directHost"
    by (intro Join_Split_HostPort) auto
  with Inr hp show ?thesis by (simp add: probe_host_def portOf_def)
qed (simp add: probe_host_def)

lemma probe_host_unchanged_sample:
  "probe_host ''[2001:db8::1]:443'' = ''[2001:db8::1]:443''"
  by (rule probe_host_unchanged)
    (auto simp: net_SplitHostPort_def shp_finish_def last_index_byte_def split: if_splits)

end
