(* ===== verification/Interfaces.thy ===== *)
theory Interfaces
  imports Prelude
begin

text \<open>
  The contracts between the components, as locales. Each is interpreted on the model's own
  definitions in the theory of the component that provides it.
  \<^item> \<open>verify_cache\<close>: the Alt-Svc style cache that the channel selection consults and the
    prober and the failure paths write (provided by the direct client);
  \<^item> \<open>stream_channel\<close>: an operation that opens a stream on a cached connection (provided by the
    direct path and by the mesh path, used by the channel selection);
  \<^item> \<open>streak_counter\<close>: a counter of consecutive events (the failover monitor has two);
  \<^item> \<open>key_gate\<close>: the decision of a TLS peer verification callback.
\<close>

section \<open>A cache with expiry\<close>

datatype cache_event = Granted time duration | Revoked

locale verify_cache =
  fixes valid :: "time \<Rightarrow> 's \<Rightarrow> bool"
    and grant :: "time \<Rightarrow> duration \<Rightarrow> 's \<Rightarrow> 's"
    and revoke :: "'s \<Rightarrow> 's"
  assumes valid_grant: "valid t (grant now ttl s) \<longleftrightarrow> t < now + ttl"
    and valid_revoke: "\<not> valid t (revoke s)"
    and valid_expires: "valid t s \<Longrightarrow> t' \<le> t \<Longrightarrow> valid t' s"
begin

fun apply_event :: "'s \<Rightarrow> cache_event \<Rightarrow> 's" where
  "apply_event s (Granted now ttl) = grant now ttl s"
| "apply_event s Revoked = revoke s"

definition run_events :: "cache_event list \<Rightarrow> 's \<Rightarrow> 's" where
  "run_events es s = foldl apply_event s es"

lemma run_snoc: "run_events (es @ [e]) s = apply_event (run_events es s) e"
  by (simp add: run_events_def)

text \<open>Only the last event counts: a grant makes the cache valid until its expiry, a revocation never.\<close>

lemma valid_run:
  "valid t (run_events (es @ [e]) s) \<longleftrightarrow>
     (case e of Granted now ttl \<Rightarrow> t < now + ttl | Revoked \<Rightarrow> False)"
  by (cases e) (simp_all add: run_snoc valid_grant valid_revoke)

lemma nonpositive_grant: "ttl \<le> 0 \<Longrightarrow> now \<le> t \<Longrightarrow> \<not> valid t (grant now ttl s)"
  by (simp add: valid_grant)

end

section \<open>A channel that opens streams on a cached connection\<close>

locale stream_channel =
  fixes open_op :: "'e \<Rightarrow> 's \<Rightarrow> ('x + nat) \<times> 's"
    and current :: "'s \<Rightarrow> nat option"
    and made :: "'s \<Rightarrow> nat set"
    and gone :: "'s \<Rightarrow> nat set"
    and ok :: "'e \<Rightarrow> 's \<Rightarrow> bool"
    and inv :: "'s \<Rightarrow> bool"
  assumes inv_open: "inv s \<Longrightarrow> ok e s \<Longrightarrow> inv (snd (open_op e s))"
    and owned: "inv s \<Longrightarrow> made s - gone s \<subseteq> set_option (current s)"
    and gone_mono: "gone s \<subseteq> gone (snd (open_op e s))"
    and made_mono: "made s \<subseteq> made (snd (open_op e s))"
    and stream_current: "inv s \<Longrightarrow> open_op e s = (Inr c, s') \<Longrightarrow> current s' = Some c \<and> c \<in> made s'"
begin

text \<open>A run of opens: the final state and the connections of the streams handed out.\<close>

fun run_opens :: "'e list \<Rightarrow> 's \<Rightarrow> nat set \<times> 's" where
  "run_opens [] s = ({}, s)"
| "run_opens (e # es) s =
     (case open_op e s of (r, s1) \<Rightarrow>
        (case run_opens es s1 of (cs, s2) \<Rightarrow>
           ((case r of Inl _ \<Rightarrow> cs | Inr c \<Rightarrow> insert c cs), s2)))"

fun all_ok :: "'e list \<Rightarrow> 's \<Rightarrow> bool" where
  "all_ok [] s = True"
| "all_ok (e # es) s = (ok e s \<and> all_ok es (snd (open_op e s)))"

lemma run_inv: "inv s \<Longrightarrow> all_ok es s \<Longrightarrow> inv (snd (run_opens es s))"
proof (induction es arbitrary: s)
  case (Cons e es)
  then show ?case
    using inv_open [of s e] by (cases "open_op e s") (auto split: prod.splits dest: Cons.IH)
qed simp

lemma run_made: "made s \<subseteq> made (snd (run_opens es s))"
proof (induction es arbitrary: s)
  case (Cons e es)
  show ?case
    using Cons.IH [of "snd (open_op e s)"] made_mono [of s e]
    by (auto split: prod.splits)
qed simp

lemma run_streams_made:
  "inv s \<Longrightarrow> all_ok es s \<Longrightarrow> fst (run_opens es s) \<subseteq> made (snd (run_opens es s))"
proof (induction es arbitrary: s)
  case (Cons e es)
  obtain r s1 where o: "open_op e s = (r, s1)" by (cases "open_op e s")
  obtain cs s2 where rr: "run_opens es s1 = (cs, s2)" by (cases "run_opens es s1")
  have i1: "inv s1" and a1: "all_ok es s1"
    using Cons.prems inv_open [of s e] o by auto
  from Cons.IH [OF i1 a1] rr have "cs \<subseteq> made s2" by simp
  moreover have "c \<in> made s2" if "r = Inr c" for c
  proof -
    have "c \<in> made s1" using stream_current Cons.prems(1) o that by blast
    with run_made [of s1 es] rr show ?thesis by auto
  qed
  ultimately show ?case using o rr by (auto split: sum.splits)
qed simp

text \<open>
  Every stream handed out during a run rides the connection that is cached at the end, or its
  connection is closed: no stream is left behind on an abandoned live connection.
\<close>

lemma run_streams_owned:
  assumes "inv s" and "all_ok es s" and "c \<in> fst (run_opens es s)"
  shows "c \<in> gone (snd (run_opens es s)) \<or> current (snd (run_opens es s)) = Some c"
proof -
  let ?s' = "snd (run_opens es s)"
  have "c \<in> made ?s'" using run_streams_made [OF assms(1,2)] assms(3) by blast
  moreover have "made ?s' - gone ?s' \<subseteq> set_option (current ?s')"
    using owned [OF run_inv [OF assms(1,2)]] .
  ultimately show ?thesis by (cases "current ?s'") auto
qed

end

section \<open>Counting consecutive events\<close>

text \<open>
  A counter that grows by one with every event of interest and is cleared by every other. The
  counter never exceeds the number of events of interest that ended the history.
\<close>

locale streak_counter =
  fixes count :: "'s \<Rightarrow> int"
    and step :: "'e \<Rightarrow> 's \<Rightarrow> 's"
    and hit :: "'e \<Rightarrow> bool"
    and counting :: "'s \<Rightarrow> bool"
  assumes count_hit: "counting s \<Longrightarrow> hit e \<Longrightarrow> counting (step e s) \<Longrightarrow> count (step e s) = count s + 1"
    and count_miss: "counting s \<Longrightarrow> \<not> hit e \<Longrightarrow> counting (step e s) \<Longrightarrow> count (step e s) = 0"
    and count_enter: "\<not> counting s \<Longrightarrow> counting (step e s) \<Longrightarrow> count (step e s) = 0"
begin

definition run_steps :: "'e list \<Rightarrow> 's \<Rightarrow> 's" where
  "run_steps es s = foldl (\<lambda>s e. step e s) s es"

lemma run_steps_snoc: "run_steps (es @ [e]) s = step e (run_steps es s)"
  by (simp add: run_steps_def)

lemma run_steps_Nil [simp]: "run_steps [] s = s"
  by (simp add: run_steps_def)

lemma count_run:
  assumes "counting s \<Longrightarrow> count s = 0" and "counting (run_steps es s)"
  shows "count (run_steps es s) \<le> int (trailing hit es)"
  using assms(2)
proof (induction es rule: rev_induct)
  case Nil
  then show ?case using assms(1) by simp
next
  case (snoc e es)
  let ?p = "run_steps es s"
  have c: "counting (step e ?p)" using snoc.prems by (simp add: run_steps_snoc)
  show ?case
  proof (cases "counting ?p")
    case True
    show ?thesis
      using snoc.IH [OF True] count_hit [OF True _ c] count_miss [OF True _ c]
      by (cases "hit e") (simp_all add: run_steps_snoc)
  next
    case False
    from count_enter [OF this c] show ?thesis by (simp add: run_steps_snoc)
  qed
qed

text \<open>A counter value of at least \<open>n\<close> is witnessed by the last \<open>n\<close> events, all of them hits.\<close>

lemma count_witness:
  assumes "counting s \<Longrightarrow> count s = 0" and "counting (run_steps es s)"
    and "int n \<le> count (run_steps es s)" and "e \<in> set (drop (length es - n) es)"
  shows "hit e"
proof (rule trailing_ge_last [of n hit es])
  show "n \<le> trailing hit es" using count_run [OF assms(1,2)] assms(3) by simp
qed (rule assms(4))

lemma count_le_length:
  assumes "counting s \<Longrightarrow> count s = 0" and "counting (run_steps es s)"
  shows "count (run_steps es s) \<le> int (length es)"
  using count_run [OF assms] trailing_le [of hit es] by linarith

end

section \<open>Peer verification\<close>

text \<open>A key gate admits a peer exactly when its key passes the policy.\<close>

locale key_gate =
  fixes verify :: "'c list \<Rightarrow> 'x option"
    and key_of :: "'c \<Rightarrow> 'k option"
    and admitted :: "'k \<Rightarrow> bool"
    and anyone :: bool
  assumes gate_open: "anyone \<Longrightarrow> verify cs = None"
    and gate_accept: "\<not> anyone \<Longrightarrow> verify cs = None \<longleftrightarrow>
      (\<exists>c rest k. cs = c # rest \<and> key_of c = Some k \<and> admitted k)"
begin

lemma no_certificate: "verify [] = None \<longleftrightarrow> anyone"
  using gate_open gate_accept by auto

lemma only_leaf_counts: "verify (c # cs) = None \<longleftrightarrow> verify [c] = None"
  using gate_open gate_accept [of "c # cs"] gate_accept [of "[c]"] by (cases anyone) auto

lemma rejected_key: "\<not> anyone \<Longrightarrow> key_of c = Some k \<Longrightarrow> \<not> admitted k \<Longrightarrow> verify (c # cs) \<noteq> None"
  using gate_accept by auto

end

end
