(* ===== verification/Float64.thy ===== *)
theory Float64
  imports Prelude
begin

text \<open>
  The \<open>float64\<close> arithmetic the program uses, on integers. A finite double is an integer times a
  power of two; scaling every operand of an expression by the same power of two turns it into an
  integer expression whose only extra step is rounding to 53 significant bits, ties to even.
  Underflow and overflow do not occur at the magnitudes involved (nanoseconds and byte counts).
\<close>

section \<open>Rounding to nearest, ties to even\<close>

definition round_half_even :: "nat \<Rightarrow> nat \<Rightarrow> nat" where
  "round_half_even n d =
     (let q = n div d; r = n mod d
      in if 2 * r < d \<or> (2 * r = d \<and> even q) then q else Suc q)"

lemma round_half_even_cases:
  "(round_half_even n d = n div d \<and> 2 * (n mod d) \<le> d)
   \<or> (round_half_even n d = Suc (n div d) \<and> d \<le> 2 * (n mod d))"
  by (auto simp: round_half_even_def Let_def)

lemma round_half_even_error:
  assumes "0 < d"
  shows "2 * (round_half_even n d * d) \<le> 2 * n + d" and "2 * n \<le> 2 * (round_half_even n d * d) + d"
proof -
  obtain X r where X: "X = n div d * d" and r: "r = n mod d" by blast
  have n: "n = X + r" and m: "r < d"
    using assms by (simp_all add: X r)
  have "2 * (round_half_even n d * d) \<le> 2 * n + d \<and> 2 * n \<le> 2 * (round_half_even n d * d) + d"
    using round_half_even_cases [of n d]
  proof
    assume "round_half_even n d = n div d \<and> 2 * (n mod d) \<le> d"
    then have "round_half_even n d * d = X" "2 * r \<le> d" by (simp_all add: X r)
    with n m show ?thesis by linarith
  next
    assume "round_half_even n d = Suc (n div d) \<and> d \<le> 2 * (n mod d)"
    then have "round_half_even n d * d = d + X" "d \<le> 2 * r" by (simp_all add: X r)
    with n m show ?thesis by linarith
  qed
  then show "2 * (round_half_even n d * d) \<le> 2 * n + d" and "2 * n \<le> 2 * (round_half_even n d * d) + d"
    by simp_all
qed

lemma round_half_even_exact: "0 < d \<Longrightarrow> round_half_even (q * d) d = q"
  by (simp add: round_half_even_def)

lemma round_half_even_1 [simp]: "round_half_even n (Suc 0) = n"
  by (simp add: round_half_even_def Let_def)

section \<open>53 significant bits\<close>

fun bitlen :: "nat \<Rightarrow> nat" where
  "bitlen n = (if n = 0 then 0 else Suc (bitlen (n div 2)))"

declare bitlen.simps [simp del]

lemma bitlen_0 [simp]: "bitlen 0 = 0"
  by (simp add: bitlen.simps)

lemma bitlen_lower: "0 < n \<Longrightarrow> 2 ^ (bitlen n - 1) \<le> n"
proof (induction n rule: bitlen.induct)
  case (1 n)
  show ?case
  proof (cases "n div 2 = 0")
    case True
    with 1 show ?thesis by (simp add: bitlen.simps [of n] bitlen.simps [of "n div 2"])
  next
    case False
    with 1 have "2 ^ (bitlen (n div 2) - 1) \<le> n div 2" by simp
    moreover have "0 < bitlen (n div 2)" using False by (simp add: bitlen.simps [of "n div 2"])
    ultimately have "2 ^ bitlen (n div 2) \<le> 2 * (n div 2)" by (cases "bitlen (n div 2)") auto
    then show ?thesis using 1 by (simp add: bitlen.simps [of n])
  qed
qed

definition rnd53 :: "nat \<Rightarrow> nat" where
  "rnd53 n = (let e = bitlen n - 53 in round_half_even n (2 ^ e) * 2 ^ e)"

text \<open>The relative error of one rounding is at most \<open>2 ^ -53\<close>.\<close>

lemma rnd53_error:
  shows "2 ^ 53 * rnd53 n \<le> (2 ^ 53 + 1) * n" and "(2 ^ 53 - 1) * n \<le> 2 ^ 53 * rnd53 n"
proof -
  let ?e = "bitlen n - 53" and ?r = "rnd53 n"
  have "2 ^ 53 * ?r \<le> (2 ^ 53 + 1) * n \<and> (2 ^ 53 - 1) * n \<le> 2 ^ 53 * ?r"
  proof (cases "?e = 0")
    case True
    then have "?r = n" by (simp add: rnd53_def)
    then show ?thesis by simp
  next
    case False
    then have "0 < n" by (cases n) auto
    have "bitlen n - 1 = ?e + 52" using False by simp
    with bitlen_lower [OF \<open>0 < n\<close>] have "2 ^ ?e * 2 ^ 52 \<le> n" by (simp only: power_add)
    then have big: "2 ^ 53 * 2 ^ ?e \<le> 2 * n" by simp
    have r: "2 * ?r \<le> 2 * n + 2 ^ ?e" "2 * n \<le> 2 * ?r + 2 ^ ?e"
      unfolding rnd53_def Let_def by (rule round_half_even_error, simp)+
    obtain u where u: "u = (2 :: nat) ^ ?e" by blast
    show ?thesis
      using big r unfolding u [symmetric] by simp
  qed
  then show "2 ^ 53 * rnd53 n \<le> (2 ^ 53 + 1) * n" and "(2 ^ 53 - 1) * n \<le> 2 ^ 53 * rnd53 n"
    by simp_all
qed

lemma bitlen_small: "n < 2 ^ k \<Longrightarrow> bitlen n \<le> k"
proof (induction k arbitrary: n)
  case (Suc k)
  then have "n div 2 < 2 ^ k" by auto
  with Suc.IH have "bitlen (n div 2) \<le> k" by blast
  then show ?case by (simp add: bitlen.simps [of n])
qed simp

lemma rnd53_exact: "n < 2 ^ 53 \<Longrightarrow> rnd53 n = n"
  using bitlen_small [of n 53] by (simp add: rnd53_def)

lemma bitlen_power2: "bitlen (2 ^ n) = Suc n"
proof (induction n)
  case 0
  show ?case by (subst bitlen.simps) simp
next
  case (Suc n)
  then show ?case by (subst bitlen.simps) simp
qed

lemma rnd53_power2: "rnd53 (2 ^ n) = 2 ^ n"
proof (cases "n < 53")
  case True
  then show ?thesis by (intro rnd53_exact power_strict_increasing) simp_all
next
  case False
  then have e: "bitlen (2 ^ n) - 53 = n - 52" by (simp add: bitlen_power2)
  have p: "(2 :: nat) ^ n = 2 ^ 52 * 2 ^ (n - 52)"
    using False by (simp only: power_add [symmetric]) simp
  have "round_half_even (2 ^ 52 * 2 ^ (n - 52)) (2 ^ (n - 52)) = 2 ^ 52"
    by (rule round_half_even_exact) simp
  then show ?thesis unfolding rnd53_def Let_def e using p by simp
qed

text \<open>The sign-magnitude extension to negative values, and truncation towards zero.\<close>

definition f64_round :: "int \<Rightarrow> int" where
  "f64_round x = sgn x * int (rnd53 (nat \<bar>x\<bar>))"

definition f64_trunc :: "int \<Rightarrow> int \<Rightarrow> int" where
  "f64_trunc x d = sgn x * (\<bar>x\<bar> div d)"

lemma f64_round_nonneg: "0 \<le> x \<Longrightarrow> f64_round x = int (rnd53 (nat x))"
  by (cases "x = 0") (simp_all add: f64_round_def rnd53_def)

lemma f64_round_exact: "0 \<le> x \<Longrightarrow> x < 2 ^ 53 \<Longrightarrow> f64_round x = x"
  by (simp add: f64_round_nonneg rnd53_exact nat_less_iff)

lemma f64_round_error:
  assumes "0 \<le> x"
  shows "2 ^ 53 * f64_round x \<le> (2 ^ 53 + 1) * x" and "(2 ^ 53 - 1) * x \<le> 2 ^ 53 * f64_round x"
proof -
  have "int (2 ^ 53 * rnd53 (nat x)) \<le> int ((2 ^ 53 + 1) * nat x)"
    "int ((2 ^ 53 - 1) * nat x) \<le> int (2 ^ 53 * rnd53 (nat x))"
    using rnd53_error by (simp_all only: of_nat_le_iff)
  then show "2 ^ 53 * f64_round x \<le> (2 ^ 53 + 1) * x" and "(2 ^ 53 - 1) * x \<le> 2 ^ 53 * f64_round x"
    using assms by (simp_all add: f64_round_nonneg)
qed

lemma f64_round_ge0: "0 \<le> x \<Longrightarrow> 0 \<le> f64_round x"
  by (simp add: f64_round_nonneg)

end
