(* ===== verification/Direct.thy ===== *)
theory Direct
  imports Address Float64 Interfaces
begin

text \<open>
  The client side of the direct (plain UDP) path: the type \<open>directClient\<close> of
  \<^verbatim>\<open>internal/yggss/direct.go\<close>, its verified cache, its connection with the owning
  transport, the dial, \<open>openStream\<close>, the fast cutover (\<open>dropAndFail\<close>, \<open>watchConn\<close>) and the
  round-trip baseline (\<open>probeHealthy\<close>).

  Connections and transports of quic-go are numbers; what happens to them outside (a peer closes,
  a timeout fires) is the set \<open>dead\<close> of connections whose context is done. The calls into
  quic-go are recorded in \<open>trace\<close>, newest first. Each lock-protected section of the Go code is a
  definition of its own; the operations compose them in the order of the code.
\<close>

section \<open>Constants\<close>

definition directFallbackCooldown :: duration where
  "directFallbackCooldown = 30 * second"

definition directDialTimeout :: duration where
  "directDialTimeout = 5 * second"

definition directFailCooldown :: duration where
  "directFailCooldown = 2 * second"

definition openStreamTimeout :: duration where
  "openStreamTimeout = 10 * second"

lemmas direct_consts =
  directFallbackCooldown_def directDialTimeout_def directFailCooldown_def openStreamTimeout_def

section \<open>State\<close>

text \<open>\<open>directPathState\<close>, its order by \<open>iota\<close> and its rendering.\<close>

datatype path_state = PathMeshOnly | PathH2H3 | PathMeshProbing | PathMeshFallback

definition path_iota :: "path_state \<Rightarrow> nat" where
  "path_iota p = (case p of PathMeshOnly \<Rightarrow> 0 | PathH2H3 \<Rightarrow> 1 | PathMeshProbing \<Rightarrow> 2 | PathMeshFallback \<Rightarrow> 3)"

instantiation path_state :: linorder
begin

definition less_eq_path_state :: "path_state \<Rightarrow> path_state \<Rightarrow> bool" where
  "p \<le> q \<longleftrightarrow> path_iota p \<le> path_iota q"

definition less_path_state :: "path_state \<Rightarrow> path_state \<Rightarrow> bool" where
  "p < q \<longleftrightarrow> path_iota p < path_iota q"

instance
  by standard
    (auto simp: less_eq_path_state_def less_path_state_def path_iota_def split: path_state.splits)

end

fun path_String :: "path_state \<Rightarrow> string" where
  "path_String PathH2H3 = ''h2+h3 (direct verified)''"
| "path_String PathMeshProbing = ''h2 (probing h3)''"
| "path_String PathMeshFallback = ''h2 (h3 failed, probing)''"
| "path_String PathMeshOnly = ''h2''"

text \<open>
  Calls into quic-go, with the connection or transport and the timeout they are bounded by. A transport
  is named by the UDP socket it was made for. Closing a transport leaves a socket that the caller
  supplied open (quic-go's documentation); the program itself never calls \<open>Close\<close> on the socket.
\<close>

datatype call =
    CallDialUDP udp_addr duration
  | CallDialMesh duration
  | CallOpenStream nat duration
  | CallCloseConn nat
  | CallCloseTransport nat

record net_state =
  dead :: "nat set"       \<comment> \<open>connections whose context is done\<close>
  trs :: "nat set"        \<comment> \<open>\<open>quic.Transport\<close>s that were made and not closed\<close>
  socks :: "nat set"      \<comment> \<open>UDP sockets that were opened and not closed\<close>
  trace :: "call list"

text \<open>
  The fields of \<open>directClient\<close>. \<open>d_node\<close> and \<open>d_owner\<close> say that the pointer is not nil;
  \<open>probeState\<close> is the field of that name of the owning client, which the direct client writes
  through its \<open>owner\<close> pointer. \<open>d_conns\<close> collects the connections the path has dialled, and
  \<open>watching\<close> those for which a \<open>watchConn\<close> goroutine was started. The prober goroutines are
  named by their stop channels: \<open>probers\<close> were started, \<open>stopped\<close> are the closed channels.
\<close>

record direct_client = net_state +
  d_node :: bool
  serverAddr :: string
  d_timeout :: duration
  retryPeriod :: duration
  d_tr :: "nat option"
  d_qconn :: "nat option"
  failUntil :: "time option"
  d_owner :: bool
  probeState :: path_state
  probeRTT :: duration
  verifiedUntil :: "time option"
  probeStop :: "nat option"
  probeActive :: bool
  d_conns :: "nat set"
  watching :: "nat set"
  probers :: "nat set"
  stopped :: "nat set"

definition emit :: "call \<Rightarrow> 'a net_state_scheme \<Rightarrow> 'a net_state_scheme" where
  "emit c s = s\<lparr>trace := c # trace s\<rparr>"

definition close_conn :: "nat \<Rightarrow> 'a net_state_scheme \<Rightarrow> 'a net_state_scheme" where
  "close_conn c s = emit (CallCloseConn c) (s\<lparr>dead := insert c (dead s)\<rparr>)"

definition close_transport :: "nat \<Rightarrow> 'a net_state_scheme \<Rightarrow> 'a net_state_scheme" where
  "close_transport t s = emit (CallCloseTransport t) (s\<lparr>trs := trs s - {t}\<rparr>)"

text \<open>
  A call of \<open>OpenStreamSync\<close> on a connection: while it waits, any connections may die.
\<close>

definition wait_open :: "nat \<Rightarrow> nat set \<Rightarrow> 'a net_state_scheme \<Rightarrow> 'a net_state_scheme" where
  "wait_open c died s = (emit (CallOpenStream c openStreamTimeout) s)\<lparr>dead := dead s \<union> died\<rparr>"

declare emit_def [state_defs] close_conn_def [state_defs] close_transport_def [state_defs]
  wait_open_def [state_defs]

section \<open>The verified cache\<close>

definition IsVerified :: "time \<Rightarrow> 'a direct_client_scheme \<Rightarrow> bool" where
  "IsVerified now s = before now (verifiedUntil s)"

definition MarkVerified :: "time \<Rightarrow> duration \<Rightarrow> 'a direct_client_scheme \<Rightarrow> 'a direct_client_scheme" where
  "MarkVerified now ttl s = s\<lparr>verifiedUntil := Some (now + ttl)\<rparr>"

definition MarkFailed :: "'a direct_client_scheme \<Rightarrow> 'a direct_client_scheme" where
  "MarkFailed s = s\<lparr>verifiedUntil := None\<rparr>"

definition verifyTTL :: "'a direct_client_scheme \<Rightarrow> duration" where
  "verifyTTL s = (if 0 < retryPeriod s then dur_mul 2 (retryPeriod s) else dur_mul 2 directFallbackCooldown)"

definition setProbeState :: "path_state \<Rightarrow> 'a direct_client_scheme \<Rightarrow> 'a direct_client_scheme" where
  "setProbeState p s = s\<lparr>probeState := p\<rparr>"

text \<open>\<open>if d.owner != nil { d.owner.setProbeState(pathMeshFallback) }\<close>\<close>

definition owner_fallback :: "'a direct_client_scheme \<Rightarrow> 'a direct_client_scheme" where
  "owner_fallback s = (if d_owner s then setProbeState PathMeshFallback s else s)"

declare MarkVerified_def [state_defs] MarkFailed_def [state_defs] setProbeState_def [state_defs]
  owner_fallback_def [state_defs]

section \<open>The connection\<close>

definition connAliveLocked :: "'a direct_client_scheme \<Rightarrow> bool" where
  "connAliveLocked s = (case d_qconn s of None \<Rightarrow> False | Some c \<Rightarrow> c \<notin> dead s)"

definition connAlive :: "'a direct_client_scheme \<Rightarrow> bool" where
  "connAlive s = connAliveLocked s"

definition dropConnLocked :: "'a direct_client_scheme \<Rightarrow> 'a direct_client_scheme" where
  "dropConnLocked s =
     (let s1 = (case d_qconn s of None \<Rightarrow> s | Some c \<Rightarrow> close_conn c s);
          s2 = (case d_tr s of None \<Rightarrow> s1 | Some t \<Rightarrow> close_transport t s1)
      in s2\<lparr>d_qconn := None, d_tr := None\<rparr>)"

text \<open>The section of \<open>dropAndFail\<close> (and of \<open>watchConn\<close>) under \<open>d.mu\<close>.\<close>

definition drop_cooldown :: "time \<Rightarrow> 'a direct_client_scheme \<Rightarrow> 'a direct_client_scheme" where
  "drop_cooldown now s = (dropConnLocked s)\<lparr>failUntil := Some (now + directFailCooldown)\<rparr>"

definition dropAndFail :: "time \<Rightarrow> 'a direct_client_scheme \<Rightarrow> 'a direct_client_scheme" where
  "dropAndFail now s = owner_fallback (MarkFailed (drop_cooldown now s))"

text \<open>
  \<open>watchConn\<close> once the connection's context is done: the section under \<open>d.mu\<close> with the
  answer whether the connection was still the current one, and the whole function.
\<close>

definition watch_locked :: "nat \<Rightarrow> time \<Rightarrow> 'a direct_client_scheme \<Rightarrow> bool \<times> 'a direct_client_scheme" where
  "watch_locked c now s =
     (if d_qconn s = Some c then (True, drop_cooldown now s) else (False, s))"

definition watchConn :: "nat \<Rightarrow> time \<Rightarrow> 'a direct_client_scheme \<Rightarrow> 'a direct_client_scheme" where
  "watchConn c now s =
     (case watch_locked c now s of (current, s1) \<Rightarrow>
        if current then owner_fallback (MarkFailed s1) else s1)"

section \<open>Dialling\<close>

datatype dial_error =
  BadAddress parse_error | CannotResolve | ListenFailed string | DialFailed string

text \<open>The outside of one dial: the resolver, \<open>net.ListenUDP\<close> and \<open>tr.Dial\<close>.\<close>

record dial_env =
  de_resolver :: resolver
  de_listen :: "udp_addr \<Rightarrow> string + nat"
  de_dial :: "string + nat"

definition cap_dial_timeout :: "duration \<Rightarrow> duration" where
  "cap_dial_timeout timeout =
     (if timeout \<le> 0 \<or> directDialTimeout < timeout then directDialTimeout else timeout)"

definition directDialTransport ::
    "dial_env \<Rightarrow> string \<Rightarrow> duration \<Rightarrow> 'a direct_client_scheme
       \<Rightarrow> (dial_error + nat \<times> nat) \<times> 'a direct_client_scheme" where
  "directDialTransport E addr timeout s =
     (let timeout = cap_dial_timeout timeout
      in case parseHostPort addr of
           Inl e \<Rightarrow> (Inl (BadAddress e), s)
         | Inr (host, port) \<Rightarrow>
             (case resolveUDP (de_resolver E) host port of
                None \<Rightarrow> (Inl CannotResolve, s)
              | Some raddr \<Rightarrow>
                  (case de_listen E (dial_laddr raddr) of
                     Inl e \<Rightarrow> (Inl (ListenFailed e), s)
                   | Inr tr \<Rightarrow>
                       (let s1 = emit (CallDialUDP raddr timeout)
                                (s\<lparr>socks := insert tr (socks s), trs := insert tr (trs s)\<rparr>)
                        in case de_dial E of
                             Inl e \<Rightarrow> (Inl (DialFailed e), close_transport tr s1)
                           | Inr c \<Rightarrow> (Inr (c, tr), s1\<lparr>d_conns := insert c (d_conns s1)\<rparr>)))))"

text \<open>\<open>directDial\<close>, for diagnostics: the transport is not returned.\<close>

definition directDial ::
    "dial_env \<Rightarrow> string \<Rightarrow> duration \<Rightarrow> 'a direct_client_scheme \<Rightarrow> (dial_error + nat) \<times> 'a direct_client_scheme" where
  "directDial E addr timeout s =
     (case directDialTransport E addr timeout s of
        (Inl e, s1) \<Rightarrow> (Inl e, s1)
      | (Inr (c, tr), s1) \<Rightarrow> (Inr c, s1))"

section \<open>openStream\<close>

datatype direct_error = Cooldown | NoNode | OpenFailed string | DialError dial_error

text \<open>
  The outside of one call of \<open>openStream\<close>: the clock at the start and where \<open>failUntil\<close> is set,
  the answers of the two \<open>OpenStreamSync\<close> calls (\<open>None\<close> is success) and the connections that
  die during them, and the dial.
\<close>

record open_env =
  oe_now :: time
  oe_fail_now :: time
  oe_open :: "string option"
  oe_died :: "nat set"
  oe_dial :: dial_env
  oe_open_new :: "string option"
  oe_died_new :: "nat set"

datatype locked_result =
    Returned "direct_error + nat"    \<comment> \<open>the call returned under the lock\<close>
  | DialFailure dial_error           \<comment> \<open>the dial failed; the lock is released\<close>
  | Dialled nat                      \<comment> \<open>a new connection is cached; the lock is released\<close>

definition redial :: "open_env \<Rightarrow> 'a direct_client_scheme \<Rightarrow> locked_result \<times> 'a direct_client_scheme" where
  "redial E s =
     (case directDialTransport (oe_dial E) (serverAddr s) (d_timeout s) s of
        (Inl e, s1) \<Rightarrow> (DialFailure e, s1\<lparr>failUntil := Some (oe_fail_now E + directFailCooldown)\<rparr>)
      | (Inr (c, tr), s1) \<Rightarrow> (Dialled c, s1\<lparr>d_qconn := Some c, d_tr := Some tr\<rparr>))"

definition openStream_locked ::
    "open_env \<Rightarrow> 'a direct_client_scheme \<Rightarrow> locked_result \<times> 'a direct_client_scheme" where
  "openStream_locked E s =
     (if before (oe_now E) (failUntil s) then (Returned (Inl Cooldown), s)
      else if \<not> d_node s then
        (Returned (Inl NoNode), s\<lparr>failUntil := Some (oe_fail_now E + directFailCooldown)\<rparr>)
      else if \<not> connAliveLocked s then redial E (dropConnLocked s)
      else (case d_qconn s of
              None \<Rightarrow> redial E (dropConnLocked s)
            | Some c \<Rightarrow>
                (let s1 = wait_open c (oe_died E) s
                 in case oe_open E of
                      None \<Rightarrow> (Returned (Inr c), s1)
                    | Some e \<Rightarrow>
                        if connAliveLocked s1 then (Returned (Inl (OpenFailed e)), s1)
                        else redial E (dropConnLocked s1))))"

text \<open>After a failed dial, outside the lock.\<close>

definition openStream_failed :: "'a direct_client_scheme \<Rightarrow> 'a direct_client_scheme" where
  "openStream_failed s = owner_fallback (MarkFailed s)"

text \<open>After a successful dial: \<open>go d.watchConn(qconn)\<close>, then the stream on the new connection.\<close>

definition spawn_watch :: "nat \<Rightarrow> 'a direct_client_scheme \<Rightarrow> 'a direct_client_scheme" where
  "spawn_watch c s = s\<lparr>watching := insert c (watching s)\<rparr>"

definition openStream_new ::
    "open_env \<Rightarrow> nat \<Rightarrow> 'a direct_client_scheme \<Rightarrow> (direct_error + nat) \<times> 'a direct_client_scheme" where
  "openStream_new E c s =
     (let s1 = wait_open c (oe_died_new E) s
      in case oe_open_new E of None \<Rightarrow> (Inr c, s1) | Some e \<Rightarrow> (Inl (OpenFailed e), s1))"

definition openStream ::
    "open_env \<Rightarrow> 'a direct_client_scheme \<Rightarrow> (direct_error + nat) \<times> 'a direct_client_scheme" where
  "openStream E s =
     (case openStream_locked E s of
        (Returned r, s1) \<Rightarrow> (r, s1)
      | (DialFailure e, s1) \<Rightarrow> (Inl (DialError e), openStream_failed s1)
      | (Dialled c, s1) \<Rightarrow> openStream_new E c (spawn_watch c s1))"

text \<open>Several calls one after another, with their results.\<close>

fun openStreams ::
    "open_env list \<Rightarrow> 'a direct_client_scheme \<Rightarrow> (direct_error + nat) list \<times> 'a direct_client_scheme" where
  "openStreams [] s = ([], s)"
| "openStreams (E # Es) s =
     (case openStream E s of (r, s1) \<Rightarrow> (case openStreams Es s1 of (rs, s2) \<Rightarrow> (r # rs, s2)))"

section \<open>probeHealthy\<close>

text \<open>
  \<open>time.Duration(0.7*float64(old) + 0.3*float64(rtt))\<close>; the factors are the doubles nearest to 0.7 and 0.3,
  scaled by \<open>2 ^ 54\<close>. Both products and the sum are rounded, as compiled for a machine without a
  fused multiply-add; with one, one product may skip its rounding, and the bounds proved for
  the average hold all the same (lemma \<open>ewma_fused_between\<close> of theory \<open>DirectProps\<close>).
\<close>

definition ewma :: "duration \<Rightarrow> duration \<Rightarrow> duration" where
  "ewma old rtt =
     (let a = f64_round (12610078956637388 * f64_round old);
          b = f64_round (5404319552844595 * f64_round rtt)
      in f64_trunc (f64_round (a + b)) (2 ^ 54))"

definition probe_threshold :: "duration \<Rightarrow> duration" where
  "probe_threshold base = (if dur_mul 3 base < second then second else dur_mul 3 base)"

definition probeHealthy :: "duration \<Rightarrow> 'a direct_client_scheme \<Rightarrow> bool \<times> 'a direct_client_scheme" where
  "probeHealthy rtt s =
     (if probeRTT s \<le> 0 then (True, s\<lparr>probeRTT := rtt\<rparr>)
      else if probe_threshold (probeRTT s) < rtt then (False, s)
      else (True, s\<lparr>probeRTT := ewma (probeRTT s) rtt\<rparr>))"

text \<open>The verdicts on a sequence of probe round trips.\<close>

fun probe_all :: "duration list \<Rightarrow> 'a direct_client_scheme \<Rightarrow> bool list \<times> 'a direct_client_scheme" where
  "probe_all [] s = ([], s)"
| "probe_all (r # rs) s =
     (case probeHealthy r s of (b, s1) \<Rightarrow> (case probe_all rs s1 of (bs, s2) \<Rightarrow> (b # bs, s2)))"

section \<open>Starting and stopping\<close>

text \<open>
  The synchronous part of \<open>startProber\<close> (the goroutine it starts is in theory \<open>Prober\<close>); the new
  stop channel is \<open>ch\<close>. \<open>stopProber\<close> closes the channel; \<open>Close\<close> drops the connection too.
\<close>

definition startProber :: "nat \<Rightarrow> 'a direct_client_scheme \<Rightarrow> 'a direct_client_scheme" where
  "startProber ch s =
     (if probeActive s then s
      else s\<lparr>retryPeriod := (if retryPeriod s \<le> 0 then directFallbackCooldown else retryPeriod s),
             d_owner := True, probeStop := Some ch, probeActive := True,
             probers := insert ch (probers s)\<rparr>)"

definition stopProber :: "'a direct_client_scheme \<Rightarrow> 'a direct_client_scheme" where
  "stopProber s =
     (case probeStop s of
        None \<Rightarrow> s
      | Some ch \<Rightarrow> s\<lparr>stopped := insert ch (stopped s), probeStop := None, probeActive := False\<rparr>)"

definition direct_Close :: "'a direct_client_scheme \<Rightarrow> 'a direct_client_scheme" where
  "direct_Close s = stopProber (dropConnLocked s)"

text \<open>\<open>NewDirectClient\<close> of \<^verbatim>\<open>internal/yggss/api.go\<close>: every field not given is its zero value.\<close>

record direct_options =
  o_node :: bool
  o_serverAddr :: string
  o_timeout :: duration
  o_retryPeriod :: duration

definition NewDirectClient :: "direct_options \<Rightarrow> direct_client" where
  "NewDirectClient opts =
     \<lparr>dead = {}, trs = {}, socks = {}, trace = [], d_node = o_node opts, serverAddr = o_serverAddr opts,
      d_timeout = o_timeout opts, retryPeriod = o_retryPeriod opts, d_tr = None, d_qconn = None,
      failUntil = None, d_owner = False, probeState = PathMeshOnly, probeRTT = 0,
      verifiedUntil = None, probeStop = None, probeActive = False, d_conns = {}, watching = {},
      probers = {}, stopped = {}\<rparr>"

section \<open>Time spent waiting\<close>

fun call_timeout :: "call \<Rightarrow> duration" where
  "call_timeout (CallDialUDP a t) = t"
| "call_timeout (CallDialMesh t) = t"
| "call_timeout (CallOpenStream c t) = t"
| "call_timeout (CallCloseConn c) = 0"
| "call_timeout (CallCloseTransport t) = 0"

text \<open>From one state to a later one, the calls made are bounded by \<open>t\<close> in total, and satisfy \<open>P\<close>.\<close>

definition spends :: "(call \<Rightarrow> bool) \<Rightarrow> duration \<Rightarrow> 'a net_state_scheme \<Rightarrow> 'a net_state_scheme \<Rightarrow> bool" where
  "spends P t s s' \<longleftrightarrow>
     (\<exists>new. trace s' = new @ trace s \<and> sum_list (map call_timeout new) \<le> t \<and> list_all P new)"

lemma spends_refl: "0 \<le> t \<Longrightarrow> trace s' = trace s \<Longrightarrow> spends P t s s'"
  by (auto simp: spends_def)

lemma spends_trans: "spends P t s s1 \<Longrightarrow> spends P u s1 s2 \<Longrightarrow> t + u \<le> v \<Longrightarrow> spends P v s s2"
  by (fastforce simp: spends_def)

lemma spends_one: "trace s' = c # trace s \<Longrightarrow> call_timeout c \<le> t \<Longrightarrow> P c \<Longrightarrow> spends P t s s'"
  by (rule exI [of _ "[c]", THEN spends_def [THEN iffD2]]) simp

lemma spends_same_trace: "spends P t s s1 \<Longrightarrow> trace s2 = trace s1 \<Longrightarrow> spends P t s s2"
  by (simp add: spends_def)

end
