(* ===== verification/DirectProps.thy ===== *)
theory DirectProps
  imports Direct
begin

text \<open>
  Properties of the direct client: the ownership invariant of transports and connections, the
  branches of \<open>openStream\<close>, the cutover, the verified cache as an instance of \<open>verify_cache\<close>, the
  path as an instance of \<open>stream_channel\<close>, and the round-trip baseline.
\<close>

section \<open>Frame lemmas\<close>

lemma drop_fields [simp]:
  "d_qconn (dropConnLocked s) = None" "d_tr (dropConnLocked s) = None"
  "socks (dropConnLocked s) = socks s"
  "trs (dropConnLocked s) = trs s - set_option (d_tr s)"
  "dead (dropConnLocked s) = dead s \<union> set_option (d_qconn s)"
  "d_conns (dropConnLocked s) = d_conns s" "watching (dropConnLocked s) = watching s"
  "verifiedUntil (dropConnLocked s) = verifiedUntil s" "failUntil (dropConnLocked s) = failUntil s"
  "probeState (dropConnLocked s) = probeState s" "d_owner (dropConnLocked s) = d_owner s"
  "serverAddr (dropConnLocked s) = serverAddr s" "d_timeout (dropConnLocked s) = d_timeout s"
  "probers (dropConnLocked s) = probers s" "stopped (dropConnLocked s) = stopped s"
  "probeStop (dropConnLocked s) = probeStop s" "probeActive (dropConnLocked s) = probeActive s"
  "retryPeriod (dropConnLocked s) = retryPeriod s" "probeRTT (dropConnLocked s) = probeRTT s"
  "d_node (dropConnLocked s) = d_node s"
  by (auto simp: dropConnLocked_def state_defs Let_def split: option.split)

lemma drop_cooldown_fields [simp]:
  "d_qconn (drop_cooldown now s) = None" "d_tr (drop_cooldown now s) = None"
  "socks (drop_cooldown now s) = socks s"
  "trs (drop_cooldown now s) = trs s - set_option (d_tr s)"
  "dead (drop_cooldown now s) = dead s \<union> set_option (d_qconn s)"
  "d_conns (drop_cooldown now s) = d_conns s" "watching (drop_cooldown now s) = watching s"
  "failUntil (drop_cooldown now s) = Some (now + directFailCooldown)"
  "verifiedUntil (drop_cooldown now s) = verifiedUntil s"
  "probeState (drop_cooldown now s) = probeState s" "d_owner (drop_cooldown now s) = d_owner s"
  "probers (drop_cooldown now s) = probers s" "stopped (drop_cooldown now s) = stopped s"
  "probeStop (drop_cooldown now s) = probeStop s" "probeActive (drop_cooldown now s) = probeActive s"
  "trace (drop_cooldown now s) = trace (dropConnLocked s)"
  by (simp_all add: drop_cooldown_def)

lemma fallback_fields [simp]:
  "d_qconn (owner_fallback s) = d_qconn s" "d_tr (owner_fallback s) = d_tr s"
  "socks (owner_fallback s) = socks s"
  "trs (owner_fallback s) = trs s" "dead (owner_fallback s) = dead s"
  "d_conns (owner_fallback s) = d_conns s" "watching (owner_fallback s) = watching s"
  "verifiedUntil (owner_fallback s) = verifiedUntil s" "failUntil (owner_fallback s) = failUntil s"
  "trace (owner_fallback s) = trace s" "d_owner (owner_fallback s) = d_owner s"
  "probers (owner_fallback s) = probers s" "stopped (owner_fallback s) = stopped s"
  "probeStop (owner_fallback s) = probeStop s" "probeActive (owner_fallback s) = probeActive s"
  "probeState (owner_fallback s) = (if d_owner s then PathMeshFallback else probeState s)"
  by (simp_all add: state_defs)

lemma MarkFailed_fields [simp]:
  "d_qconn (MarkFailed s) = d_qconn s" "d_tr (MarkFailed s) = d_tr s"
  "socks (MarkFailed s) = socks s"
  "trs (MarkFailed s) = trs s" "dead (MarkFailed s) = dead s"
  "d_conns (MarkFailed s) = d_conns s" "watching (MarkFailed s) = watching s"
  "verifiedUntil (MarkFailed s) = None" "failUntil (MarkFailed s) = failUntil s"
  "trace (MarkFailed s) = trace s" "d_owner (MarkFailed s) = d_owner s"
  "probeState (MarkFailed s) = probeState s"
  "probers (MarkFailed s) = probers s" "stopped (MarkFailed s) = stopped s"
  "probeStop (MarkFailed s) = probeStop s" "probeActive (MarkFailed s) = probeActive s"
  by (simp_all add: state_defs)

lemma wait_fields [simp]:
  "d_qconn (wait_open c D s) = d_qconn s" "d_tr (wait_open c D s) = d_tr s"
  "socks (wait_open c D s) = socks s"
  "trs (wait_open c D s) = trs s" "dead (wait_open c D s) = dead s \<union> D"
  "d_conns (wait_open c D s) = d_conns s" "watching (wait_open c D s) = watching s"
  "verifiedUntil (wait_open c D s) = verifiedUntil s" "failUntil (wait_open c D s) = failUntil s"
  "trace (wait_open c D s) = CallOpenStream c openStreamTimeout # trace s"
  "d_owner (wait_open c D s) = d_owner s" "probeState (wait_open c D s) = probeState s"
  "serverAddr (wait_open c D s) = serverAddr s" "d_timeout (wait_open c D s) = d_timeout s"
  by (simp_all add: state_defs)

section \<open>The ownership invariant\<close>

text \<open>
  The transport and the connection come and go together; the open transports are exactly that
  of the cached connection; every connection ever dialled is closed or cached.
\<close>

definition transport_inv :: "'a direct_client_scheme \<Rightarrow> bool" where
  "transport_inv s \<longleftrightarrow>
     (d_qconn s = None \<longleftrightarrow> d_tr s = None) \<and> trs s = set_option (d_tr s)
     \<and> d_conns s - dead s \<subseteq> set_option (d_qconn s) \<and> set_option (d_qconn s) \<subseteq> d_conns s"

text \<open>Between operations, the cached connection also has its watcher goroutine.\<close>

definition direct_inv :: "'a direct_client_scheme \<Rightarrow> bool" where
  "direct_inv s \<longleftrightarrow> transport_inv s \<and> set_option (d_qconn s) \<subseteq> watching s"

lemma transport_inv_drop: "transport_inv s \<Longrightarrow> transport_inv (dropConnLocked s)"
  by (auto simp: transport_inv_def)

lemma transport_inv_drop_cooldown: "transport_inv s \<Longrightarrow> transport_inv (drop_cooldown now s)"
  by (auto simp: transport_inv_def)

lemma transport_inv_wait: "transport_inv s \<Longrightarrow> transport_inv (wait_open c D s)"
  by (auto simp: transport_inv_def)

lemma transport_inv_frame [simp]:
  "transport_inv (MarkFailed s) = transport_inv s" "transport_inv (owner_fallback s) = transport_inv s"
  "transport_inv (spawn_watch c s) = transport_inv s"
  "transport_inv (MarkVerified now ttl s) = transport_inv s" "transport_inv (setProbeState p s) = transport_inv s"
  "transport_inv (s\<lparr>failUntil := x\<rparr>) = transport_inv s"
  by (simp_all add: transport_inv_def spawn_watch_def state_defs)

text \<open>The dial keeps the open transports on failure and adds exactly one on success.\<close>

lemma dialTransport_failed:
  assumes "directDialTransport E addr t s = (Inl e, s1)" and "trs s = {}"
  shows "trs s1 = {} \<and> d_qconn s1 = d_qconn s \<and> d_tr s1 = d_tr s \<and> dead s1 = dead s
    \<and> d_conns s1 = d_conns s \<and> watching s1 = watching s \<and> verifiedUntil s1 = verifiedUntil s
    \<and> d_owner s1 = d_owner s \<and> probeState s1 = probeState s"
  using assms
  by (auto simp: directDialTransport_def state_defs Let_def split: sum.splits option.splits)

lemma dialTransport_ok:
  assumes "directDialTransport E addr t s = (Inr (c, tr), s1)"
  shows "trs s1 = insert tr (trs s) \<and> d_qconn s1 = d_qconn s \<and> d_tr s1 = d_tr s
    \<and> dead s1 = dead s \<and> d_conns s1 = insert c (d_conns s) \<and> watching s1 = watching s
    \<and> verifiedUntil s1 = verifiedUntil s \<and> failUntil s1 = failUntil s
    \<and> d_owner s1 = d_owner s \<and> probeState s1 = probeState s"
  using assms
  by (auto simp: directDialTransport_def state_defs Let_def split: sum.splits option.splits)

text \<open>Every successful \<open>directDial\<close> leaves a transport open that nobody owns.\<close>

lemma directDial_leaks:
  "directDial E addr t s = (Inr c, s1) \<Longrightarrow> \<exists>tr. trs s1 = insert tr (trs s) \<and> d_tr s1 = d_tr s"
  using dialTransport_ok [of E addr t s] by (auto simp: directDial_def split: prod.splits sum.splits)

text \<open>A redial starts without a connection; it ends in one of two ways.\<close>

lemma redial_cases:
  assumes "redial E s = (r, s')" and "d_qconn s = None" and "d_tr s = None" and "trs s = {}"
  obtains (failed) e where "r = DialFailure e" "d_qconn s' = None" "d_tr s' = None" "trs s' = {}"
      "dead s' = dead s" "d_conns s' = d_conns s" "watching s' = watching s"
      "failUntil s' = Some (oe_fail_now E + directFailCooldown)" "d_owner s' = d_owner s"
      "verifiedUntil s' = verifiedUntil s" "probeState s' = probeState s"
    | (dialled) c tr where "r = Dialled c" "d_qconn s' = Some c" "d_tr s' = Some tr" "trs s' = {tr}"
      "dead s' = dead s" "d_conns s' = insert c (d_conns s)" "watching s' = watching s"
      "verifiedUntil s' = verifiedUntil s" "d_owner s' = d_owner s" "probeState s' = probeState s"
proof (cases "directDialTransport (oe_dial E) (serverAddr s) (d_timeout s) s")
  case (Pair x s1)
  show thesis
  proof (cases x)
    case (Inl e)
    with Pair have "directDialTransport (oe_dial E) (serverAddr s) (d_timeout s) s = (Inl e, s1)" by simp
    from dialTransport_failed [OF this assms(4)] Pair Inl assms show thesis
      by (intro failed [of e]) (auto simp: redial_def)
  next
    case (Inr ct)
    obtain c tr where "ct = (c, tr)" by (cases ct)
    with Pair Inr have "directDialTransport (oe_dial E) (serverAddr s) (d_timeout s) s = (Inr (c, tr), s1)"
      by simp
    from dialTransport_ok [OF this] Pair Inr assms \<open>ct = (c, tr)\<close> show thesis
      by (intro dialled [of c tr]) (auto simp: redial_def)
  qed
qed

lemma redial_transport_inv:
  assumes "transport_inv s" and "d_qconn s = None"
  shows "transport_inv (snd (redial E s))"
proof -
  obtain r s' where r: "redial E s = (r, s')" by (cases "redial E s")
  from assms have "d_tr s = None" "trs s = {}" by (auto simp: transport_inv_def)
  from r assms(2) this show ?thesis
    by (cases rule: redial_cases) (use assms r in \<open>auto simp: transport_inv_def\<close>)
qed

lemma locked_transport_inv: "transport_inv s \<Longrightarrow> transport_inv (snd (openStream_locked E s))"
  by (auto simp: openStream_locked_def Let_def transport_inv_wait transport_inv_drop
      intro!: redial_transport_inv split: option.split)

text \<open>How the locked section can end.\<close>

lemma locked_cases:
  assumes "openStream_locked E s = (r, s')" and "transport_inv s"
  obtains (cooling) "r = Returned (Inl Cooldown)" "s' = s" "before (oe_now E) (failUntil s)"
    | (no_node) "r = Returned (Inl NoNode)" "\<not> d_node s"
        "s' = s\<lparr>failUntil := Some (oe_fail_now E + directFailCooldown)\<rparr>"
    | (opened) c where "r = Returned (Inr c)" "d_qconn s = Some c" "c \<notin> dead s"
        "oe_open E = None" "s' = wait_open c (oe_died E) s"
    | (transient) c e where "r = Returned (Inl (OpenFailed e))" "d_qconn s = Some c" "c \<notin> dead s"
        "oe_open E = Some e" "c \<notin> oe_died E" "s' = wait_open c (oe_died E) s"
    | (redialled) s1 where "redial E s1 = (r, s')" "d_qconn s1 = None" "d_tr s1 = None" "trs s1 = {}"
        "transport_inv s1" "s1 = dropConnLocked s \<or> (\<exists>c. s1 = dropConnLocked (wait_open c (oe_died E) s))"
proof -
  have redial: thesis if "redial E (dropConnLocked t) = (r, s')" "transport_inv t"
    "t = s \<or> (\<exists>c. t = wait_open c (oe_died E) s)" for t
    using that by (intro redialled [of "dropConnLocked t"]) (auto simp: transport_inv_def)
  show thesis
  proof (cases "before (oe_now E) (failUntil s) \<or> \<not> d_node s")
    case True
    with assms(1) show thesis
      by (cases "before (oe_now E) (failUntil s)") (auto simp: openStream_locked_def intro: cooling no_node)
  next
    case False
    show thesis
    proof (cases "connAliveLocked s")
      case dead: False
      with False assms have "redial E (dropConnLocked s) = (r, s')"
        by (simp add: openStream_locked_def)
      then show thesis using assms(2) by (rule redial) simp
    next
      case True
      then obtain c where c: "d_qconn s = Some c" "c \<notin> dead s"
        by (auto simp: connAliveLocked_def split: option.splits)
      consider "oe_open E = None" | e where "oe_open E = Some e" "c \<notin> oe_died E"
        | e where "oe_open E = Some e" "c \<in> oe_died E" by (cases "oe_open E") auto
      then show thesis
      proof cases
        case 1
        with False c assms show thesis
          by (intro opened) (auto simp: openStream_locked_def connAliveLocked_def)
      next
        case 2
        with False c assms show thesis
          by (intro transient) (auto simp: openStream_locked_def connAliveLocked_def)
      next
        case 3
        with False c assms have "redial E (dropConnLocked (wait_open c (oe_died E) s)) = (r, s')"
          by (auto simp: openStream_locked_def connAliveLocked_def)
        then show thesis using assms(2) by (rule redial [OF _ transport_inv_wait]) auto
      qed
    qed
  qed
qed

lemma new_transport_inv: "transport_inv s \<Longrightarrow> transport_inv (snd (openStream_new E c s))"
  by (auto simp: openStream_new_def Let_def transport_inv_wait split: option.split)

text \<open>The whole operation: what is cached afterwards, and what it returned.\<close>

lemma openStream_summary:
  assumes "openStream E s = (r, s')" and "direct_inv s"
  shows "direct_inv s'" and "dead s \<subseteq> dead s'" and "d_conns s \<subseteq> d_conns s'"
    and "r = Inr c \<Longrightarrow> d_qconn s' = Some c \<and> c \<in> d_conns s' \<and> c \<in> watching s'"
    and "r = Inl (DialError e) \<Longrightarrow> d_qconn s' = None \<and> trs s' = {} \<and> verifiedUntil s' = None
      \<and> failUntil s' = Some (oe_fail_now E + directFailCooldown)
      \<and> (d_owner s' \<longrightarrow> probeState s' = PathMeshFallback)"
    and "(\<And>e. r \<noteq> Inl (DialError e)) \<Longrightarrow> verifiedUntil s' = verifiedUntil s \<and> probeState s' = probeState s"
proof -
  obtain lr s1 where l: "openStream_locked E s = (lr, s1)" by (cases "openStream_locked E s")
  have inv: "transport_inv s" "set_option (d_qconn s) \<subseteq> watching s"
    using assms(2) by (auto simp: direct_inv_def)
  have inv1: "transport_inv s1" using locked_transport_inv [OF inv(1), of E] l by simp
  note defs = openStream_def openStream_failed_def openStream_new_def spawn_watch_def Let_def direct_inv_def
  have "direct_inv s' \<and> dead s \<subseteq> dead s' \<and> d_conns s \<subseteq> d_conns s'
    \<and> (\<forall>c. r = Inr c \<longrightarrow> d_qconn s' = Some c \<and> c \<in> d_conns s' \<and> c \<in> watching s')
    \<and> (\<forall>e. r = Inl (DialError e) \<longrightarrow> d_qconn s' = None \<and> trs s' = {} \<and> verifiedUntil s' = None
      \<and> failUntil s' = Some (oe_fail_now E + directFailCooldown)
      \<and> (d_owner s' \<longrightarrow> probeState s' = PathMeshFallback))
    \<and> ((\<forall>e. r \<noteq> Inl (DialError e)) \<longrightarrow> verifiedUntil s' = verifiedUntil s \<and> probeState s' = probeState s)"
    using l inv(1)
  proof (cases rule: locked_cases)
    case (redialled s2)
    have s2: "dead s \<subseteq> dead s2" "d_conns s2 = d_conns s" "watching s2 = watching s"
      "verifiedUntil s2 = verifiedUntil s" "probeState s2 = probeState s"
      using redialled(6) by auto
    from redialled(1-4) show ?thesis
    proof (cases rule: redial_cases)
      case (failed e)
      with l assms(1) s2 inv1 show ?thesis by (auto simp: defs)
    next
      case (dialled c tr)
      with l assms(1) s2 inv1 show ?thesis
        by (auto simp: defs transport_inv_def state_defs split: option.splits)
    qed
  qed (use l assms(1) inv in \<open>auto simp: defs transport_inv_def state_defs\<close>)
  then show "direct_inv s'" and "dead s \<subseteq> dead s'" and "d_conns s \<subseteq> d_conns s'"
    and "r = Inr c \<Longrightarrow> d_qconn s' = Some c \<and> c \<in> d_conns s' \<and> c \<in> watching s'"
    and "r = Inl (DialError e) \<Longrightarrow> d_qconn s' = None \<and> trs s' = {} \<and> verifiedUntil s' = None
      \<and> failUntil s' = Some (oe_fail_now E + directFailCooldown)
      \<and> (d_owner s' \<longrightarrow> probeState s' = PathMeshFallback)"
    and "(\<And>e. r \<noteq> Inl (DialError e)) \<Longrightarrow> verifiedUntil s' = verifiedUntil s \<and> probeState s' = probeState s"
    by blast+
qed

lemma dial_grows: "directDialTransport E addr t s = (r, s1) \<Longrightarrow> dead s1 = dead s \<and> d_conns s \<subseteq> d_conns s1"
  by (auto simp: directDialTransport_def state_defs Let_def split: sum.splits option.splits)

lemma redial_grows: "redial E s = (r, s1) \<Longrightarrow> dead s1 = dead s \<and> d_conns s \<subseteq> d_conns s1"
  by (auto simp: redial_def split: sum.splits prod.splits dest!: dial_grows)

lemma locked_grows:
  assumes "openStream_locked E s = (r, s1)"
  shows "dead s \<subseteq> dead s1 \<and> d_conns s \<subseteq> d_conns s1"
  using assms
  by (auto simp: openStream_locked_def Let_def split: if_splits option.splits dest!: redial_grows)

lemma openStream_grows:
  "dead s \<subseteq> dead (snd (openStream E s)) \<and> d_conns s \<subseteq> d_conns (snd (openStream E s))"
  by (auto simp: openStream_def openStream_failed_def openStream_new_def spawn_watch_def Let_def
      state_defs split: prod.splits locked_result.splits option.splits dest!: locked_grows)

lemmas openStream_dead_mono = openStream_grows [THEN conjunct1]
lemmas openStream_conns_mono = openStream_grows [THEN conjunct2]

section \<open>Runs of the direct client\<close>

datatype direct_op =
    OpenStream open_env
  | DropAndFail time
  | WatchConn nat time
  | MarkVerifiedAt time duration
  | MarkFailedOp
  | ProbeHealthy duration
  | StartProber nat
  | CloseOp
  | ConnDies nat

fun direct_step :: "direct_client \<Rightarrow> direct_op \<Rightarrow> direct_client" where
  "direct_step s (OpenStream E) = snd (openStream E s)"
| "direct_step s (DropAndFail now) = dropAndFail now s"
| "direct_step s (WatchConn c now) = watchConn c now s"
| "direct_step s (MarkVerifiedAt now ttl) = MarkVerified now ttl s"
| "direct_step s MarkFailedOp = MarkFailed s"
| "direct_step s (ProbeHealthy rtt) = snd (probeHealthy rtt s)"
| "direct_step s (StartProber ch) = startProber ch s"
| "direct_step s CloseOp = direct_Close s"
| "direct_step s (ConnDies c) = s\<lparr>dead := insert c (dead s)\<rparr>"

definition run_direct :: "direct_op list \<Rightarrow> direct_client \<Rightarrow> direct_client" where
  "run_direct ops s = foldl direct_step s ops"

lemma direct_inv_new: "direct_inv (NewDirectClient opts)"
  by (simp add: direct_inv_def transport_inv_def NewDirectClient_def)

lemma watchConn_eq:
  "watchConn c now s =
     (if d_qconn s = Some c then owner_fallback (MarkFailed (drop_cooldown now s)) else s)"
  by (simp add: watchConn_def watch_locked_def)

lemma direct_inv_cutover:
  "direct_inv s \<Longrightarrow> direct_inv (dropAndFail now s)" "direct_inv s \<Longrightarrow> direct_inv (watchConn c now s)"
  by (simp_all add: direct_inv_def dropAndFail_def watchConn_eq transport_inv_drop_cooldown)

text \<open>\<open>Close\<close> leaves the verified cache as it was: until it expires, streams still try the direct path.\<close>

lemma direct_close_keeps_cache: "IsVerified t (direct_Close s) = IsVerified t s"
  by (simp add: IsVerified_def direct_Close_def stopProber_def split: option.split)

lemma direct_inv_close: "direct_inv s \<Longrightarrow> direct_inv (direct_Close s)"
  by (auto simp: direct_inv_def transport_inv_def direct_Close_def stopProber_def split: option.splits)

lemma direct_inv_marks:
  "direct_inv (MarkFailed s) = direct_inv s" "direct_inv (MarkVerified now ttl s) = direct_inv s"
  by (simp_all add: direct_inv_def MarkVerified_def)
    (simp add: transport_inv_def)

lemma direct_inv_dies: "direct_inv s \<Longrightarrow> direct_inv (s\<lparr>dead := insert c (dead s)\<rparr>)"
  by (auto simp: direct_inv_def transport_inv_def)

lemma direct_step_inv: "direct_inv s \<Longrightarrow> direct_inv (direct_step s op)"
proof (cases op)
  case (OpenStream E)
  then show "direct_inv s \<Longrightarrow> ?thesis"
    using openStream_summary(1) [of E s] by (cases "openStream E s") simp
next
  case (ProbeHealthy rtt)
  then show "direct_inv s \<Longrightarrow> ?thesis"
    by (simp add: probeHealthy_def direct_inv_def transport_inv_def)
next
  case (StartProber ch)
  then show "direct_inv s \<Longrightarrow> ?thesis"
    by (simp add: startProber_def direct_inv_def transport_inv_def)
qed (simp_all add: direct_inv_cutover direct_inv_close direct_inv_marks direct_inv_dies)

lemma run_direct_inv: "direct_inv s \<Longrightarrow> direct_inv (run_direct ops s)"
  unfolding run_direct_def by (induction ops arbitrary: s) (auto simp: direct_step_inv)

text \<open>
  After any sequence of operations on a new direct client (streams opened,
  probes, cutovers, watchers, closes) and any deaths of connections in between: the open UDP
  sockets are exactly the transport of the cached connection (none when nothing is cached, so
  never more than one), every connection that was ever dialled is closed or is the cached one,
  and the cached one has its watcher goroutine.
\<close>

lemma direct_ownership:
  fixes opts ops
  defines "s \<equiv> run_direct ops (NewDirectClient opts)"
  shows "trs s = set_option (d_tr s) \<and> (d_tr s = None \<longleftrightarrow> d_qconn s = None)
    \<and> d_conns s - dead s \<subseteq> set_option (d_qconn s) \<and> set_option (d_qconn s) \<subseteq> watching s"
  using run_direct_inv [OF direct_inv_new, of ops opts]
  by (auto simp: s_def direct_inv_def transport_inv_def)

section \<open>The direct path as a stream channel\<close>

interpretation direct_channel: stream_channel openStream d_qconn d_conns dead "\<lambda>_ _. True" direct_inv
proof
  fix s :: "'a direct_client_scheme" and E c s'
  show "direct_inv s \<Longrightarrow> direct_inv (snd (openStream E s))"
    using openStream_summary(1) [of E s] by (cases "openStream E s") simp
  show "direct_inv s \<Longrightarrow> d_conns s - dead s \<subseteq> set_option (d_qconn s)"
    by (simp add: direct_inv_def transport_inv_def)
  show "direct_inv s \<Longrightarrow> openStream E s = (Inr c, s') \<Longrightarrow> d_qconn s' = Some c \<and> c \<in> d_conns s'"
    using openStream_summary(4) [of E s "Inr c" s' c] by blast
qed (rule openStream_dead_mono openStream_conns_mono)+

lemma direct_all_ok: "direct_channel.all_ok Es s"
  by (induction Es arbitrary: s) simp_all

text \<open>
  Run any sequence of stream opens on the direct path: every stream handed out
  either rides the connection cached at the end or its connection has been closed. Streams are
  never left on a live connection that the client has forgotten, so a cutover reaches them all.
\<close>

lemma direct_streams_owned:
  assumes "direct_inv s" and "direct_channel.run_opens Es s = (streams, s')" and "c \<in> streams"
  shows "c \<in> dead s' \<or> d_qconn s' = Some c"
  using direct_channel.run_streams_owned [OF assms(1) direct_all_ok, of c Es] assms by simp

section \<open>Sample configurations\<close>

text \<open>A client with a literal server address, and the outside of dials that succeed or fail.\<close>

definition sample_direct :: direct_client where
  "sample_direct = NewDirectClient
     \<lparr>o_node = True, o_serverAddr = ''192.0.2.1:443'', o_timeout = 5 * second, o_retryPeriod = 10 * second\<rparr>"

definition sample_dial :: "(string + nat) \<Rightarrow> dial_env" where
  "sample_dial d =
     \<lparr>de_resolver = \<lparr>parse_ip = (\<lambda>_. Some [192, 0, 2, 1]), lookup_ip = (\<lambda>_. None)\<rparr>,
      de_listen = (\<lambda>_. Inr 7), de_dial = d\<rparr>"

definition sample_env :: "time \<Rightarrow> (string + nat) \<Rightarrow> string option \<Rightarrow> open_env" where
  "sample_env now d e =
     \<lparr>oe_now = now, oe_fail_now = now, oe_open = e, oe_died = {}, oe_dial = sample_dial d,
      oe_open_new = None, oe_died_new = {}\<rparr>"

lemma sample_parse: "parseHostPort ''192.0.2.1:443'' = Inr (''192.0.2.1'', 443)"
  by code_simp

lemmas sample_defs = sample_direct_def sample_dial_def sample_env_def NewDirectClient_def

lemmas openStream_defs =
  openStream_def openStream_locked_def redial_def directDialTransport_def resolveUDP_def
  dropConnLocked_def connAliveLocked_def connAlive_def openStream_new_def openStream_failed_def
  spawn_watch_def cap_dial_timeout_def

lemma sample_inv: "direct_inv sample_direct"
  unfolding sample_direct_def by (rule direct_inv_new)

lemma sample_opened:
  "openStream (sample_env now (Inr 3) None) sample_direct =
     (Inr 3, sample_direct\<lparr>trs := {7}, socks := {7}, d_qconn := Some 3, d_tr := Some 7, d_conns := {3}, watching := {3},
        trace := [CallOpenStream 3 openStreamTimeout, CallDialUDP ([192, 0, 2, 1], 443) (5 * second)]\<rparr>)"
  by (simp add: openStream_defs sample_defs sample_parse state_defs direct_consts second_def)

lemma direct_streams_owned_sample:
  "3 \<in> fst (direct_channel.run_opens [sample_env 0 (Inr 3) None] sample_direct)
   \<and> (let s' = snd (direct_channel.run_opens [sample_env 0 (Inr 3) None] sample_direct)
      in 3 \<in> dead s' \<or> d_qconn s' = Some 3)"
proof -
  obtain cs s' where r: "direct_channel.run_opens [sample_env 0 (Inr 3) None] sample_direct = (cs, s')"
    by fastforce
  have "3 \<in> fst (direct_channel.run_opens [sample_env 0 (Inr 3) None] sample_direct)"
    by (simp add: sample_opened)
  then show ?thesis
    using direct_streams_owned [OF sample_inv r, of 3] r by simp
qed

section \<open>Branches of openStream\<close>

lemma openStream_cooling: "before (oe_now E) (failUntil s) \<Longrightarrow> openStream E s = (Inl Cooldown, s)"
  by (simp add: openStream_def openStream_locked_def)

lemma openStreams_cooling:
  "(\<And>E. E \<in> set Es \<Longrightarrow> before (oe_now E) (failUntil s))
     \<Longrightarrow> openStreams Es s = (replicate (length Es) (Inl Cooldown), s)"
  by (induction Es) (simp_all add: openStream_cooling)

text \<open>
  After a failed dial the path is no longer verified, holds no transport and no
  connection and its owner shows the fallback state; and every later \<open>openStream\<close> that starts
  less than two seconds after the failure returns the cooldown error at once, with no call to
  quic-go and no change of state: waiting callers do not dial again one after the other.
\<close>

lemma dial_failure_cools_down:
  assumes "direct_inv s" and "openStream E s = (Inl (DialError e), s1)"
    and "\<And>E'. E' \<in> set Es \<Longrightarrow> oe_now E' < oe_fail_now E + 2 * second"
  shows "\<not> IsVerified t s1 \<and> trs s1 = {} \<and> d_qconn s1 = None
    \<and> (d_owner s1 \<longrightarrow> probeState s1 = PathMeshFallback)
    \<and> openStreams Es s1 = (replicate (length Es) (Inl Cooldown), s1)"
  using openStream_summary(5) [OF assms(2,1) refl] assms(3)
  by (simp add: IsVerified_def openStreams_cooling directFailCooldown_def)

lemma dial_failure_cools_down_sample:
  "\<exists>s1. openStream (sample_env 0 (Inl ''timeout'') None) sample_direct
          = (Inl (DialError (DialFailed ''timeout'')), s1)
     \<and> openStreams [sample_env second (Inr 3) None] s1 = ([Inl Cooldown], s1)"
proof -
  obtain s1 where s1: "openStream (sample_env 0 (Inl ''timeout'') None) sample_direct
      = (Inl (DialError (DialFailed ''timeout'')), s1)"
    by (simp add: openStream_defs sample_defs sample_parse state_defs Let_def)
  have "openStreams [sample_env second (Inr 3) None] s1 = ([Inl Cooldown], s1)"
    using dial_failure_cools_down [OF sample_inv s1, of "[sample_env second (Inr 3) None]"]
    by (simp add: sample_env_def second_def)
  with s1 show ?thesis by blast
qed

text \<open>
  An error of \<open>OpenStreamSync\<close> on a connection that is still alive is only
  reported: connection, transport, verified cache and displayed state are untouched, nothing is
  closed and nothing is dialled; the one call made is the failed stream open.
\<close>

lemma transient_error_harmless:
  assumes "d_node s" and "\<not> before (oe_now E) (failUntil s)"
    and "d_qconn s = Some c" and "c \<notin> dead s" and "c \<notin> oe_died E" and "oe_open E = Some err"
  shows "\<exists>s'. openStream E s = (Inl (OpenFailed err), s') \<and> connAlive s' \<and> d_qconn s' = Some c
    \<and> d_tr s' = d_tr s \<and> trs s' = trs s \<and> verifiedUntil s' = verifiedUntil s
    \<and> failUntil s' = failUntil s \<and> probeState s' = probeState s
    \<and> trace s' = CallOpenStream c (10 * second) # trace s"
  using assms by (simp add: openStream_defs openStreamTimeout_def)

lemma transient_error_harmless_sample:
  "\<exists>s'. openStream (sample_env 9 (Inr 2) (Some ''too many streams''))
          (snd (openStream (sample_env 0 (Inr 3) None) sample_direct))
        = (Inl (OpenFailed ''too many streams''), s') \<and> d_qconn s' = Some 3"
proof -
  let ?s = "snd (openStream (sample_env 0 (Inr 3) None) sample_direct)"
  have "d_node ?s" "\<not> before 9 (failUntil ?s)" "d_qconn ?s = Some 3" "3 \<notin> dead ?s"
    by (simp_all add: sample_opened) (simp_all add: sample_defs)
  then show ?thesis
    using transient_error_harmless [of ?s "sample_env 9 (Inr 2) (Some ''too many streams'')" 3
        "''too many streams''"]
    by (auto simp: sample_env_def)
qed

section \<open>Bounded waiting\<close>

text \<open>Every UDP dial carries a timeout of at most five seconds, every stream open of ten.\<close>

fun bounded_call :: "call \<Rightarrow> bool" where
  "bounded_call (CallDialUDP a t) = (0 < t \<and> t \<le> 5 * second)"
| "bounded_call (CallOpenStream c t) = (t = 10 * second)"
| "bounded_call (CallDialMesh t) = (t \<le> 10 * second)"
| "bounded_call (CallCloseConn c) = True"
| "bounded_call (CallCloseTransport t) = True"

lemma cap_dial_bounds: "0 < cap_dial_timeout t \<and> cap_dial_timeout t \<le> 5 * second"
  by (auto simp: cap_dial_timeout_def direct_consts second_def)

lemma spends_drop: "spends bounded_call 0 s (dropConnLocked s)"
  by (auto simp: spends_def dropConnLocked_def state_defs Let_def split: option.split)

lemma spends_wait: "spends bounded_call (10 * second) s (wait_open c D s)"
  by (rule spends_one [of _ "CallOpenStream c openStreamTimeout"])
    (simp_all add: state_defs openStreamTimeout_def)

lemma spends_dial:
  assumes "directDialTransport E addr t s = (r, s1)"
  shows "spends bounded_call (5 * second) s s1"
  using assms cap_dial_bounds [of t]
  by (auto simp: directDialTransport_def state_defs Let_def spends_def second_def
      split: sum.splits option.splits)

lemma spends_redial: "spends bounded_call (5 * second) s (snd (redial E s))"
proof (cases "directDialTransport (oe_dial E) (serverAddr s) (d_timeout s) s")
  case (Pair r s1)
  with spends_dial [OF this] show ?thesis
    by (auto simp: redial_def spends_def split: sum.split)
qed

lemma spends_drop_redial: "spends bounded_call (5 * second) s (snd (redial E (dropConnLocked s)))"
  by (rule spends_trans [OF spends_drop spends_redial]) simp

lemma spends_locked: "spends bounded_call (15 * second) s (snd (openStream_locked E s))"
proof -
  have after: "spends bounded_call (15 * second) s (snd (redial E (dropConnLocked (wait_open c (oe_died E) s))))" for c
    by (rule spends_trans [OF spends_wait spends_drop_redial]) simp
  have wait: "spends bounded_call (15 * second) s (wait_open c (oe_died E) s)" for c
    by (rule spends_trans [OF spends_wait spends_refl [OF order_refl refl]]) (simp add: second_def)
  have direct: "spends bounded_call (15 * second) s (snd (redial E (dropConnLocked s)))"
    by (rule spends_trans [OF spends_drop_redial spends_refl [OF order_refl refl]]) (simp add: second_def)
  show ?thesis
  proof -
    have "spends bounded_call (15 * second) s s" "spends bounded_call (15 * second) s (s\<lparr>failUntil := x\<rparr>)" for x
      by (simp_all add: spends_refl second_def)
    then show ?thesis
      by (auto simp: openStream_locked_def Let_def after wait direct split: option.split)
  qed
qed

lemma spends_openStream: "spends bounded_call (25 * second) s (snd (openStream E s))"
proof (cases "openStream_locked E s")
  case (Pair lr s1)
  then have l: "spends bounded_call (15 * second) s s1" using spends_locked [of s E] by simp
  have same: "spends bounded_call (25 * second) s t" if "trace t = trace s1" for t
    by (rule spends_trans [OF l spends_refl [OF order_refl that]]) (simp add: second_def)
  have new: "spends bounded_call (25 * second) s (snd (openStream_new E c (spawn_watch c s1)))" for c
  proof -
    have "spends bounded_call (10 * second) s1 (snd (openStream_new E c (spawn_watch c s1)))"
      by (rule spends_one [of _ "CallOpenStream c openStreamTimeout"])
        (simp_all add: openStream_new_def spawn_watch_def Let_def openStreamTimeout_def split: option.split)
    from spends_trans [OF l this] show ?thesis by simp
  qed
  show ?thesis
    using Pair by (auto simp: openStream_def openStream_failed_def same new split: locked_result.split)
qed

text \<open>
  One \<open>openStream\<close> waits for at most 25 seconds in total inside quic-go, whatever
  the network does: the calls it makes are at most a stream open of 10 s, a dial whose timeout
  is positive and at most 5 s, and another stream open of 10 s.
\<close>

lemma openStream_waits_bounded:
  "\<exists>new. trace (snd (openStream E s)) = new @ trace s
     \<and> sum_list (map call_timeout new) \<le> 25 * second \<and> list_all bounded_call new"
  using spends_openStream [of s E] by (simp add: spends_def)

section \<open>Fast cutover\<close>

text \<open>
  C9 (safety). \<open>dropAndFail\<close> from any consistent state: every connection the path ever had is
  closed (so every stream on it errors out), no QUIC transport stays open, the path is unverified at
  every later time, the owner shows the fallback state, and for two seconds every \<open>openStream\<close>
  fails at once without touching the network. The UDP socket that was under the transport is not closed.
\<close>

theorem cutover_is_complete:
  assumes "direct_inv s"
  shows "d_conns s \<subseteq> dead (dropAndFail now s) \<and> trs (dropAndFail now s) = {}
    \<and> socks (dropAndFail now s) = socks s
    \<and> d_qconn (dropAndFail now s) = None \<and> \<not> IsVerified t (dropAndFail now s)
    \<and> (d_owner s \<longrightarrow> probeState (dropAndFail now s) = PathMeshFallback)
    \<and> (\<forall>E. oe_now E < now + 2 * second
           \<longrightarrow> openStream E (dropAndFail now s) = (Inl Cooldown, dropAndFail now s))"
proof -
  have "d_conns s \<subseteq> dead s \<union> set_option (d_qconn s)" "trs s = set_option (d_tr s)"
    using assms by (auto simp: direct_inv_def transport_inv_def)
  then show ?thesis
    by (auto simp: dropAndFail_def IsVerified_def directFailCooldown_def intro!: openStream_cooling)
qed

theorem cutover_is_complete_witness:
  "3 \<in> dead (dropAndFail 5 (snd (openStream (sample_env 0 (Inr 3) None) sample_direct)))"
proof -
  let ?s = "snd (openStream (sample_env 0 (Inr 3) None) sample_direct)"
  have "direct_inv ?s"
    using openStream_summary(1) [OF sample_opened sample_inv] by (simp add: sample_opened)
  from cutover_is_complete [OF this, of 5] show ?thesis by (simp add: sample_opened)
qed

text \<open>
  A watcher whose connection is still current performs exactly the cutover of
  \<open>dropAndFail\<close>; a watcher of a replaced connection changes nothing, so a late watcher never
  harms the connection dialled after it.
\<close>

lemma watcher_cuts_over_current_only:
  "watchConn c now s = (if d_qconn s = Some c then dropAndFail now s else s)"
  by (simp add: watchConn_eq dropAndFail_def)

section \<open>The verified cache\<close>

interpretation direct_cache: verify_cache IsVerified MarkVerified MarkFailed
  by standard (auto simp: IsVerified_def state_defs intro: before_mono)

text \<open>
  Over any history of \<open>MarkVerified\<close> and \<open>MarkFailed\<close> calls, whether the path is
  trusted at time \<open>t\<close> depends on the last call alone: after \<open>MarkFailed\<close> it is not, after
  \<open>MarkVerified\<close> at \<open>now\<close> with lifetime \<open>ttl\<close> it is exactly until \<open>now + ttl\<close>.
\<close>

lemma verified_by_last_mark:
  "IsVerified t (direct_cache.run_events (es @ [e]) s) \<longleftrightarrow>
     (case e of Granted now ttl \<Rightarrow> t < now + ttl | Revoked \<Rightarrow> False)"
  by (rule direct_cache.valid_run)

lemma verifyTTL_small: "0 < retryPeriod s \<Longrightarrow> retryPeriod s < 2 ^ 62 \<Longrightarrow> verifyTTL s = 2 * retryPeriod s"
  by (simp add: verifyTTL_def dur_mul_exact fits64_def)

lemma verifyTTL_overflow: "2 ^ 62 \<le> retryPeriod s \<Longrightarrow> retryPeriod s < 2 ^ 63 \<Longrightarrow> verifyTTL s = 2 * retryPeriod s - 2 ^ 64"
proof -
  assume r: "2 ^ 62 \<le> retryPeriod s" "retryPeriod s < 2 ^ 63"
  have "(2 * retryPeriod s + 2 ^ 63) mod 2 ^ 64 = (2 * retryPeriod s + 2 ^ 63 - 2 ^ 64) mod 2 ^ 64"
    by (rule minus_mod_self2 [symmetric])
  also have "\<dots> = 2 * retryPeriod s + 2 ^ 63 - 2 ^ 64"
    using r by (intro mod_pos_pos_trivial) simp_all
  finally show ?thesis
    using r by (simp add: verifyTTL_def dur_mul_def wrap64_def)
qed

text \<open>
  A successful probe at time \<open>now\<close> keeps the path trusted for exactly two retry
  periods when the period is below \<open>2 ^ 62\<close> nanoseconds (about 146 years); from there on the
  doubling overflows \<open>int64\<close>, the lifetime is not positive, and the probe does not make the path
  trusted at any time from \<open>now\<close> on.
\<close>

lemma verification_window:
  assumes "0 < retryPeriod s" and "retryPeriod s < 2 ^ 63" and "now \<le> t"
  shows "IsVerified t (MarkVerified now (verifyTTL s) s)
    \<longleftrightarrow> retryPeriod s < 2 ^ 62 \<and> t < now + 2 * retryPeriod s"
proof (cases "retryPeriod s < 2 ^ 62")
  case True
  with assms show ?thesis by (simp add: verifyTTL_small direct_cache.valid_grant)
next
  case False
  with assms have "verifyTTL s \<le> 0" by (simp add: verifyTTL_overflow)
  with False assms(3) show ?thesis using direct_cache.nonpositive_grant by blast
qed

lemma verification_window_sample:
  "IsVerified (19 * second) (MarkVerified 0 (verifyTTL sample_direct) sample_direct)
   \<and> \<not> IsVerified (20 * second) (MarkVerified 0 (verifyTTL sample_direct) sample_direct)"
proof -
  have "0 < retryPeriod sample_direct" "retryPeriod sample_direct < 2 ^ 63"
    by (simp_all add: sample_defs second_def)
  from verification_window [OF this, of 0 "19 * second"] verification_window [OF this, of 0 "20 * second"]
  show ?thesis by (simp add: sample_defs second_def)
qed

section \<open>The round-trip baseline\<close>

lemma ewma_nonneg:
  assumes "0 \<le> x" "x < 2 ^ 51" "0 \<le> y" "y < 2 ^ 51"
  shows "ewma x y = f64_round (f64_round (12610078956637388 * x) + f64_round (5404319552844595 * y)) div 2 ^ 54"
proof -
  let ?s = "f64_round (f64_round (12610078956637388 * x) + f64_round (5404319552844595 * y))"
  have "0 \<le> ?s" using assms by (intro f64_round_ge0 add_nonneg_nonneg) auto
  then have "f64_trunc ?s (2 ^ 54) = ?s div 2 ^ 54"
    by (cases "?s = 0") (simp_all add: f64_trunc_def)
  with assms show ?thesis by (simp add: ewma_def f64_round_exact)
qed

lemma ewma_ge0:
  assumes "0 \<le> x" "x < 2 ^ 51" "0 \<le> y" "y < 2 ^ 51"
  shows "0 \<le> ewma x y"
proof -
  have "0 \<le> f64_round (f64_round (12610078956637388 * x) + f64_round (5404319552844595 * y))"
    using assms by (intro f64_round_ge0 add_nonneg_nonneg) auto
  then show ?thesis unfolding ewma_nonneg [OF assms] by (subst pos_imp_zdiv_nonneg_iff) simp_all
qed

text \<open>
  The average stays between the two samples, up to one nanosecond below the smaller one. It does so
  whether or not the products are rounded before they are added, as long as they are accurate to 53 bits.
\<close>

lemma rounded_sum_between:
  assumes "0 \<le> x" "x < 2 ^ 51" "0 \<le> y" "y < 2 ^ 51" "0 \<le> a" "0 \<le> b"
    and "2 ^ 53 * a \<le> (2 ^ 53 + 1) * (12610078956637388 * x)" "(2 ^ 53 - 1) * (12610078956637388 * x) \<le> 2 ^ 53 * a"
    and "2 ^ 53 * b \<le> (2 ^ 53 + 1) * (5404319552844595 * y)" "(2 ^ 53 - 1) * (5404319552844595 * y) \<le> 2 ^ 53 * b"
  shows "min x y - 1 \<le> f64_round (a + b) div 2 ^ 54" and "f64_round (a + b) div 2 ^ 54 \<le> max x y"
proof -
  obtain s where s: "s = f64_round (a + b)" by blast
  note bounds = assms(7-10) f64_round_error [of "a + b", folded s]
  have up: "s < 2 ^ 54 * (M + 1)" if "x \<le> M" "y \<le> M" "M < 2 ^ 51" for M
    using bounds(1,3,5) that assms(1,3,5,6) by simp
  have low: "2 ^ 54 * (m - 1) \<le> s" if "m \<le> x" "m \<le> y" "m < 2 ^ 51" for m
    using bounds(2,4,6) that assms(1,3,5,6) by simp
  have "s \<le> 2 ^ 54 * (max x y + 1) - 1" using assms up [of "max x y"] by simp
  from zdiv_mono1 [OF this, of "2 ^ 54"]
  have "s div 2 ^ 54 \<le> (2 ^ 54 * (max x y + 1) - 1) div 2 ^ 54" by simp
  also have "(2 ^ 54 * (max x y + 1) - 1) div 2 ^ 54 = max x y"
    using div_mult_self4 [of "2 ^ 54" "2 ^ 54 - 1" "max x y"] by (simp add: algebra_simps)
  finally show "f64_round (a + b) div 2 ^ 54 \<le> max x y" by (simp add: s)
  have "2 ^ 54 * (min x y - 1) \<le> s" using assms by (intro low) auto
  from zdiv_mono1 [OF this, of "2 ^ 54"] have "min x y - 1 \<le> s div 2 ^ 54" by simp
  then show "min x y - 1 \<le> f64_round (a + b) div 2 ^ 54" by (simp add: s)
qed

lemma ewma_between:
  assumes "0 \<le> x" "x < 2 ^ 51" "0 \<le> y" "y < 2 ^ 51"
  shows "min x y - 1 \<le> ewma x y" and "ewma x y \<le> max x y"
  using rounded_sum_between [OF assms f64_round_ge0 f64_round_ge0 f64_round_error f64_round_error] assms
  by (simp_all add: ewma_nonneg)

text \<open>
  The language lets a compiler fuse one of the products with the addition, with a single rounding;
  the same bounds hold for both of these evaluations.
\<close>

lemma ewma_fused_between:
  assumes "0 \<le> x" "x < 2 ^ 51" "0 \<le> y" "y < 2 ^ 51"
    and "v = f64_round (12610078956637388 * x + f64_round (5404319552844595 * y))
      \<or> v = f64_round (f64_round (12610078956637388 * x) + 5404319552844595 * y)"
  shows "min x y - 1 \<le> v div 2 ^ 54 \<and> v div 2 ^ 54 \<le> max x y"
  using assms(5)
proof
  assume "v = f64_round (12610078956637388 * x + f64_round (5404319552844595 * y))"
  with rounded_sum_between [OF assms(1-4) _ f64_round_ge0 _ _ f64_round_error, of "12610078956637388 * x"] assms
  show ?thesis by simp
next
  assume "v = f64_round (f64_round (12610078956637388 * x) + 5404319552844595 * y)"
  with rounded_sum_between [OF assms(1-4) f64_round_ge0 _ f64_round_error, of "5404319552844595 * y"] assms
  show ?thesis by simp
qed

lemma probe_threshold_max: "0 < b \<Longrightarrow> b \<le> 2 ^ 61 \<Longrightarrow> probe_threshold b = max (3 * b) second"
  by (auto simp: probe_threshold_def dur_mul_exact fits64_def)

lemma probe_threshold_ge: "second \<le> probe_threshold b"
  by (simp add: probe_threshold_def)

text \<open>
  C19 (functional). Once a baseline exists, a round trip is healthy exactly when it takes at most
  three times the baseline or at most one second. A degraded sample changes nothing; a healthy
  one moves the baseline to a value between the old baseline and the sample (at most a
  nanosecond below the smaller), in spite of the \<open>float64\<close> rounding.
\<close>

theorem probe_verdict:
  assumes "0 < probeRTT s" and "probeRTT s < 2 ^ 51"
  shows "(fst (probeHealthy rtt s) \<longleftrightarrow> rtt \<le> max (3 * probeRTT s) second)
    \<and> (\<not> fst (probeHealthy rtt s) \<longrightarrow> snd (probeHealthy rtt s) = s)
    \<and> (fst (probeHealthy rtt s) \<and> 0 \<le> rtt \<and> rtt < 2 ^ 51 \<longrightarrow>
         min (probeRTT s) rtt - 1 \<le> probeRTT (snd (probeHealthy rtt s))
         \<and> probeRTT (snd (probeHealthy rtt s)) \<le> max (probeRTT s) rtt)"
proof -
  have t: "probe_threshold (probeRTT s) = max (3 * probeRTT s) second"
    using assms by (intro probe_threshold_max) simp_all
  from assms ewma_between [of "probeRTT s" rtt] show ?thesis
    by (auto simp: probeHealthy_def t)
qed

theorem probe_verdict_witness:
  "fst (probeHealthy (45 * millisecond) (sample_direct\<lparr>probeRTT := 40 * millisecond\<rparr>))
   \<and> \<not> fst (probeHealthy (2 * second) (sample_direct\<lparr>probeRTT := 40 * millisecond\<rparr>))"
  using probe_verdict [of "sample_direct\<lparr>probeRTT := 40 * millisecond\<rparr>" "45 * millisecond"]
    probe_verdict [of "sample_direct\<lparr>probeRTT := 40 * millisecond\<rparr>" "2 * second"]
  by (simp add: unit_defs)

lemma probe_fast_step:
  assumes "0 \<le> r" "r \<le> second" "0 \<le> probeRTT s" "probeRTT s \<le> second"
  shows "fst (probeHealthy r s) \<and> 0 \<le> probeRTT (snd (probeHealthy r s))
    \<and> probeRTT (snd (probeHealthy r s)) \<le> second"
proof (cases "probeRTT s \<le> 0")
  case True
  with assms show ?thesis by (simp add: probeHealthy_def)
next
  case False
  have b: "probeRTT s < 2 ^ 51" "r < 2 ^ 51" using assms by (simp_all add: second_def)
  have "ewma (probeRTT s) r \<le> second"
    using ewma_between(2) [OF assms(3) b(1) assms(1) b(2)] assms by simp
  moreover have "0 \<le> ewma (probeRTT s) r"
    by (rule ewma_ge0 [OF assms(3) b(1) assms(1) b(2)])
  moreover have "\<not> probe_threshold (probeRTT s) < r"
    using probe_threshold_ge [of "probeRTT s"] assms(2) by simp
  ultimately show ?thesis using False by (simp add: probeHealthy_def)
qed

lemma probe_slow_step:
  "0 < probeRTT s \<Longrightarrow> probeRTT s < 2 ^ 51 \<Longrightarrow> max (3 * probeRTT s) second < r
     \<Longrightarrow> probeHealthy r s = (False, s)"
  using probe_threshold_max [of "probeRTT s"] by (simp add: probeHealthy_def)

text \<open>A path whose round trips never exceed one second is never judged degraded.\<close>

lemma fast_path_stays_healthy:
  "(\<forall>r \<in> set rs. 0 \<le> r \<and> r \<le> second) \<Longrightarrow> 0 \<le> probeRTT s \<Longrightarrow> probeRTT s \<le> second
     \<Longrightarrow> fst (probe_all rs s) = replicate (length rs) True"
proof (induction rs arbitrary: s)
  case (Cons r rs)
  from Cons.prems have "fst (probeHealthy r s) \<and> 0 \<le> probeRTT (snd (probeHealthy r s))
      \<and> probeRTT (snd (probeHealthy r s)) \<le> second"
    by (intro probe_fast_step) auto
  with Cons.IH [of "snd (probeHealthy r s)"] Cons.prems(1) show ?case
    by (cases "probeHealthy r s") (auto split: prod.split)
qed simp

text \<open>
  Once a baseline exists, a path whose round trips all exceed the threshold of that
  baseline is judged degraded for ever, and the baseline stays what it was: it does not follow a
  lasting change of the path, so the direct path is not verified again until the process restarts
  or a round trip falls below the old threshold.
\<close>

lemma baseline_never_adapts:
  assumes "0 < probeRTT s" and "probeRTT s < 2 ^ 51"
    and "\<forall>r \<in> set rs. max (3 * probeRTT s) second < r"
  shows "probe_all rs s = (replicate (length rs) False, s)"
  using assms by (induction rs) (simp_all add: probe_slow_step)

lemma baseline_never_adapts_sample:
  "probe_all [2 * second, 3 * second] (sample_direct\<lparr>probeRTT := 40 * millisecond\<rparr>)
     = ([False, False], sample_direct\<lparr>probeRTT := 40 * millisecond\<rparr>)"
  using baseline_never_adapts [of "sample_direct\<lparr>probeRTT := 40 * millisecond\<rparr>" "[2 * second, 3 * second]"]
  by (simp add: unit_defs)

end
