(* ===== verification/Node.thy ===== *)
theory Node
  imports GoStrings
begin

text \<open>
  The wrapper around the yggdrasil node (\<^verbatim>\<open>internal/yggss/node.go\<close>): its queries over the
  peerings, the tree and the paths that \<open>core\<close> reports, and the choice of the private key. What
  \<open>core.GetPeers\<close>, \<open>core.GetTree\<close>, \<open>core.GetPaths\<close> and \<open>core.GetSessions\<close> return is an argument.
  \<open>directLinkLatency\<close> of \<^verbatim>\<open>internal/yggss/failover.go\<close> reads the same list of peerings.
\<close>

section \<open>What the node reports\<close>

type_synonym key = string

record peer_info =
  p_URI :: string
  p_Up :: bool
  p_Key :: key
  p_Latency :: duration
  p_Cost :: "64 word"
  p_RXBytes :: "64 word"
  p_TXBytes :: "64 word"

record session_info =
  s_RXBytes :: "64 word"
  s_TXBytes :: "64 word"

record tree_entry =
  t_Key :: key
  t_Parent :: key

record path_entry =
  path_Key :: key
  path_Path :: "64 word list"

definition PublicKeySize :: nat where
  "PublicKeySize = 32"

definition PrivateKeySize :: nat where
  "PrivateKeySize = 64"

section \<open>Queries\<close>

fun ConnectedPeerCount :: "peer_info list \<Rightarrow> nat" where
  "ConnectedPeerCount [] = 0"
| "ConnectedPeerCount (p # ps) = (if p_Up p then Suc (ConnectedPeerCount ps) else ConnectedPeerCount ps)"

fun PeerKeys :: "peer_info list \<Rightarrow> key list" where
  "PeerKeys [] = []"
| "PeerKeys (p # ps) =
     (if p_Up p \<and> length (p_Key p) = PublicKeySize then p_Key p # PeerKeys ps else PeerKeys ps)"

fun TreeParent :: "key \<Rightarrow> tree_entry list \<Rightarrow> key option" where
  "TreeParent self [] = None"
| "TreeParent self (t # ts) = (if t_Key t = self then Some (t_Parent t) else TreeParent self ts)"

fun PathCoords :: "key \<Rightarrow> path_entry list \<Rightarrow> 64 word list option" where
  "PathCoords key [] = None"
| "PathCoords key (p # ps) = (if path_Key p = key then Some (path_Path p) else PathCoords key ps)"

fun IsPeerOf :: "key \<Rightarrow> peer_info list \<Rightarrow> bool" where
  "IsPeerOf key [] = False"
| "IsPeerOf key (p # ps) = (if p_Up p \<and> p_Key p = key then True else IsPeerOf key ps)"

text \<open>The latency of the link to the server, \<open>None\<close> when the link is down (\<open>(0, false)\<close> in the code).\<close>

fun directLinkLatency :: "key \<Rightarrow> peer_info list \<Rightarrow> duration option" where
  "directLinkLatency serverKey [] = None"
| "directLinkLatency serverKey (p # ps) =
     (if p_Up p \<and> p_Key p = serverKey then Some (p_Latency p) else directLinkLatency serverKey ps)"

lemma ConnectedPeerCount_pos: "0 < ConnectedPeerCount ps \<longleftrightarrow> (\<exists>p \<in> set ps. p_Up p)"
  by (induction ps) auto

lemma ConnectedPeerCount_filter: "ConnectedPeerCount ps = length (filter p_Up ps)"
  by (induction ps) auto

lemma IsPeerOf_iff: "IsPeerOf key ps \<longleftrightarrow> (\<exists>p \<in> set ps. p_Up p \<and> p_Key p = key)"
  by (induction ps) auto

lemma directLinkLatency_iff: "directLinkLatency key ps \<noteq> None \<longleftrightarrow> IsPeerOf key ps"
  by (induction ps) auto

lemma set_PeerKeys: "set (PeerKeys ps) = {p_Key p | p. p \<in> set ps \<and> p_Up p \<and> length (p_Key p) = PublicKeySize}"
  by (induction ps) auto

text \<open>
  The three views of the peerings agree: a key of the right size is listed by
  \<open>PeerKeys\<close> exactly when \<open>IsPeerOf\<close> holds for it and exactly when the failover monitor finds a
  latency for it; and then at least one peering counts as connected, so the mesh is active.
\<close>

lemma peer_views_agree:
  assumes "length key = PublicKeySize"
  shows "(key \<in> set (PeerKeys ps) \<longleftrightarrow> IsPeerOf key ps)
    \<and> (directLinkLatency key ps \<noteq> None \<longleftrightarrow> IsPeerOf key ps)
    \<and> (IsPeerOf key ps \<longrightarrow> 0 < ConnectedPeerCount ps)
    \<and> length (PeerKeys ps) \<le> ConnectedPeerCount ps"
proof -
  have "length (PeerKeys ps) \<le> ConnectedPeerCount ps" by (induction ps) auto
  with assms show ?thesis
    by (auto simp: set_PeerKeys IsPeerOf_iff directLinkLatency_iff ConnectedPeerCount_pos
        simp del: not_None_eq)
qed

definition sample_key :: key where
  "sample_key = replicate 32 CHR ''k''"

definition sample_peer :: peer_info where
  "sample_peer = \<lparr>p_URI = ''tls://192.0.2.1:443'', p_Up = True, p_Key = sample_key,
     p_Latency = 20 * millisecond, p_Cost = 1, p_RXBytes = 0, p_TXBytes = 0\<rparr>"

lemma peer_views_agree_sample:
  "sample_key \<in> set (PeerKeys [sample_peer]) \<and> 0 < ConnectedPeerCount [sample_peer]"
proof -
  have "length sample_key = PublicKeySize" by (simp add: sample_key_def PublicKeySize_def)
  from peer_views_agree [OF this, of "[sample_peer]"] show ?thesis
    by (simp add: sample_peer_def)
qed

section \<open>The private key of a new node\<close>

datatype key_error = KeyGenerationFailed string | InvalidHex | WrongKeySize

text \<open>
  The key part of \<open>NewNode\<close>: an empty option gives an ephemeral key, the result \<open>gen\<close> of
  \<open>ed25519.GenerateKey\<close>; anything else must be the hex form of exactly 64 bytes.
\<close>

definition NewNode_key :: "(string + key) \<Rightarrow> string \<Rightarrow> key_error + key" where
  "NewNode_key gen keyHex =
     (if strings_TrimSpace keyHex = [] then
        (case gen of Inl e \<Rightarrow> Inl (KeyGenerationFailed e) | Inr p \<Rightarrow> Inr p)
      else
        (case hex_DecodeString (strings_TrimSpace keyHex) of
           None \<Rightarrow> Inl InvalidHex
         | Some b \<Rightarrow> if length b \<noteq> PrivateKeySize then Inl WrongKeySize else Inr b))"


section \<open>A new node\<close>

text \<open>
  The rest of \<open>NewNode\<close>: the certificate of the key, the options of the core (a group password only
  when one is given) and the core itself. Key generation, certificate generation and \<open>core.New\<close> are
  the fields of \<open>node_env\<close>, with \<open>'c\<close> the certificates and \<open>'k\<close> the running core.
\<close>

datatype setup_option = GroupPassword string

datatype node_error = NodeKey key_error | CertificateFailed string | CoreFailed string

record ('c, 'k) node_env =
  ne_generate :: "string + key"
  ne_certificate :: "key \<Rightarrow> string + 'c"
  ne_core :: "'c \<Rightarrow> setup_option list \<Rightarrow> string + 'k"

record ('c, 'k) node =
  n_Certificate :: 'c
  n_core :: 'k

definition setup_options :: "string \<Rightarrow> setup_option list" where
  "setup_options password = (if password \<noteq> [] then [GroupPassword password] else [])"

definition NewNode :: "('c, 'k) node_env \<Rightarrow> string \<Rightarrow> string \<Rightarrow> node_error + ('c, 'k) node" where
  "NewNode E keyHex password =
     (case NewNode_key (ne_generate E) keyHex of
        Inl e \<Rightarrow> Inl (NodeKey e)
      | Inr priv \<Rightarrow>
          (case ne_certificate E priv of
             Inl e \<Rightarrow> Inl (CertificateFailed e)
           | Inr cert \<Rightarrow>
               (case ne_core E cert (setup_options password) of
                  Inl e \<Rightarrow> Inl (CoreFailed e)
                | Inr c \<Rightarrow> Inr \<lparr>n_Certificate = cert, n_core = c\<rparr>)))"

section \<open>Calls into the core\<close>

text \<open>
  The operations that change the core parse their URI and pass it on. The core is observed through
  the list of these calls, oldest first; its answers are the function \<open>core_answer\<close> (\<open>None\<close> is
  success). A parsed URL is written in its textual form.
\<close>

type_synonym url = string

datatype core_call = CoreAddPeer url | CoreRemovePeer url | CoreListen url | CoreStop

record core_env =
  url_Parse :: "string \<Rightarrow> string + url"
  core_answer :: "core_call \<Rightarrow> string option"

definition core_op :: "core_env \<Rightarrow> (url \<Rightarrow> core_call) \<Rightarrow> string \<Rightarrow> core_call list \<Rightarrow> string option \<times> core_call list" where
  "core_op K mk uri calls =
     (case url_Parse K uri of
        Inl e \<Rightarrow> (Some e, calls)
      | Inr u \<Rightarrow> (core_answer K (mk u), calls @ [mk u]))"

definition AddPeer :: "core_env \<Rightarrow> string \<Rightarrow> core_call list \<Rightarrow> string option \<times> core_call list" where
  "AddPeer K uri calls = core_op K CoreAddPeer uri calls"

definition RemovePeer :: "core_env \<Rightarrow> string \<Rightarrow> core_call list \<Rightarrow> string option \<times> core_call list" where
  "RemovePeer K uri calls = core_op K CoreRemovePeer uri calls"

definition Listen :: "core_env \<Rightarrow> string \<Rightarrow> core_call list \<Rightarrow> string option \<times> core_call list" where
  "Listen K uri calls = core_op K CoreListen uri calls"

definition node_Stop :: "core_call list \<Rightarrow> core_call list" where
  "node_Stop calls = calls @ [CoreStop]"

text \<open>\<open>Close\<close> of the packet connection that carries the mesh tunnel stops the whole node.\<close>

definition packet_Close :: "core_call list \<Rightarrow> core_call list" where
  "packet_Close calls = calls @ [CoreStop]"

lemmas core_call_defs = AddPeer_def RemovePeer_def Listen_def core_op_def

text \<open>A URI that does not parse never reaches the core; every other call is passed on once.\<close>

lemma core_op_calls:
  "core_op K mk uri calls = (r, calls') \<Longrightarrow>
     (case url_Parse K uri of Inl e \<Rightarrow> r = Some e \<and> calls' = calls
      | Inr u \<Rightarrow> r = core_answer K (mk u) \<and> calls' = calls @ [mk u])"
  by (auto simp: core_op_def split: sum.splits)

end
