(* ===== verification/Tunnel.thy ===== *)
theory Tunnel
  imports DirectProps Node
begin

text \<open>
  The client side of the tunnel (\<open>client\<close> of \<^verbatim>\<open>internal/yggss/tunnel.go\<close>, constructors of
  \<^verbatim>\<open>internal/yggss/api.go\<close>): the cached mesh connection, the channel selection of \<open>openStream\<close>
  and the watcher of the mesh connection. The record extends that of the direct client, because
  a client owns exactly one: \<open>has_direct\<close> says that \<open>c.direct\<close> is not nil.
\<close>

section \<open>The probe signature\<close>

type_synonym bytes = "8 word list"

definition probePing :: bytes where
  "probePing = [0x59, 0x21]"

section \<open>State\<close>

record client_state = direct_client +
  has_direct :: bool
  c_node :: bool           \<comment> \<open>\<open>c.node\<close> is not nil\<close>
  c_timeout :: duration
  lastActive :: time
  c_tr :: bool             \<comment> \<open>\<open>c.tr\<close> is not nil\<close>
  c_qconn :: "nat option"
  m_conns :: "nat set"     \<comment> \<open>the connections dialled over the mesh\<close>
  m_watching :: "nat set"  \<comment> \<open>those with a \<open>watchMeshConn\<close> goroutine\<close>

definition touchActivity :: "time \<Rightarrow> 'a client_state_scheme \<Rightarrow> 'a client_state_scheme" where
  "touchActivity now s = s\<lparr>lastActive := now\<rparr>"

definition lastActivity :: "'a client_state_scheme \<Rightarrow> time" where
  "lastActivity s = lastActive s"

definition meshActive :: "peer_info list \<Rightarrow> bool" where
  "meshActive peers = (0 < ConnectedPeerCount peers)"

definition PathState :: "time \<Rightarrow> 'a client_state_scheme \<Rightarrow> path_state" where
  "PathState now s =
     (if \<not> has_direct s then PathMeshOnly
      else if IsVerified now s then PathH2H3
      else probeState s)"

section \<open>The mesh channel\<close>

datatype mesh_error = NoTransport | NoPeering | MeshDialFailed string | MeshOpenFailed string

text \<open>
  The outside of the mesh part of \<open>openStream\<close>: the peerings at its two checks, the answers of
  the stream opens on the cached and on the new connection, and of the dial.
\<close>

record mesh_env =
  me_peers :: "peer_info list"
  me_open :: "string option"
  me_died :: "nat set"
  me_peers_dial :: "peer_info list"
  me_dial :: "string + nat"
  me_open_new :: "string option"
  me_died_new :: "nat set"

definition mesh_reset :: "nat \<Rightarrow> 'a client_state_scheme \<Rightarrow> 'a client_state_scheme" where
  "mesh_reset c s = (close_conn c s)\<lparr>c_qconn := None\<rparr>"

definition mesh_drop_blackhole :: "peer_info list \<Rightarrow> 'a client_state_scheme \<Rightarrow> 'a client_state_scheme" where
  "mesh_drop_blackhole peers s =
     (case c_qconn s of
        None \<Rightarrow> s
      | Some c \<Rightarrow> if c_node s \<and> \<not> meshActive peers then mesh_reset c s else s)"

definition mesh_drop_dead :: "'a client_state_scheme \<Rightarrow> 'a client_state_scheme" where
  "mesh_drop_dead s =
     (case c_qconn s of None \<Rightarrow> s | Some c \<Rightarrow> if c \<in> dead s then mesh_reset c s else s)"

definition mesh_dial_timeout :: "duration \<Rightarrow> duration" where
  "mesh_dial_timeout t = (if 10 * second < t then 10 * second else t)"

definition mesh_dial ::
    "mesh_env \<Rightarrow> 'a client_state_scheme \<Rightarrow> (mesh_error + nat) \<times> 'a client_state_scheme" where
  "mesh_dial M s =
     (if \<not> c_tr s \<or> \<not> c_node s then (Inl NoTransport, s)
      else if \<not> meshActive (me_peers_dial M) then (Inl NoPeering, s)
      else
        (let s1 = emit (CallDialMesh (mesh_dial_timeout (c_timeout s))) s
         in case me_dial M of
              Inl e \<Rightarrow> (Inl (MeshDialFailed e), s1)
            | Inr c \<Rightarrow>
                (let s2 = wait_open c (me_died_new M) (s1\<lparr>m_conns := insert c (m_conns s1)\<rparr>)
                 in case me_open_new M of
                      Some e \<Rightarrow> (Inl (MeshOpenFailed e), close_conn c s2)
                    | None \<Rightarrow> (Inr c, s2\<lparr>c_qconn := Some c, m_watching := insert c (m_watching s2)\<rparr>))))"

text \<open>The part of \<open>openStream\<close> under \<open>c.mu\<close>.\<close>

definition mesh_openStream ::
    "mesh_env \<Rightarrow> 'a client_state_scheme \<Rightarrow> (mesh_error + nat) \<times> 'a client_state_scheme" where
  "mesh_openStream M s =
     (let s1 = mesh_drop_dead (mesh_drop_blackhole (me_peers M) s)
      in case c_qconn s1 of
           None \<Rightarrow> mesh_dial M s1
         | Some c \<Rightarrow>
             (let s2 = wait_open c (me_died M) s1
              in case me_open M of
                   None \<Rightarrow> (Inr c, s2)
                 | Some e \<Rightarrow> mesh_dial M (mesh_reset c s2)))"

text \<open>\<open>watchMeshConn\<close>, once the context of connection \<open>c\<close> is done.\<close>

definition watchMeshConn :: "nat \<Rightarrow> 'a client_state_scheme \<Rightarrow> 'a client_state_scheme" where
  "watchMeshConn c s = (if c_qconn s = Some c then s\<lparr>c_qconn := None\<rparr> else s)"

section \<open>Channel selection\<close>

datatype stream = DirectStream nat | MeshStream nat

record client_env =
  ce_now :: time
  ce_direct :: open_env
  ce_died :: "nat set"   \<comment> \<open>connections that die before \<open>connAlive\<close> is asked\<close>
  ce_mesh :: mesh_env

text \<open>After an error of the direct path: the downgrade, unless the connection is still alive.\<close>

definition direct_refused :: "'a client_state_scheme \<Rightarrow> 'a client_state_scheme" where
  "direct_refused s =
     (if \<not> connAlive s then setProbeState PathMeshFallback (MarkFailed s) else s)"

definition mesh_stream ::
    "mesh_env \<Rightarrow> 'a client_state_scheme \<Rightarrow> (mesh_error + stream) \<times> 'a client_state_scheme" where
  "mesh_stream M s =
     (case mesh_openStream M s of
        (Inl e, s1) \<Rightarrow> (Inl e, s1)
      | (Inr c, s1) \<Rightarrow> (Inr (MeshStream c), s1))"

definition client_openStream ::
    "client_env \<Rightarrow> 'a client_state_scheme \<Rightarrow> (mesh_error + stream) \<times> 'a client_state_scheme" where
  "client_openStream CE s =
     (if has_direct s \<and> IsVerified (ce_now CE) s then
        (case openStream (ce_direct CE) s of
           (Inr c, s1) \<Rightarrow> (Inr (DirectStream c), s1)
         | (Inl e, s1) \<Rightarrow>
             mesh_stream (ce_mesh CE) (direct_refused (s1\<lparr>dead := dead s1 \<union> ce_died CE\<rparr>)))
      else mesh_stream (ce_mesh CE) s)"

text \<open>\<open>handle\<close> of one accepted connection, up to the copying (which is theory \<open>Pipe\<close>).\<close>

definition handle_open ::
    "time \<Rightarrow> client_env \<Rightarrow> 'a client_state_scheme \<Rightarrow> (mesh_error + stream) \<times> 'a client_state_scheme" where
  "handle_open now CE s = client_openStream CE (touchActivity now s)"

section \<open>Construction\<close>

text \<open>
  \<open>NewClient\<close>: the fields of the options, zero values elsewhere; with a direct client, its prober
  is started. \<open>Run\<close> creates the mesh transport and, when the listener opens, touches the activity.
\<close>

record client_options =
  co_node :: bool
  co_timeout :: duration
  co_direct :: "direct_client option"

definition no_direct :: direct_client where
  "no_direct = NewDirectClient
     \<lparr>o_node = False, o_serverAddr = [], o_timeout = 0, o_retryPeriod = 0\<rparr>"

definition NewClient :: "client_options \<Rightarrow> nat \<Rightarrow> client_state" where
  "NewClient opts ch =
     (let d = (case co_direct opts of None \<Rightarrow> no_direct | Some d \<Rightarrow> d);
          c = direct_client.extend d
            \<lparr>has_direct = co_direct opts \<noteq> None, c_node = co_node opts, c_timeout = co_timeout opts,
             lastActive = 0, c_tr = False, c_qconn = None, m_conns = {}, m_watching = {}\<rparr>
      in if co_direct opts \<noteq> None then startProber ch c else c)"

definition client_Run :: "bool \<Rightarrow> time \<Rightarrow> 'a client_state_scheme \<Rightarrow> bool \<times> 'a client_state_scheme" where
  "client_Run listens now s =
     (let s1 = s\<lparr>c_tr := True\<rparr>
      in if listens then (True, touchActivity now s1) else (False, s1))"

end
