(* ===== verification/TunnelProps.thy ===== *)
theory TunnelProps
  imports Tunnel
begin

text \<open>
  Properties of the client: ownership of the mesh connection (the mesh path is a second instance
  of \<open>stream_channel\<close>), the black-hole and dead-connection checks, and the channel selection with
  its fallback, its isolation of the unverified direct path and its bound on waiting.
\<close>

section \<open>Ownership of the mesh connection\<close>

definition mesh_inv :: "'a client_state_scheme \<Rightarrow> bool" where
  "mesh_inv s \<longleftrightarrow>
     m_conns s - dead s \<subseteq> set_option (c_qconn s) \<and> set_option (c_qconn s) \<subseteq> m_conns s
     \<and> set_option (c_qconn s) \<subseteq> m_watching s"

lemma mesh_wait_fields [simp]:
  "c_qconn (wait_open c D s) = c_qconn s" "m_conns (wait_open c D s) = m_conns s"
  "m_watching (wait_open c D s) = m_watching s" "c_tr (wait_open c D s) = c_tr s"
  "c_node (wait_open c D s) = c_node s" "c_timeout (wait_open c D s) = c_timeout s"
  by (simp_all add: state_defs)

lemma mesh_reset_fields [simp]:
  "c_qconn (mesh_reset c s) = None" "m_conns (mesh_reset c s) = m_conns s"
  "m_watching (mesh_reset c s) = m_watching s" "dead (mesh_reset c s) = insert c (dead s)"
  "trace (mesh_reset c s) = CallCloseConn c # trace s" "c_tr (mesh_reset c s) = c_tr s"
  "c_node (mesh_reset c s) = c_node s" "c_timeout (mesh_reset c s) = c_timeout s"
  by (simp_all add: mesh_reset_def state_defs)

lemma mesh_inv_wait: "mesh_inv s \<Longrightarrow> mesh_inv (wait_open c D s)"
  by (auto simp: mesh_inv_def)

lemma mesh_inv_reset: "mesh_inv s \<Longrightarrow> c_qconn s = Some c \<Longrightarrow> mesh_inv (mesh_reset c s)"
  by (auto simp: mesh_inv_def)

lemma mesh_inv_drops: "mesh_inv s \<Longrightarrow> mesh_inv (mesh_drop_dead (mesh_drop_blackhole peers s))"
  by (auto simp: mesh_drop_dead_def mesh_drop_blackhole_def mesh_inv_reset split: option.split)

lemma mesh_drops_alive:
  "c_qconn (mesh_drop_dead (mesh_drop_blackhole peers s)) = Some c
     \<Longrightarrow> mesh_drop_dead (mesh_drop_blackhole peers s) = s \<and> c_qconn s = Some c \<and> c \<notin> dead s
       \<and> (c_node s \<longrightarrow> meshActive peers)"
  by (auto simp: mesh_drop_dead_def mesh_drop_blackhole_def split: option.splits if_splits)

lemma mesh_dial_inv:
  assumes "mesh_inv s" and "c_qconn s = None"
  shows "mesh_inv (snd (mesh_dial M s))"
  using assms
  by (auto simp: mesh_dial_def mesh_inv_def state_defs Let_def split: sum.split option.split)

lemma mesh_openStream_inv: "mesh_inv s \<Longrightarrow> mesh_inv (snd (mesh_openStream M s))"
  by (auto simp: mesh_openStream_def Let_def
      intro!: mesh_dial_inv mesh_inv_drops mesh_inv_wait mesh_inv_reset split: option.split)

lemma mesh_dial_result:
  "mesh_dial M s = (Inr c, s') \<Longrightarrow> c_qconn s' = Some c \<and> c \<in> m_conns s'"
  by (auto simp: mesh_dial_def state_defs Let_def split: sum.splits option.splits if_splits)

lemma mesh_openStream_result:
  "mesh_inv s \<Longrightarrow> mesh_openStream M s = (Inr c, s') \<Longrightarrow> c_qconn s' = Some c \<and> c \<in> m_conns s'"
  by (auto simp: mesh_openStream_def Let_def mesh_inv_def split: option.splits
      dest!: mesh_dial_result mesh_drops_alive)

lemma mesh_dial_grows:
  "dead s \<subseteq> dead (snd (mesh_dial M s)) \<and> m_conns s \<subseteq> m_conns (snd (mesh_dial M s))"
  by (auto simp: mesh_dial_def state_defs Let_def split: sum.split option.split)

lemma mesh_drops_grow:
  "dead s \<subseteq> dead (mesh_drop_dead (mesh_drop_blackhole peers s))
   \<and> m_conns (mesh_drop_dead (mesh_drop_blackhole peers s)) = m_conns s"
  by (auto simp: mesh_drop_dead_def mesh_drop_blackhole_def split: option.split)

lemma mesh_openStream_grows:
  "dead s \<subseteq> dead (snd (mesh_openStream M s)) \<and> m_conns s \<subseteq> m_conns (snd (mesh_openStream M s))"
proof -
  let ?t = "mesh_drop_dead (mesh_drop_blackhole (me_peers M) s)"
  have "dead ?t \<subseteq> dead (snd (mesh_openStream M s)) \<and> m_conns ?t \<subseteq> m_conns (snd (mesh_openStream M s))"
    using mesh_dial_grows [of ?t M]
      mesh_dial_grows [of "mesh_reset c (wait_open c (me_died M) ?t)" M for c]
    by (auto simp: mesh_openStream_def Let_def split: option.split)
  with mesh_drops_grow [of s "me_peers M"] show ?thesis by auto
qed

interpretation mesh_channel: stream_channel mesh_openStream c_qconn m_conns dead "\<lambda>_ _. True" mesh_inv
proof
  fix s :: "'a client_state_scheme" and M c s'
  show "mesh_inv s \<Longrightarrow> mesh_inv (snd (mesh_openStream M s))" by (rule mesh_openStream_inv)
  show "mesh_inv s \<Longrightarrow> m_conns s - dead s \<subseteq> set_option (c_qconn s)" by (simp add: mesh_inv_def)
  show "dead s \<subseteq> dead (snd (mesh_openStream M s))" by (rule mesh_openStream_grows [THEN conjunct1])
  show "m_conns s \<subseteq> m_conns (snd (mesh_openStream M s))" by (rule mesh_openStream_grows [THEN conjunct2])
  show "mesh_inv s \<Longrightarrow> mesh_openStream M s = (Inr c, s') \<Longrightarrow> c_qconn s' = Some c \<and> c \<in> m_conns s'"
    by (rule mesh_openStream_result)
qed

lemma mesh_all_ok: "mesh_channel.all_ok Ms s"
  by (induction Ms arbitrary: s) simp_all

text \<open>
  The same ownership for the mesh: after any sequence of stream opens, every
  connection whose streams were handed out is the cached one or closed; a mesh connection is
  never forgotten while it is alive.
\<close>

lemma mesh_streams_owned:
  assumes "mesh_inv s" and "mesh_channel.run_opens Ms s = (streams, s')" and "c \<in> streams"
  shows "c \<in> dead s' \<or> c_qconn s' = Some c"
  using mesh_channel.run_streams_owned [OF assms(1) mesh_all_ok, of c Ms] assms by simp

section \<open>Samples\<close>

definition sample_client :: client_state where
  "sample_client = snd (client_Run True 0 (NewClient
     \<lparr>co_node = True, co_timeout = 30 * second, co_direct = Some sample_direct\<rparr> 0))"

definition sample_mesh :: "(string + nat) \<Rightarrow> string option \<Rightarrow> mesh_env" where
  "sample_mesh d e =
     \<lparr>me_peers = [sample_peer], me_open = e, me_died = {}, me_peers_dial = [sample_peer],
      me_dial = d, me_open_new = None, me_died_new = {}\<rparr>"

lemma sample_client_eq:
  "sample_client =
     \<lparr>dead = {}, trs = {}, socks = {}, trace = [], d_node = True, serverAddr = ''192.0.2.1:443'',
      d_timeout = 5 * second, retryPeriod = 10 * second, d_tr = None, d_qconn = None,
      failUntil = None, d_owner = True, probeState = PathMeshOnly, probeRTT = 0,
      verifiedUntil = None, probeStop = Some 0, probeActive = True, d_conns = {}, watching = {},
      probers = {0}, stopped = {}, has_direct = True, c_node = True, c_timeout = 30 * second,
      lastActive = 0, c_tr = True, c_qconn = None, m_conns = {}, m_watching = {}\<rparr>"
  by (simp add: sample_client_def client_Run_def NewClient_def startProber_def touchActivity_def
      sample_defs direct_client.defs second_def)

lemma sample_mesh_active [simp]: "meshActive [sample_peer]"
  by (simp add: meshActive_def sample_peer_def)

lemmas mesh_defs = mesh_stream_def mesh_openStream_def mesh_drop_dead_def mesh_drop_blackhole_def
  mesh_dial_def mesh_dial_timeout_def

lemma sample_mesh_opened:
  "mesh_openStream (sample_mesh (Inr 5) None) sample_client =
     (Inr 5, sample_client\<lparr>c_qconn := Some 5, m_conns := {5}, m_watching := {5},
        trace := [CallOpenStream 5 openStreamTimeout, CallDialMesh (10 * second)]\<rparr>)"
  by (simp add: mesh_defs sample_mesh_def sample_client_eq state_defs second_def)

lemma mesh_streams_owned_sample:
  "let s' = snd (mesh_channel.run_opens [sample_mesh (Inr 5) None] sample_client)
   in 5 \<in> dead s' \<or> c_qconn s' = Some 5"
proof -
  obtain cs s' where r: "mesh_channel.run_opens [sample_mesh (Inr 5) None] sample_client = (cs, s')"
    by fastforce
  have "5 \<in> fst (mesh_channel.run_opens [sample_mesh (Inr 5) None] sample_client)"
    by (simp add: sample_mesh_opened)
  moreover have "mesh_inv sample_client" by (simp add: mesh_inv_def sample_client_eq)
  ultimately show ?thesis using mesh_streams_owned [OF _ r, of 5] r by simp
qed

section \<open>Stale mesh connections\<close>

text \<open>
  C17 (functional). A cached mesh connection that is closed, or whose node has no peering left, is
  closed and forgotten before any stream is opened on it; the call goes on exactly as if nothing
  had been cached. With no peering it then fails at once, without dialling.
\<close>

theorem stale_mesh_connection_replaced:
  assumes "c_qconn s = Some c" and "c \<in> dead s \<or> (c_node s \<and> \<not> meshActive (me_peers M))"
  shows "mesh_openStream M s = mesh_dial M (mesh_reset c s)
    \<and> (c_tr s \<and> c_node s \<and> \<not> meshActive (me_peers_dial M) \<longrightarrow>
         mesh_openStream M s = (Inl NoPeering, mesh_reset c s)
         \<and> trace (snd (mesh_openStream M s)) = CallCloseConn c # trace s)"
proof -
  have "mesh_drop_dead (mesh_drop_blackhole (me_peers M) s) = mesh_reset c s"
    using assms by (auto simp: mesh_drop_dead_def mesh_drop_blackhole_def)
  then have "mesh_openStream M s = mesh_dial M (mesh_reset c s)"
    by (simp add: mesh_openStream_def)
  then show ?thesis by (simp add: mesh_dial_def)
qed

theorem stale_mesh_connection_replaced_witness:
  "mesh_openStream ((sample_mesh (Inr 6) None)\<lparr>me_peers := [], me_peers_dial := []\<rparr>)
     (sample_client\<lparr>c_qconn := Some 5\<rparr>)
   = (Inl NoPeering, mesh_reset 5 (sample_client\<lparr>c_qconn := Some 5\<rparr>))"
proof -
  let ?s = "sample_client\<lparr>c_qconn := Some 5\<rparr>"
    and ?M = "(sample_mesh (Inr 6) None)\<lparr>me_peers := [], me_peers_dial := []\<rparr>"
  have "c_qconn ?s = Some 5" "c_tr ?s" "c_node ?s" "\<not> meshActive (me_peers ?M)"
    "\<not> meshActive (me_peers_dial ?M)"
    by (simp_all add: meshActive_def sample_client_eq)
  with stale_mesh_connection_replaced [of ?s 5 ?M] show ?thesis by blast
qed

section \<open>Frames between the two paths\<close>

text \<open>What the mesh path leaves alone of the direct path, and the other way round.\<close>

definition same_direct :: "'a client_state_scheme \<Rightarrow> 'a client_state_scheme \<Rightarrow> bool" where
  "same_direct s s' \<longleftrightarrow>
     d_qconn s' = d_qconn s \<and> d_tr s' = d_tr s \<and> trs s' = trs s \<and> d_conns s' = d_conns s
     \<and> watching s' = watching s \<and> verifiedUntil s' = verifiedUntil s \<and> failUntil s' = failUntil s
     \<and> probeState s' = probeState s \<and> probeRTT s' = probeRTT s \<and> socks s' = socks s
     \<and> probers s' = probers s \<and> stopped s' = stopped s \<and> probeStop s' = probeStop s
     \<and> probeActive s' = probeActive s"

definition same_mesh :: "'a client_state_scheme \<Rightarrow> 'a client_state_scheme \<Rightarrow> bool" where
  "same_mesh s s' \<longleftrightarrow>
     c_qconn s' = c_qconn s \<and> m_conns s' = m_conns s \<and> m_watching s' = m_watching s
     \<and> c_tr s' = c_tr s \<and> c_node s' = c_node s \<and> c_timeout s' = c_timeout s
     \<and> has_direct s' = has_direct s \<and> lastActive s' = lastActive s"

lemma same_direct_mesh_dial: "same_direct s (snd (mesh_dial M s))"
  by (auto simp: same_direct_def mesh_dial_def state_defs Let_def split: sum.split option.split)

lemma same_direct_trans: "same_direct s t \<Longrightarrow> same_direct t u \<Longrightarrow> same_direct s u"
  by (auto simp: same_direct_def)

lemma same_direct_reset: "same_direct s (mesh_reset c s)"
  by (simp add: same_direct_def mesh_reset_def state_defs)

lemma same_direct_wait: "same_direct s (wait_open c D s)"
  by (simp add: same_direct_def state_defs)

lemma same_direct_drops: "same_direct s (mesh_drop_dead (mesh_drop_blackhole peers s))"
  by (auto simp: same_direct_def mesh_drop_dead_def mesh_drop_blackhole_def mesh_reset_def state_defs
      split: option.split)

lemma same_direct_mesh: "same_direct s (snd (mesh_openStream M s))"
proof -
  let ?t = "mesh_drop_dead (mesh_drop_blackhole (me_peers M) s)"
  have dial: "same_direct s (snd (mesh_dial M ?t))"
    by (rule same_direct_trans [OF same_direct_drops same_direct_mesh_dial])
  have wait: "same_direct s (wait_open c (me_died M) ?t)" for c
    by (rule same_direct_trans [OF same_direct_drops same_direct_wait])
  have "same_direct s (snd (mesh_dial M (mesh_reset c (wait_open c (me_died M) ?t))))" for c
    by (rule same_direct_trans [OF wait same_direct_trans [OF same_direct_reset same_direct_mesh_dial]])
  with dial wait show ?thesis
    by (simp add: mesh_openStream_def Let_def split: option.split)
qed

lemma mesh_stream_snd [simp]: "snd (mesh_stream M s) = snd (mesh_openStream M s)"
  by (simp add: mesh_stream_def split: prod.split sum.split)

lemma same_mesh_dialTransport: "same_mesh s (snd (directDialTransport E a t s))"
  by (auto simp: same_mesh_def directDialTransport_def state_defs Let_def split: sum.split option.split)

lemma same_mesh_trans: "same_mesh s t \<Longrightarrow> same_mesh t u \<Longrightarrow> same_mesh s u"
  by (auto simp: same_mesh_def)

lemma same_mesh_redial: "same_mesh s (snd (redial E s))"
  using same_mesh_dialTransport [of s "oe_dial E" "serverAddr s" "d_timeout s"]
  by (auto simp: redial_def same_mesh_def split: prod.split sum.split)

lemma same_mesh_drop: "same_mesh s (dropConnLocked s)"
  by (auto simp: same_mesh_def dropConnLocked_def state_defs Let_def split: option.split)

lemma same_mesh_wait: "same_mesh s (wait_open c D s)"
  by (simp add: same_mesh_def state_defs)

lemma same_mesh_locked: "same_mesh s (snd (openStream_locked E s))"
  by (auto simp: openStream_locked_def Let_def split: option.split
      intro: same_mesh_trans [OF same_mesh_drop same_mesh_redial] same_mesh_wait
        same_mesh_trans [OF same_mesh_wait same_mesh_trans [OF same_mesh_drop same_mesh_redial]])
    (simp_all add: same_mesh_def)

lemma same_mesh_openStream: "same_mesh s (snd (openStream E s))"
proof (cases "openStream_locked E s")
  case (Pair r s1)
  with same_mesh_locked [of s E] have "same_mesh s s1" by simp
  with Pair show ?thesis
    by (auto simp: openStream_def openStream_failed_def openStream_new_def spawn_watch_def Let_def
        same_mesh_def state_defs split: locked_result.split option.split)
qed

section \<open>Both paths together\<close>

definition client_inv :: "'a client_state_scheme \<Rightarrow> bool" where
  "client_inv s \<longleftrightarrow> direct_inv s \<and> mesh_inv s"

lemma same_mesh_inv: "same_mesh s s' \<Longrightarrow> dead s \<subseteq> dead s' \<Longrightarrow> mesh_inv s \<Longrightarrow> mesh_inv s'"
  by (auto simp: same_mesh_def mesh_inv_def)

lemma same_direct_inv: "same_direct s s' \<Longrightarrow> dead s \<subseteq> dead s' \<Longrightarrow> direct_inv s \<Longrightarrow> direct_inv s'"
  by (auto simp: same_direct_def direct_inv_def transport_inv_def)

lemma same_direct_verified: "same_direct s s' \<Longrightarrow> IsVerified t s' = IsVerified t s"
  by (simp add: same_direct_def IsVerified_def)

lemma mesh_stream_inv:
  assumes "client_inv s"
  shows "client_inv (snd (mesh_stream M s))"
  using assms same_direct_inv [OF same_direct_mesh [of s M]] mesh_openStream_inv [of s M]
    mesh_openStream_grows [of s M]
  by (simp add: client_inv_def)

lemma client_inv_direct:
  assumes "client_inv s"
  shows "client_inv (snd (openStream E s))"
  using assms same_mesh_inv [OF same_mesh_openStream [of s E]] openStream_grows [of s E]
    openStream_summary(1) [of E s "fst (openStream E s)" "snd (openStream E s)"]
  by (simp add: client_inv_def)

lemma client_inv_dies: "client_inv s \<Longrightarrow> client_inv (s\<lparr>dead := dead s \<union> D\<rparr>)"
  by (auto simp: client_inv_def direct_inv_def transport_inv_def mesh_inv_def)

lemma client_inv_refused [simp]: "client_inv (direct_refused s) = client_inv s"
  by (simp add: direct_refused_def client_inv_def direct_inv_def mesh_inv_def state_defs transport_inv_def)

lemma client_inv_touch [simp]: "client_inv (touchActivity now s) = client_inv s"
  by (simp add: touchActivity_def client_inv_def direct_inv_def transport_inv_def mesh_inv_def)

text \<open>The two ways a call of \<open>openStream\<close> goes.\<close>

lemma client_openStream_cases:
  obtains (direct) c s1 where "has_direct s" "IsVerified (ce_now CE) s"
      "openStream (ce_direct CE) s = (Inr c, s1)" "client_openStream CE s = (Inr (DirectStream c), s1)"
    | (refused) e s1 where "has_direct s" "IsVerified (ce_now CE) s"
      "openStream (ce_direct CE) s = (Inl e, s1)"
      "client_openStream CE s =
         mesh_stream (ce_mesh CE) (direct_refused (s1\<lparr>dead := dead s1 \<union> ce_died CE\<rparr>))"
    | (mesh) "\<not> (has_direct s \<and> IsVerified (ce_now CE) s)"
      "client_openStream CE s = mesh_stream (ce_mesh CE) s"
proof (cases "has_direct s \<and> IsVerified (ce_now CE) s")
  case True
  obtain r s1 where "openStream (ce_direct CE) s = (r, s1)" by (cases "openStream (ce_direct CE) s")
  with True show thesis
    by (cases r) (auto simp: client_openStream_def intro: direct refused)
qed (auto simp: client_openStream_def intro: mesh)

lemma mesh_stream_outcome:
  assumes "client_inv s" and "mesh_stream M s = (r, s')"
  shows "client_inv s' \<and> (\<forall>st. r = Inr st \<longrightarrow> (\<exists>c. st = MeshStream c \<and> c_qconn s' = Some c))"
proof -
  have "client_inv s'" using mesh_stream_inv [OF assms(1), of M] assms(2)
    by (metis mesh_stream_snd snd_conv)
  moreover have "\<exists>c. st = MeshStream c \<and> c_qconn s' = Some c" if "r = Inr st" for st
    using assms that mesh_openStream_result [of s M]
    by (auto simp: mesh_stream_def client_inv_def split: prod.splits sum.splits)
  ultimately show ?thesis by blast
qed

text \<open>
  C2 (invariant). Opening a stream on either channel keeps the ownership invariants of both
  paths, and the stream handed out rides the connection that is cached for its channel
  afterwards; a direct stream is only handed out while the direct path is verified.
\<close>

theorem channel_selection_sound:
  assumes "client_inv s" and "handle_open now CE s = (r, s')"
  shows "client_inv s' \<and>
    (case r of
       Inl e \<Rightarrow> True
     | Inr (DirectStream c) \<Rightarrow> d_qconn s' = Some c \<and> has_direct s \<and> IsVerified (ce_now CE) s
     | Inr (MeshStream c) \<Rightarrow> c_qconn s' = Some c)"
proof -
  let ?s = "touchActivity now s"
  have i: "client_inv ?s" using assms(1) by simp
  have t: "has_direct ?s = has_direct s" "IsVerified u ?s = IsVerified u s" for u
    by (simp_all add: touchActivity_def IsVerified_def)
  have o: "client_openStream CE ?s = (r, s')" using assms(2) by (simp add: handle_open_def)
  show ?thesis
  proof (cases rule: client_openStream_cases [of ?s CE])
    case (direct c s1)
    with i o t client_inv_direct [OF i, of "ce_direct CE"]
      openStream_summary(4) [OF direct(3), of c] show ?thesis
      by (auto simp: client_inv_def)
  next
    case (refused e s1)
    let ?t = "direct_refused (s1\<lparr>dead := dead s1 \<union> ce_died CE\<rparr>)"
    have it: "client_inv ?t"
      using client_inv_direct [OF i, of "ce_direct CE"] refused(3) client_inv_dies by simp
    from mesh_stream_outcome [OF it, of "ce_mesh CE" r s'] refused(4) o show ?thesis
      by (auto split: sum.split stream.split)
  next
    case mesh
    with o mesh_stream_outcome [OF i, of "ce_mesh CE" r s'] show ?thesis
      by (auto split: sum.split stream.split)
  qed
qed

definition sample_ce :: "open_env \<Rightarrow> mesh_env \<Rightarrow> client_env" where
  "sample_ce E M = \<lparr>ce_now = oe_now E, ce_direct = E, ce_died = {}, ce_mesh = M\<rparr>"

lemma sample_client_inv: "client_inv sample_client"
  by (simp add: client_inv_def direct_inv_def transport_inv_def mesh_inv_def sample_client_eq)

theorem channel_selection_sound_witness:
  "\<exists>s'. handle_open 9 (sample_ce (sample_env 9 (Inr 3) None) (sample_mesh (Inr 5) None)) sample_client
      = (Inr (MeshStream 5), s') \<and> c_qconn s' = Some 5"
proof -
  let ?CE = "sample_ce (sample_env 9 (Inr 3) None) (sample_mesh (Inr 5) None)"
  have "fst (handle_open 9 ?CE sample_client) = Inr (MeshStream 5)"
    by (simp add: handle_open_def client_openStream_def sample_ce_def sample_client_eq touchActivity_def
        IsVerified_def mesh_defs sample_mesh_def state_defs second_def)
  then obtain s' where r: "handle_open 9 ?CE sample_client = (Inr (MeshStream 5), s')"
    by (metis prod.collapse)
  from channel_selection_sound [OF sample_client_inv r] r show ?thesis by simp
qed

end
