(* ===== verification/ChannelProps.thy ===== *)
theory ChannelProps
  imports TunnelProps
begin

text \<open>
  The channel selection of \<open>client.openStream\<close>: isolation of an unverified direct path, the
  downgrade after a failure and its absence after a transient error, availability through the
  mesh, and the bound on the time one user stream may wait for quic-go.
\<close>

section \<open>Calls of the mesh path\<close>

text \<open>What the mesh path may call: nothing of UDP, and everything with a timeout.\<close>

fun mesh_call :: "call \<Rightarrow> bool" where
  "mesh_call (CallDialUDP a t) = False"
| "mesh_call (CallOpenStream c t) = (t = 10 * second)"
| "mesh_call (CallDialMesh t) = (t \<le> 10 * second)"
| "mesh_call (CallCloseConn c) = True"
| "mesh_call (CallCloseTransport t) = False"

lemma mesh_call_bounded: "mesh_call c \<Longrightarrow> bounded_call c"
  by (cases c) auto

lemma spends_weaken: "spends P t s s' \<Longrightarrow> (\<And>c. P c \<Longrightarrow> Q c) \<Longrightarrow> spends Q t s s'"
  by (auto simp: spends_def list_all_iff)

lemma spends_reset: "spends mesh_call 0 s (mesh_reset c s)"
  by (rule spends_one [of _ "CallCloseConn c"]) simp_all

lemma spends_mesh_drops: "spends mesh_call 0 s (mesh_drop_dead (mesh_drop_blackhole peers s))"
  by (auto simp: mesh_drop_dead_def mesh_drop_blackhole_def
      intro: spends_reset spends_refl split: option.split)

lemma mesh_dial_timeout_le: "mesh_dial_timeout t \<le> 10 * second"
  by (simp add: mesh_dial_timeout_def)

lemma spends_mesh_dial: "spends mesh_call (20 * second) s (snd (mesh_dial M s))"
  using mesh_dial_timeout_le [of "c_timeout s"]
  by (auto simp: mesh_dial_def state_defs Let_def spends_def second_def openStreamTimeout_def
      split: sum.split option.split)

lemma spends_mesh_wait: "spends mesh_call (10 * second) s (wait_open c D s)"
  by (rule spends_one [of _ "CallOpenStream c openStreamTimeout"])
    (simp_all add: openStreamTimeout_def state_defs)

lemma spends_mesh_stream: "spends mesh_call (30 * second) s (snd (mesh_stream M s))"
proof -
  let ?t = "mesh_drop_dead (mesh_drop_blackhole (me_peers M) s)"
  have dial: "spends mesh_call (30 * second) s (snd (mesh_dial M ?t))"
    by (rule spends_trans [OF spends_mesh_drops spends_mesh_dial]) (simp add: second_def)
  have wait: "spends mesh_call (10 * second) s (wait_open c (me_died M) ?t)" for c
    by (rule spends_trans [OF spends_mesh_drops spends_mesh_wait]) simp
  have wait30: "spends mesh_call (30 * second) s (wait_open c (me_died M) ?t)" for c
    by (rule spends_trans [OF wait spends_refl [OF order_refl refl]]) (simp add: second_def)
  have reset: "spends mesh_call (10 * second) s (mesh_reset c (wait_open c (me_died M) ?t))" for c
    by (rule spends_trans [OF wait spends_reset]) simp
  have redial: "spends mesh_call (30 * second) s
      (snd (mesh_dial M (mesh_reset c (wait_open c (me_died M) ?t))))" for c
    by (rule spends_trans [OF reset spends_mesh_dial]) (simp add: second_def)
  from dial wait30 redial show ?thesis
    by (simp add: mesh_openStream_def Let_def split: option.split)
qed

section \<open>An unverified direct path carries nothing\<close>

text \<open>
  C6 (safety). While the direct path is not verified (or there is none), a user stream is served
  by the mesh alone: the direct state is untouched, and among the calls made there is no UDP dial
  and no call that could wait longer than its ten-second timeout.
\<close>

theorem unverified_streams_stay_on_mesh:
  assumes "has_direct s \<Longrightarrow> \<not> IsVerified (ce_now CE) s"
  shows "client_openStream CE s = mesh_stream (ce_mesh CE) s
    \<and> same_direct s (snd (client_openStream CE s))
    \<and> (\<exists>new. trace (snd (client_openStream CE s)) = new @ trace s \<and> list_all mesh_call new)"
proof -
  have "client_openStream CE s = mesh_stream (ce_mesh CE) s"
    using assms by (auto simp: client_openStream_def)
  then show ?thesis
    using same_direct_mesh [of s "ce_mesh CE"] spends_mesh_stream [of s "ce_mesh CE"]
    by (auto simp: spends_def)
qed

theorem unverified_streams_stay_on_mesh_witness:
  "let CE = sample_ce (sample_env 9 (Inr 3) None) (sample_mesh (Inr 5) None)
   in client_openStream CE sample_client = mesh_stream (ce_mesh CE) sample_client
      \<and> mesh_stream (ce_mesh CE) sample_client \<noteq> (Inl NoPeering, sample_client)"
proof -
  let ?CE = "sample_ce (sample_env 9 (Inr 3) None) (sample_mesh (Inr 5) None)"
  have "\<not> IsVerified (ce_now ?CE) sample_client"
    by (simp add: IsVerified_def sample_client_eq)
  from unverified_streams_stay_on_mesh [of sample_client ?CE, OF this]
  show ?thesis by (simp add: sample_ce_def mesh_stream_def sample_mesh_opened)
qed

section \<open>Serving from the mesh\<close>

text \<open>The mesh can be dialled: a peering is up, and the dial and the stream on it succeed.\<close>

definition mesh_can_dial :: "mesh_env \<Rightarrow> bool" where
  "mesh_can_dial M \<longleftrightarrow> meshActive (me_peers_dial M) \<and> (case me_dial M of Inl _ \<Rightarrow> False | Inr _ \<Rightarrow> True)
     \<and> me_open_new M = None"

lemma mesh_dial_available:
  assumes "c_tr s" and "c_node s" and "meshActive (me_peers_dial M)"
    and "me_dial M = Inr c" and "me_open_new M = None"
  shows "\<exists>s'. mesh_dial M s = (Inr c, s')"
  using assms by (simp add: mesh_dial_def Let_def)

lemma mesh_drop_fields [simp]:
  "c_tr (mesh_drop_dead (mesh_drop_blackhole peers s)) = c_tr s"
  "c_node (mesh_drop_dead (mesh_drop_blackhole peers s)) = c_node s"
  by (auto simp: mesh_drop_dead_def mesh_drop_blackhole_def split: option.split)

lemma mesh_stream_available:
  assumes "c_tr s" and "c_node s" and "meshActive (me_peers_dial M)"
    and "me_dial M = Inr c" and "me_open_new M = None"
  shows "\<exists>st s'. mesh_stream M s = (Inr st, s')"
proof -
  let ?t = "mesh_drop_dead (mesh_drop_blackhole (me_peers M) s)"
  have d: "\<exists>s'. mesh_dial M u = (Inr c, s')" if "c_tr u" "c_node u" for u
    by (rule mesh_dial_available) (use assms that in simp_all)
  have "\<exists>c s'. mesh_openStream M s = (Inr c, s')"
  proof (cases "c_qconn ?t")
    case None
    with assms d [of ?t] show ?thesis by (auto simp: mesh_openStream_def)
  next
    case (Some c')
    with assms d [of "mesh_reset c' (wait_open c' (me_died M) ?t)"] show ?thesis
      by (cases "me_open M") (auto simp: mesh_openStream_def Let_def)
  qed
  then show ?thesis by (auto simp: mesh_stream_def)
qed

lemma mesh_stream_kind: "fst (mesh_stream M s) \<noteq> Inr (DirectStream c)"
  by (auto simp: mesh_stream_def split: prod.split sum.split)

lemma mesh_stream_kind_ok:
  assumes "mesh_stream M s = (Inr st, s')"
  shows "\<exists>c. st = MeshStream c"
  using mesh_stream_kind [of M s] assms by (cases st) auto

text \<open>After an error of the direct path the stream is served by the mesh, when that can be dialled.\<close>

lemma mesh_stream_from_direct:
  assumes "openStream E s = (Inl e, s1)" and "c_tr s" and "c_node s" and "mesh_can_dial M"
  shows "\<exists>c. fst (mesh_stream M (direct_refused (s1\<lparr>dead := dead s1 \<union> D\<rparr>))) = Inr (MeshStream c)"
proof -
  let ?t = "direct_refused (s1\<lparr>dead := dead s1 \<union> D\<rparr>)"
  have "same_mesh s s1" using same_mesh_openStream [of s E] assms(1) by simp
  then have "c_tr ?t" "c_node ?t"
    using assms(2,3) by (simp_all add: same_mesh_def direct_refused_def state_defs)
  moreover obtain c where "me_dial M = Inr c"
    using assms(4) by (auto simp: mesh_can_dial_def split: sum.splits)
  ultimately obtain st s' where "mesh_stream M ?t = (Inr st, s')"
    using mesh_stream_available [of ?t M c] assms(4) by (auto simp: mesh_can_dial_def)
  with mesh_stream_kind_ok [OF this] show ?thesis by simp
qed

section \<open>Failure of the direct path\<close>

text \<open>
  C4 (error). When the verified direct path fails and its connection is gone, the client
  unverifies it, shows the fallback state and serves the very same stream over the mesh: the outcome is
  that of the mesh channel opened from the downgraded state, and it is a mesh stream whenever
  the mesh can be dialled. From then on every stream goes to the mesh, at whatever time it is opened.
\<close>

theorem direct_failure_downgrades:
  assumes "has_direct s" and "IsVerified (ce_now CE) s"
    and "openStream (ce_direct CE) s = (Inl e, s1)"
    and "\<not> connAlive (s1\<lparr>dead := dead s1 \<union> ce_died CE\<rparr>)"
    and "client_openStream CE s = (r, s')"
  shows "\<not> IsVerified t s' \<and> probeState s' = PathMeshFallback \<and> PathState t s' \<noteq> PathH2H3
    \<and> (\<forall>c. r \<noteq> Inr (DirectStream c))
    \<and> (r, s') = mesh_stream (ce_mesh CE)
        (s1\<lparr>dead := dead s1 \<union> ce_died CE, verifiedUntil := None, probeState := PathMeshFallback\<rparr>)
    \<and> (c_tr s \<and> c_node s \<and> mesh_can_dial (ce_mesh CE) \<longrightarrow> (\<exists>c. r = Inr (MeshStream c)))
    \<and> (\<forall>CE'. client_openStream CE' s' = mesh_stream (ce_mesh CE') s')"
proof -
  let ?t = "direct_refused (s1\<lparr>dead := dead s1 \<union> ce_died CE\<rparr>)"
  have t: "verifiedUntil ?t = None" "probeState ?t = PathMeshFallback"
    using assms(4) by (simp_all add: direct_refused_def state_defs)
  have m: "mesh_stream (ce_mesh CE) ?t = (r, s')"
    using assms by (simp add: client_openStream_def)
  then have "same_direct ?t s'"
    using same_direct_mesh [of ?t "ce_mesh CE"] by (metis mesh_stream_snd snd_conv)
  then have "verifiedUntil s' = None" "probeState s' = PathMeshFallback"
    using t by (simp_all add: same_direct_def)
  moreover have "r \<noteq> Inr (DirectStream c)" for c
    using mesh_stream_kind [of "ce_mesh CE" ?t] m by simp
  moreover have "?t = s1\<lparr>dead := dead s1 \<union> ce_died CE, verifiedUntil := None, probeState := PathMeshFallback\<rparr>"
    using assms(4) by (simp add: direct_refused_def state_defs)
  moreover have "\<exists>c. r = Inr (MeshStream c)" if "c_tr s" "c_node s" "mesh_can_dial (ce_mesh CE)"
    using mesh_stream_from_direct [OF assms(3) that, of "ce_died CE"] m by simp
  ultimately show ?thesis
    using m by (simp add: IsVerified_def PathState_def client_openStream_def)
qed

text \<open>A verified client whose UDP dial fails.\<close>

definition sample_verified :: client_state where
  "sample_verified = MarkVerified 5 (20 * second) sample_client"

definition sample_down :: client_env where
  "sample_down = sample_ce (sample_env 9 (Inl ''timeout'') None) (sample_mesh (Inr 5) None)"

lemma sample_down_refused:
  "openStream (ce_direct sample_down) sample_verified = (Inl (DialError (DialFailed ''timeout'')),
     sample_client\<lparr>probeState := PathMeshFallback, failUntil := Some (9 + directFailCooldown), socks := {7},
       trace := [CallCloseTransport 7, CallDialUDP ([192, 0, 2, 1], 443) (5 * second)]\<rparr>)"
  by (simp add: openStream_defs sample_down_def sample_verified_def sample_ce_def sample_client_eq
      sample_env_def sample_dial_def sample_parse state_defs Let_def direct_consts second_def)

lemma sample_verified_fields:
  "has_direct sample_verified" "IsVerified (ce_now sample_down) sample_verified"
  by (simp_all add: sample_verified_def sample_client_eq sample_down_def sample_ce_def sample_env_def
      IsVerified_def state_defs second_def)

lemma sample_down_mesh:
  "c_tr sample_verified" "c_node sample_verified" "mesh_can_dial (ce_mesh sample_down)"
  by (simp_all add: sample_verified_def sample_client_eq sample_down_def sample_ce_def sample_mesh_def
      mesh_can_dial_def state_defs)

theorem direct_failure_downgrades_witness:
  "\<exists>c s'. client_openStream sample_down sample_verified = (Inr (MeshStream c), s')
     \<and> \<not> IsVerified 9 s' \<and> probeState s' = PathMeshFallback"
proof -
  obtain r s' where r: "client_openStream sample_down sample_verified = (r, s')" by fastforce
  have "\<not> connAlive (u\<lparr>d_qconn := None, dead := D\<rparr>)" for u :: client_state and D
    by (simp add: connAlive_def connAliveLocked_def)
  then have "\<not> connAlive (sample_client\<lparr>probeState := p, failUntil := u, socks := S, trace := T, dead := D\<rparr>)" for p u S T D
    by (simp add: sample_client_eq connAlive_def connAliveLocked_def)
  from direct_failure_downgrades [OF sample_verified_fields sample_down_refused this r, of 9]
  have "\<not> IsVerified 9 s' \<and> probeState s' = PathMeshFallback
    \<and> (c_tr sample_verified \<and> c_node sample_verified \<and> mesh_can_dial (ce_mesh sample_down)
         \<longrightarrow> (\<exists>c. r = Inr (MeshStream c)))" by blast
  with r show ?thesis by (simp add: sample_down_mesh)
qed

text \<open>
  C14 (functional). A direct error, of any kind, on a connection that is alive afterwards costs the
  direct path nothing: the cache and the displayed state are as before, the connection and its
  transport as the direct path left them. This one stream is served over the mesh: the outcome is that of
  the mesh channel, and it is a mesh stream whenever the mesh can be dialled.
\<close>

theorem transient_error_served_by_mesh:
  assumes "has_direct s" and "IsVerified (ce_now CE) s"
    and "openStream (ce_direct CE) s = (Inl err, s1)" and "direct_inv s"
    and "connAlive (s1\<lparr>dead := dead s1 \<union> ce_died CE\<rparr>)"
  shows "\<exists>r s'. client_openStream CE s = (r, s') \<and> (\<forall>c. r \<noteq> Inr (DirectStream c))
    \<and> (\<forall>t. IsVerified t s' = IsVerified t s) \<and> probeState s' = probeState s
    \<and> d_qconn s' = d_qconn s1 \<and> trs s' = trs s1 \<and> (\<exists>c. d_qconn s' = Some c)
    \<and> (r, s') = mesh_stream (ce_mesh CE) (s1\<lparr>dead := dead s1 \<union> ce_died CE\<rparr>)
    \<and> (c_tr s \<and> c_node s \<and> mesh_can_dial (ce_mesh CE) \<longrightarrow> (\<exists>c. r = Inr (MeshStream c)))"
proof -
  let ?t = "s1\<lparr>dead := dead s1 \<union> ce_died CE\<rparr>"
  obtain r s' where r: "mesh_stream (ce_mesh CE) ?t = (r, s')" by fastforce
  have refused: "direct_refused ?t = ?t" using assms(5) by (simp add: direct_refused_def)
  with r have o: "client_openStream CE s = (r, s')" using assms by (simp add: client_openStream_def)
  have "same_direct ?t s'" using r same_direct_mesh [of ?t "ce_mesh CE"] by (metis mesh_stream_snd snd_conv)
  then have d: "d_qconn s' = d_qconn s1" "trs s' = trs s1" "verifiedUntil s' = verifiedUntil s1"
    "probeState s' = probeState s1" by (simp_all add: same_direct_def)
  have live: "\<exists>c. d_qconn s1 = Some c"
    using assms(5) by (simp add: connAlive_def connAliveLocked_def split: option.splits)
  then have "err \<noteq> DialError e" for e
    using openStream_summary(5) [OF assms(3,4), of e] by auto
  then have "verifiedUntil s1 = verifiedUntil s" "probeState s1 = probeState s"
    using openStream_summary(6) [OF assms(3,4)] by simp_all
  moreover have "r \<noteq> Inr (DirectStream c)" for c using mesh_stream_kind [of "ce_mesh CE" ?t] r by simp
  moreover have "\<exists>c. r = Inr (MeshStream c)" if "c_tr s" "c_node s" "mesh_can_dial (ce_mesh CE)"
    using mesh_stream_from_direct [OF assms(3) that, of "ce_died CE"] refused r by simp
  ultimately show ?thesis using o d live r by (simp add: IsVerified_def)
qed

text \<open>The same client with a live connection that has reached its stream limit.\<close>

definition sample_live :: client_state where
  "sample_live = sample_verified\<lparr>d_qconn := Some 3, d_tr := Some 7, trs := {7}, socks := {7}, d_conns := {3}, watching := {3}\<rparr>"

definition sample_limit :: client_env where
  "sample_limit = sample_ce (sample_env 9 (Inr 4) (Some ''limit'')) (sample_mesh (Inr 5) None)"

lemma sample_limit_refused:
  "openStream (ce_direct sample_limit) sample_live =
     (Inl (OpenFailed ''limit''), wait_open 3 {} sample_live)"
  by (simp add: openStream_defs sample_limit_def sample_live_def sample_verified_def sample_ce_def
      sample_client_eq sample_env_def state_defs)

theorem transient_error_served_by_mesh_witness:
  "\<exists>c s'. client_openStream sample_limit sample_live = (Inr (MeshStream c), s')
     \<and> IsVerified 9 s' \<and> (\<exists>c. d_qconn s' = Some c)"
proof -
  have s: "has_direct sample_live" "IsVerified (ce_now sample_limit) sample_live" "direct_inv sample_live"
    "connAlive ((wait_open 3 {} sample_live)\<lparr>dead := dead (wait_open 3 {} sample_live) \<union> ce_died sample_limit\<rparr>)"
    by (simp_all add: sample_live_def sample_verified_def sample_client_eq sample_limit_def sample_ce_def
        sample_env_def IsVerified_def state_defs second_def direct_inv_def transport_inv_def connAlive_def
        connAliveLocked_def)
  have m: "c_tr sample_live \<and> c_node sample_live \<and> mesh_can_dial (ce_mesh sample_limit)"
    by (simp add: sample_live_def sample_verified_def sample_client_eq sample_limit_def sample_ce_def
        sample_mesh_def mesh_can_dial_def state_defs)
  have "IsVerified 9 sample_live" using s(2) by (simp add: sample_limit_def sample_ce_def sample_env_def)
  with transient_error_served_by_mesh [OF s(1,2) sample_limit_refused s(3,4)] m show ?thesis by blast
qed

section \<open>Availability\<close>

text \<open>
  C5 (liveness). As long as the mesh can be dialled, every user stream is served, whatever the
  direct path does: verified or not, cooling down, failing to dial, dying while a stream is opened,
  and whatever state the cached mesh connection is in.
\<close>

theorem mesh_always_serves:
  assumes "c_tr s" and "c_node s" and "meshActive (me_peers_dial (ce_mesh CE))"
    and "me_dial (ce_mesh CE) = Inr c" and "me_open_new (ce_mesh CE) = None"
  shows "\<exists>st s'. client_openStream CE s = (Inr st, s')"
proof (cases rule: client_openStream_cases [of s CE])
  case (direct c s1)
  then show ?thesis by blast
next
  case (refused e s1)
  have "same_mesh s s1" using refused(3) same_mesh_openStream [of s "ce_direct CE"] by simp
  with assms show ?thesis
    unfolding refused(4)
    by (intro mesh_stream_available) (simp_all add: same_mesh_def direct_refused_def state_defs)
next
  case mesh
  with assms show ?thesis by (simp add: mesh_stream_available)
qed

theorem mesh_always_serves_witness:
  "\<exists>st s'. client_openStream sample_down sample_verified = (Inr st, s')"
proof (rule mesh_always_serves [of sample_verified sample_down 5])
  show "c_tr sample_verified" "c_node sample_verified" "meshActive (me_peers_dial (ce_mesh sample_down))"
    "me_dial (ce_mesh sample_down) = Inr 5" "me_open_new (ce_mesh sample_down) = None"
    by (simp_all add: sample_verified_def sample_client_eq sample_down_def sample_ce_def sample_mesh_def
        state_defs)
qed

section \<open>How long a user stream waits\<close>

lemma spends_direct_refused:
  "spends P t s s1 \<Longrightarrow> spends P t s (direct_refused (s1\<lparr>dead := D\<rparr>))"
  by (erule spends_same_trace) (simp add: direct_refused_def state_defs)

text \<open>
  C18 (bounds). One user stream waits at most 55 seconds inside quic-go: 25 on the direct path and
  30 on the mesh, every dial and every stream open carrying its own timeout.
\<close>

theorem user_stream_wait_bounded:
  "\<exists>new. trace (snd (client_openStream CE s)) = new @ trace s
     \<and> sum_list (map call_timeout new) \<le> 55 * second \<and> list_all bounded_call new"
proof -
  note mesh = spends_weaken [OF spends_mesh_stream mesh_call_bounded]
  have "spends bounded_call (55 * second) s (snd (client_openStream CE s))"
  proof (cases rule: client_openStream_cases [of s CE])
    case (direct c s1)
    have "spends bounded_call (25 * second) s s1"
      using spends_openStream [of s "ce_direct CE"] direct(3) by simp
    then have "spends bounded_call (55 * second) s s1"
      by (rule spends_trans [OF _ spends_refl [OF order_refl refl]]) (simp add: second_def)
    with direct(4) show ?thesis by simp
  next
    case (refused e s1)
    have "spends bounded_call (25 * second) s s1"
      using spends_openStream [of s "ce_direct CE"] refused(3) by simp
    from spends_trans [OF spends_direct_refused [OF this] mesh, of "55 * second"] refused(4)
    show ?thesis by (simp add: second_def)
  next
    case mesh: mesh
    have "spends bounded_call (30 * second) s (snd (mesh_stream (ce_mesh CE) s))"
      by (rule spends_weaken [OF spends_mesh_stream mesh_call_bounded])
    then have "spends bounded_call (55 * second) s (snd (mesh_stream (ce_mesh CE) s))"
      by (rule spends_trans [OF _ spends_refl [OF order_refl refl]]) (simp add: second_def)
    with mesh(2) show ?thesis by simp
  qed
  then show ?thesis by (simp add: spends_def)
qed

text \<open>
  A verified cache does not mean a connection: when the cached direct connection
  is dead or gone, the user stream itself dials UDP, for up to the capped timeout, before it is
  served. The documented rule that user traffic never waits for the direct path holds for
  unverified paths only.
\<close>

lemma verified_stream_may_dial_udp:
  assumes "has_direct s" and "IsVerified (ce_now CE) s"
    and "\<not> before (oe_now (ce_direct CE)) (failUntil s)" and "d_node s" and "\<not> connAlive s"
    and "parseHostPort (serverAddr s) = Inr (host, port)"
    and "resolveUDP (de_resolver (oe_dial (ce_direct CE))) host port = Some raddr"
    and "de_listen (oe_dial (ce_direct CE)) (dial_laddr raddr) = Inr tr"
  shows "CallDialUDP raddr (cap_dial_timeout (d_timeout s)) \<in> set (trace (snd (client_openStream CE s)))"
proof -
  let ?call = "CallDialUDP raddr (cap_dial_timeout (d_timeout s))"
  have dial: "?call \<in> set (trace (snd (openStream (ce_direct CE) s)))"
    using assms
    by (auto simp: openStream_def openStream_locked_def connAlive_def redial_def dropConnLocked_def
        directDialTransport_def openStream_failed_def openStream_new_def spawn_watch_def Let_def
        state_defs split: sum.split option.split)
  show ?thesis
  proof (cases rule: client_openStream_cases [of s CE])
    case (direct c s1)
    with dial show ?thesis by simp
  next
    case (refused e s1)
    let ?t = "direct_refused (s1\<lparr>dead := dead s1 \<union> ce_died CE\<rparr>)"
    have "?call \<in> set (trace ?t)" using dial refused(3) by (simp add: direct_refused_def state_defs)
    with spends_mesh_stream [of ?t "ce_mesh CE"] refused(4) show ?thesis by (auto simp: spends_def)
  next
    case mesh
    with assms show ?thesis by simp
  qed
qed

lemma verified_stream_may_dial_udp_sample:
  "CallDialUDP ([192, 0, 2, 1], 443) (5 * second)
     \<in> set (trace (snd (client_openStream sample_down sample_verified)))"
proof -
  have "\<not> before (oe_now (ce_direct sample_down)) (failUntil sample_verified)" "d_node sample_verified"
    "\<not> connAlive sample_verified" "parseHostPort (serverAddr sample_verified) = Inr (''192.0.2.1'', 443)"
    "resolveUDP (de_resolver (oe_dial (ce_direct sample_down))) ''192.0.2.1'' 443 = Some ([192, 0, 2, 1], 443)"
    "de_listen (oe_dial (ce_direct sample_down)) (dial_laddr ([192, 0, 2, 1], 443)) = Inr 7"
    by (simp_all add: sample_verified_def sample_client_eq sample_down_def sample_ce_def sample_env_def
        sample_dial_def state_defs connAlive_def connAliveLocked_def sample_parse resolveUDP_def)
  from verified_stream_may_dial_udp [OF sample_verified_fields this]
  show ?thesis
    by (simp add: sample_verified_def sample_client_eq state_defs cap_dial_timeout_def directDialTimeout_def
        second_def)
qed

end
