(* ===== verification/Prober.thy ===== *)
theory Prober
  imports ChannelProps
begin

text \<open>
  The background prober: the goroutine started by \<open>startProber\<close> (\<^verbatim>\<open>internal/yggss/direct.go\<close>).
  Its local variables are the record \<open>prober\<close>; one round of its loop is \<open>prober_step\<close>, composed
  from one definition per stage of the loop body. What the outside does during a round (the
  peerings, the clock readings, the answers of quic-go, the connections that die) is \<open>probe_env\<close>.
\<close>

section \<open>State of the goroutine\<close>

definition probeIntervalWhileUnverified :: duration where
  "probeIntervalWhileUnverified = 5 * second"

definition probeFailStreakLimit :: int where
  "probeFailStreakLimit = 2"

definition probeIdleLimit :: duration where
  "probeIdleLimit = 10 * minute"

lemmas probe_consts = probeFailStreakLimit_def probeIdleLimit_def

text \<open>A channel variable is \<open>False\<close> when it is nil: such a case of the \<open>select\<close> never fires.\<close>

record prober =
  timerC :: bool
  unverifiedC :: bool
  verifiedC :: bool
  failStreak :: int

definition new_prober :: prober where
  "new_prober = \<lparr>timerC = True, unverifiedC = True, verifiedC = False, failStreak = 0\<rparr>"

datatype signal = StopSignal | TimerSignal | UnverifiedTick | VerifiedTick

fun may_fire :: "signal \<Rightarrow> prober \<Rightarrow> bool" where
  "may_fire StopSignal p = True"
| "may_fire TimerSignal p = timerC p"
| "may_fire UnverifiedTick p = unverifiedC p"
| "may_fire VerifiedTick p = verifiedC p"

text \<open>The \<open>select\<close>: \<open>None\<close> is the return of the goroutine.\<close>

fun probe_select :: "signal \<Rightarrow> prober \<Rightarrow> prober option" where
  "probe_select StopSignal p = None"
| "probe_select TimerSignal p = Some (p\<lparr>timerC := False\<rparr>)"
| "probe_select UnverifiedTick p = Some p"
| "probe_select VerifiedTick p = Some p"

definition fast_cadence :: "prober \<Rightarrow> prober" where
  "fast_cadence p = p\<lparr>unverifiedC := True, verifiedC := False\<rparr>"

definition slow_cadence :: "prober \<Rightarrow> prober" where
  "slow_cadence p = p\<lparr>timerC := False, unverifiedC := False, verifiedC := True\<rparr>"

text \<open>One round, seen from outside; \<open>None\<close> in an error field is nil.\<close>

record probe_env =
  pe_peers :: "peer_info list"
  pe_now :: time             \<comment> \<open>the clock at \<open>time.Since\<close> and the checks before the probe\<close>
  pe_open :: open_env
  pe_open_died :: "nat set"  \<comment> \<open>connections that die before \<open>connAlive\<close> after a failed open\<close>
  pe_write :: "string option"
  pe_read :: "string option"
  pe_echo :: bytes
  pe_trip_died :: "nat set"  \<comment> \<open>connections that die during the round trip\<close>
  pe_elapsed :: duration
  pe_end :: time             \<comment> \<open>the clock at \<open>dropAndFail\<close> or \<open>MarkVerified\<close>\<close>

section \<open>The stages of one round\<close>

definition idle_too_long :: "time \<Rightarrow> 'a client_state_scheme \<Rightarrow> bool" where
  "idle_too_long now s \<longleftrightarrow> probeIdleLimit < now - lastActivity s"

text \<open>Long idle: the cache is dropped.\<close>

definition probe_idle :: "time \<Rightarrow> prober \<Rightarrow> 'a client_state_scheme \<Rightarrow> prober \<times> 'a client_state_scheme" where
  "probe_idle now p s =
     (if IsVerified now s then (fast_cadence p, setProbeState PathMeshProbing (MarkFailed s)) else (p, s))"

text \<open>The displayed state follows an expired cache.\<close>

definition probe_sync :: "time \<Rightarrow> 'a client_state_scheme \<Rightarrow> 'a client_state_scheme" where
  "probe_sync now s =
     (if \<not> IsVerified now s \<and> PathState now s = PathH2H3 then setProbeState PathMeshProbing s else s)"

text \<open>A failed stage on a connection that is alive counts; one on a dead connection cuts over.\<close>

definition count_failure :: "time \<Rightarrow> prober \<Rightarrow> 'a client_state_scheme \<Rightarrow> prober \<times> 'a client_state_scheme" where
  "count_failure now p s =
     (let p1 = p\<lparr>failStreak := failStreak p + 1\<rparr>
      in if probeFailStreakLimit \<le> failStreak p1 then (p1, dropAndFail now s) else (p1, s))"

definition conn_gone :: "time \<Rightarrow> prober \<Rightarrow> 'a client_state_scheme \<Rightarrow> prober \<times> 'a client_state_scheme" where
  "conn_gone now p s = (fast_cadence (p\<lparr>failStreak := 0\<rparr>), dropAndFail now s)"

definition probe_open_failed ::
    "direct_error \<Rightarrow> time \<Rightarrow> prober \<Rightarrow> 'a client_state_scheme \<Rightarrow> prober \<times> 'a client_state_scheme" where
  "probe_open_failed e now p s =
     (if e = Cooldown then (p, s)
      else if connAlive s then count_failure now p s
      else conn_gone now p s)"

text \<open>The round trip on the new stream: \<open>None\<close> when the two bytes came back.\<close>

definition round_trip :: "probe_env \<Rightarrow> string option" where
  "round_trip PE =
     (case pe_write PE of
        Some werr \<Rightarrow> Some werr
      | None \<Rightarrow>
          (case pe_read PE of
             Some rerr \<Rightarrow> Some rerr
           | None \<Rightarrow> if pe_echo PE \<noteq> probePing then Some ''probe echo mismatch'' else None))"

definition probe_trip_failed :: "time \<Rightarrow> prober \<Rightarrow> 'a client_state_scheme \<Rightarrow> prober \<times> 'a client_state_scheme" where
  "probe_trip_failed now p s = (if connAlive s then count_failure now p s else conn_gone now p s)"

definition probe_rated ::
    "bool \<Rightarrow> duration \<Rightarrow> time \<Rightarrow> prober \<Rightarrow> 'a client_state_scheme \<Rightarrow> prober \<times> 'a client_state_scheme" where
  "probe_rated wasVerified elapsed now p s =
     (let p1 = p\<lparr>failStreak := 0\<rparr>
      in case probeHealthy elapsed s of
           (False, s1) \<Rightarrow> (p1, if wasVerified then dropAndFail now s1 else s1)
         | (True, s1) \<Rightarrow> (slow_cadence p1, setProbeState PathH2H3 (MarkVerified now (verifyTTL s1) s1)))"

section \<open>One round\<close>

definition probe_body :: "probe_env \<Rightarrow> prober \<Rightarrow> 'a client_state_scheme \<Rightarrow> prober \<times> 'a client_state_scheme" where
  "probe_body PE p s =
     (if \<not> meshActive (pe_peers PE) then (p, s)
      else if idle_too_long (pe_now PE) s then probe_idle (pe_now PE) p s
      else
        (let wasVerified = IsVerified (pe_now PE) s
         in case openStream (pe_open PE) (probe_sync (pe_now PE) s) of
              (Inl e, s2) \<Rightarrow> probe_open_failed e (pe_end PE) p (s2\<lparr>dead := dead s2 \<union> pe_open_died PE\<rparr>)
            | (Inr c, s2) \<Rightarrow>
                (let s3 = s2\<lparr>dead := dead s2 \<union> pe_trip_died PE\<rparr>
                 in case round_trip PE of
                      Some e \<Rightarrow> probe_trip_failed (pe_end PE) p s3
                    | None \<Rightarrow> probe_rated wasVerified (pe_elapsed PE) (pe_end PE) p s3)))"

definition prober_step ::
    "signal \<Rightarrow> probe_env \<Rightarrow> prober \<Rightarrow> 'a client_state_scheme \<Rightarrow> (prober \<times> 'a client_state_scheme) option" where
  "prober_step sig PE p s =
     (case probe_select sig p of None \<Rightarrow> None | Some p1 \<Rightarrow> Some (probe_body PE p1 s))"

text \<open>Several rounds, each with the signal that woke it; a signal of a nil channel does not come.\<close>

fun prober_run ::
    "(signal \<times> probe_env) list \<Rightarrow> prober \<Rightarrow> 'a client_state_scheme \<Rightarrow> (prober \<times> 'a client_state_scheme) option" where
  "prober_run [] p s = Some (p, s)"
| "prober_run ((sig, PE) # rounds) p s =
     (if \<not> may_fire sig p then None
      else case prober_step sig PE p s of
             None \<Rightarrow> None
           | Some (p1, s1) \<Rightarrow> prober_run rounds p1 s1)"

end
