(* ===== verification/ProberProps.thy ===== *)
theory ProberProps
  imports Prober
begin

text \<open>
  Properties of the prober: its cadence, the only way it verifies the path, its silence while the
  mesh is down or the user is away, the failure streak, the cutover of a connection that is gone,
  and the invariants of the client.
\<close>

section \<open>The outcomes of a round\<close>

definition probe_due :: "probe_env \<Rightarrow> 'a client_state_scheme \<Rightarrow> bool" where
  "probe_due PE s \<longleftrightarrow> meshActive (pe_peers PE) \<and> \<not> idle_too_long (pe_now PE) s"

text \<open>The stream open of the round, and the state when its answer is looked at.\<close>

definition probe_open :: "probe_env \<Rightarrow> 'a client_state_scheme \<Rightarrow> (direct_error + nat) \<times> 'a client_state_scheme" where
  "probe_open PE s =
     (case openStream (pe_open PE) (probe_sync (pe_now PE) s) of
        (Inl e, s2) \<Rightarrow> (Inl e, s2\<lparr>dead := dead s2 \<union> pe_open_died PE\<rparr>)
      | (Inr c, s2) \<Rightarrow> (Inr c, s2\<lparr>dead := dead s2 \<union> pe_trip_died PE\<rparr>))"

text \<open>The round fails: for a reason other than the cooldown of another caller.\<close>

definition probe_fails :: "probe_env \<Rightarrow> 'a client_state_scheme \<Rightarrow> bool" where
  "probe_fails PE s \<longleftrightarrow>
     (case fst (probe_open PE s) of Inl e \<Rightarrow> e \<noteq> Cooldown | Inr c \<Rightarrow> round_trip PE \<noteq> None)"

lemma probe_body_quiet: "\<not> meshActive (pe_peers PE) \<Longrightarrow> probe_body PE p s = (p, s)"
  by (simp add: probe_body_def)

lemma probe_body_idle:
  "meshActive (pe_peers PE) \<Longrightarrow> idle_too_long (pe_now PE) s \<Longrightarrow> probe_body PE p s = probe_idle (pe_now PE) p s"
  by (simp add: probe_body_def)

lemma probe_body_fails:
  "probe_due PE s \<Longrightarrow> probe_fails PE s \<Longrightarrow> probe_open PE s = (r, s1) \<Longrightarrow>
     probe_body PE p s =
       (if connAlive s1 then count_failure (pe_end PE) p s1 else conn_gone (pe_end PE) p s1)"
  by (auto simp: probe_body_def probe_due_def probe_fails_def probe_open_def Let_def
      probe_open_failed_def probe_trip_failed_def split: prod.splits sum.splits option.splits)

lemma probe_body_cooling:
  "probe_due PE s \<Longrightarrow> probe_open PE s = (Inl Cooldown, s1) \<Longrightarrow> probe_body PE p s = (p, s1)"
  by (auto simp: probe_body_def probe_due_def probe_open_def Let_def probe_open_failed_def
      split: prod.splits sum.splits)

lemma probe_body_answers:
  "probe_due PE s \<Longrightarrow> probe_open PE s = (Inr c, s1) \<Longrightarrow> round_trip PE = None \<Longrightarrow>
     probe_body PE p s = probe_rated (IsVerified (pe_now PE) s) (pe_elapsed PE) (pe_end PE) p s1"
  by (auto simp: probe_body_def probe_due_def probe_open_def Let_def split: prod.splits sum.splits)

lemma probe_body_cases [case_names off idle cooling counted gone answers]:
  assumes "\<not> meshActive (pe_peers PE) \<Longrightarrow> probe_body PE p s = (p, s) \<Longrightarrow> thesis"
    and "meshActive (pe_peers PE) \<Longrightarrow> idle_too_long (pe_now PE) s \<Longrightarrow>
      probe_body PE p s = probe_idle (pe_now PE) p s \<Longrightarrow> thesis"
    and "\<And>s1. probe_due PE s \<Longrightarrow> probe_open PE s = (Inl Cooldown, s1) \<Longrightarrow>
      probe_body PE p s = (p, s1) \<Longrightarrow> thesis"
    and "\<And>r s1. probe_due PE s \<Longrightarrow> probe_fails PE s \<Longrightarrow> probe_open PE s = (r, s1) \<Longrightarrow> connAlive s1 \<Longrightarrow>
      probe_body PE p s = count_failure (pe_end PE) p s1 \<Longrightarrow> thesis"
    and "\<And>r s1. probe_due PE s \<Longrightarrow> probe_fails PE s \<Longrightarrow> probe_open PE s = (r, s1) \<Longrightarrow> \<not> connAlive s1 \<Longrightarrow>
      probe_body PE p s = conn_gone (pe_end PE) p s1 \<Longrightarrow> thesis"
    and "\<And>c s1. probe_due PE s \<Longrightarrow> probe_open PE s = (Inr c, s1) \<Longrightarrow> round_trip PE = None \<Longrightarrow>
      probe_body PE p s = probe_rated (IsVerified (pe_now PE) s) (pe_elapsed PE) (pe_end PE) p s1 \<Longrightarrow> thesis"
  shows thesis
proof -
  obtain r s1 where o: "probe_open PE s = (r, s1)" by fastforce
  consider "\<not> meshActive (pe_peers PE)" | "meshActive (pe_peers PE)" "idle_too_long (pe_now PE) s"
    | "probe_due PE s" by (auto simp: probe_due_def)
  then show thesis
  proof cases
    case 3
    show thesis
    proof (cases "probe_fails PE s")
      case True
      with 3 o probe_body_fails [OF 3 True o, of p] assms(4,5) show thesis by (auto split: if_splits)
    next
      case False
      with o have "r = Inl Cooldown \<or> (\<exists>c. r = Inr c \<and> round_trip PE = None)"
        by (auto simp: probe_fails_def split: sum.splits)
      with 3 o show thesis
        using probe_body_cooling [OF 3] probe_body_answers [OF 3] assms(3,6) by blast
    qed
  qed (use assms(1,2) probe_body_quiet probe_body_idle in blast)+
qed

text \<open>What the open of a round leaves: the invariant of both paths and, unless the dial failed, the cache.\<close>

lemma client_inv_sync [simp]: "client_inv (probe_sync now s) = client_inv s"
  by (simp add: probe_sync_def client_inv_def direct_inv_def mesh_inv_def state_defs transport_inv_def)

lemma sync_fields [simp]:
  "verifiedUntil (probe_sync now s) = verifiedUntil s" "direct_inv (probe_sync now s) = direct_inv s"
  "trace (probe_sync now s) = trace s" "probeRTT (probe_sync now s) = probeRTT s"
  "retryPeriod (probe_sync now s) = retryPeriod s" "d_qconn (probe_sync now s) = d_qconn s"
  by (simp_all add: probe_sync_def direct_inv_def state_defs transport_inv_def)

lemma probe_open_inv:
  assumes "client_inv s" and "probe_open PE s = (r, s1)"
  shows "client_inv s1"
proof -
  have "client_inv (snd (openStream (pe_open PE) (probe_sync (pe_now PE) s)))"
    using assms(1) by (intro client_inv_direct) simp
  from client_inv_dies [OF this] assms(2) show ?thesis
    by (auto simp: probe_open_def split: prod.splits sum.splits)
qed

lemma direct_inv_died: "direct_inv s \<Longrightarrow> direct_inv (s\<lparr>dead := dead s \<union> D\<rparr>)"
  by (auto simp: direct_inv_def transport_inv_def)

lemma probe_open_direct:
  assumes "direct_inv s" and "probe_open PE s = (r, s1)"
  shows "direct_inv s1"
    and "(\<And>e. r \<noteq> Inl (DialError e)) \<Longrightarrow> verifiedUntil s1 = verifiedUntil s"
    and "r = Inl (DialError e) \<Longrightarrow> verifiedUntil s1 = None \<and> d_qconn s1 = None"
    and "r = Inr c \<Longrightarrow> d_qconn s1 = Some c"
proof -
  let ?t = "probe_sync (pe_now PE) s"
  obtain s2 where o: "openStream (pe_open PE) ?t = (r, s2)" and s1: "\<exists>D. s1 = s2\<lparr>dead := dead s2 \<union> D\<rparr>"
    using assms(2) by (auto simp: probe_open_def split: prod.splits sum.splits)
  have i: "direct_inv ?t" using assms(1) by simp
  note sum = openStream_summary [OF o i]
  show "direct_inv s1" using sum(1) s1 direct_inv_died by blast
  show "(\<And>e. r \<noteq> Inl (DialError e)) \<Longrightarrow> verifiedUntil s1 = verifiedUntil s" using sum(6) s1 by auto
  show "r = Inl (DialError e) \<Longrightarrow> verifiedUntil s1 = None \<and> d_qconn s1 = None" using sum(5) s1 by auto
  show "r = Inr c \<Longrightarrow> d_qconn s1 = Some c" using sum(4) s1 by auto
qed

section \<open>Invariants of the client\<close>

lemma client_inv_dropAndFail: "client_inv s \<Longrightarrow> client_inv (dropAndFail now s)"
proof -
  assume "client_inv s"
  moreover have "same_mesh s (dropAndFail now s)"
    by (auto simp: same_mesh_def dropAndFail_def drop_cooldown_def dropConnLocked_def state_defs Let_def
        split: option.split)
  moreover have "dead s \<subseteq> dead (dropAndFail now s)" by (auto simp: dropAndFail_def)
  ultimately show ?thesis by (auto simp: client_inv_def direct_inv_cutover intro: same_mesh_inv)
qed

lemma client_inv_marks [simp]:
  "client_inv (MarkFailed s) = client_inv s" "client_inv (setProbeState q s) = client_inv s"
  "client_inv (MarkVerified now ttl s) = client_inv s" "client_inv (s\<lparr>probeRTT := x\<rparr>) = client_inv s"
  by (simp_all add: client_inv_def direct_inv_def mesh_inv_def state_defs transport_inv_def)

lemma probeHealthy_cases: "snd (probeHealthy rtt s) = s \<or> (\<exists>x. snd (probeHealthy rtt s) = s\<lparr>probeRTT := x\<rparr>)"
  by (auto simp: probeHealthy_def)

lemma client_inv_healthy: "client_inv s \<Longrightarrow> client_inv (snd (probeHealthy rtt s))"
  using probeHealthy_cases [of rtt s] by auto

lemma probe_body_inv: "client_inv s \<Longrightarrow> client_inv (snd (probe_body PE p s))"
proof (cases rule: probe_body_cases [of PE p s])
  case idle
  then show "client_inv s \<Longrightarrow> ?thesis" by (simp add: probe_idle_def)
next
  case (answers c s1)
  then show "client_inv s \<Longrightarrow> ?thesis"
    using client_inv_healthy [of s1 "pe_elapsed PE"] probe_open_inv [of s PE]
    by (auto simp: probe_rated_def Let_def client_inv_dropAndFail split: prod.split bool.split)
qed (auto simp: count_failure_def conn_gone_def client_inv_dropAndFail Let_def dest: probe_open_inv)

lemma prober_step_inv:
  "client_inv s \<Longrightarrow> prober_step sig PE p s = Some (p', s') \<Longrightarrow> client_inv s'"
  using probe_body_inv [of s PE]
  by (auto simp: prober_step_def split: option.splits) (metis snd_conv)

lemma prober_run_inv:
  "client_inv s \<Longrightarrow> prober_run rounds p s = Some (p', s') \<Longrightarrow> client_inv s'"
proof (induction rounds arbitrary: p s)
  case (Cons a rounds)
  then obtain p1 s1 where "prober_step (fst a) (snd a) p s = Some (p1, s1)"
    "prober_run rounds p1 s1 = Some (p', s')"
    by (cases a) (auto split: if_splits option.splits)
  with Cons.IH [OF prober_step_inv] Cons.prems(1) show ?case by blast
qed simp

section \<open>Cadence\<close>

text \<open>
  The state of the goroutine: exactly one cadence is enabled, the startup timer is gone on the slow
  one, and the streak is a count.
\<close>

definition prober_inv :: "prober \<Rightarrow> bool" where
  "prober_inv p \<longleftrightarrow> (unverifiedC p \<noteq> verifiedC p) \<and> (verifiedC p \<longrightarrow> \<not> timerC p) \<and> 0 \<le> failStreak p"

lemma prober_inv_cadence [simp]:
  "prober_inv (fast_cadence p) = (0 \<le> failStreak p)" "prober_inv (slow_cadence p) = (0 \<le> failStreak p)"
  by (simp_all add: prober_inv_def fast_cadence_def slow_cadence_def)

lemma probe_body_prober_inv: "prober_inv p \<Longrightarrow> prober_inv (fst (probe_body PE p s))"
proof (cases rule: probe_body_cases [of PE p s])
  case idle
  then show "prober_inv p \<Longrightarrow> ?thesis" by (auto simp: probe_idle_def) (simp add: prober_inv_def)
next
  case (answers c s1)
  then show "prober_inv p \<Longrightarrow> ?thesis"
    by (auto simp: probe_rated_def Let_def split: prod.split bool.split) (simp add: prober_inv_def)
qed (auto simp: count_failure_def conn_gone_def Let_def prober_inv_def fast_cadence_def)

lemma prober_step_prober_inv:
  "prober_inv p \<Longrightarrow> prober_step sig PE p s = Some (p', s') \<Longrightarrow> prober_inv p'"
proof -
  assume inv: "prober_inv p" and step: "prober_step sig PE p s = Some (p', s')"
  from step obtain p1 where p1: "probe_select sig p = Some p1" "probe_body PE p1 s = (p', s')"
    by (auto simp: prober_step_def split: option.splits)
  with inv have "prober_inv p1" by (cases sig) (auto simp: prober_inv_def)
  with p1 probe_body_prober_inv [of p1 PE s] show ?thesis by simp
qed

lemma prober_run_prober_inv:
  "prober_inv p \<Longrightarrow> prober_run rounds p s = Some (p', s') \<Longrightarrow> prober_inv p'"
proof (induction rounds arbitrary: p s)
  case (Cons a rounds)
  then obtain p1 s1 where "prober_step (fst a) (snd a) p s = Some (p1, s1)"
    "prober_run rounds p1 s1 = Some (p', s')"
    by (cases a) (auto split: if_splits option.splits)
  with Cons.IH [OF prober_step_prober_inv] Cons.prems(1) show ?case by blast
qed simp

text \<open>
  C7 (invariant). After any number of rounds of the prober, exactly one cadence is enabled, the
  startup timer no longer fires on the slow one, the streak is not negative, and the ownership
  invariants of both paths hold, however quic-go, the peers and the clock behaved.
\<close>

theorem prober_keeps_invariants:
  assumes "client_inv s" and "prober_run rounds new_prober s = Some (p, s')"
  shows "(unverifiedC p \<noteq> verifiedC p) \<and> (verifiedC p \<longrightarrow> \<not> timerC p) \<and> 0 \<le> failStreak p \<and> client_inv s'"
proof -
  have "prober_inv new_prober" by (simp add: prober_inv_def new_prober_def)
  from prober_run_prober_inv [OF this assms(2)] prober_run_inv [OF assms] show ?thesis
    by (simp add: prober_inv_def)
qed

text \<open>A round on a path that works.\<close>

definition sample_round :: probe_env where
  "sample_round = \<lparr>pe_peers = [sample_peer], pe_now = 9, pe_open = sample_env 9 (Inr 3) None,
     pe_open_died = {}, pe_write = None, pe_read = None, pe_echo = probePing, pe_trip_died = {},
     pe_elapsed = 40 * millisecond, pe_end = 10\<rparr>"

lemmas probe_defs = probe_body_def idle_too_long_def probe_idle_def probe_sync_def count_failure_def
  conn_gone_def probe_open_failed_def round_trip_def probe_trip_failed_def probe_rated_def
  probeHealthy_def slow_cadence_def fast_cadence_def probe_consts minute_def lastActivity_def PathState_def

lemma sample_round_opens:
  "openStream (sample_env 9 (Inr 3) None) sample_client =
     (Inr 3, sample_client\<lparr>trs := {7}, socks := {7}, d_qconn := Some 3, d_tr := Some 7, d_conns := {3}, watching := {3},
        trace := [CallOpenStream 3 openStreamTimeout, CallDialUDP ([192, 0, 2, 1], 443) (5 * second)]\<rparr>)"
  by (simp add: openStream_defs sample_client_eq sample_env_def sample_dial_def sample_parse state_defs
      direct_consts second_def)

lemma sample_round_verifies:
  "probe_body sample_round new_prober sample_client =
     (slow_cadence new_prober,
      setProbeState PathH2H3 (MarkVerified 10 (verifyTTL sample_client)
        (sample_client\<lparr>trs := {7}, socks := {7}, d_qconn := Some 3, d_tr := Some 7, d_conns := {3}, watching := {3},
           probeRTT := 40 * millisecond,
           trace := [CallOpenStream 3 openStreamTimeout, CallDialUDP ([192, 0, 2, 1], 443) (5 * second)]\<rparr>)))"
proof -
  have "probe_sync 9 sample_client = sample_client"
    by (simp add: probe_sync_def PathState_def sample_client_eq IsVerified_def)
  moreover have "\<not> idle_too_long 9 sample_client"
    by (simp add: idle_too_long_def sample_client_eq lastActivity_def probe_consts minute_def second_def)
  moreover have "probeRTT sample_client = 0" "dead sample_client = {}"
    by (simp_all add: sample_client_eq)
  moreover have "new_prober\<lparr>failStreak := 0\<rparr> = new_prober" by (simp add: new_prober_def)
  ultimately show ?thesis
    by (simp add: probe_body_def sample_round_def sample_round_opens round_trip_def probe_rated_def
        probeHealthy_def verifyTTL_def) (simp add: sample_client_eq)
qed

theorem prober_keeps_invariants_witness:
  "\<exists>p s'. prober_run [(UnverifiedTick, sample_round)] new_prober sample_client = Some (p, s')
     \<and> verifiedC p \<and> \<not> unverifiedC p \<and> client_inv s'"
proof -
  have "may_fire UnverifiedTick new_prober" by (simp add: new_prober_def)
  then obtain s' where r: "prober_run [(UnverifiedTick, sample_round)] new_prober sample_client
      = Some (slow_cadence new_prober, s')"
    by (simp add: prober_step_def sample_round_verifies)
  from prober_keeps_invariants [OF sample_client_inv r] r show ?thesis
    by (simp add: slow_cadence_def)
qed

section \<open>The only way the path becomes verified\<close>

lemma probeHealthy_fields [simp]:
  "verifiedUntil (snd (probeHealthy rtt s)) = verifiedUntil s"
  "retryPeriod (snd (probeHealthy rtt s)) = retryPeriod s"
  using probeHealthy_cases [of rtt s] by auto

lemma dropAndFail_verified [simp]: "verifiedUntil (dropAndFail now s) = None"
  by (simp add: dropAndFail_def)

lemma probe_open_verified:
  assumes "direct_inv s" and "probe_open PE s = (r, s1)"
  shows "verifiedUntil s1 = verifiedUntil s \<or> verifiedUntil s1 = None"
proof (cases "\<exists>e. r = Inl (DialError e)")
  case True
  then obtain e where "r = Inl (DialError e)" by (rule exE)
  from probe_open_direct(3) [OF assms this] show ?thesis by simp
next
  case False
  then have "r \<noteq> Inl (DialError e)" for e by simp
  from probe_open_direct(2) [OF assms this] show ?thesis by simp
qed

text \<open>
  C3 (safety). A round of the prober that grants trust (the cache holds an expiry it did not hold
  before) had an active mesh, a user active within the last ten minutes, a stream opened on the
  direct connection that is now cached, an echo of exactly the two signature bytes and a round-trip
  time the baseline accepts; and the trust lasts for the lifetime of the cache from that round on.
\<close>

theorem verified_only_by_round_trip:
  assumes "direct_inv s" and "probe_body PE p s = (p', s')"
    and "verifiedUntil s' = Some t" and "verifiedUntil s \<noteq> Some t"
  shows "meshActive (pe_peers PE) \<and> pe_now PE - lastActivity s \<le> 10 * minute
    \<and> pe_write PE = None \<and> pe_read PE = None \<and> pe_echo PE = [0x59, 0x21]
    \<and> (\<exists>c s1. probe_open PE s = (Inr c, s1) \<and> d_qconn s1 = Some c
          \<and> fst (probeHealthy (pe_elapsed PE) s1) \<and> t = pe_end PE + verifyTTL s1)
    \<and> probeState s' = PathH2H3 \<and> verifiedC p' \<and> failStreak p' = 0"
proof (cases rule: probe_body_cases [of PE p s])
  case (answers c s1)
  note d = probe_open_verified [OF assms(1) answers(2)] probe_open_direct(4) [OF assms(1) answers(2) refl]
  obtain b s2 where h: "probeHealthy (pe_elapsed PE) s1 = (b, s2)" by fastforce
  have v: "verifiedUntil s2 = verifiedUntil s1" "retryPeriod s2 = retryPeriod s1"
    using probeHealthy_fields [of "pe_elapsed PE" s1] h by simp_all
  have b: b
    using assms(2-4) answers(4) h d(1) v(1) by (auto simp: probe_rated_def Let_def split: bool.splits if_splits)
  with assms(2,3) answers(4) h v(2) have "t = pe_end PE + verifyTTL s1" "probeState s' = PathH2H3"
    "verifiedC p'" "failStreak p' = 0"
    by (auto simp: probe_rated_def Let_def state_defs slow_cadence_def verifyTTL_def)
  moreover have "pe_write PE = None" "pe_read PE = None" "pe_echo PE = probePing"
    using answers(3) by (auto simp: round_trip_def split: option.splits if_splits)
  ultimately show ?thesis
    using answers(1,2) d(2) h b
    by (simp add: probe_due_def idle_too_long_def probe_consts probePing_def)
next
  case (cooling s1)
  with assms probe_open_verified [OF assms(1) cooling(2)] show ?thesis by auto
next
  case (counted r s1)
  with assms probe_open_verified [OF assms(1) counted(3)] show ?thesis
    by (auto simp: count_failure_def Let_def split: if_splits)
next
  case (gone r s1)
  with assms show ?thesis by (auto simp: conn_gone_def)
next
  case idle
  with assms show ?thesis by (auto simp: probe_idle_def state_defs split: if_splits)
qed (use assms in simp)

theorem verified_only_by_round_trip_witness:
  "pe_echo sample_round = [0x59, 0x21] \<and> pe_now sample_round - lastActivity sample_client \<le> 10 * minute
   \<and> verifiedUntil (snd (probe_body sample_round new_prober sample_client)) = Some (10 + 20 * second)"
proof -
  have ttl: "verifyTTL sample_client = 20 * second"
    by (simp add: verifyTTL_small sample_client_eq second_def)
  have v: "verifiedUntil (snd (probe_body sample_round new_prober sample_client)) = Some (10 + 20 * second)"
    by (simp add: sample_round_verifies state_defs ttl)
  have "direct_inv sample_client" using sample_client_inv by (simp add: client_inv_def)
  from verified_only_by_round_trip [OF this prod.collapse [symmetric] v] v show ?thesis
    by (simp add: sample_client_eq)
qed

section \<open>Silence\<close>



section \<open>Failures\<close>

lemma alive_not_dial: "direct_inv s \<Longrightarrow> probe_open PE s = (r, s1) \<Longrightarrow> connAlive s1 \<Longrightarrow> r \<noteq> Inl (DialError e)"
  using probe_open_direct(3) [of s PE r s1 e] by (auto simp: connAlive_def connAliveLocked_def)

lemma cutover_facts:
  assumes "direct_inv s"
  shows "\<not> IsVerified t (dropAndFail now s)" and "d_conns s \<subseteq> dead (dropAndFail now s)"
    and "trs (dropAndFail now s) = {}" and "d_conns (dropAndFail now s) = d_conns s"
    and "d_qconn (dropAndFail now s) = None"
  using assms by (auto simp: direct_inv_def transport_inv_def dropAndFail_def IsVerified_def)

text \<open>A round of the prober fails on a connection that stays alive.\<close>

definition live_failure :: "probe_env \<Rightarrow> 'a client_state_scheme \<Rightarrow> bool" where
  "live_failure PE s \<longleftrightarrow> probe_due PE s \<and> probe_fails PE s \<and> connAlive (snd (probe_open PE s))"

lemma live_failure_body:
  "live_failure PE s \<Longrightarrow> probe_body PE p s = count_failure (pe_end PE) p (snd (probe_open PE s))"
  using probe_body_fails [of PE s "fst (probe_open PE s)" "snd (probe_open PE s)" p]
  by (simp add: live_failure_def)

lemma live_failure_keeps:
  assumes "direct_inv s" and "live_failure PE s"
  shows "verifiedUntil (snd (probe_open PE s)) = verifiedUntil s"
    and "direct_inv (snd (probe_open PE s))" and "connAlive (snd (probe_open PE s))"
proof -
  obtain r s1 where o: "probe_open PE s = (r, s1)" by fastforce
  with assms(2) have "connAlive s1" by (simp add: live_failure_def)
  with probe_open_direct(2) [OF assms(1) o] alive_not_dial [OF assms(1) o] o
  show "verifiedUntil (snd (probe_open PE s)) = verifiedUntil s" by auto
  show "direct_inv (snd (probe_open PE s))" "connAlive (snd (probe_open PE s))"
    using probe_open_direct(1) [OF assms(1) o] \<open>connAlive s1\<close> o by simp_all
qed

text \<open>
  C8 (functional). Two rounds in a row fail on a living connection, starting from a clean streak.
  After the first, the cache and the connection are kept; after the second, the cutover is complete:
  the path is unverified, every connection it dialled is closed and no QUIC transport is open.
\<close>

theorem two_failures_cut_over:
  assumes "direct_inv s" and "failStreak p = 0"
    and "live_failure PE1 s" and "probe_body PE1 p s = (p1, s1)"
    and "live_failure PE2 s1" and "probe_body PE2 p1 s1 = (p2, s2)"
  shows "(\<forall>t. IsVerified t s1 = IsVerified t s) \<and> connAlive s1 \<and> failStreak p1 = 1
    \<and> (\<forall>t. \<not> IsVerified t s2) \<and> d_conns s2 \<subseteq> dead s2 \<and> trs s2 = {} \<and> d_qconn s2 = None"
proof -
  note k1 = live_failure_keeps [OF assms(1,3)]
  have one: "s1 = snd (probe_open PE1 s)" "failStreak p1 = 1"
    using assms(2,4) live_failure_body [OF assms(3), of p] by (auto simp: count_failure_def probe_consts)
  have two: "s2 = dropAndFail (pe_end PE2) (snd (probe_open PE2 s1))"
    using assms(6) one(2) live_failure_body [OF assms(5), of p1] by (auto simp: count_failure_def probe_consts)
  have "direct_inv s1" using k1(2) one(1) by simp
  from live_failure_keeps(2) [OF this assms(5)] show ?thesis
    using one two k1 cutover_facts [of "snd (probe_open PE2 s1)"] by (simp add: IsVerified_def)
qed

text \<open>Rounds on the live connection of \<open>sample_live\<close>: the echo is lost, or is wrong.\<close>

definition sample_lost :: "time \<Rightarrow> probe_env" where
  "sample_lost now = sample_round\<lparr>pe_now := now, pe_open := sample_env now (Inr 3) None,
     pe_read := Some ''deadline exceeded'', pe_end := now + 3 * second\<rparr>"

lemma sample_live_opens:
  "failUntil s = None \<Longrightarrow> d_node s \<Longrightarrow> d_qconn s = Some 3 \<Longrightarrow> 3 \<notin> dead s \<Longrightarrow>
     openStream (sample_env now (Inr 3) None) s = (Inr 3, wait_open 3 {} s)"
  by (simp add: openStream_defs sample_env_def)

lemma sample_lost_failure:
  assumes "failUntil s = None" and "d_node s" and "d_qconn s = Some 3" and "3 \<notin> dead s"
    and "IsVerified now s" and "now \<le> 10 * minute" and "lastActive s = 0"
  shows "live_failure (sample_lost now) s" and "snd (probe_open (sample_lost now) s) = wait_open 3 {} s"
proof -
  have sync: "probe_sync now s = s" using assms(5) by (simp add: probe_sync_def)
  then show o: "snd (probe_open (sample_lost now) s) = wait_open 3 {} s"
    using sample_live_opens [OF assms(1-4), of now]
    by (simp add: probe_open_def sample_lost_def sample_round_def)
  have "fst (probe_open (sample_lost now) s) = Inr 3"
    using sync sample_live_opens [OF assms(1-4), of now]
    by (simp add: probe_open_def sample_lost_def sample_round_def)
  with o assms show "live_failure (sample_lost now) s"
    by (simp add: live_failure_def probe_due_def probe_fails_def round_trip_def idle_too_long_def
        probe_consts lastActivity_def sample_lost_def sample_round_def connAlive_def connAliveLocked_def)
qed

lemma sample_live_fields:
  "direct_inv sample_live" "failUntil sample_live = None" "d_node sample_live" "d_qconn sample_live = Some 3"
  "3 \<notin> dead sample_live" "lastActive sample_live = 0" "verifiedUntil sample_live = Some (5 + 20 * second)"
  by (simp_all add: sample_live_def sample_verified_def sample_client_eq state_defs direct_inv_def transport_inv_def)

lemma sample_live_waits:
  "live_failure (sample_lost 9) sample_live" "live_failure (sample_lost (10 * second)) (wait_open 3 {} sample_live)"
  "probe_body (sample_lost 9) (slow_cadence new_prober) sample_live
     = ((slow_cadence new_prober)\<lparr>failStreak := 1\<rparr>, wait_open 3 {} sample_live)"
proof -
  show l: "live_failure (sample_lost 9) sample_live"
    using sample_live_fields
    by (intro sample_lost_failure) (simp_all add: IsVerified_def minute_def second_def)
  show "live_failure (sample_lost (10 * second)) (wait_open 3 {} sample_live)"
    using sample_live_fields
    by (intro sample_lost_failure) (simp_all add: IsVerified_def minute_def second_def state_defs)
  have "snd (probe_open (sample_lost 9) sample_live) = wait_open 3 {} sample_live"
    using sample_live_fields
    by (intro sample_lost_failure) (simp_all add: IsVerified_def minute_def second_def)
  with live_failure_body [OF l] show "probe_body (sample_lost 9) (slow_cadence new_prober) sample_live
     = ((slow_cadence new_prober)\<lparr>failStreak := 1\<rparr>, wait_open 3 {} sample_live)"
    by (simp add: count_failure_def slow_cadence_def new_prober_def probe_consts)
qed

theorem two_failures_cut_over_witness:
  "\<exists>p2 s2. probe_body (sample_lost (10 * second)) ((slow_cadence new_prober)\<lparr>failStreak := 1\<rparr>)
      (wait_open 3 {} sample_live) = (p2, s2) \<and> \<not> IsVerified (11 * second) s2 \<and> d_qconn s2 = None"
proof -
  obtain p2 s2 where r: "probe_body (sample_lost (10 * second)) ((slow_cadence new_prober)\<lparr>failStreak := 1\<rparr>)
      (wait_open 3 {} sample_live) = (p2, s2)" by fastforce
  have "failStreak (slow_cadence new_prober) = 0" by (simp add: slow_cadence_def new_prober_def)
  from two_failures_cut_over [OF sample_live_fields(1) this sample_live_waits(1,3,2) r] r
  show ?thesis by blast
qed

text \<open>
  After a cutover caused by the streak the count is not cleared: a prober whose
  count has reached the limit closes the next connection on its first failed round, although a
  single failure on a living connection is meant to be tolerated.
\<close>

lemma streak_outlives_cutover:
  assumes "direct_inv s" and "2 \<le> failStreak p" and "live_failure PE s"
  shows "\<not> IsVerified t (snd (probe_body PE p s)) \<and> d_qconn (snd (probe_body PE p s)) = None
    \<and> d_conns (snd (probe_open PE s)) \<subseteq> dead (snd (probe_body PE p s))
    \<and> 2 \<le> failStreak (fst (probe_body PE p s))"
proof -
  have "probe_body PE p s = (p\<lparr>failStreak := failStreak p + 1\<rparr>, dropAndFail (pe_end PE) (snd (probe_open PE s)))"
    using assms(2) by (simp add: live_failure_body [OF assms(3)] count_failure_def probe_consts)
  with cutover_facts [OF live_failure_keeps(2) [OF assms(1,3)]] assms(2) show ?thesis by simp
qed

lemma streak_outlives_cutover_sample:
  "\<not> IsVerified (11 * second)
     (snd (probe_body (sample_lost 9) ((slow_cadence new_prober)\<lparr>failStreak := 2\<rparr>) sample_live))"
  using streak_outlives_cutover [OF sample_live_fields(1) _ sample_live_waits(1),
      of "(slow_cadence new_prober)\<lparr>failStreak := 2\<rparr>" "11 * second"] by simp

text \<open>
  C15 (error). A round that fails (other than by the cooldown of another caller) with the direct
  connection gone cuts over completely, whatever the streak: unverified, all connections closed, no
  QUIC transport open, and the prober is back on the fast cadence with a clean streak.
\<close>

theorem gone_connection_cuts_over:
  assumes "direct_inv s" and "probe_due PE s" and "probe_fails PE s"
    and "\<not> connAlive (snd (probe_open PE s))" and "probe_body PE p s = (p', s')"
  shows "\<not> IsVerified t s' \<and> d_conns s' \<subseteq> dead s' \<and> trs s' = {} \<and> d_qconn s' = None
    \<and> unverifiedC p' \<and> \<not> verifiedC p' \<and> failStreak p' = 0"
proof -
  have "(p', s') = conn_gone (pe_end PE) p (snd (probe_open PE s))"
    using probe_body_fails [OF assms(2,3) prod.collapse [symmetric], of p] assms(4,5) by simp
  with cutover_facts [OF probe_open_direct(1) [OF assms(1) prod.collapse [symmetric]]] show ?thesis
    by (simp add: conn_gone_def fast_cadence_def)
qed

theorem gone_connection_cuts_over_witness:
  "let PE = sample_round\<lparr>pe_open := sample_env 9 (Inl ''timeout'') None\<rparr>;
       r = probe_body PE (slow_cadence new_prober) sample_client
   in unverifiedC (fst r) \<and> \<not> IsVerified 9 (snd r) \<and> d_qconn (snd r) = None"
proof -
  let ?PE = "sample_round\<lparr>pe_open := sample_env 9 (Inl ''timeout'') None\<rparr>"
  have due: "probe_due ?PE sample_client"
    by (simp add: probe_due_def sample_round_def idle_too_long_def sample_client_eq lastActivity_def
        probe_consts minute_def second_def)
  have sync: "probe_sync 9 sample_client = sample_client"
    by (simp add: probe_sync_def PathState_def sample_client_eq IsVerified_def)
  have "fst (openStream (sample_env 9 (Inl ''timeout'') None) sample_client)
      = Inl (DialError (DialFailed ''timeout''))
    \<and> d_qconn (snd (openStream (sample_env 9 (Inl ''timeout'') None) sample_client)) = None"
    by (simp add: openStream_defs sample_client_eq sample_env_def sample_dial_def sample_parse state_defs Let_def)
  then obtain s1 where "openStream (sample_env 9 (Inl ''timeout'') None) sample_client
      = (Inl (DialError (DialFailed ''timeout'')), s1)" and n: "d_qconn s1 = None"
    by (metis prod.collapse)
  then have "probe_open ?PE sample_client = (Inl (DialError (DialFailed ''timeout'')), s1)"
    using sync by (simp add: probe_open_def sample_round_def)
  then have "probe_fails ?PE sample_client" "\<not> connAlive (snd (probe_open ?PE sample_client))"
    using n by (simp_all add: probe_fails_def connAlive_def connAliveLocked_def)
  moreover have "direct_inv sample_client" using sample_client_inv by (simp add: client_inv_def)
  ultimately show ?thesis
    using gone_connection_cuts_over [OF _ due _ _ prod.collapse [symmetric], of 9 "slow_cadence new_prober"]
    by (simp add: Let_def)
qed

section \<open>Degradation\<close>

text \<open>
  When the echo of a verified path comes back but slower than its baseline allows,
  the path is dropped; the cadence is left as it is. A prober on the slow cadence stays on it, so the
  path is probed again only after the retry period, not on the fast cadence the code's comment
  promises.
\<close>

lemma degraded_path_keeps_cadence:
  assumes "direct_inv s" and "probe_due PE s" and "probe_open PE s = (Inr c, s1)"
    and "round_trip PE = None" and "IsVerified (pe_now PE) s"
    and "\<not> fst (probeHealthy (pe_elapsed PE) s1)" and "probe_body PE p s = (p', s')"
  shows "\<not> IsVerified t s' \<and> d_conns s' \<subseteq> dead s' \<and> d_qconn s' = None \<and> failStreak p' = 0
    \<and> unverifiedC p' = unverifiedC p \<and> verifiedC p' = verifiedC p"
proof -
  obtain s2 where h: "probeHealthy (pe_elapsed PE) s1 = (False, s2)" using assms(6) by (metis prod.collapse)
  then have "s2 = s1" by (auto simp: probeHealthy_def split: if_splits)
  with h assms have "(p', s') = (p\<lparr>failStreak := 0\<rparr>, dropAndFail (pe_end PE) s1)"
    by (simp add: probe_body_answers probe_rated_def)
  with cutover_facts [OF probe_open_direct(1) [OF assms(1,3)]] show ?thesis by simp
qed

definition sample_slow :: probe_env where
  "sample_slow = sample_round\<lparr>pe_elapsed := 2 * second\<rparr>"

lemma degraded_path_keeps_cadence_sample:
  "let r = probe_body sample_slow (slow_cadence new_prober) (sample_live\<lparr>probeRTT := 40 * millisecond\<rparr>)
   in \<not> IsVerified 9 (snd r) \<and> verifiedC (fst r) \<and> \<not> unverifiedC (fst r)"
proof -
  let ?s = "sample_live\<lparr>probeRTT := 40 * millisecond\<rparr>"
  have f: "failUntil ?s = None" "d_node ?s" "d_qconn ?s = Some 3" "3 \<notin> dead ?s" "lastActive ?s = 0"
    "IsVerified 9 ?s" "direct_inv ?s"
    using sample_live_fields by (simp_all add: IsVerified_def second_def direct_inv_def transport_inv_def)
  have "probe_sync 9 ?s = ?s" using f(6) by (simp add: probe_sync_def)
  then have o: "probe_open sample_slow ?s = (Inr 3, wait_open 3 {} ?s)"
    using sample_live_opens [OF f(1-4), of 9]
    by (simp add: probe_open_def sample_slow_def sample_round_def state_defs)
  have "probe_threshold (40 * millisecond) = second"
    by (simp add: probe_threshold_def dur_mul_exact fits64_def unit_defs)
  then have slow: "\<not> fst (probeHealthy (pe_elapsed sample_slow) (wait_open 3 {} ?s))"
    by (simp add: probeHealthy_def sample_slow_def state_defs unit_defs)
  have due: "probe_due sample_slow ?s" "round_trip sample_slow = None" "IsVerified (pe_now sample_slow) ?s"
    using f by (simp_all add: probe_due_def sample_slow_def sample_round_def idle_too_long_def lastActivity_def
        probe_consts minute_def second_def round_trip_def)
  from degraded_path_keeps_cadence [OF f(7) due(1) o due(2,3) slow prod.collapse [symmetric], of 9 "slow_cadence new_prober"]
  show ?thesis by (simp add: Let_def slow_cadence_def)
qed

end
