(* ===== verification/Failover.thy ===== *)
theory Failover
  imports Address Interfaces Node
begin

text \<open>
  The failover monitor of the direct peering (\<^verbatim>\<open>internal/yggss/failover.go\<close>): its construction with
  the defaults, and one tick of \<open>Run\<close> as a function on its local variables. What a tick sees of the
  outside (the peerings, the TCP connect, the answers of \<open>RemovePeer\<close> and \<open>AddPeer\<close>) is a record.
  The two counters are instances of \<open>streak_counter\<close>.
\<close>

section \<open>Construction\<close>

definition failoverDegradeLimit :: int where
  "failoverDegradeLimit = 3"

definition failoverRecoverLimit :: int where
  "failoverRecoverLimit = 2"

definition defaultFailoverLatencyMs :: int where
  "defaultFailoverLatencyMs = 1000"

definition defaultFailoverCheckSec :: int where
  "defaultFailoverCheckSec = 5"

definition failoverProbeTimeout :: duration where
  "failoverProbeTimeout = 3 * second"

lemmas failover_consts = failoverDegradeLimit_def failoverRecoverLimit_def
  defaultFailoverLatencyMs_def defaultFailoverCheckSec_def failoverProbeTimeout_def

datatype failover_mode = FailoverDirect | FailoverMesh

record failover_monitor =
  fm_directURI :: string
  fm_directHost :: string
  fm_serverKey :: key
  fm_maxLatency :: duration
  fm_checkEvery :: duration

text \<open>\<open>url_host\<close> gives the \<open>Host\<close> of \<open>url.Parse\<close>, \<open>None\<close> on its error.\<close>

definition newFailoverMonitor ::
    "(string \<Rightarrow> string option) \<Rightarrow> string \<Rightarrow> key \<Rightarrow> int \<Rightarrow> int \<Rightarrow> failover_monitor option" where
  "newFailoverMonitor url_host directURI serverKey latencyMs checkSec =
     (if directURI = [] \<or> length serverKey \<noteq> PublicKeySize then None
      else case url_host directURI of
             None \<Rightarrow> None
           | Some h \<Rightarrow>
               if h = [] then None
               else
                 (let latencyMs = (if latencyMs \<le> 0 then defaultFailoverLatencyMs else latencyMs);
                      checkSec = (if checkSec \<le> 0 then defaultFailoverCheckSec else checkSec)
                  in Some \<lparr>fm_directURI = directURI, fm_directHost = h, fm_serverKey = serverKey,
                       fm_maxLatency = dur_mul latencyMs millisecond,
                       fm_checkEvery = dur_mul checkSec second\<rparr>))"

section \<open>The health-check loop\<close>

text \<open>
  The local variables of \<open>Run\<close>, and \<open>peering\<close>: whether the direct peering is registered in the node,
  which \<open>RemovePeer\<close> and \<open>AddPeer\<close> change when they succeed.
\<close>

record failover_state =
  mode :: failover_mode
  bad :: int
  good :: int
  peering :: bool

text \<open>\<open>main\<close> starts the monitor also when it could not add the server as a peer; it only warns then.\<close>

definition failover_start :: "bool \<Rightarrow> failover_state" where
  "failover_start added = \<lparr>mode = FailoverDirect, bad = 0, good = 0, peering = added\<rparr>"

text \<open>\<open>fe_connect\<close> is the TCP connect of \<open>probeDirect\<close>: the time it took, or \<open>None\<close> on failure.\<close>

record failover_env =
  fe_peers :: "peer_info list"
  fe_connect :: "string \<Rightarrow> duration \<Rightarrow> duration option"
  fe_remove :: "string option"
  fe_add :: "string option"

definition probeDirect :: "failover_monitor \<Rightarrow> failover_env \<Rightarrow> duration option" where
  "probeDirect m F = fe_connect F (probe_host (fm_directHost m)) failoverProbeTimeout"

definition bad_sample :: "failover_monitor \<Rightarrow> failover_env \<Rightarrow> bool" where
  "bad_sample m F =
     (case directLinkLatency (fm_serverKey m) (fe_peers F) of
        None \<Rightarrow> True
      | Some lat \<Rightarrow> \<not> lat \<le> fm_maxLatency m)"

definition tick_direct :: "failover_monitor \<Rightarrow> failover_env \<Rightarrow> failover_state \<Rightarrow> failover_state" where
  "tick_direct m F s =
     (if \<not> bad_sample m F then s\<lparr>bad := 0\<rparr>
      else
        (let s1 = s\<lparr>bad := bad s + 1\<rparr>
         in if failoverDegradeLimit \<le> bad s1 then
              (case fe_remove F of
                 Some e \<Rightarrow> s1
               | None \<Rightarrow> s1\<lparr>mode := FailoverMesh, good := 0, peering := False\<rparr>)
            else s1))"

definition tick_mesh :: "failover_monitor \<Rightarrow> failover_env \<Rightarrow> failover_state \<Rightarrow> failover_state" where
  "tick_mesh m F s =
     (let s1 = s\<lparr>good := (if probeDirect m F \<noteq> None then good s + 1 else 0)\<rparr>
      in if failoverRecoverLimit \<le> good s1 then
           (case fe_add F of
              Some e \<Rightarrow> s1
            | None \<Rightarrow> s1\<lparr>mode := FailoverDirect, bad := 0, peering := True\<rparr>)
         else s1)"

definition tick :: "failover_monitor \<Rightarrow> failover_env \<Rightarrow> failover_state \<Rightarrow> failover_state" where
  "tick m F s =
     (case mode s of FailoverDirect \<Rightarrow> tick_direct m F s | FailoverMesh \<Rightarrow> tick_mesh m F s)"

definition failover_run :: "failover_monitor \<Rightarrow> failover_env list \<Rightarrow> failover_state \<Rightarrow> failover_state" where
  "failover_run m Fs s = foldl (\<lambda>s F. tick m F s) s Fs"

lemmas tick_defs = tick_def tick_direct_def tick_mesh_def failover_consts

section \<open>The counters\<close>

interpretation bad_count: streak_counter bad "tick m" "bad_sample m" "\<lambda>s. mode s = FailoverDirect"
  for m
  by standard (auto simp: tick_defs Let_def split: failover_mode.splits option.splits if_splits)

interpretation good_count: streak_counter good "tick m" "\<lambda>F. probeDirect m F \<noteq> None"
  "\<lambda>s. mode s = FailoverMesh" for m
  by standard (auto simp: tick_defs Let_def split: failover_mode.splits option.splits if_splits)

lemma failover_run_steps: "failover_run m Fs s = bad_count.run_steps m Fs s"
  by (simp add: failover_run_def bad_count.run_steps_def)

lemma failover_run_snoc: "failover_run m (Fs @ [F]) s = tick m F (failover_run m Fs s)"
  by (simp add: failover_run_def)

text \<open>
  The direct peering is only removed after three consecutive bad samples: whenever a
  tick moves the monitor from the direct to the mesh mode, that sample and the two before it were
  bad (link down, or latency above the threshold), and \<open>RemovePeer\<close> succeeded.
\<close>

lemma removal_needs_three_bad_samples:
  assumes "mode (failover_run m Fs (failover_start added)) = FailoverDirect"
    and "mode (failover_run m (Fs @ [F]) (failover_start added)) = FailoverMesh"
  shows "2 \<le> length Fs \<and> fe_remove F = None \<and>
    (\<forall>G \<in> set (drop (length Fs - 2) (Fs @ [F])). bad_sample m G)"
proof -
  let ?s = "failover_run m Fs (failover_start added)"
  have "tick m F ?s = tick_direct m F ?s" using assms(1) by (simp add: tick_def)
  with assms have t: "bad_sample m F" "2 \<le> bad ?s" "fe_remove F = None"
    by (auto simp: failover_run_snoc tick_direct_def failover_consts Let_def split: if_splits option.splits)
  note start = failover_run_steps [of m Fs "failover_start added"]
  have z: "mode (failover_start added) = FailoverDirect \<Longrightarrow> bad (failover_start added) = 0"
    by (simp add: failover_start_def)
  have "bad_sample m G" if "G \<in> set (drop (length Fs - 2) Fs)" for G
    using bad_count.count_witness [OF z, of m Fs 2 G] assms(1) t(2) that by (simp add: start)
  moreover have "2 \<le> int (length Fs)"
    using bad_count.count_le_length [OF z, of m Fs] assms(1) t(2) by (simp add: start)
  ultimately show ?thesis using t by auto
qed

text \<open>
  The direct peering is only restored after two consecutive successful connects to the
  endpoint since its removal, and only when \<open>AddPeer\<close> succeeded.
\<close>

lemma restore_needs_two_good_probes:
  assumes "mode (failover_run m Fs (failover_start added)) = FailoverMesh"
    and "mode (failover_run m (Fs @ [F]) (failover_start added)) = FailoverDirect"
  shows "1 \<le> length Fs \<and> fe_add F = None \<and>
    (\<forall>G \<in> set (drop (length Fs - 1) (Fs @ [F])). probeDirect m G \<noteq> None)"
proof -
  let ?s = "failover_run m Fs (failover_start added)"
  have "tick m F ?s = tick_mesh m F ?s" using assms(1) by (simp add: tick_def)
  with assms have t: "probeDirect m F \<noteq> None" "1 \<le> good ?s" "fe_add F = None"
    by (auto simp: failover_run_snoc tick_mesh_def failover_consts Let_def split: if_splits option.splits)
  have start: "failover_run m Fs (failover_start added) = good_count.run_steps m Fs (failover_start added)"
    by (simp add: failover_run_def good_count.run_steps_def)
  have z: "mode (failover_start added) = FailoverMesh \<Longrightarrow> good (failover_start added) = 0"
    by (simp add: failover_start_def)
  have "probeDirect m G \<noteq> None" if "G \<in> set (drop (length Fs - 1) Fs)" for G
    using good_count.count_witness [OF z, of m Fs 1 G] assms(1) t(2) that by (simp add: start)
  moreover have "1 \<le> int (length Fs)"
    using good_count.count_le_length [OF z, of m Fs] assms(1) t(2) by (simp add: start)
  ultimately show ?thesis using t by auto
qed

section \<open>Samples\<close>

definition sample_monitor :: failover_monitor where
  "sample_monitor = \<lparr>fm_directURI = ''tls://192.0.2.1:443'', fm_directHost = ''192.0.2.1:443'',
     fm_serverKey = sample_key, fm_maxLatency = second, fm_checkEvery = 5 * second\<rparr>"

text \<open>The link is down, or up; the endpoint can be reached or not.\<close>

definition sample_tick :: "peer_info list \<Rightarrow> bool \<Rightarrow> failover_env" where
  "sample_tick peers reach = \<lparr>fe_peers = peers,
     fe_connect = (\<lambda>_ _. if reach then Some (20 * millisecond) else None), fe_remove = None, fe_add = None\<rparr>"

lemma sample_down_tick [simp]: "bad_sample sample_monitor (sample_tick [] r)"
  by (simp add: bad_sample_def sample_tick_def)

lemma sample_up_tick [simp]: "\<not> bad_sample sample_monitor (sample_tick [sample_peer] r)"
  by (simp add: bad_sample_def sample_tick_def sample_monitor_def sample_peer_def unit_defs)

lemma sample_probe [simp]: "(probeDirect m (sample_tick ps r) = None) = (\<not> r)"
  by (simp add: probeDirect_def sample_tick_def)

lemma sample_answers [simp]: "fe_remove (sample_tick ps r) = None" "fe_add (sample_tick ps r) = None"
  by (simp_all add: sample_tick_def)

lemma removal_needs_three_bad_samples_sample:
  "list_all (bad_sample sample_monitor) [sample_tick [] False, sample_tick [] False, sample_tick [] False]"
proof -
  let ?F = "sample_tick [] False"
  have "mode (failover_run sample_monitor [?F, ?F] (failover_start True)) = FailoverDirect"
    "mode (failover_run sample_monitor ([?F, ?F] @ [?F]) (failover_start True)) = FailoverMesh"
    by (simp_all add: failover_run_def failover_start_def tick_defs)
  from removal_needs_three_bad_samples [OF this] show ?thesis by simp
qed

lemma restore_needs_two_good_probes_sample:
  "list_all (\<lambda>G. probeDirect sample_monitor G \<noteq> None)
     (drop 3 [sample_tick [] False, sample_tick [] False, sample_tick [] False,
              sample_tick [] True, sample_tick [] True])"
proof -
  let ?F = "sample_tick [] False" and ?T = "sample_tick [] True"
  have "mode (failover_run sample_monitor [?F, ?F, ?F, ?T] (failover_start True)) = FailoverMesh"
    "mode (failover_run sample_monitor ([?F, ?F, ?F, ?T] @ [?T]) (failover_start True)) = FailoverDirect"
    by (simp_all add: failover_run_def failover_start_def tick_defs)
  from restore_needs_two_good_probes [OF this] show ?thesis by (simp del: not_None_eq)
qed

section \<open>Invariant and progress\<close>

definition failover_inv :: "failover_state \<Rightarrow> bool" where
  "failover_inv s \<longleftrightarrow> (mode s = FailoverMesh \<longrightarrow> \<not> peering s) \<and> 0 \<le> bad s \<and> 0 \<le> good s"

lemma tick_inv: "failover_inv s \<Longrightarrow> failover_inv (tick m F s)"
  by (auto simp: failover_inv_def tick_defs Let_def split: failover_mode.splits option.splits)

lemma failover_run_inv: "failover_inv s \<Longrightarrow> failover_inv (failover_run m Fs s)"
  by (induction Fs rule: rev_induct) (simp_all add: failover_run_snoc tick_inv, simp add: failover_run_def)

lemma failover_start_inv: "failover_inv (failover_start added)"
  by (simp add: failover_inv_def failover_start_def)

text \<open>
  At every moment of a run the direct peering is registered in the node exactly when the monitor is in the
  direct mode and either the peering was registered at the start or the monitor has been in the mesh
  mode, so that it has restored the peering itself.
\<close>

lemma tick_peering:
  "mode s = FailoverDirect \<Longrightarrow> mode (tick m F s) = FailoverDirect \<Longrightarrow> peering (tick m F s) = peering s"
  "mode (tick m F s) = FailoverMesh \<Longrightarrow> (mode s = FailoverMesh \<Longrightarrow> \<not> peering s) \<Longrightarrow> \<not> peering (tick m F s)"
  "mode s = FailoverMesh \<Longrightarrow> mode (tick m F s) = FailoverDirect \<Longrightarrow> peering (tick m F s)"
  by (auto simp: tick_defs Let_def split: failover_mode.splits option.splits if_splits)

lemma peering_matches_mode:
  "peering (failover_run m Fs (failover_start added)) \<longleftrightarrow>
     mode (failover_run m Fs (failover_start added)) = FailoverDirect
     \<and> (added \<or> (\<exists>n. mode (failover_run m (take n Fs) (failover_start added)) = FailoverMesh))"
proof (induction Fs rule: rev_induct)
  case Nil
  show ?case by (simp add: failover_run_def failover_start_def)
next
  case (snoc F Fs)
  let ?s = "failover_run m Fs (failover_start added)"
  let ?been = "\<lambda>Fs. \<exists>n. mode (failover_run m (take n Fs) (failover_start added)) = FailoverMesh"
  have split: "?been (Fs @ [F]) \<longleftrightarrow> ?been Fs \<or> mode (tick m F ?s) = FailoverMesh"
  proof -
    have "take n (Fs @ [F]) = take n Fs \<or> take n (Fs @ [F]) = Fs @ [F]" for n
      by (cases "n \<le> length Fs") auto
    moreover have "take (Suc (length Fs)) (Fs @ [F]) = Fs @ [F]"
      "\<And>n. take (min n (length Fs)) (Fs @ [F]) = take n Fs" by (simp_all add: min_def)
    ultimately show ?thesis by (metis failover_run_snoc)
  qed
  have here: "mode ?s = FailoverMesh \<Longrightarrow> ?been Fs" by (rule exI [of _ "length Fs"]) simp
  show ?case
    using snoc here tick_peering [where s = ?s and m = m and F = F]
    unfolding split failover_run_snoc by (cases "mode ?s"; cases "mode (tick m F ?s)") auto
qed

lemma tick_bad: "mode s = FailoverDirect \<Longrightarrow> bad_sample m F \<Longrightarrow> fe_remove F = None \<Longrightarrow>
    tick m F s = (if 2 \<le> bad s then s\<lparr>bad := bad s + 1, mode := FailoverMesh, good := 0, peering := False\<rparr>
                  else s\<lparr>bad := bad s + 1\<rparr>)"
  by (simp add: tick_defs)

lemma tick_good: "mode s = FailoverMesh \<Longrightarrow> probeDirect m F \<noteq> None \<Longrightarrow> fe_add F = None \<Longrightarrow>
    tick m F s = (if 1 \<le> good s then s\<lparr>good := good s + 1, mode := FailoverDirect, bad := 0, peering := True\<rparr>
                  else s\<lparr>good := good s + 1\<rparr>)"
  by (simp add: tick_defs)

lemma failover_run_app: "failover_run m (Fs @ Gs) s = failover_run m Gs (failover_run m Fs s)"
  by (simp add: failover_run_def)

text \<open>Progress in the mesh mode, whatever the counter: also when earlier restores failed.\<close>

lemma mesh_restores:
  assumes "mode s = FailoverMesh" and "0 \<le> good s"
    and "list_all (\<lambda>F. probeDirect m F \<noteq> None \<and> fe_add F = None) [G1, G2]"
  shows "\<exists>k \<in> {1, 2}. mode (failover_run m (take k [G1, G2]) s) = FailoverDirect
    \<and> peering (failover_run m (take k [G1, G2]) s)"
proof -
  let ?k = "if 1 \<le> good s then 1 else 2 :: nat"
  have "mode (failover_run m (take ?k [G1, G2]) s) = FailoverDirect
    \<and> peering (failover_run m (take ?k [G1, G2]) s)"
    using assms by (auto simp: failover_run_def tick_good)
  moreover have "?k \<in> {1, 2}" by simp
  ultimately show ?thesis by blast
qed

lemma direct_degrades:
  assumes "mode s = FailoverDirect" and "0 \<le> bad s"
    and "list_all (\<lambda>F. bad_sample m F \<and> fe_remove F = None) [F1, F2, F3]"
  shows "\<exists>k \<in> {1, 2, 3}. mode (failover_run m (take k [F1, F2, F3]) s) = FailoverMesh
    \<and> good (failover_run m (take k [F1, F2, F3]) s) = 0"
proof -
  let ?k = "if 2 \<le> bad s then 1 else if 1 \<le> bad s then 2 else 3 :: nat"
  have "mode (failover_run m (take ?k [F1, F2, F3]) s) = FailoverMesh
    \<and> good (failover_run m (take ?k [F1, F2, F3]) s) = 0"
    using assms by (auto simp: failover_run_def tick_bad)
  moreover have "?k \<in> {1, 2, 3}" by simp
  ultimately show ?thesis by blast
qed

text \<open>
  C10 (liveness). The monitor cannot get stuck in either mode, whatever it has been through. From every
  reachable state of the direct mode, three bad samples in a row with a working \<open>RemovePeer\<close> lead to the
  mesh mode at one of them, and after that two good probes in a row with a working \<open>AddPeer\<close> restore the
  peering. From every reachable state of the mesh mode, however many restores have failed before,
  two good probes with a working \<open>AddPeer\<close> restore the peering at one of them.
\<close>

theorem failover_reacts:
  assumes "s = failover_run m Fs (failover_start added)"
    and "list_all (\<lambda>F. bad_sample m F \<and> fe_remove F = None) [F1, F2, F3]"
    and "list_all (\<lambda>F. probeDirect m F \<noteq> None \<and> fe_add F = None) [G1, G2]"
  shows "case mode s of
      FailoverDirect \<Rightarrow>
        (\<exists>k \<in> {1, 2, 3}. mode (failover_run m (take k [F1, F2, F3]) s) = FailoverMesh
           \<and> mode (failover_run m (take k [F1, F2, F3] @ [G1, G2]) s) = FailoverDirect
           \<and> peering (failover_run m (take k [F1, F2, F3] @ [G1, G2]) s))
    | FailoverMesh \<Rightarrow>
        (\<exists>k \<in> {1, 2}. mode (failover_run m (take k [G1, G2]) s) = FailoverDirect
           \<and> peering (failover_run m (take k [G1, G2]) s))"
proof (cases "mode s")
  case FailoverMesh
  have "0 \<le> good s" using failover_run_inv [OF failover_start_inv] assms(1) by (simp add: failover_inv_def)
  from mesh_restores [OF FailoverMesh this assms(3)] FailoverMesh show ?thesis by simp
next
  case FailoverDirect
  have "0 \<le> bad s" using failover_run_inv [OF failover_start_inv] assms(1) by (simp add: failover_inv_def)
  from direct_degrades [OF FailoverDirect this assms(2)] obtain k where k: "k \<in> {1, 2, 3}"
    "mode (failover_run m (take k [F1, F2, F3]) s) = FailoverMesh"
    "good (failover_run m (take k [F1, F2, F3]) s) = 0" by blast
  have "mode (failover_run m [G1, G2] u) = FailoverDirect \<and> peering (failover_run m [G1, G2] u)"
    if "mode u = FailoverMesh" "good u = 0" for u
    using that assms(3) by (simp add: failover_run_def tick_good)
  from this [OF k(2,3)] k(1,2) FailoverDirect show ?thesis
    unfolding failover_run_app by auto
qed

text \<open>A restore that failed once, because \<open>AddPeer\<close> refused, is made up for by the next good probe.\<close>

definition sample_refused :: failover_env where
  "sample_refused = (sample_tick [] True)\<lparr>fe_add := Some ''refused''\<rparr>"

theorem failover_reacts_witness:
  "let s = failover_run sample_monitor (replicate 3 (sample_tick [] False) @ replicate 5 sample_refused)
       (failover_start True)
   in mode s = FailoverMesh \<and> good s = 5
      \<and> (\<exists>k \<in> {1, 2}. peering (failover_run sample_monitor (take k [sample_tick [] True, sample_tick [] True]) s))"
proof -
  let ?Fs = "replicate 3 (sample_tick [] False) @ replicate 5 sample_refused"
  obtain s where s: "s = failover_run sample_monitor ?Fs (failover_start True)" by blast
  have refused: "probeDirect sample_monitor sample_refused \<noteq> None" "fe_add sample_refused = Some ''refused''"
    by (simp_all add: sample_refused_def probeDirect_def sample_tick_def)
  then have m: "mode s = FailoverMesh" "good s = 5"
    unfolding s by (simp_all add: failover_run_def failover_start_def tick_defs numeral_eq_Suc)
  from failover_reacts [OF s, of "sample_tick [] False" "sample_tick [] False" "sample_tick [] False"
      "sample_tick [] True" "sample_tick [] True"] m
  have "\<exists>k \<in> {1, 2}. peering (failover_run sample_monitor (take k [sample_tick [] True, sample_tick [] True]) s)"
    by (auto simp del: not_None_eq)
  with m show ?thesis unfolding Let_def s by blast
qed

text \<open>
  The monitor exists exactly when there is a direct URI with a host and a server key of
  32 bytes. Its threshold and period are positive and exactly the configured numbers, the defaults
  standing for zero and negative ones, as long as they stay below 292 years.
\<close>

lemma monitor_parameters:
  assumes "latencyMs \<le> 9223372036854" and "checkSec \<le> 9223372036"
  shows "newFailoverMonitor url_host uri key latencyMs checkSec =
    (if uri \<noteq> [] \<and> length key = 32 \<and> url_host uri \<notin> {None, Some []}
     then Some \<lparr>fm_directURI = uri, fm_directHost = the (url_host uri), fm_serverKey = key,
            fm_maxLatency = (if latencyMs \<le> 0 then 1000 else latencyMs) * millisecond,
            fm_checkEvery = (if checkSec \<le> 0 then 5 else checkSec) * second\<rparr>
     else None)"
  using assms
  by (auto simp: newFailoverMonitor_def PublicKeySize_def failover_consts unit_defs dur_mul_exact fits64_def
      Let_def split: option.split)

lemma monitor_parameters_sample:
  "newFailoverMonitor (\<lambda>_. Some ''192.0.2.1:443'') ''tls://192.0.2.1:443'' sample_key 1000 0
     = Some sample_monitor"
proof -
  have "length sample_key = 32" by (simp add: sample_key_def)
  then show ?thesis
    using monitor_parameters [of 1000 0 "\<lambda>_. Some ''192.0.2.1:443''" "''tls://192.0.2.1:443''" sample_key]
    by (simp add: sample_monitor_def unit_defs)
qed


section \<open>The specification: debouncing over histories\<close>

text \<open>
  What the monitor promises, without counters: the specification remembers every sample since the
  mode was entered and changes the mode when the last ones are all bad (or all good), unless the
  node refuses. The code keeps a number instead of the history.
\<close>

record debounced =
  sp_mode :: failover_mode
  history :: "bool list"

definition ends_with :: "nat \<Rightarrow> bool list \<Rightarrow> bool" where
  "ends_with n h \<longleftrightarrow> n \<le> length h \<and> list_all id (drop (length h - n) h)"

definition spec_start :: debounced where
  "spec_start = \<lparr>sp_mode = FailoverDirect, history = []\<rparr>"

definition spec_tick :: "failover_monitor \<Rightarrow> failover_env \<Rightarrow> debounced \<Rightarrow> debounced" where
  "spec_tick m F a =
     (case sp_mode a of
        FailoverDirect \<Rightarrow>
          (let h = history a @ [bad_sample m F]
           in if ends_with 3 h \<and> fe_remove F = None then \<lparr>sp_mode = FailoverMesh, history = []\<rparr>
              else \<lparr>sp_mode = FailoverDirect, history = h\<rparr>)
      | FailoverMesh \<Rightarrow>
          (let h = history a @ [probeDirect m F \<noteq> None]
           in if ends_with 2 h \<and> fe_add F = None then \<lparr>sp_mode = FailoverDirect, history = []\<rparr>
              else \<lparr>sp_mode = FailoverMesh, history = h\<rparr>))"

definition spec_run :: "failover_monitor \<Rightarrow> failover_env list \<Rightarrow> debounced" where
  "spec_run m Fs = foldl (\<lambda>a F. spec_tick m F a) spec_start Fs"

lemma ends_with_trailing: "ends_with n h \<longleftrightarrow> n \<le> trailing id h"
proof
  assume "n \<le> trailing id h"
  then show "ends_with n h"
    using trailing_le [of id h] trailing_ge_last [of n id h] by (auto simp: ends_with_def list_all_iff)
next
  assume "ends_with n h"
  then have "n \<le> length h" "list_all id (take n (rev h))"
    by (auto simp: ends_with_def take_rev list_all_iff)
  then have "takeWhile id (rev h) = take n (rev h) @ takeWhile id (drop n (rev h))"
    by (metis append_take_drop_id list_all_iff takeWhile_append2)
  with \<open>n \<le> length h\<close> show "n \<le> trailing id h" by (simp add: trailing_def)
qed

text \<open>The counter of the current mode is the length of the run of hits at the end of the history.\<close>

definition implements :: "failover_state \<Rightarrow> debounced \<Rightarrow> bool" where
  "implements s a \<longleftrightarrow> mode s = sp_mode a
     \<and> (case sp_mode a of FailoverDirect \<Rightarrow> bad s = int (trailing id (history a))
        | FailoverMesh \<Rightarrow> good s = int (trailing id (history a)))"

lemma tick_implements: "implements s a \<Longrightarrow> implements (tick m F s) (spec_tick m F a)"
  by (cases "sp_mode a"; cases "fe_remove F"; cases "fe_add F")
    (simp_all add: implements_def spec_tick_def ends_with_trailing tick_defs Let_def)

lemma failover_implements: "implements (failover_run m Fs (failover_start added)) (spec_run m Fs)"
proof (induction Fs rule: rev_induct)
  case Nil
  show ?case by (simp add: implements_def failover_run_def spec_run_def failover_start_def spec_start_def)
next
  case (snoc F Fs)
  from tick_implements [OF this, of m F] show ?case by (simp add: failover_run_def spec_run_def)
qed

text \<open>
  C23 (refinement). The monitor implements its specification: after any sequence of ticks, with any
  latencies, connects and answers of the node, the mode is that of the debouncing specification, and
  the counter that matters equals the number of consecutive hits that end the specification's
  history. The direct peering is registered exactly in the direct mode, once it was added at the
  start or the specification has been in the mesh mode.
\<close>

theorem monitor_refines_debounce:
  "let s = failover_run m Fs (failover_start added); a = spec_run m Fs
   in mode s = sp_mode a
      \<and> (peering s \<longleftrightarrow> sp_mode a = FailoverDirect
           \<and> (added \<or> (\<exists>n. sp_mode (spec_run m (take n Fs)) = FailoverMesh)))
      \<and> (case sp_mode a of FailoverDirect \<Rightarrow> bad s | FailoverMesh \<Rightarrow> good s) = int (trailing id (history a))"
proof -
  have "mode (failover_run m Gs (failover_start added)) = sp_mode (spec_run m Gs)" for Gs
    using failover_implements [of m Gs added] by (simp add: implements_def)
  then show ?thesis
    using failover_implements [of m Fs added] peering_matches_mode [of m Fs added]
    by (cases "sp_mode (spec_run m Fs)") (simp_all add: implements_def Let_def)
qed

end
