(* ===== verification/Auth.thy ===== *)
theory Auth
  imports Interfaces Node
begin

text \<open>
  Who may talk to whom. The four \<open>VerifyPeerCertificate\<close> callbacks (\<^verbatim>\<open>internal/yggss/tunnel.go\<close> and
  \<^verbatim>\<open>internal/yggss/direct.go\<close>), each translated on its own, and the client whitelist with
  \<open>parseKey\<close> (\<^verbatim>\<open>cmd/yggss/main.go\<close>). The X.509 parser is the argument \<open>x509\<close>. The callbacks are
  instances of \<open>key_gate\<close>.
\<close>

section \<open>Certificates\<close>

datatype public_key = Ed25519 key | OtherKey

datatype auth_error = NoCertificate | BadCertificate string | NotEd25519 | NotAllowed | KeyMismatch

type_synonym 'c x509 = "'c \<Rightarrow> string + public_key"

section \<open>The server side\<close>

text \<open>\<open>server.tlsConfig\<close>; a nil whitelist and an empty one both have length 0.\<close>

definition server_verify :: "'c x509 \<Rightarrow> key set \<Rightarrow> 'c list \<Rightarrow> auth_error option" where
  "server_verify x509 allowed rawCerts =
     (if allowed = {} then None
      else case rawCerts of
             [] \<Rightarrow> Some NoCertificate
           | c # _ \<Rightarrow>
               (case x509 c of
                  Inl e \<Rightarrow> Some (BadCertificate e)
                | Inr OtherKey \<Rightarrow> Some NotEd25519
                | Inr (Ed25519 pk) \<Rightarrow> if pk \<notin> allowed then Some NotAllowed else None))"

text \<open>\<open>directServerTLS\<close>.\<close>

definition direct_server_verify :: "'c x509 \<Rightarrow> key set \<Rightarrow> 'c list \<Rightarrow> auth_error option" where
  "direct_server_verify x509 allowed rawCerts =
     (if allowed = {} then None
      else if rawCerts = [] then Some NoCertificate
      else case x509 (hd rawCerts) of
             Inl e \<Rightarrow> Some (BadCertificate e)
           | Inr k \<Rightarrow>
               (case k of
                  OtherKey \<Rightarrow> Some NotEd25519
                | Ed25519 pk \<Rightarrow> if pk \<in> allowed then None else Some NotAllowed))"

section \<open>The client side\<close>

text \<open>\<open>client.tlsConfig\<close>.\<close>

definition client_verify :: "'c x509 \<Rightarrow> key \<Rightarrow> 'c list \<Rightarrow> auth_error option" where
  "client_verify x509 serverKey rawCerts =
     (case rawCerts of
        [] \<Rightarrow> Some NoCertificate
      | c # _ \<Rightarrow>
          (case x509 c of
             Inl e \<Rightarrow> Some (BadCertificate e)
           | Inr OtherKey \<Rightarrow> Some KeyMismatch
           | Inr (Ed25519 pk) \<Rightarrow> if pk \<noteq> serverKey then Some KeyMismatch else None))"

text \<open>The callback of \<open>directDialTransport\<close>.\<close>

definition direct_client_verify :: "'c x509 \<Rightarrow> key \<Rightarrow> 'c list \<Rightarrow> auth_error option" where
  "direct_client_verify x509 serverKey rawCerts =
     (if rawCerts = [] then Some NoCertificate
      else case x509 (hd rawCerts) of
             Inl e \<Rightarrow> Some (BadCertificate e)
           | Inr k \<Rightarrow> if k = Ed25519 serverKey then None else Some KeyMismatch)"

section \<open>The whitelist\<close>

datatype key_parse_error = InvalidHexKey | KeySize

definition parseKey :: "string \<Rightarrow> nat \<Rightarrow> key_parse_error + key" where
  "parseKey s sz =
     (case hex_DecodeString (strings_TrimSpace s) of
        None \<Rightarrow> Inl InvalidHexKey
      | Some b \<Rightarrow> if length b \<noteq> sz then Inl KeySize else Inr b)"

text \<open>The loop over the entries; an entry that is not a key ends the program.\<close>

fun whitelist_entries :: "string list \<Rightarrow> key_parse_error + key set" where
  "whitelist_entries [] = Inr {}"
| "whitelist_entries (k # ks) =
     (let k = strings_TrimSpace k
      in if k = [] then whitelist_entries ks
         else case parseKey k PublicKeySize of
                Inl e \<Rightarrow> Inl e
              | Inr pk \<Rightarrow> (case whitelist_entries ks of Inl e \<Rightarrow> Inl e | Inr A \<Rightarrow> Inr (insert pk A)))"

definition whitelist :: "string \<Rightarrow> key_parse_error + key set" where
  "whitelist clientKeyHex =
     (if clientKeyHex = [] then Inr {} else whitelist_entries (strings_Split clientKeyHex CHR '',''))"

section \<open>The callbacks as key gates\<close>

definition leaf_key :: "'c x509 \<Rightarrow> 'c \<Rightarrow> key option" where
  "leaf_key x509 c = (case x509 c of Inr (Ed25519 k) \<Rightarrow> Some k | _ \<Rightarrow> None)"

lemma leaf_key_Some: "leaf_key x509 c = Some k \<longleftrightarrow> x509 c = Inr (Ed25519 k)"
  by (auto simp: leaf_key_def split: sum.splits public_key.splits)

interpretation mesh_gate: key_gate "server_verify x509 allowed" "leaf_key x509" "\<lambda>k. k \<in> allowed" "allowed = {}"
  for x509 :: "'c x509" and allowed
  by standard (auto simp: server_verify_def leaf_key_Some split: list.split sum.split public_key.split)

interpretation direct_gate: key_gate "direct_server_verify x509 allowed" "leaf_key x509" "\<lambda>k. k \<in> allowed"
  "allowed = {}" for x509 :: "'c x509" and allowed
proof
  fix cs :: "'c list"
  show "allowed = {} \<Longrightarrow> direct_server_verify x509 allowed cs = None"
    by (simp add: direct_server_verify_def)
  show "allowed \<noteq> {} \<Longrightarrow> direct_server_verify x509 allowed cs = None \<longleftrightarrow>
      (\<exists>c rest k. cs = c # rest \<and> leaf_key x509 c = Some k \<and> k \<in> allowed)"
    by (cases cs) (auto simp: direct_server_verify_def leaf_key_Some split: sum.split public_key.split)
qed

interpretation pinned_gate: key_gate "client_verify x509 serverKey" "leaf_key x509" "\<lambda>k. k = serverKey" False
  for x509 :: "'c x509" and serverKey
  by standard (auto simp: client_verify_def leaf_key_Some split: list.split sum.split public_key.split)

interpretation direct_pinned_gate: key_gate "direct_client_verify x509 serverKey" "leaf_key x509"
  "\<lambda>k. k = serverKey" False for x509 :: "'c x509" and serverKey
proof
  fix cs :: "'c list"
  show "False \<Longrightarrow> direct_client_verify x509 serverKey cs = None" by simp
  show "\<not> False \<Longrightarrow> direct_client_verify x509 serverKey cs = None \<longleftrightarrow>
      (\<exists>c rest k. cs = c # rest \<and> leaf_key x509 c = Some k \<and> k = serverKey)"
    by (cases cs) (auto simp: direct_client_verify_def leaf_key_Some split: sum.split)
qed

text \<open>
  The two listeners of the server give the same verdict on every chain, error for
  error, and so do the two dialling sides of the client: a peer is admitted over plain UDP exactly
  when it is admitted over the mesh.
\<close>

lemma both_paths_verify_alike:
  "server_verify x509 allowed certs = direct_server_verify x509 allowed certs
   \<and> client_verify x509 serverKey certs = direct_client_verify x509 serverKey certs"
  by (cases certs) (auto simp: server_verify_def direct_server_verify_def client_verify_def
      direct_client_verify_def split: sum.split public_key.split)

text \<open>
  The client only completes a handshake with a peer whose first certificate carries
  exactly the pinned server key, on both paths; further certificates of the chain do not matter.
\<close>

lemma only_the_pinned_server:
  "(client_verify x509 serverKey certs = None \<longleftrightarrow>
     (\<exists>c rest. certs = c # rest \<and> x509 c = Inr (Ed25519 serverKey)))
   \<and> (direct_client_verify x509 serverKey certs = None \<longleftrightarrow>
     (\<exists>c rest. certs = c # rest \<and> x509 c = Inr (Ed25519 serverKey)))"
  using pinned_gate.gate_accept [of x509 serverKey certs]
    direct_pinned_gate.gate_accept [of x509 serverKey certs]
  by (simp add: leaf_key_Some)

section \<open>The keys of the whitelist\<close>

lemma hex_digit_char: "n < 16 \<Longrightarrow> 48 \<le> (of_char (hex_digit n) :: nat) \<and> (of_char (hex_digit n) :: nat) \<le> 102"
  by (auto simp: hex_digit_def)

lemma of_char_div: "(of_char c :: nat) div 16 < 16"
  by (rule less_mult_imp_div_less) simp

lemma hex_chars:
  "c \<in> set (hex_EncodeToString bs) \<Longrightarrow> 48 \<le> (of_char c :: nat) \<and> (of_char c :: nat) \<le> 102"
  by (induction bs) (auto simp: hex_digit_char of_char_div)

lemma hex_trimmed: "strings_TrimSpace (hex_EncodeToString bs) = hex_EncodeToString bs"
  by (rule trimmed_TrimSpace, rule trimmed_printable) (use hex_chars in force)

lemma hex_no_comma: "CHR '','' \<notin> set (hex_EncodeToString bs)"
  using hex_chars [of "CHR '',''" bs] by auto

lemma parseKey_hex: "length k = n \<Longrightarrow> parseKey (hex_EncodeToString k) n = Inr k"
  by (simp add: parseKey_def hex_trimmed hex_roundtrip)

lemma hex_not_Nil: "k \<noteq> [] \<Longrightarrow> hex_EncodeToString k \<noteq> []"
  by (cases k) auto

lemma whitelist_entries_hex:
  "(\<And>k. k \<in> set ks \<Longrightarrow> length k = PublicKeySize) \<Longrightarrow>
     whitelist_entries (map hex_EncodeToString ks) = Inr (set ks)"
proof (induction ks)
  case (Cons k ks)
  then have "length k = PublicKeySize" by simp
  moreover from this have "k \<noteq> []" by (auto simp: PublicKeySize_def)
  ultimately show ?case using Cons by (simp add: hex_trimmed parseKey_hex hex_not_Nil)
qed simp

lemma whitelist_eq: "whitelist s = whitelist_entries (strings_Split s CHR '','')"
  by (simp add: whitelist_def)

text \<open>
  C12 (roundtrip). A client key option made of the hex forms of 32-byte keys, separated by commas,
  yields exactly these keys; the server then admits a peer, on either listener, exactly when its
  first certificate carries one of them.
\<close>

theorem whitelist_admits_exactly_listed:
  assumes "ks \<noteq> []" and "\<And>k. k \<in> set ks \<Longrightarrow> length k = 32"
  shows "whitelist (strings_Join (map hex_EncodeToString ks) CHR '','') = Inr (set ks)
    \<and> (server_verify x509 (set ks) certs = None \<longleftrightarrow>
         (\<exists>c rest k. certs = c # rest \<and> x509 c = Inr (Ed25519 k) \<and> k \<in> set ks))
    \<and> (direct_server_verify x509 (set ks) certs = None \<longleftrightarrow>
         (\<exists>c rest k. certs = c # rest \<and> x509 c = Inr (Ed25519 k) \<and> k \<in> set ks))"
proof -
  let ?hs = "map hex_EncodeToString ks"
  have split: "strings_Split (strings_Join ?hs CHR '','') CHR '','' = ?hs"
    by (rule strings_Split_Join) (use assms(1) hex_no_comma in auto)
  have "whitelist_entries ?hs = Inr (set ks)"
    by (rule whitelist_entries_hex) (use assms(2) in \<open>simp add: PublicKeySize_def\<close>)
  with split have "whitelist (strings_Join ?hs CHR '','') = Inr (set ks)"
    by (simp add: whitelist_eq)
  moreover have "set ks \<noteq> {}" using assms(1) by simp
  ultimately show ?thesis
    using mesh_gate.gate_accept [of "set ks" x509 certs] direct_gate.gate_accept [of "set ks" x509 certs]
    by (simp add: leaf_key_Some)
qed

definition sample_x509 :: "nat x509" where
  "sample_x509 n = (if n = 2 then Inr (Ed25519 sample_key) else if n = 3 then Inr OtherKey else Inl ''bad'')"

theorem whitelist_admits_exactly_listed_witness:
  "server_verify sample_x509 {sample_key} [2] = None
   \<and> direct_server_verify sample_x509 {sample_key} [3, 2] \<noteq> None"
proof -
  have "\<And>k. k \<in> set [sample_key] \<Longrightarrow> length k = 32" by (simp add: sample_key_def)
  note w = whitelist_admits_exactly_listed [of "[sample_key]", OF _ this]
  show ?thesis
    using w [of sample_x509 "[2]"] w [of sample_x509 "[3, 2]"] by (simp add: sample_x509_def)
qed

lemma whitelist_entries_parsed:
  "whitelist_entries es = Inr A \<Longrightarrow>
     (\<forall>e \<in> set es. strings_TrimSpace e \<noteq> [] \<longrightarrow> (\<exists>k \<in> A. parseKey e PublicKeySize = Inr k))
     \<and> (\<forall>k \<in> A. \<exists>e \<in> set es. parseKey e PublicKeySize = Inr k \<and> length k = PublicKeySize)"
proof (induction es arbitrary: A)
  case (Cons e es)
  have trim: "parseKey (strings_TrimSpace e) n = parseKey e n" for n by (simp add: parseKey_def)
  show ?case
  proof (cases "strings_TrimSpace e = []")
    case True
    with Cons show ?thesis by auto
  next
    case False
    with Cons.prems obtain pk B where "parseKey e PublicKeySize = Inr pk"
      "whitelist_entries es = Inr B" "A = insert pk B"
      by (auto simp: trim split: sum.splits)
    moreover from this(1) have "length pk = PublicKeySize"
      by (auto simp: parseKey_def split: option.splits if_splits)
    ultimately show ?thesis using Cons.IH [of B] by auto
  qed
qed simp

text \<open>
  C13 (error). When the program accepts a client key option, every entry that is not blank was a
  valid 32-byte key and is on the whitelist, nothing else is, and the server is open to everyone
  exactly when all entries are blank: a mistyped key stops the program and never opens the server.
\<close>

theorem whitelist_never_opens_by_mistake:
  assumes "whitelist s = Inr A"
  shows "(\<forall>e \<in> set (strings_Split s CHR '',''). strings_TrimSpace e \<noteq> [] \<longrightarrow>
            (\<exists>k \<in> A. length k = 32 \<and> parseKey e 32 = Inr k))
    \<and> (\<forall>k \<in> A. \<exists>e \<in> set (strings_Split s CHR '',''). parseKey e 32 = Inr k)
    \<and> ((\<forall>certs. server_verify x509 A certs = None) \<longleftrightarrow>
         (\<forall>e \<in> set (strings_Split s CHR '',''). strings_TrimSpace e = []))"
proof -
  have "whitelist_entries (strings_Split s CHR '','') = Inr A"
    using assms by (simp add: whitelist_eq)
  note p = whitelist_entries_parsed [OF this, unfolded PublicKeySize_def]
  have len: "length k = 32" if "parseKey e 32 = Inr k" for e k
    using that by (auto simp: parseKey_def split: option.splits if_splits)
  have blank: "parseKey e 32 \<noteq> Inr k" if "strings_TrimSpace e = []" for e k
    using that by (simp add: parseKey_def)
  have gate_iff: "(\<forall>certs. server_verify x509 A certs = None) \<longleftrightarrow> A = {}"
    using mesh_gate.no_certificate [of x509 A] mesh_gate.gate_open [of A x509] by (cases "A = {}") auto
  have all_blank: "A = {} \<longleftrightarrow> (\<forall>e \<in> set (strings_Split s CHR '',''). strings_TrimSpace e = [])"
  proof
    show "A = {} \<Longrightarrow> \<forall>e \<in> set (strings_Split s CHR '',''). strings_TrimSpace e = []"
      using p by blast
    assume "\<forall>e \<in> set (strings_Split s CHR '',''). strings_TrimSpace e = []"
    with p blank show "A = {}" by (metis equals0I)
  qed
  show ?thesis unfolding gate_iff all_blank using p len by metis
qed

theorem whitelist_never_opens_by_mistake_witness:
  "\<forall>certs. server_verify sample_x509 {} certs = None"
proof -
  have split: "strings_Split '' , '' CHR '','' = ['' '', '' '']" by code_simp
  have trim: "strings_TrimSpace '' '' = []" by code_simp
  have w: "whitelist '' , '' = Inr {}" by (simp add: whitelist_eq split trim)
  have "\<forall>e \<in> set (strings_Split '' , '' CHR '',''). strings_TrimSpace e = []"
    by (simp add: split trim)
  with whitelist_never_opens_by_mistake [OF w, of sample_x509] show ?thesis by blast
qed

end
