(* ===== verification/Pipe.thy ===== *)
theory Pipe
  imports Tunnel
begin

text \<open>
  The data path of one stream (\<^verbatim>\<open>internal/yggss/tunnel.go\<close>): the traffic counters, \<open>pipe\<close> with its
  copy loop, the detection of probes and the prefixed stream; the two servers' stream handlers
  (\<open>handleStream\<close> and the goroutine of \<open>serveDirectConn\<close> in \<^verbatim>\<open>internal/yggss/direct.go\<close>) and the
  copying part of the client's \<open>handle\<close>. A connection to read from is the list of what will happen
  on it: data arrives, the peer closes, the read fails, the deadline passes; at the end of the list a
  read fails.
\<close>

section \<open>Counters\<close>

record tunnelCounters =
  rx :: "64 word"
  tx :: "64 word"

definition addRx :: "int \<Rightarrow> tunnelCounters \<Rightarrow> tunnelCounters" where
  "addRx n c = (if 0 < n then c\<lparr>rx := rx c + word_of_int n\<rparr> else c)"

definition addTx :: "int \<Rightarrow> tunnelCounters \<Rightarrow> tunnelCounters" where
  "addTx n c = (if 0 < n then c\<lparr>tx := tx c + word_of_int n\<rparr> else c)"

section \<open>Reading\<close>

datatype event = Data bytes | Fin | Fail string | Deadline

text \<open>One \<open>Read\<close> into a buffer of \<open>n\<close> bytes, without a deadline: the bytes, the error, what is left.\<close>

fun stream_Read :: "nat \<Rightarrow> event list \<Rightarrow> bytes \<times> string option \<times> event list" where
  "stream_Read n [] = ([], Some ''closed'', [])"
| "stream_Read n (Data d # es) =
     (if length d \<le> n then (d, None, es) else (take n d, None, Data (drop n d) # es))"
| "stream_Read n (Fin # es) = ([], Some ''EOF'', Fin # es)"
| "stream_Read n (Fail e # es) = ([], Some e, Fail e # es)"
| "stream_Read n (Deadline # es) = stream_Read n es"

text \<open>\<open>io.ReadFull\<close> with a read deadline: the bytes read before \<open>n\<close> are complete or an error occurs.\<close>

fun readFull :: "nat \<Rightarrow> event list \<Rightarrow> bytes \<times> event list" where
  "readFull n [] = ([], [])"
| "readFull n (Data d # es) =
     (if n = 0 then ([], Data d # es)
      else if length d \<le> n then (case readFull (n - length d) es of (b, r) \<Rightarrow> (d @ b, r))
      else (take n d, Data (drop n d) # es))"
| "readFull n (Fin # es) = ([], Fin # es)"
| "readFull n (Fail e # es) = ([], Fail e # es)"
| "readFull n (Deadline # es) = ([], if n = 0 then Deadline # es else es)"

text \<open>
  \<open>streamWithPrefix\<close> over \<open>io.MultiReader\<close>: first the bytes consumed, then the stream. With no
  bytes consumed this is the stream itself.
\<close>

type_synonym source = "bytes \<times> event list"

definition source_Read :: "nat \<Rightarrow> source \<Rightarrow> bytes \<times> string option \<times> source" where
  "source_Read n src =
     (case src of (p, es) \<Rightarrow>
        if p \<noteq> [] then (take n p, None, (drop n p, es))
        else (case stream_Read n es of (d, err, r) \<Rightarrow> (d, err, ([], r))))"

section \<open>The copy loop\<close>

definition pipeBufSize :: nat where
  "pipeBufSize = 256 * 1024"

definition source_size :: "source \<Rightarrow> nat" where
  "source_size src =
     length (fst src) + sum_list (map (\<lambda>e. case e of Data d \<Rightarrow> Suc (length d) | _ \<Rightarrow> 1) (snd src))"

lemma stream_Read_size:
  "0 < n \<Longrightarrow> stream_Read n es = (d, None, r) \<Longrightarrow> source_size ([], r) < source_size ([], es)"
  by (induction n es rule: stream_Read.induct) (auto simp: source_size_def split: if_splits)

lemma source_Read_size:
  "0 < n \<Longrightarrow> source_Read n src = (d, None, src') \<Longrightarrow> source_size src' < source_size src"
proof (cases src)
  case (Pair p es)
  assume n: "0 < n" and r: "source_Read n src = (d, None, src')"
  show ?thesis
  proof (cases "p = []")
    case True
    with r Pair obtain es' where "stream_Read n es = (d, None, es')" "src' = ([], es')"
      by (auto simp: source_Read_def split: prod.splits)
    with stream_Read_size [OF n] Pair True show ?thesis by blast
  next
    case False
    with r n Pair show ?thesis by (auto simp: source_Read_def source_size_def)
  qed
qed

text \<open>
  One round of the loop of \<open>copyCount\<close>: \<open>Inl\<close> when the loop breaks, with the bytes that reached the
  destination in it and the counter; else the bytes, and what the next round starts from. The answers of
  \<open>dst.Write\<close> are the second argument: \<open>Some k\<close> is an error after \<open>k\<close> bytes; when the list ends, all succeed.
\<close>

definition copy_round ::
    "source \<Rightarrow> nat option list \<Rightarrow> tunnelCounters option
       \<Rightarrow> (bytes \<times> tunnelCounters option) + (bytes \<times> source \<times> nat option list \<times> tunnelCounters option)" where
  "copy_round src ws cnt =
     (case source_Read pipeBufSize src of (d, err, src') \<Rightarrow>
        if d \<noteq> [] then
          (let cnt1 = map_option (addTx (int (length d))) cnt
           in case ws of
                Some k # _ \<Rightarrow> Inl (take k d, cnt1)
              | _ \<Rightarrow> if err \<noteq> None then Inl (d, cnt1) else Inr (d, src', tl ws, cnt1))
        else if err \<noteq> None then Inl ([], cnt)
        else Inr ([], src', ws, cnt))"

lemma copy_round_size:
  "copy_round src ws cnt = Inr (d, src', ws', cnt') \<Longrightarrow> source_size src' < source_size src"
  using source_Read_size [of pipeBufSize src]
  by (auto simp: copy_round_def pipeBufSize_def Let_def split: prod.splits if_splits list.splits option.splits)

text \<open>\<open>copyCount\<close>: the bytes that reach the destination and the counter, until the loop breaks.\<close>

function copyCount ::
    "source \<Rightarrow> nat option list \<Rightarrow> tunnelCounters option \<Rightarrow> bytes \<times> tunnelCounters option" where
  "copyCount src ws cnt =
     (case copy_round src ws cnt of
        Inl r \<Rightarrow> r
      | Inr (d, src', ws', cnt') \<Rightarrow>
          (case copyCount src' ws' cnt' of (out, c) \<Rightarrow> (d @ out, c)))"
  by pat_completeness auto

termination
  by (relation "measure (\<lambda>(src, _). source_size src)") (auto intro: copy_round_size)

declare copyCount.simps [simp del]

text \<open>
  A copy loop whose two ends are closed by \<open>pipe\<close> while it runs, after \<open>k\<close> rounds. From then on every
  write fails without a byte written. A closed TCP connection fails its reads too; on a QUIC stream
  \<open>Close\<close> ends the sending side only, so that reads may go on (\<open>late\<close>), and a chunk that is
  still read is counted before its write fails.
\<close>

fun copyCut ::
    "nat \<Rightarrow> bool \<Rightarrow> source \<Rightarrow> nat option list \<Rightarrow> tunnelCounters option \<Rightarrow> bytes \<times> tunnelCounters option" where
  "copyCut 0 late src ws cnt = copyCount (fst src, if late then snd src else []) [Some 0] cnt"
| "copyCut (Suc k) late src ws cnt =
     (case copy_round src ws cnt of
        Inl r \<Rightarrow> r
      | Inr (d, src', ws', cnt') \<Rightarrow>
          (case copyCut k late src' ws' cnt' of (out, c) \<Rightarrow> (d @ out, c)))"

text \<open>
  \<open>pipe\<close>: what reaches \<open>a\<close> (counted by \<open>rx\<close>) and what reaches \<open>b\<close> (counted by \<open>tx\<close>). \<open>a\<close> is the QUIC
  stream and \<open>b\<close> the TCP connection. The direction that ends first runs to its end; then both ends
  are closed, which cuts the other one off after the rounds it has done by then. Which one is first, and
  how far the other one got, is up to the scheduler and the network.
\<close>

record closing =
  to_a_first :: bool
  rounds :: nat
  late_reads :: bool

definition pipe ::
    "closing \<Rightarrow> source \<Rightarrow> source \<Rightarrow> nat option list \<Rightarrow> nat option list
       \<Rightarrow> tunnelCounters option \<Rightarrow> tunnelCounters option
       \<Rightarrow> (bytes \<times> tunnelCounters option) \<times> (bytes \<times> tunnelCounters option)" where
  "pipe cl a b wa wb crx ctx =
     (if to_a_first cl then (copyCount b wa crx, copyCut (rounds cl) (late_reads cl) a wb ctx)
      else (copyCut (rounds cl) False b wa crx, copyCount a wb ctx))"

section \<open>Probe streams\<close>

text \<open>\<open>handleProbeStream\<close>: handled or not, the bytes consumed, the echo written, the stream afterwards.\<close>

definition handleProbeStream :: "event list \<Rightarrow> bool \<times> bytes \<times> bytes \<times> event list" where
  "handleProbeStream es =
     (case readFull (length probePing) es of (buf, r) \<Rightarrow>
        if length buf = length probePing \<and> buf = probePing then (True, [], probePing, r)
        else (False, buf, [], r))"

section \<open>The stream handlers\<close>

text \<open>
  What a handler did with a stream: answered a probe, gave up without an upstream, or copied. The
  outside: whether the upstream can be dialled, what it sends, the answers of both writes, and how the
  copying ends.
\<close>

datatype served =
    ProbeEchoed bytes
  | NoUpstream
  | Copied (to_peer: "bytes \<times> tunnelCounters option") (to_upstream: "bytes \<times> tunnelCounters option")

record stream_env =
  se_dial :: bool
  se_upstream :: "event list"
  se_write_peer :: "nat option list"
  se_write_up :: "nat option list"
  se_closing :: closing

definition handleStream :: "stream_env \<Rightarrow> tunnelCounters \<Rightarrow> tunnelCounters \<Rightarrow> event list \<Rightarrow> served" where
  "handleStream SE srx stx es =
     (case handleProbeStream es of (handled, consumed, echo, r) \<Rightarrow>
        if handled then ProbeEchoed echo
        else if \<not> se_dial SE then NoUpstream
        else case pipe (se_closing SE) (consumed, r) ([], se_upstream SE) (se_write_peer SE) (se_write_up SE) (Some srx) (Some stx)
             of (p, u) \<Rightarrow> Copied p u)"

text \<open>The goroutine of \<open>serveDirectConn\<close> for one stream.\<close>

definition serveDirectStream :: "stream_env \<Rightarrow> event list \<Rightarrow> served" where
  "serveDirectStream SE es =
     (case handleProbeStream es of (handled, consumed, echo, r) \<Rightarrow>
        if handled then ProbeEchoed echo
        else if \<not> se_dial SE then NoUpstream
        else case pipe (se_closing SE) (consumed, r) ([], se_upstream SE) (se_write_peer SE) (se_write_up SE) None None
             of (p, u) \<Rightarrow> Copied p u)"

text \<open>
  The client's \<open>handle\<close> once its stream is open: \<open>stream\<close> is the tunnel side, \<open>conn\<close> the local
  application. First what reaches the server, then what reaches the application.
\<close>

definition handle_copy ::
    "closing \<Rightarrow> event list \<Rightarrow> event list \<Rightarrow> nat option list \<Rightarrow> nat option list
       \<Rightarrow> tunnelCounters \<Rightarrow> tunnelCounters
       \<Rightarrow> (bytes \<times> tunnelCounters option) \<times> (bytes \<times> tunnelCounters option)" where
  "handle_copy cl stream conn w_stream w_conn crx ctx =
     pipe cl ([], stream) ([], conn) w_stream w_conn (Some crx) (Some ctx)"

end
