(* ===== verification/PipeProps.thy ===== *)
theory PipeProps
  imports Pipe
begin

text \<open>
  Properties of the data path: the copy loop forwards a prefix of its source and everything when no
  write fails; probe detection loses no byte of a user stream, whatever its timing; probes never
  reach the shadowsocks server; what the traffic counters really count.
\<close>

section \<open>What a connection delivers\<close>

text \<open>All data before the peer closes or the read fails, and the part of it before the deadline.\<close>

fun payload :: "event list \<Rightarrow> bytes" where
  "payload [] = []"
| "payload (Data d # es) = d @ payload es"
| "payload (Fin # es) = []"
| "payload (Fail e # es) = []"
| "payload (Deadline # es) = payload es"

fun early :: "event list \<Rightarrow> bytes" where
  "early [] = []"
| "early (Data d # es) = d @ early es"
| "early (Fin # es) = []"
| "early (Fail e # es) = []"
| "early (Deadline # es) = []"

definition source_data :: "source \<Rightarrow> bytes" where
  "source_data src = fst src @ payload (snd src)"

lemma stream_Read_data:
  "0 < n \<Longrightarrow> stream_Read n es = (d, err, r) \<Longrightarrow>
     payload es = d @ payload r \<and> (err \<noteq> None \<longrightarrow> d = [] \<and> payload es = [])"
  by (induction n es rule: stream_Read.induct) (auto split: if_splits)

lemma source_Read_data:
  assumes "0 < n" and "source_Read n src = (d, err, src')"
  shows "source_data src = d @ source_data src'" and "err \<noteq> None \<Longrightarrow> d = [] \<and> source_data src = []"
proof -
  obtain p es where s: "src = (p, es)" by (cases src)
  have "source_data src = d @ source_data src' \<and> (err \<noteq> None \<longrightarrow> d = [] \<and> source_data src = [])"
  proof (cases "p = []")
    case True
    with assms(2) s obtain r where "stream_Read n es = (d, err, r)" "src' = ([], r)"
      by (auto simp: source_Read_def split: prod.splits)
    with stream_Read_data [OF assms(1), of es d err r] s True show ?thesis
      by (auto simp: source_data_def)
  next
    case False
    with assms s show ?thesis by (auto simp: source_Read_def source_data_def)
  qed
  then show "source_data src = d @ source_data src'" and "err \<noteq> None \<Longrightarrow> d = [] \<and> source_data src = []"
    by blast+
qed

lemma pipe_buf_pos: "0 < pipeBufSize"
  by (simp add: pipeBufSize_def)

definition count_tx :: "nat \<Rightarrow> tunnelCounters \<Rightarrow> tunnelCounters" where
  "count_tx n c = c\<lparr>tx := tx c + word_of_nat n\<rparr>"

lemma addTx_count: "addTx (int n) = count_tx n"
  by (simp add: fun_eq_iff addTx_def count_tx_def)

lemma count_tx_add: "count_tx m (count_tx n c) = count_tx (n + m) c"
  by (simp add: count_tx_def add.assoc)

lemma count_tx_zero [simp]: "count_tx 0 c = c"
  by (simp add: count_tx_def)

text \<open>One round of the loop, and induction over its rounds.\<close>

lemma copyCount_round:
  assumes "source_Read pipeBufSize src = (d, err, src')"
  shows "copyCount src ws cnt =
    (if d = [] \<or> err \<noteq> None then (if err \<noteq> None then ([], cnt) else copyCount src' ws cnt)
     else
       (let cnt1 = map_option (count_tx (length d)) cnt
        in case ws of
             Some k # _ \<Rightarrow> (take k d, cnt1)
           | _ \<Rightarrow> (d @ fst (copyCount src' (tl ws) cnt1), snd (copyCount src' (tl ws) cnt1))))"
  using source_Read_data(2) [OF pipe_buf_pos assms]
  by (subst copyCount.simps)
    (auto simp: copy_round_def assms addTx_count Let_def split_beta split: list.split option.split)

lemma copyCut_round:
  assumes "source_Read pipeBufSize src = (d, err, src')"
  shows "copyCut (Suc k) lt src ws cnt =
    (if d = [] \<or> err \<noteq> None then (if err \<noteq> None then ([], cnt) else copyCut k lt src' ws cnt)
     else
       (let cnt1 = map_option (count_tx (length d)) cnt
        in case ws of
             Some j # _ \<Rightarrow> (take j d, cnt1)
           | _ \<Rightarrow> (d @ fst (copyCut k lt src' (tl ws) cnt1), snd (copyCut k lt src' (tl ws) cnt1))))"
  using source_Read_data(2) [OF pipe_buf_pos assms]
  by (auto simp: copy_round_def assms addTx_count Let_def split_beta split: list.split option.split)

lemma copyCount_rounds:
  assumes "\<And>src ws cnt d err src'. source_Read pipeBufSize src = (d, err, src') \<Longrightarrow>
      (\<And>us c. err = None \<Longrightarrow> P src' us c) \<Longrightarrow> P src ws cnt"
  shows "P src ws cnt"
proof (induction "source_size src" arbitrary: src ws cnt rule: less_induct)
  case less
  obtain d err src' where r: "source_Read pipeBufSize src = (d, err, src')" by (metis prod.exhaust)
  show ?case
    by (rule assms [OF r], rule less) (use source_Read_size [OF pipe_buf_pos] r in blast)
qed

lemma copyCount_all:
  "(\<forall>w \<in> set ws. w = None) \<Longrightarrow>
     copyCount src ws cnt = (source_data src, map_option (count_tx (length (source_data src))) cnt)"
proof (induction src ws cnt rule: copyCount_rounds)
  case (1 src ws cnt d err src')
  note data = source_Read_data [OF pipe_buf_pos 1(1)]
  from 1(3) have ws: "\<forall>w \<in> set (tl ws). w = None" "\<And>k us. ws \<noteq> Some k # us"
    by (cases ws; auto)+
  show ?case
  proof (cases "err = None")
    case False
    with data(2) show ?thesis by (simp add: copyCount_round [OF 1(1)] option.map_ident_strong)
  next
    case True
    with 1(2) [OF True ws(1)] 1(2) [OF True 1(3)] ws(2) data(1) show ?thesis
      by (auto simp: copyCount_round [OF 1(1)] Let_def count_tx_add option.map_comp o_def
          split: list.split option.split)
  qed
qed

lemma copyCount_prefix: "prefix (fst (copyCount src ws cnt)) (source_data src)"
proof (induction src ws cnt rule: copyCount_rounds)
  case (1 src ws cnt d err src')
  have "prefix (take k d) (d @ source_data src')" for k
    by (rule prefix_order.trans [OF take_is_prefix]) simp
  with 1(2) source_Read_data(1) [OF pipe_buf_pos 1(1)] show ?case
    by (auto simp: copyCount_round [OF 1(1)] Let_def split: list.split option.split)
qed

text \<open>A loop that is cut off: still a prefix; a loop that is cut off late enough is not cut off at all.\<close>

lemma copyCut_prefix: "prefix (fst (copyCut k lt src ws cnt)) (source_data src)"
proof (induction k arbitrary: src ws cnt)
  case 0
  have "prefix (source_data (fst src, if lt then snd src else [])) (source_data src)"
    by (simp add: source_data_def)
  then show ?case unfolding copyCut.simps by (rule prefix_order.trans [OF copyCount_prefix])
next
  case (Suc k)
  obtain d err src' where r: "source_Read pipeBufSize src = (d, err, src')" by (metis prod.exhaust)
  have "prefix (take j d) (d @ source_data src')" for j
    by (rule prefix_order.trans [OF take_is_prefix]) simp
  with Suc source_Read_data(1) [OF pipe_buf_pos r] show ?case
    unfolding copyCut_round [OF r] by (auto simp: Let_def split: list.split option.split)
qed

lemma copyCut_late: "source_size src \<le> k \<Longrightarrow> copyCut (Suc k) lt src ws cnt = copyCount src ws cnt"
proof (induction k arbitrary: src ws cnt)
  case 0
  then show ?case
    using copy_round_size by (subst copyCount.simps) (fastforce split: sum.split)
next
  case (Suc k)
  show ?case
  proof (cases "copy_round src ws cnt")
    case (Inl r)
    then show ?thesis by (subst copyCount.simps) simp
  next
    case (Inr x)
    obtain d src' ws' cnt' where x: "x = (d, src', ws', cnt')" by (metis prod.exhaust)
    have "source_size src' \<le> k" using copy_round_size [of src ws cnt d src' ws' cnt'] Suc.prems Inr x by simp
    from Suc.IH [OF this, of ws' cnt'] Inr x show ?thesis
      unfolding copyCut.simps(2) [of "Suc k" lt src ws cnt] copyCount.simps [of src ws cnt]
      by (simp del: copyCut.simps)
  qed
qed

text \<open>
  The copy loop, on any source and any answers of the writer: what reaches the
  destination is a prefix of what the source delivered, in order; when no write fails it is all of
  it, and the counter's \<open>tx\<close> field grows by exactly its length, modulo \<open>2 ^ 64\<close>.
\<close>

lemma copy_loop_forwards:
  "prefix (fst (copyCount src ws (Some c))) (source_data src)
   \<and> ((\<forall>w \<in> set ws. w = None) \<longrightarrow>
        copyCount src ws (Some c) =
          (source_data src, Some (c\<lparr>tx := tx c + word_of_nat (length (source_data src))\<rparr>)))"
  using copyCount_prefix [of src ws "Some c"] copyCount_all [of ws src "Some c"]
  by (simp add: count_tx_def)

lemma copy_loop_forwards_sample:
  "copyCount ([1, 2], [Data [3], Deadline, Data [4, 5], Fin]) [None] (Some \<lparr>rx = 0, tx = 7\<rparr>) =
     ([1, 2, 3, 4, 5], Some \<lparr>rx = 0, tx = 12\<rparr>)"
  using copy_loop_forwards [of "([1, 2], [Data [3], Deadline, Data [4, 5], Fin])" "[None]" "\<lparr>rx = 0, tx = 7\<rparr>"]
  by (simp add: source_data_def)

text \<open>The two directions of \<open>pipe\<close>: one that is not cut off copies to its end, any other a prefix.\<close>

definition uncut_to_a :: "closing \<Rightarrow> source \<Rightarrow> bool" where
  "uncut_to_a cl b \<longleftrightarrow> to_a_first cl \<or> source_size b < rounds cl"

definition uncut_to_b :: "closing \<Rightarrow> source \<Rightarrow> bool" where
  "uncut_to_b cl a \<longleftrightarrow> \<not> to_a_first cl \<or> source_size a < rounds cl"

lemma copyCut_uncut: "source_size src < k \<Longrightarrow> copyCut k lt src ws cnt = copyCount src ws cnt"
  using copyCut_late [of src "k - 1" lt ws cnt] by simp

lemma pipe_to_a: "uncut_to_a cl b \<Longrightarrow> fst (pipe cl a b wa wb crx ctx) = copyCount b wa crx"
  by (auto simp: pipe_def uncut_to_a_def copyCut_uncut)

lemma pipe_to_b: "uncut_to_b cl a \<Longrightarrow> snd (pipe cl a b wa wb crx ctx) = copyCount a wb ctx"
  by (auto simp: pipe_def uncut_to_b_def copyCut_uncut)

lemma pipe_prefix:
  "prefix (fst (fst (pipe cl a b wa wb crx ctx))) (source_data b)"
  "prefix (fst (snd (pipe cl a b wa wb crx ctx))) (source_data a)"
  by (simp_all add: pipe_def copyCount_prefix copyCut_prefix)

text \<open>The application is cut off when the tunnel ends first: its data after that moment is lost.\<close>

lemma pipe_cuts_off:
  "pipe \<lparr>to_a_first = False, rounds = 1, late_reads = True\<rparr> ([], [Data [7], Fin]) ([], [Data [1], Data [2], Fin])
     [] [] None None = (([1], None), ([7], None))"
  by (simp add: pipe_def copy_round_def copyCount.simps source_Read_def pipeBufSize_def)

section \<open>Probe detection\<close>

lemma readFull_data:
  "readFull n es = (b, r) \<Longrightarrow> payload es = b @ payload r \<and> b = take n (early es)"
  by (induction n es arbitrary: b r rule: readFull.induct) (auto split: if_splits prod.splits)

lemma handleProbeStream_cases:
  assumes "handleProbeStream es = (h, consumed, echo, r)"
  shows "h \<longleftrightarrow> take 2 (early es) = probePing" and "\<not> h \<Longrightarrow> payload es = consumed @ payload r"
    and "h \<Longrightarrow> echo = probePing"
proof -
  have l: "length probePing = 2" by (simp add: probePing_def)
  obtain b u where f: "readFull 2 es = (b, u)" by fastforce
  with assms have "(h, consumed, echo, r) =
      (if b = probePing then (True, [], probePing, u) else (False, b, [], u))"
    using l by (auto simp: handleProbeStream_def split: if_splits)
  with readFull_data [OF f]
  show "h \<longleftrightarrow> take 2 (early es) = probePing" and "\<not> h \<Longrightarrow> payload es = consumed @ payload r"
    and "h \<Longrightarrow> echo = probePing"
    by (auto split: if_splits)
qed

lemma readFull_size: "readFull n es = (b, r) \<Longrightarrow> length b + source_size ([], r) \<le> source_size ([], es)"
  by (induction n es arbitrary: b r rule: readFull.induct)
    (auto simp: source_size_def split: if_splits prod.splits)

lemma handleProbeStream_size:
  "handleProbeStream es = (h, consumed, echo, r) \<Longrightarrow> source_size (consumed, r) \<le> source_size ([], es)"
  using readFull_size [of "length probePing" es]
  by (fastforce simp: handleProbeStream_def source_size_def split: prod.splits if_splits)

text \<open>What a served stream brought to the shadowsocks server, and what it brought back to the client.\<close>

fun delivered :: "served \<Rightarrow> bytes" where
  "delivered (Copied p u) = fst u"
| "delivered _ = []"

fun answered :: "served \<Rightarrow> bytes" where
  "answered (Copied p u) = fst p"
| "answered (ProbeEchoed e) = e"
| "answered NoUpstream = []"

text \<open>
  A stream whose first two bytes do not arrive as the probe signature within the
  deadline is forwarded in order on both listeners, wherever the deadline falls and however the
  bytes are cut into packets: what reaches the shadowsocks server is a prefix of what the client sent,
  and all of it when the copying to the server is not cut off and no write fails; and the same for
  the way back.
\<close>

lemma user_streams_served:
  assumes "take 2 (early es) \<noteq> [0x59, 0x21]"
    and "r = handleStream SE srx stx es \<or> r = serveDirectStream SE es"
  shows "prefix (delivered r) (payload es)" and "prefix (answered r) (payload (se_upstream SE))"
    and "se_dial SE \<Longrightarrow> \<forall>w \<in> set (se_write_up SE). w = None \<Longrightarrow> uncut_to_b (se_closing SE) ([], es) \<Longrightarrow>
      delivered r = payload es"
    and "se_dial SE \<Longrightarrow> \<forall>w \<in> set (se_write_peer SE). w = None \<Longrightarrow>
      uncut_to_a (se_closing SE) ([], se_upstream SE) \<Longrightarrow> answered r = payload (se_upstream SE)"
proof -
  obtain h consumed echo rest where p: "handleProbeStream es = (h, consumed, echo, rest)"
    by (metis prod.exhaust)
  note c = handleProbeStream_cases [OF p]
  with assms(1) have h: "\<not> h" by (simp add: probePing_def)
  have data: "source_data (consumed, rest) = payload es" using c(2) h by (simp add: source_data_def)
  have up: "source_data ([], se_upstream SE) = payload (se_upstream SE)" by (simp add: source_data_def)
  have uncut: "uncut_to_b (se_closing SE) (consumed, rest)" if "uncut_to_b (se_closing SE) ([], es)"
    using that handleProbeStream_size [OF p] by (auto simp: uncut_to_b_def)
  let ?served = "\<lambda>crx ctx. if se_dial SE then
      (case pipe (se_closing SE) (consumed, rest) ([], se_upstream SE) (se_write_peer SE) (se_write_up SE) crx ctx
       of (p, u) \<Rightarrow> Copied p u) else NoUpstream"
  have "handleStream SE srx stx es = ?served (Some srx) (Some stx)" "serveDirectStream SE es = ?served None None"
    using p h by (simp_all add: handleStream_def serveDirectStream_def)
  with assms(2) obtain crx ctx where r: "r = ?served crx ctx" by metis
  note pr = pipe_prefix [of "se_closing SE" "(consumed, rest)" "([], se_upstream SE)" "se_write_peer SE"
      "se_write_up SE" crx ctx, unfolded data up]
  show "prefix (delivered r) (payload es)" "prefix (answered r) (payload (se_upstream SE))"
    using pr by (simp_all add: r split_beta)
  show "delivered r = payload es" if "se_dial SE" "\<forall>w \<in> set (se_write_up SE). w = None"
    "uncut_to_b (se_closing SE) ([], es)"
    using that uncut data by (simp add: r split_beta pipe_to_b copyCount_all)
  show "answered r = payload (se_upstream SE)" if "se_dial SE" "\<forall>w \<in> set (se_write_peer SE). w = None"
    "uncut_to_a (se_closing SE) ([], se_upstream SE)"
    using that up by (simp add: r split_beta pipe_to_a copyCount_all)
qed

definition sample_se :: stream_env where
  "sample_se = \<lparr>se_dial = True, se_upstream = [Data [9], Fin], se_write_peer = [], se_write_up = [],
     se_closing = \<lparr>to_a_first = False, rounds = 9, late_reads = True\<rparr>\<rparr>"

text \<open>
  C11 (safety). A stream that starts with the signature within the deadline is answered with the
  signature and nothing of it reaches the shadowsocks server: no upstream is dialled, on either
  listener. This holds for user data too: a shadowsocks stream whose random salt starts with these
  two bytes is taken for a probe and its data, whatever follows, is dropped.
\<close>

theorem signature_streams_are_swallowed:
  assumes "take 2 (early es) = [0x59, 0x21]"
  shows "handleStream SE srx stx es = ProbeEchoed [0x59, 0x21]
    \<and> serveDirectStream SE es = ProbeEchoed [0x59, 0x21]"
proof -
  obtain h consumed echo r where p: "handleProbeStream es = (h, consumed, echo, r)" by (metis prod.exhaust)
  with assms handleProbeStream_cases [OF p] show ?thesis
    by (simp add: handleStream_def serveDirectStream_def probePing_def)
qed

theorem signature_streams_are_swallowed_witness:
  "handleStream sample_se \<lparr>rx = 0, tx = 0\<rparr> \<lparr>rx = 0, tx = 0\<rparr> [Data ([0x59, 0x21] @ replicate 30 7), Fin]
     = ProbeEchoed [0x59, 0x21]"
  using signature_streams_are_swallowed [of "[Data ([0x59, 0x21] @ replicate 30 7), Fin]" sample_se]
  by simp

section \<open>What the counters count\<close>

lemma copyCount_rx: "map_option rx (snd (copyCount src ws cnt)) = map_option rx cnt"
proof (induction src ws cnt rule: copyCount_rounds)
  case (1 src ws cnt d err src')
  have "map_option rx (map_option (count_tx n) c) = map_option rx c" for n c
    by (cases c) (auto simp: count_tx_def)
  with 1(2) show ?case
    by (auto simp: copyCount_round [OF 1(1)] Let_def split: list.split option.split)
qed

lemma copyCut_rx: "map_option rx (snd (copyCut k lt src ws cnt)) = map_option rx cnt"
proof (induction k arbitrary: src ws cnt)
  case (Suc k)
  obtain d err src' where r: "source_Read pipeBufSize src = (d, err, src')" by (metis prod.exhaust)
  have "map_option rx (map_option (count_tx n) c) = map_option rx c" for n c
    by (cases c) (auto simp: count_tx_def)
  with Suc show ?case
    unfolding copyCut_round [OF r] by (auto simp: Let_def split: list.split option.split)
qed (simp add: copyCount_rx)

lemma pipe_rx:
  "map_option rx (snd (fst (pipe cl a b wa wb crx ctx))) = map_option rx crx"
  "map_option rx (snd (snd (pipe cl a b wa wb crx ctx))) = map_option rx ctx"
  by (simp_all add: pipe_def copyCount_rx copyCut_rx)

text \<open>
  The client's traffic counters after one connection: both
  copy directions add to the \<open>tx\<close> field of the counter they were given. So \<open>rx.rx\<close>, which the
  status log prints as received, stays what it was, and \<open>tx.tx\<close>, printed as sent, grows by the
  bytes received from the server, when these are all written and not cut off.
\<close>

lemma counters_are_mixed_up:
  assumes "handle_copy cl stream conn w_stream w_conn crx ctx = ((up, Some crx'), (down, Some ctx'))"
  shows "rx crx' = rx crx"
    and "\<forall>w \<in> set w_conn. w = None \<Longrightarrow> uncut_to_b cl ([], stream) \<Longrightarrow>
      down = payload stream \<and> tx ctx' = tx ctx + word_of_nat (length (payload stream))"
proof -
  let ?p = "pipe cl ([], stream) ([], conn) w_stream w_conn (Some crx) (Some ctx)"
  have p: "?p = ((up, Some crx'), (down, Some ctx'))" using assms by (simp add: handle_copy_def)
  with pipe_rx(1) [of cl "([], stream)" "([], conn)" w_stream w_conn "Some crx" "Some ctx"]
  show "rx crx' = rx crx" by simp
  show "down = payload stream \<and> tx ctx' = tx ctx + word_of_nat (length (payload stream))"
    if "\<forall>w \<in> set w_conn. w = None" "uncut_to_b cl ([], stream)"
    using pipe_to_b [OF that(2), of "([], conn)" w_stream w_conn "Some crx" "Some ctx"] that(1) p
    by (auto simp: copyCount_all source_data_def count_tx_def)
qed

end
