(* ===== verification/Stats.thy ===== *)
theory Stats
  imports Float64 Node Pipe
begin

text \<open>
  The status log (\<^verbatim>\<open>internal/yggss/stats.go\<close>): the rendering of byte counts, the estimate of transit
  traffic between two reports, and the lines of one report. Counters are 64-bit words as in the
  code; \<open>time.Duration.String\<close> is the argument \<open>dur_String\<close>.
\<close>

section \<open>formatBytes\<close>

lemma unat_1024 [simp]: "unat (1024 :: 64 word) = 1024"
  by simp

lemma fb_loop_decreases: "1024 \<le> (n :: 64 word) \<Longrightarrow> unat (n div 1024) < unat n"
  by (simp add: unat_div word_le_nat_alt)

function fb_loop :: "64 word \<Rightarrow> 64 word \<Rightarrow> nat \<Rightarrow> 64 word \<times> nat" where
  "fb_loop n dv ex = (if 1024 \<le> n then fb_loop (n div 1024) (dv * 1024) (Suc ex) else (dv, ex))"
  by pat_completeness auto

termination
  by (relation "measure (\<lambda>(n, _). unat n)") (auto simp: fb_loop_decreases)

declare fb_loop.simps [simp del]

definition fb_tenths :: "64 word \<Rightarrow> 64 word \<Rightarrow> nat" where
  "fb_tenths b dv = round_half_even (10 * rnd53 (unat b)) (rnd53 (unat dv))"

definition formatBytes :: "64 word \<Rightarrow> string" where
  "formatBytes b =
     (if b < 1024 then fmt_d (unat b) @ ''B''
      else case fb_loop (b div 1024) 1024 0 of (dv, ex) \<Rightarrow>
             (let t = fb_tenths b dv
              in fmt_d (t div 10) @ ''.'' @ fmt_d (t mod 10) @ [''KMGTPE'' ! ex] @ ''iB''))"

section \<open>Transit traffic\<close>

definition transitThreshold :: int where
  "transitThreshold = 2 ^ 20"

record status_logger =
  prevLink :: "64 word"
  prevSession :: "64 word"
  started :: bool

definition session_bytes :: "session_info list \<Rightarrow> 64 word" where
  "session_bytes ss = sum_list (map (\<lambda>s. s_RXBytes s + s_TXBytes s) ss)"

text \<open>The warning, if any: the estimated transit and the link traffic it is part of.\<close>

definition reportTransit ::
    "64 word \<Rightarrow> session_info list \<Rightarrow> status_logger \<Rightarrow> (int \<times> int) option \<times> status_logger" where
  "reportTransit linkBytes sessions s =
     (let sessionBytes = session_bytes sessions
      in if \<not> started s then
           (None, s\<lparr>prevLink := linkBytes, prevSession := sessionBytes, started := True\<rparr>)
         else
           (let dLink = wrap64 (sint linkBytes - sint (prevLink s));
                dSession = wrap64 (sint sessionBytes - sint (prevSession s));
                s1 = s\<lparr>prevLink := linkBytes, prevSession := sessionBytes\<rparr>
            in if dLink \<le> 0 \<or> dSession < 0 then (None, s1)
               else
                 (let transit = wrap64 (dLink - dSession)
                  in if transitThreshold < transit \<and> dLink div 5 < transit then (Some (transit, dLink), s1)
                     else (None, s1))))"

section \<open>The lines of a report\<close>

definition peerLatency :: "(duration \<Rightarrow> string) \<Rightarrow> duration \<Rightarrow> string" where
  "peerLatency dur_String d =
     (if d \<le> 0 then ''measuring'' else dur_String (d - d mod millisecond))"

definition shortKey :: "string \<Rightarrow> string" where
  "shortKey k = hex_EncodeToString (if 8 < length k then take 8 k else k)"

definition trimCoords :: "64 word list \<Rightarrow> string" where
  "trimCoords coords = strings_Join (map (\<lambda>c. fmt_d (unat c)) coords) CHR '' ''"

definition peer_line :: "(duration \<Rightarrow> string) \<Rightarrow> peer_info \<Rightarrow> string" where
  "peer_line dur_String p =
     p_URI p @ '' latency='' @ peerLatency dur_String (p_Latency p) @ '' cost='' @ fmt_d (unat (p_Cost p))
       @ '' rx='' @ formatBytes (p_RXBytes p) @ '' tx='' @ formatBytes (p_TXBytes p)
       @ (if length (p_Key p) = PublicKeySize then '' key='' @ shortKey (p_Key p) else [])"

fun link_bytes :: "peer_info list \<Rightarrow> 64 word" where
  "link_bytes [] = 0"
| "link_bytes (p # ps) = (if p_Up p then p_RXBytes p + p_TXBytes p + link_bytes ps else link_bytes ps)"

text \<open>What a report reads: the node, and on the client the counters and the channel.\<close>

record report_env =
  re_peers :: "peer_info list"
  re_sessions :: "session_info list"
  re_self :: key
  re_tree :: "tree_entry list"
  re_paths :: "path_entry list"
  re_serverKey :: key
  re_counters :: "(tunnelCounters \<times> tunnelCounters) option"
  re_path :: "string option"

text \<open>The first peering that is up and has the key.\<close>

definition find_peer :: "key \<Rightarrow> peer_info list \<Rightarrow> peer_info option" where
  "find_peer k ps = find (\<lambda>p. p_Up p \<and> p_Key p = k) ps"

datatype route =
    DirectRoute string duration
  | TreeParentUnknown
  | MeshRoute string duration "nat option"

definition route_to_server :: "report_env \<Rightarrow> route" where
  "route_to_server R =
     (if IsPeerOf (re_serverKey R) (re_peers R) then
        (case find_peer (re_serverKey R) (re_peers R) of
           Some p \<Rightarrow> DirectRoute (p_URI p) (p_Latency p)
         | None \<Rightarrow> DirectRoute [] 0)
      else
        (case TreeParent (re_self R) (re_tree R) of
           None \<Rightarrow> TreeParentUnknown
         | Some parent \<Rightarrow>
             (let hops = map_option (\<lambda>c. Suc (length c)) (PathCoords (re_serverKey R) (re_paths R))
              in case find_peer parent (re_peers R) of
                   Some p \<Rightarrow> MeshRoute (p_URI p) (p_Latency p) hops
                 | None \<Rightarrow> MeshRoute ''unknown'' 0 hops)))"

fun route_line :: "(duration \<Rightarrow> string) \<Rightarrow> route \<Rightarrow> string" where
  "route_line dur_String (DirectRoute uri lat) =
     ''traffic to server: DIRECT link '' @ uri @ '' (latency '' @ peerLatency dur_String lat @ '')''"
| "route_line dur_String TreeParentUnknown = ''traffic to server: via MESH (tree parent unknown)''"
| "route_line dur_String (MeshRoute uri lat hops) =
     ''traffic to server: via MESH, first hop '' @ uri @ '' (latency '' @ peerLatency dur_String lat @ ''), ~''
       @ (case hops of None \<Rightarrow> ''unknown'' | Some n \<Rightarrow> fmt_d n) @ '' hop(s) total''"

definition active_channel :: "string \<Rightarrow> string" where
  "active_channel state = (if strings_HasPrefix state ''h2+h3'' then ''direct QUIC'' else ''mesh'')"

definition traffic_line :: "tunnelCounters \<Rightarrow> tunnelCounters \<Rightarrow> string" where
  "traffic_line tunRx tunTx =
     ''tunnel traffic: rx='' @ formatBytes (rx tunRx) @ '' tx='' @ formatBytes (tx tunTx)
       @ '' (end-to-end payload)''"

definition path_line :: "string \<Rightarrow> string" where
  "path_line state = ''tunnel path: '' @ state @ '' - active: '' @ active_channel state"

text \<open>
  One report: its lines (the transit warning, whose text contains a percentage, apart), the warning
  and the new state.
\<close>

definition report ::
    "(duration \<Rightarrow> string) \<Rightarrow> report_env \<Rightarrow> status_logger \<Rightarrow> string list \<times> (int \<times> int) option \<times> status_logger" where
  "report dur_String R s =
     (let up = map (peer_line dur_String) (filter p_Up (re_peers R))
      in if up = [] then ([''status: no connected peers''], None, s\<lparr>started := False\<rparr>)
         else
           (case reportTransit (link_bytes (re_peers R)) (re_sessions R) s of (warn, s1) \<Rightarrow>
              (let head_lines = (''status: '' @ fmt_d (length up) @ '' peer(s) up'') # map (\<lambda>l. ''  peer: '' @ l) up
               in if length (re_serverKey R) \<noteq> PublicKeySize then (head_lines, warn, s1)
                  else
                    (head_lines
                       @ (case re_counters R of None \<Rightarrow> [] | Some (r, t) \<Rightarrow> [traffic_line r t])
                       @ (case re_path R of None \<Rightarrow> [] | Some st \<Rightarrow> [path_line st])
                       @ [route_line dur_String (route_to_server R)], warn, s1))))"

section \<open>The loggers\<close>

text \<open>
  The goroutine of a logger makes one report per tick: \<open>Rs\<close> is what the reports find. With an
  interval of 0 or less there is no goroutine.
\<close>

definition new_logger :: status_logger where
  "new_logger = \<lparr>prevLink = 0, prevSession = 0, started = False\<rparr>"

fun report_all ::
    "(duration \<Rightarrow> string) \<Rightarrow> report_env list \<Rightarrow> status_logger \<Rightarrow> (string list \<times> (int \<times> int) option) list" where
  "report_all dur_String [] s = []"
| "report_all dur_String (R # Rs) s =
     (case report dur_String R s of (ls, warn, s1) \<Rightarrow> (ls, warn) # report_all dur_String Rs s1)"

definition startStatusLoggerTun ::
    "(duration \<Rightarrow> string) \<Rightarrow> duration \<Rightarrow> report_env list \<Rightarrow> (string list \<times> (int \<times> int) option) list" where
  "startStatusLoggerTun dur_String interval Rs =
     (if interval \<le> 0 then [] else report_all dur_String Rs new_logger)"

text \<open>The server's logger has no counters and no tunnel path; \<open>main\<close> passes it no server key.\<close>

definition startStatusLogger ::
    "(duration \<Rightarrow> string) \<Rightarrow> duration \<Rightarrow> report_env list \<Rightarrow> (string list \<times> (int \<times> int) option) list" where
  "startStatusLogger dur_String interval Rs =
     startStatusLoggerTun dur_String interval (map (\<lambda>R. R\<lparr>re_counters := None, re_path := None\<rparr>) Rs)"

text \<open>
  The client's logger reads the counters and the channel of the client at each report: \<open>cl\<close> lists the
  clock, the client and its two counters at these moments.
\<close>

definition StartClientStatusLog ::
    "(duration \<Rightarrow> string) \<Rightarrow> duration \<Rightarrow> report_env list
       \<Rightarrow> (time \<times> 'a client_state_scheme \<times> tunnelCounters \<times> tunnelCounters) list
       \<Rightarrow> (string list \<times> (int \<times> int) option) list" where
  "StartClientStatusLog dur_String interval Rs cl =
     startStatusLoggerTun dur_String interval
       (map2 (\<lambda>R (now, s, crx, ctx). R\<lparr>re_counters := Some (crx, ctx), re_path := Some (path_String (PathState now s))\<rparr>)
          Rs cl)"

end
