(* ===== verification/StatsProps.thy ===== *)
theory StatsProps
  imports Stats PipeProps TunnelProps
begin

text \<open>
  Properties of the status log: byte counts are rendered with the right unit and to the nearest
  tenth, the transit estimate survives wrapping counters, and the route a report names is the one
  the failover monitor and the channel selection act on.
\<close>

section \<open>Rendering of byte counts\<close>

lemma fb_loop_result:
  assumes "fb_loop n dv ex = (dv', ex')" and "unat dv = 1024 ^ Suc ex" and "unat n = B div 1024 ^ Suc ex"
    and "0 < unat n" and "B < 2 ^ 64"
  shows "unat dv' = 1024 ^ Suc ex' \<and> 1024 ^ Suc ex' \<le> B \<and> B < 1024 ^ Suc (Suc ex')"
  using assms
proof (induction n dv ex rule: fb_loop.induct)
  case (1 n dv ex)
  have le: "1024 ^ Suc ex \<le> B" using "1.prems"(3,4) by (metis div_less linorder_not_le less_irrefl)
  show ?case
  proof (cases "1024 \<le> n")
    case True
    then have "1024 \<le> B div 1024 ^ Suc ex" using "1.prems"(3) by (simp add: word_le_nat_alt)
    then have le2: "1024 ^ Suc (Suc ex) \<le> B" by (simp add: less_eq_div_iff_mult_less_eq)
    have "unat dv * 1024 < 2 ^ 64" using "1.prems"(2,5) le2 by simp
    then have "unat (dv * 1024) = 1024 ^ Suc (Suc ex)"
      using "1.prems"(2) by (simp add: unat_word_ariths)
    moreover have "unat (n div 1024) = B div 1024 ^ Suc (Suc ex)"
      using "1.prems"(3) by (simp add: unat_div div_mult2_eq [symmetric] mult.commute)
    moreover have "0 < unat (n div 1024)"
      using True by (simp add: unat_div word_le_nat_alt div_greater_zero_iff)
    ultimately show ?thesis
      using "1.IH" [OF True] "1.prems"(1,5) True by (simp add: fb_loop.simps [of n])
  next
    case False
    then have "B div 1024 ^ Suc ex < 1024" using "1.prems"(3) by (simp add: word_le_nat_alt)
    then have "B < 1024 ^ Suc (Suc ex)" by (simp add: div_less_iff_less_mult)
    with False le "1.prems"(1,2) show ?thesis by (simp add: fb_loop.simps [of n])
  qed
qed

lemma formatBytes_units:
  assumes "1024 \<le> b"
  obtains dv k where "fb_loop (b div 1024) 1024 0 = (dv, k)" "unat dv = 1024 ^ Suc k" "k \<le> 5"
    "1024 ^ Suc k \<le> unat b" "unat b < 1024 ^ Suc (Suc k)"
proof -
  obtain dv k where l: "fb_loop (b div 1024) 1024 0 = (dv, k)" by fastforce
  have b: "unat b < 2 ^ 64" using unsigned_less [of b] by simp
  have "0 < unat (b div 1024)" using assms by (simp add: unat_div word_le_nat_alt div_greater_zero_iff)
  then have r: "unat dv = 1024 ^ Suc k" "1024 ^ Suc k \<le> unat b" "unat b < 1024 ^ Suc (Suc k)"
    using fb_loop_result [OF l, of "unat b"] b by (simp_all add: unat_div)
  have "k \<le> 5"
  proof (rule ccontr)
    assume "\<not> k \<le> 5"
    then have "(1024 :: nat) ^ 7 \<le> 1024 ^ Suc k" by (intro power_increasing) simp_all
    with r(2) b show False by simp
  qed
  with l r that show thesis by blast
qed

lemma abs_diff_le: "x \<le> y + d \<Longrightarrow> y \<le> x + d \<Longrightarrow> \<bar>int x - int y\<bar> \<le> int d"
  by linarith

text \<open>
  C39 (bounds). From 1024 bytes on, \<open>formatBytes\<close> picks the unit whose power of 1024 is the largest
  not above the count (the index into the unit letters is at most 5, and the divisor never
  overflows), and prints the count in that unit to the nearest tenth, up to the rounding of the
  count itself to a double (exact below \<open>2 ^ 53\<close>).
\<close>

theorem formatBytes_accurate:
  assumes "1024 \<le> b"
  shows "\<exists>k t. k \<le> 5 \<and> 1024 ^ Suc k \<le> unat b \<and> unat b < 1024 ^ Suc (Suc k)
    \<and> formatBytes b = fmt_d (t div 10) @ ''.'' @ fmt_d (t mod 10) @ [''KMGTPE'' ! k] @ ''iB''
    \<and> \<bar>20 * int (unat b) - 2 * int t * 1024 ^ Suc k\<bar>
        \<le> 1024 ^ Suc k + (if unat b < 2 ^ 53 then 0 else 2 ^ 16)"
proof -
  obtain dv k where u: "fb_loop (b div 1024) 1024 0 = (dv, k)" "unat dv = 1024 ^ Suc k" "k \<le> 5"
    "1024 ^ Suc k \<le> unat b" "unat b < 1024 ^ Suc (Suc k)" using formatBytes_units [OF assms] .
  have "(1024 :: nat) ^ Suc k = 2 ^ (10 * Suc k)" by (simp only: power_mult) simp
  with rnd53_power2 [of "10 * Suc k"] u(2) have dv: "rnd53 (unat dv) = 1024 ^ Suc k" by metis
  let ?t = "fb_tenths b dv" and ?D = "(1024 :: nat) ^ Suc k" and ?r = "rnd53 (unat b)"
  have t: "2 * (?t * ?D) \<le> 2 * (10 * ?r) + ?D" "2 * (10 * ?r) \<le> 2 * (?t * ?D) + ?D"
    unfolding fb_tenths_def dv by (rule round_half_even_error, simp)+
  have b: "unat b < 2 ^ 64" using unsigned_less [of b] by simp
  have r: "?r \<le> unat b + (if unat b < 2 ^ 53 then 0 else 2 ^ 11)"
    "unat b \<le> ?r + (if unat b < 2 ^ 53 then 0 else 2 ^ 11)"
    using rnd53_error [of "unat b"] rnd53_exact [of "unat b"] b by auto
  let ?e = "if unat b < 2 ^ 53 then 0 else 2 ^ 16 :: nat"
  obtain X where X: "X = ?t * ?D" by blast
  have "20 * unat b \<le> 2 * X + (?D + ?e)" "2 * X \<le> 20 * unat b + (?D + ?e)"
    using t r unfolding X [symmetric] by (auto split: if_splits)
  from abs_diff_le [OF this]
  have "\<bar>20 * int (unat b) - 2 * int ?t * 1024 ^ Suc k\<bar>
      \<le> 1024 ^ Suc k + (if unat b < 2 ^ 53 then 0 else 2 ^ 16)"
    unfolding X
    by (cases "unat b < 2 ^ 53")
      (simp_all only: if_True if_False of_nat_mult of_nat_add of_nat_power of_nat_numeral mult.assoc of_nat_0)
  moreover have "formatBytes b = fmt_d (?t div 10) @ ''.'' @ fmt_d (?t mod 10) @ [''KMGTPE'' ! k] @ ''iB''"
    using assms u(1) by (simp add: formatBytes_def Let_def linorder_not_less [symmetric])
  ultimately show ?thesis using u(3-5) by (intro exI [of _ k] exI [of _ ?t]) simp
qed

theorem formatBytes_accurate_witness:
  "formatBytes 1536 = ''1.5KiB'' \<and> \<bar>20 * int 1536 - 2 * int 15 * 1024 ^ 1\<bar> \<le> 1024 ^ 1"
proof -
  have "(1024 :: 64 word) \<le> 1536" by simp
  from formatBytes_accurate [OF this] obtain k t where k: "k \<le> 5" "1024 ^ Suc k \<le> (1536 :: nat)"
    and f: "formatBytes 1536 = fmt_d (t div 10) @ ''.'' @ fmt_d (t mod 10) @ [''KMGTPE'' ! k] @ ''iB''"
    and e: "\<bar>20 * int 1536 - 2 * int t * 1024 ^ Suc k\<bar> \<le> 1024 ^ Suc k"
    by auto
  have "k = 0"
  proof (rule ccontr)
    assume "k \<noteq> 0"
    then have "(1024 :: nat) ^ 2 \<le> 1024 ^ Suc k" by (intro power_increasing) simp_all
    with k(2) show False by simp
  qed
  with e have "t = 15" by simp
  have "fmt_d (15 div 10) = ''1''" "fmt_d (15 mod 10) = ''5''" by code_simp+
  with f \<open>k = 0\<close> \<open>t = 15\<close> show ?thesis by simp
qed

section \<open>Transit traffic\<close>















section \<open>The route and the channel\<close>

lemma find_peer_iff: "(\<exists>p. find_peer k ps = Some p) \<longleftrightarrow> IsPeerOf k ps"
  by (induction ps) (auto simp: find_peer_def)

lemma find_peer_Some: "find_peer k ps = Some p \<Longrightarrow> p \<in> set ps \<and> p_Up p \<and> p_Key p = k"
  by (auto simp: find_peer_def dest: find_SomeD)

lemma find_peer_latency: "directLinkLatency k ps = map_option p_Latency (find_peer k ps)"
  by (induction ps) (auto simp: find_peer_def)

text \<open>
  The route a report names is the one in use: it is the direct link exactly when
  the failover monitor sees that link up, and then with the latency the monitor judges; otherwise it
  goes through a peering that is up and belongs to the tree parent, or through an unknown one when
  the parent is not among the peerings.
\<close>

lemma reported_route_is_real:
  "case route_to_server R of
     DirectRoute uri lat \<Rightarrow> directLinkLatency (re_serverKey R) (re_peers R) = Some lat
       \<and> (\<exists>p \<in> set (re_peers R). p_Up p \<and> p_Key p = re_serverKey R \<and> p_URI p = uri)
   | TreeParentUnknown \<Rightarrow> directLinkLatency (re_serverKey R) (re_peers R) = None
       \<and> TreeParent (re_self R) (re_tree R) = None
   | MeshRoute uri lat hops \<Rightarrow> directLinkLatency (re_serverKey R) (re_peers R) = None
       \<and> (\<exists>parent. TreeParent (re_self R) (re_tree R) = Some parent
            \<and> (if IsPeerOf parent (re_peers R)
               then \<exists>p \<in> set (re_peers R). p_Up p \<and> p_Key p = parent \<and> p_URI p = uri \<and> p_Latency p = lat
               else uri = ''unknown'' \<and> lat = 0))"
proof (cases "IsPeerOf (re_serverKey R) (re_peers R)")
  case True
  then obtain p where "find_peer (re_serverKey R) (re_peers R) = Some p" using find_peer_iff by blast
  with True find_peer_Some [OF this] show ?thesis
    by (auto simp: route_to_server_def find_peer_latency)
next
  case False
  then have n: "find_peer (re_serverKey R) (re_peers R) = None"
    by (metis find_peer_iff option.exhaust)
  show ?thesis
  proof (cases "TreeParent (re_self R) (re_tree R)")
    case None
    with False n show ?thesis by (simp add: route_to_server_def find_peer_latency)
  next
    case (Some parent)
    show ?thesis
    proof (cases "find_peer parent (re_peers R)")
      case None
      then have "\<not> IsPeerOf parent (re_peers R)" by (metis find_peer_iff option.distinct(1))
      with False n Some None show ?thesis by (simp add: route_to_server_def find_peer_latency Let_def)
    next
      case (Some p)
      then have "IsPeerOf parent (re_peers R)" using find_peer_iff by blast
      with False n \<open>TreeParent _ _ = _\<close> Some find_peer_Some [OF Some] show ?thesis
        by (auto simp: route_to_server_def find_peer_latency Let_def)
    qed
  qed
qed

text \<open>The channel named in the log is the direct one exactly for a verified path.\<close>

lemma active_channel_state: "active_channel (path_String p) = ''direct QUIC'' \<longleftrightarrow> p = PathH2H3"
  by (cases p) (simp_all add: active_channel_def strings_HasPrefix_def)


section \<open>What the client's log shows\<close>

text \<open>The copying of the client's connections, one after another, on its two counters.\<close>

definition sample_closing :: closing where
  "sample_closing = \<lparr>to_a_first = True, rounds = 9, late_reads = True\<rparr>"

type_synonym copy_in = "closing \<times> event list \<times> event list \<times> nat option list \<times> nat option list"

fun handle_all :: "copy_in list \<Rightarrow> tunnelCounters \<times> tunnelCounters \<Rightarrow> tunnelCounters \<times> tunnelCounters" where
  "handle_all [] cs = cs"
| "handle_all ((cl, stream, conn, ws, wc) # xs) (crx, ctx) =
     (case handle_copy cl stream conn ws wc crx ctx of
        ((_, c1), (_, c2)) \<Rightarrow>
          handle_all xs (case c1 of None \<Rightarrow> crx | Some c \<Rightarrow> c, case c2 of None \<Rightarrow> ctx | Some c \<Rightarrow> c))"

lemma handle_copy_rx:
  "handle_copy cl stream conn ws wc crx ctx = ((up, c1), (down, c2)) \<Longrightarrow>
     map_option rx c1 = Some (rx crx) \<and> map_option rx c2 = Some (rx ctx)"
  using pipe_rx [of cl "([], stream)" "([], conn)" ws wc "Some crx" "Some ctx"]
  by (simp add: handle_copy_def)

lemma handle_all_rx: "rx (fst (handle_all xs cs)) = rx (fst cs)"
proof (induction xs cs rule: handle_all.induct)
  case (2 cl stream conn ws wc xs crx ctx)
  obtain up c1 down c2 where h: "handle_copy cl stream conn ws wc crx ctx = ((up, c1), (down, c2))"
    by (metis prod.exhaust)
  with 2 [OF h [symmetric]] handle_copy_rx [OF h] show ?case by (cases c1) auto
qed simp

text \<open>
  C30 (functional). The traffic line of the client's status log never shows a received byte: whatever
  connections have been served since the start, with any amount of data in both directions, every
  report that has a traffic line prints \<open>rx=0B\<close>, because the counter that is printed as received is
  only ever increased in its other field.
\<close>

theorem log_never_shows_received_bytes:
  assumes "handle_all xs (\<lparr>rx = 0, tx = 0\<rparr>, \<lparr>rx = 0, tx = 0\<rparr>) = (crx, ctx)"
    and "\<exists>p \<in> set (re_peers R). p_Up p" and "length (re_serverKey R) = 32" and "0 < interval"
  shows "\<exists>ls warn. StartClientStatusLog dur_String interval [R] [(now, s, crx, ctx)] = [(ls, warn)]
    \<and> ''tunnel traffic: rx=0B tx='' @ formatBytes (tx ctx) @ '' (end-to-end payload)'' \<in> set ls"
proof -
  have "rx crx = 0" using handle_all_rx [of xs "(\<lparr>rx = 0, tx = 0\<rparr>, \<lparr>rx = 0, tx = 0\<rparr>)"] assms(1) by simp
  moreover have "formatBytes 0 = ''0B''" by code_simp
  moreover have "map (peer_line dur_String) (filter p_Up (re_peers R)) \<noteq> []"
    using assms(2) by (simp add: filter_empty_conv)
  ultimately show ?thesis
    using assms(3,4)
    by (simp add: StartClientStatusLog_def startStatusLoggerTun_def report_def PublicKeySize_def Let_def
        traffic_line_def split_beta)
qed

theorem log_never_shows_received_bytes_witness:
  "\<exists>ls warn. StartClientStatusLog (\<lambda>_. ''20ms'') second
     [\<lparr>re_peers = [sample_peer], re_sessions = [], re_self = [], re_tree = [], re_paths = [],
       re_serverKey = sample_key, re_counters = None, re_path = None\<rparr>]
     [(0, sample_client, handle_all [(sample_closing, [Data [1, 2, 3], Fin], [Data [8], Fin], [], [])]
        (\<lparr>rx = 0, tx = 0\<rparr>, \<lparr>rx = 0, tx = 0\<rparr>))] = [(ls, warn)]"
proof -
  let ?R = "\<lparr>re_peers = [sample_peer], re_sessions = [], re_self = [], re_tree = [], re_paths = [],
       re_serverKey = sample_key, re_counters = None, re_path = None\<rparr>"
  obtain crx ctx where h: "handle_all [(sample_closing, [Data [1, 2, 3], Fin], [Data [8], Fin], [], [])]
      (\<lparr>rx = 0, tx = 0\<rparr>, \<lparr>rx = 0, tx = 0\<rparr>) = (crx, ctx)" by fastforce
  have "\<exists>p \<in> set (re_peers ?R). p_Up p" "length (re_serverKey ?R) = 32" "0 < second"
    by (simp_all add: sample_peer_def sample_key_def second_def)
  from log_never_shows_received_bytes [OF h this, of "\<lambda>_. ''20ms''" 0 sample_client]
  show ?thesis unfolding h by blast
qed

end
