(* ===== verification/Config.thy ===== *)
theory Config
  imports GoStrings
begin

text \<open>
  Where the settings come from: the JSON configuration file (\<^verbatim>\<open>internal/yggss/config.go\<close>) and the
  environment of a SIP003 plugin (\<^verbatim>\<open>internal/yggss/sip003.go\<close>). \<open>encoding/json\<close> and the file system
  are arguments; so is the lower-casing of strings outside ASCII (\<open>uni\<close>). A Go map is a HOL map.
\<close>

section \<open>The configuration file\<close>

record pluginConfig =
  cf_Server :: bool
  cf_Bind :: string
  cf_Destination :: string
  cf_Key :: string
  cf_ServerKey :: string
  cf_ClientKey :: string
  cf_ClientKeys :: "string list"
  cf_Peers :: "string list"
  cf_Password :: string
  cf_Scheme :: string
  cf_Mode :: string
  cf_SNI :: string
  cf_DirectDialTimeout :: int
  cf_DirectRetry :: int
  cf_Timeout :: int
  cf_LogInterval :: int
  cf_Failover :: "bool option"
  cf_FailoverLatency :: int
  cf_FailoverCheck :: int

text \<open>The zero value \<open>&pluginConfig{}\<close> that the JSON text is read into.\<close>

definition zero_config :: pluginConfig where
  "zero_config =
     \<lparr>cf_Server = False, cf_Bind = [], cf_Destination = [], cf_Key = [], cf_ServerKey = [],
      cf_ClientKey = [], cf_ClientKeys = [], cf_Peers = [], cf_Password = [], cf_Scheme = [],
      cf_Mode = [], cf_SNI = [], cf_DirectDialTimeout = 0, cf_DirectRetry = 0, cf_Timeout = 0,
      cf_LogInterval = 0, cf_Failover = None, cf_FailoverLatency = 0, cf_FailoverCheck = 0\<rparr>"

datatype config_error = CannotRead string | CannotParse string

definition trim_config :: "pluginConfig \<Rightarrow> pluginConfig" where
  "trim_config cfg = cfg
     \<lparr>cf_Key := strings_TrimSpace (cf_Key cfg), cf_ServerKey := strings_TrimSpace (cf_ServerKey cfg),
      cf_ClientKey := strings_TrimSpace (cf_ClientKey cfg),
      cf_ClientKeys := map strings_TrimSpace (cf_ClientKeys cfg),
      cf_Scheme := strings_TrimSpace (cf_Scheme cfg)\<rparr>"

definition loadConfigFile ::
    "(string \<Rightarrow> string + 'b) \<Rightarrow> ('b \<Rightarrow> pluginConfig \<Rightarrow> string + pluginConfig) \<Rightarrow> string
       \<Rightarrow> config_error + pluginConfig" where
  "loadConfigFile readFile unmarshal path =
     (case readFile path of
        Inl e \<Rightarrow> Inl (CannotRead e)
      | Inr b \<Rightarrow>
          (case unmarshal b zero_config of
             Inl e \<Rightarrow> Inl (CannotParse e)
           | Inr cfg \<Rightarrow> Inr (trim_config cfg)))"

fun findConfigPath :: "string list \<Rightarrow> string" where
  "findConfigPath [] = []"
| "findConfigPath (a # args) =
     (if a = ''-c'' \<and> args \<noteq> [] then hd args
      else if strings_HasPrefix a ''-c='' then strings_TrimPrefix a ''-c=''
      else findConfigPath args)"

section \<open>The SIP003 environment\<close>

type_synonym options = "string \<rightharpoonup> string"

record sip_env =
  localHost :: string
  localPort :: string
  remoteHost :: string
  remotePort :: string
  Options :: options

definition LocalAddr :: "sip_env \<Rightarrow> string" where
  "LocalAddr e = net_JoinHostPort (localHost e) (localPort e)"

definition RemoteAddr :: "sip_env \<Rightarrow> string" where
  "RemoteAddr e = net_JoinHostPort (remoteHost e) (remotePort e)"

text \<open>Reading a Go map: the zero value for a missing key.\<close>

definition opt_get :: "options \<Rightarrow> string \<Rightarrow> string" where
  "opt_get opts k = (case opts k of None \<Rightarrow> [] | Some v \<Rightarrow> v)"

fun parse_pairs :: "(string \<Rightarrow> string) \<Rightarrow> string list \<Rightarrow> options \<Rightarrow> options" where
  "parse_pairs uni [] opts = opts"
| "parse_pairs uni (pair # ps) opts =
     (let pair = strings_TrimSpace pair
      in if pair = [] then parse_pairs uni ps opts
         else case strings_Cut pair CHR ''='' of (k, v, _) \<Rightarrow>
                parse_pairs uni ps
                  (opts(strings_ToLower uni (strings_TrimSpace k) \<mapsto> strings_TrimSpace v)))"

definition parsePluginOptions :: "(string \<Rightarrow> string) \<Rightarrow> string \<Rightarrow> options" where
  "parsePluginOptions uni s = parse_pairs uni (strings_Split s CHR '';'') Map.empty"

text \<open>\<open>os.LookupEnv\<close> is a map; \<open>os.Getenv\<close> reads it with the empty string for a missing name.\<close>

definition detectSIP003 :: "(string \<Rightarrow> string) \<Rightarrow> options \<Rightarrow> sip_env option" where
  "detectSIP003 uni env =
     (let lh = env ''SS_LOCAL_HOST'' \<noteq> None; lp = env ''SS_LOCAL_PORT'' \<noteq> None;
          rh = env ''SS_REMOTE_HOST'' \<noteq> None; rp = env ''SS_REMOTE_PORT'' \<noteq> None;
          opts = env ''SS_PLUGIN_OPTIONS'' \<noteq> None
      in if \<not> lh \<and> \<not> lp \<and> \<not> rh \<and> \<not> rp \<and> \<not> opts then None
         else if \<not> lh \<or> \<not> lp \<or> \<not> rh \<or> \<not> rp then None
         else Some
           \<lparr>localHost = opt_get env ''SS_LOCAL_HOST'', localPort = opt_get env ''SS_LOCAL_PORT'',
            remoteHost = opt_get env ''SS_REMOTE_HOST'', remotePort = opt_get env ''SS_REMOTE_PORT'',
            Options = parsePluginOptions uni (opt_get env ''SS_PLUGIN_OPTIONS'')\<rparr>)"

definition configPathFromOptions :: "(string \<Rightarrow> string) \<Rightarrow> string \<Rightarrow> string" where
  "configPathFromOptions uni raw =
     (let raw = strings_TrimSpace raw
      in if raw = [] then []
         else if \<not> strings_Contains raw ''='' \<and> strings_HasSuffix (strings_ToLower uni raw) ''.json'' then raw
         else (let opts = parsePluginOptions uni raw
               in if opt_get opts ''config'' \<noteq> [] then opt_get opts ''config'' else opt_get opts ''c''))"

section \<open>Properties\<close>

text \<open>An option as the user writes it: a lower-case name and a value, both without separators.\<close>

definition good_option :: "string \<times> string \<Rightarrow> bool" where
  "good_option kv =
     (case kv of (k, v) \<Rightarrow>
        k \<noteq> [] \<and> trimmed k \<and> trimmed v \<and> is_ascii k \<and> map ascii_lower k = k
        \<and> CHR ''='' \<notin> set k \<and> CHR '';'' \<notin> set k \<and> CHR '';'' \<notin> set v \<and> trimmed (k @ ''='' @ v))"

definition render_option :: "string \<times> string \<Rightarrow> string" where
  "render_option kv = fst kv @ ''='' @ snd kv"

definition render_options :: "(string \<times> string) list \<Rightarrow> string" where
  "render_options kvs = strings_Join (map render_option kvs) CHR '';''"

lemma parse_pairs_good:
  assumes "list_all good_option kvs"
  shows "parse_pairs uni (map render_option kvs) opts = opts ++ map_of (rev kvs)"
  using assms
proof (induction kvs arbitrary: opts)
  case (Cons kv kvs)
  obtain k v where kv: "kv = (k, v)" by (cases kv)
  with Cons.prems have g: "k \<noteq> []" "trimmed k" "trimmed v" "is_ascii k" "map ascii_lower k = k"
    "CHR ''='' \<notin> set k" "trimmed (k @ CHR ''='' # v)"
    by (auto simp: good_option_def)
  then have "parse_pairs uni (map render_option (kv # kvs)) opts
      = parse_pairs uni (map render_option kvs) (opts(k \<mapsto> v))"
    by (simp add: kv render_option_def trimmed_TrimSpace strings_Cut_found strings_ToLower_def)
  also have "\<dots> = opts(k \<mapsto> v) ++ map_of (rev kvs)"
    by (rule Cons.IH) (use Cons.prems in simp)
  also have "\<dots> = opts ++ map_of (rev (kv # kvs))"
    by (auto simp: kv map_add_def fun_eq_iff split: option.split)
  finally show ?case .
qed simp

lemma parsePluginOptions_render:
  assumes "kvs \<noteq> []" and "list_all good_option kvs"
  shows "parsePluginOptions uni (render_options kvs) = map_of (rev kvs)"
proof -
  have "strings_Split (render_options kvs) CHR '';'' = map render_option kvs"
    unfolding render_options_def
    by (rule strings_Split_Join)
      (use assms in \<open>auto simp: list_all_iff good_option_def render_option_def\<close>)
  with parse_pairs_good [OF assms(2), of uni Map.empty] show ?thesis
    by (simp add: parsePluginOptions_def)
qed

text \<open>
  C38 (roundtrip). Options written as \<open>key=value\<close> pairs with semicolons between them are read back
  exactly, the last one winning for a repeated key.
\<close>

theorem parsePluginOptions_roundtrip:
  assumes "kvs \<noteq> []" and "list_all good_option kvs"
  shows "parsePluginOptions uni (render_options kvs) = map_of (rev kvs)"
  using assms by (rule parsePluginOptions_render)

theorem parsePluginOptions_roundtrip_witness:
  "parsePluginOptions id ''mode=mesh;t=5;mode=direct'' ''mode'' = Some ''direct''"
proof -
  let ?kvs = "[(''mode'', ''mesh''), (''t'', ''5''), (''mode'', ''direct'')]"
  have "list_all good_option ?kvs"
    by (auto simp: good_option_def is_ascii_def ascii_lower_def intro!: trimmed_printable)
  from parsePluginOptions_roundtrip [OF _ this, of id] show ?thesis
    by (simp add: render_options_def render_option_def)
qed

text \<open>The process counts as a plugin exactly when all four address variables are set.\<close>

lemma sip003_detection:
  "detectSIP003 uni env \<noteq> None \<longleftrightarrow>
     env ''SS_LOCAL_HOST'' \<noteq> None \<and> env ''SS_LOCAL_PORT'' \<noteq> None
     \<and> env ''SS_REMOTE_HOST'' \<noteq> None \<and> env ''SS_REMOTE_PORT'' \<noteq> None"
  by (auto simp: detectSIP003_def Let_def)

lemma sip003_addresses:
  assumes "detectSIP003 uni env = Some e"
  shows "LocalAddr e = net_JoinHostPort (opt_get env ''SS_LOCAL_HOST'') (opt_get env ''SS_LOCAL_PORT'')"
    and "RemoteAddr e = net_JoinHostPort (opt_get env ''SS_REMOTE_HOST'') (opt_get env ''SS_REMOTE_PORT'')"
    and "Options e = parsePluginOptions uni (opt_get env ''SS_PLUGIN_OPTIONS'')"
  using assms by (auto simp: detectSIP003_def Let_def LocalAddr_def RemoteAddr_def split: if_splits)

text \<open>
  The documented forms of the options string name the configuration file: a path
  ending in \<open>.json\<close> alone; a \<open>c\<close> or \<open>config\<close> option among others, the long form winning; and with
  neither there is no file.
\<close>

lemma config_path_forms:
  assumes "list_all good_option kvs" and "kvs \<noteq> []" and "trimmed (render_options kvs)"
  shows "configPathFromOptions uni (render_options kvs) =
    (case map_of (rev kvs) ''config'' of
       Some p \<Rightarrow> if p \<noteq> [] then p else opt_get (map_of (rev kvs)) ''c''
     | None \<Rightarrow> opt_get (map_of (rev kvs)) ''c'')"
proof -
  obtain k v rest where kvs: "kvs = (k, v) # rest" using assms(2) by (cases kvs) auto
  have "\<exists>tl. render_options kvs = k @ ''='' @ v @ tl"
    by (cases rest) (simp_all add: kvs render_options_def render_option_def)
  then obtain tail where r: "render_options kvs = k @ ''='' @ v @ tail" ..
  have "strings_Index (a @ ''='' @ b) ''='' \<noteq> None" for a b
    by (induction a) (auto simp: strings_Index.simps)
  from this [of k "v @ tail"] r have c: "strings_Contains (render_options kvs) ''=''"
    by (simp add: strings_Contains_def)
  have "render_options kvs \<noteq> []" using r by simp
  with c show ?thesis
    using parsePluginOptions_render [OF assms(2,1), of uni] assms(3)
    by (auto simp: configPathFromOptions_def Let_def trimmed_TrimSpace opt_get_def split: option.split)
qed

definition sample_environment :: options where
  "sample_environment = [''SS_LOCAL_HOST'' \<mapsto> ''127.0.0.1'', ''SS_LOCAL_PORT'' \<mapsto> ''1080'',
     ''SS_REMOTE_HOST'' \<mapsto> ''192.0.2.1'', ''SS_REMOTE_PORT'' \<mapsto> ''443'',
     ''SS_PLUGIN_OPTIONS'' \<mapsto> ''s;c=/etc/yggss.json'']"

lemma config_path_forms_sample:
  "configPathFromOptions id ''mode=mesh;c=/etc/y.json'' = ''/etc/y.json''"
proof -
  let ?kvs = "[(''mode'', ''mesh''), (''c'', ''/etc/y.json'')]"
  have "list_all good_option ?kvs"
    by (auto simp: good_option_def is_ascii_def ascii_lower_def intro!: trimmed_printable)
  moreover have "trimmed (render_options ?kvs)"
    by (auto simp: render_options_def render_option_def intro!: trimmed_printable)
  ultimately show ?thesis
    using config_path_forms [of ?kvs id] by (simp add: render_options_def render_option_def opt_get_def)
qed

end
