(* ===== verification/Server.thy ===== *)
theory Server
  imports Auth Pipe
begin

text \<open>
  The server side and the QUIC connections of both sides: the transport parameters and the TLS
  configurations (\<^verbatim>\<open>internal/yggss/tunnel.go\<close>, \<^verbatim>\<open>internal/yggss/direct.go\<close>), the UDP listener of the
  direct mode, and the accept loops that hand every connection and every stream to its handler
  (theory \<open>Pipe\<close>). What a listener or a connection accepts over time is a list; the list ends with
  the error that ends the loop, or where the observation ends.
\<close>

section \<open>Transport parameters\<close>

text \<open>The fields of \<open>quic.Config\<close> that are set; 0 is the default of the library.\<close>

record quic_config =
  HandshakeIdleTimeout :: duration
  MaxIdleTimeout :: duration
  KeepAlivePeriod :: duration
  MaxIncomingStreams :: nat
  MaxIncomingUniStreams :: nat
  InitialPacketSize :: nat
  InitialStreamReceiveWindow :: nat
  MaxStreamReceiveWindow :: nat
  InitialConnectionReceiveWindow :: nat
  MaxConnectionReceiveWindow :: nat

definition quicConfig :: quic_config where
  "quicConfig =
     \<lparr>HandshakeIdleTimeout = 30 * second, MaxIdleTimeout = 2 * minute, KeepAlivePeriod = 15 * second,
      MaxIncomingStreams = 1024, MaxIncomingUniStreams = 1024, InitialPacketSize = 0,
      InitialStreamReceiveWindow = 0, MaxStreamReceiveWindow = 0,
      InitialConnectionReceiveWindow = 0, MaxConnectionReceiveWindow = 0\<rparr>"

definition chromeTransportParams :: quic_config where
  "chromeTransportParams =
     \<lparr>HandshakeIdleTimeout = 10 * second, MaxIdleTimeout = 2 * minute, KeepAlivePeriod = 10 * second,
      MaxIncomingStreams = 1024, MaxIncomingUniStreams = 1024, InitialPacketSize = 1350,
      InitialStreamReceiveWindow = 4 * 2 ^ 20, MaxStreamReceiveWindow = 16 * 2 ^ 20,
      InitialConnectionReceiveWindow = 8 * 2 ^ 20, MaxConnectionReceiveWindow = 32 * 2 ^ 20\<rparr>"

section \<open>TLS configurations\<close>

definition alpn :: string where
  "alpn = ''h3''"

record 'c tls_config =
  tls_Certificates :: "'c list"
  tls_NextProtos :: "string list"
  tls_RequireAnyClientCert :: bool
  tls_InsecureSkipVerify :: bool
  tls_ServerName :: string
  tls_Verify :: "'c list \<Rightarrow> auth_error option"

text \<open>\<open>server.tlsConfig\<close> and \<open>directServerTLS\<close>, with the certificate of the node.\<close>

definition server_tlsConfig :: "'c x509 \<Rightarrow> 'c \<Rightarrow> key set \<Rightarrow> 'c tls_config" where
  "server_tlsConfig x509 cert allowed =
     \<lparr>tls_Certificates = [cert], tls_NextProtos = [alpn], tls_RequireAnyClientCert = True,
      tls_InsecureSkipVerify = False, tls_ServerName = [], tls_Verify = server_verify x509 allowed\<rparr>"

definition directServerTLS :: "'c x509 \<Rightarrow> 'c \<Rightarrow> key set \<Rightarrow> 'c tls_config" where
  "directServerTLS x509 cert allowed =
     \<lparr>tls_Certificates = [cert], tls_NextProtos = [alpn], tls_RequireAnyClientCert = True,
      tls_InsecureSkipVerify = False, tls_ServerName = [], tls_Verify = direct_server_verify x509 allowed\<rparr>"

text \<open>\<open>client.tlsConfig\<close> and the configuration of \<open>directDialTransport\<close> with its fake SNI.\<close>

definition client_tlsConfig :: "'c x509 \<Rightarrow> 'c \<Rightarrow> key \<Rightarrow> 'c tls_config" where
  "client_tlsConfig x509 cert serverKey =
     \<lparr>tls_Certificates = [cert], tls_NextProtos = [alpn], tls_RequireAnyClientCert = False,
      tls_InsecureSkipVerify = True, tls_ServerName = [], tls_Verify = client_verify x509 serverKey\<rparr>"

definition direct_client_tls :: "'c x509 \<Rightarrow> 'c \<Rightarrow> key \<Rightarrow> string \<Rightarrow> 'c tls_config" where
  "direct_client_tls x509 cert serverKey fakeSNI =
     (let cfg = \<lparr>tls_Certificates = [cert], tls_NextProtos = [alpn], tls_RequireAnyClientCert = False,
            tls_InsecureSkipVerify = True, tls_ServerName = [], tls_Verify = direct_client_verify x509 serverKey\<rparr>
      in if fakeSNI \<noteq> [] then cfg\<lparr>tls_ServerName := fakeSNI\<rparr> else cfg)"

text \<open>
  A handshake of \<open>crypto/tls\<close>, as far as these fields decide it: a common application protocol, the
  client's verification of the server chain (\<open>chain_ok\<close> is the verification against the root store,
  which \<open>InsecureSkipVerify\<close> turns off) followed by its callback, and the server's request for a
  certificate followed by its callback.
\<close>

definition handshake :: "('c list \<Rightarrow> string \<Rightarrow> bool) \<Rightarrow> 'c tls_config \<Rightarrow> 'c tls_config \<Rightarrow> bool" where
  "handshake chain_ok cl sv \<longleftrightarrow>
     list_ex (\<lambda>p. p \<in> set (tls_NextProtos sv)) (tls_NextProtos cl)
     \<and> (tls_InsecureSkipVerify cl \<or> chain_ok (tls_Certificates sv) (tls_ServerName cl))
     \<and> tls_Verify cl (tls_Certificates sv) = None
     \<and> (\<not> tls_RequireAnyClientCert sv \<or> tls_Certificates cl \<noteq> [])
     \<and> tls_Verify sv (tls_Certificates cl) = None"

section \<open>The UDP listener of the direct mode\<close>

datatype listener_error = BadBind parse_error | UDPListenFailed string | QUICListenFailed string

record listener_env =
  le_resolver :: resolver
  le_listen :: "udp_addr \<Rightarrow> string + nat"
  le_quic :: "nat \<Rightarrow> string option"

text \<open>The socket that listens; \<open>socks\<close> are the open UDP sockets of the process.\<close>

definition startDirectListener ::
    "listener_env \<Rightarrow> string \<Rightarrow> 'a net_state_scheme \<Rightarrow> (listener_error + nat) \<times> 'a net_state_scheme" where
  "startDirectListener LE bind s =
     (case listener_laddr (le_resolver LE) bind of
        Inl e \<Rightarrow> (Inl (BadBind e), s)
      | Inr laddr \<Rightarrow>
          (case le_listen LE laddr of
             Inl e \<Rightarrow> (Inl (UDPListenFailed e), s)
           | Inr sk \<Rightarrow>
               (let s1 = s\<lparr>socks := insert sk (socks s)\<rparr>
                in case le_quic LE sk of
                     Some e \<Rightarrow> (Inl (QUICListenFailed e), s1)
                   | None \<Rightarrow> (Inr sk, s1))))"

section \<open>Accept loops\<close>

datatype 'c accepted = Accepted 'c | AcceptFailed string

text \<open>What a loop handed to handlers, and the error that ended it.\<close>

fun accept_loop :: "'c accepted list \<Rightarrow> 'c list \<times> string option" where
  "accept_loop [] = ([], None)"
| "accept_loop (Accepted c # as) = (case accept_loop as of (cs, e) \<Rightarrow> (c # cs, e))"
| "accept_loop (AcceptFailed e # as) = ([], Some e)"

type_synonym stream_in = "stream_env \<times> event list"

text \<open>
  \<open>serveDirectConn\<close>: what was done with each stream, and whether the connection was closed, which
  the deferred \<open>CloseWithError\<close> does when the loop ends.
\<close>

definition serveDirectConn :: "stream_in accepted list \<Rightarrow> served list \<times> bool" where
  "serveDirectConn as =
     (case accept_loop as of (streams, e) \<Rightarrow>
        (map (\<lambda>(SE, es). serveDirectStream SE es) streams, e \<noteq> None))"

definition startDirectServer ::
    "listener_env \<Rightarrow> string \<Rightarrow> stream_in accepted list accepted list \<Rightarrow> 'a net_state_scheme
       \<Rightarrow> (listener_error + (served list \<times> bool) list) \<times> 'a net_state_scheme" where
  "startDirectServer LE bind as s =
     (case startDirectListener LE bind s of
        (Inl e, s1) \<Rightarrow> (Inl e, s1)
      | (Inr sk, s1) \<Rightarrow> (Inr (map serveDirectConn (fst (accept_loop as))), s1))"

section \<open>The mesh server\<close>

record server =
  sv_dst :: string
  sv_allowed :: "key set"
  sv_rx :: tunnelCounters
  sv_tx :: tunnelCounters

record server_options =
  so_Dst :: string
  so_Allowed :: "key set"

definition NewServer :: "server_options \<Rightarrow> server" where
  "NewServer opts =
     \<lparr>sv_dst = so_Dst opts, sv_allowed = so_Allowed opts,
      sv_rx = \<lparr>rx = 0, tx = 0\<rparr>, sv_tx = \<lparr>rx = 0, tx = 0\<rparr>\<rparr>"

text \<open>One stream, with the counters of the server updated.\<close>

definition serve_stream :: "stream_in \<Rightarrow> server \<Rightarrow> served \<times> server" where
  "serve_stream si s =
     (case handleStream (fst si) (sv_rx s) (sv_tx s) (snd si) of
        Copied p u \<Rightarrow>
          (Copied p u, s\<lparr>sv_rx := (case snd p of None \<Rightarrow> sv_rx s | Some c \<Rightarrow> c),
                         sv_tx := (case snd u of None \<Rightarrow> sv_tx s | Some c \<Rightarrow> c)\<rparr>)
      | r \<Rightarrow> (r, s))"

fun serve_streams :: "stream_in list \<Rightarrow> server \<Rightarrow> served list \<times> server" where
  "serve_streams [] s = ([], s)"
| "serve_streams (si # sis) s =
     (case serve_stream si s of (r, s1) \<Rightarrow>
        (case serve_streams sis s1 of (rs, s2) \<Rightarrow> (r # rs, s2)))"

text \<open>\<open>handleConn\<close>: the results, whether the connection was closed, the server afterwards.\<close>

definition handleConn :: "stream_in accepted list \<Rightarrow> server \<Rightarrow> served list \<times> bool \<times> server" where
  "handleConn as s =
     (case accept_loop as of (streams, e) \<Rightarrow>
        (case serve_streams streams s of (rs, s1) \<Rightarrow> (rs, e \<noteq> None, s1)))"

datatype run_error = ListenerFailed string | AcceptEnded string

fun handle_conns :: "stream_in accepted list list \<Rightarrow> server \<Rightarrow> (served list \<times> bool) list \<times> server" where
  "handle_conns [] s = ([], s)"
| "handle_conns (c # cs) s =
     (case handleConn c s of (rs, closed, s1) \<Rightarrow>
        (case handle_conns cs s1 of (xs, s2) \<Rightarrow> ((rs, closed) # xs, s2)))"

text \<open>\<open>Run\<close>: the answer of \<open>tr.Listen\<close>, then the accepted connections until the loop returns its error.\<close>

definition server_Run ::
    "string option \<Rightarrow> stream_in accepted list accepted list \<Rightarrow> server
       \<Rightarrow> run_error option \<times> (served list \<times> bool) list \<times> server" where
  "server_Run listen as s =
     (case listen of
        Some e \<Rightarrow> (Some (ListenerFailed e), [], s)
      | None \<Rightarrow>
          (case accept_loop as of (conns, e) \<Rightarrow>
             (case handle_conns conns s of (xs, s1) \<Rightarrow> (map_option AcceptEnded e, xs, s1))))"

section \<open>The client's accept loop\<close>

type_synonym conn_in = "time \<times> client_env"

text \<open>The connections in the order of their arrival, each opening its stream.\<close>

fun open_all :: "conn_in list \<Rightarrow> 'a client_state_scheme \<Rightarrow> (mesh_error + stream) list \<times> 'a client_state_scheme" where
  "open_all [] s = ([], s)"
| "open_all ((now, CE) # cs) s =
     (case handle_open now CE s of (r, s1) \<Rightarrow> (case open_all cs s1 of (rs, s2) \<Rightarrow> (r # rs, s2)))"

definition acceptLoop ::
    "conn_in accepted list \<Rightarrow> 'a client_state_scheme \<Rightarrow> (mesh_error + stream) list \<times> 'a client_state_scheme" where
  "acceptLoop as s = open_all (fst (accept_loop as)) s"

end
