(* ===== verification/ServerProps.thy ===== *)
theory ServerProps
  imports Server PipeProps "HOL-Library.Multiset"
begin

text \<open>
  Properties of the server: who completes a handshake on which path, what the listeners do with the
  sockets and the connections they accept, and that neither the channel nor the schedule of the
  handlers is visible in what they do.
\<close>

section \<open>Transport parameters\<close>

text \<open>
  Both profiles send a keep-alive at least four times per idle timeout, let the dial timeouts of the
  program expire before the library's handshake timeout, and have windows that can only grow.
\<close>

lemma transport_parameters:
  "4 * KeepAlivePeriod quicConfig \<le> MaxIdleTimeout quicConfig"
  "4 * KeepAlivePeriod chromeTransportParams \<le> MaxIdleTimeout chromeTransportParams"
  "mesh_dial_timeout t < HandshakeIdleTimeout quicConfig"
  "cap_dial_timeout t < HandshakeIdleTimeout chromeTransportParams"
  "InitialStreamReceiveWindow chromeTransportParams \<le> MaxStreamReceiveWindow chromeTransportParams"
  "InitialConnectionReceiveWindow chromeTransportParams \<le> MaxConnectionReceiveWindow chromeTransportParams"
  "MaxStreamReceiveWindow chromeTransportParams \<le> MaxConnectionReceiveWindow chromeTransportParams"
  "MaxIncomingStreams quicConfig = MaxIncomingStreams chromeTransportParams"
  by (simp_all add: quicConfig_def chromeTransportParams_def mesh_dial_timeout_def cap_dial_timeout_def
      directDialTimeout_def unit_defs)

section \<open>Handshakes\<close>

lemmas tls_defs = server_tlsConfig_def directServerTLS_def client_tlsConfig_def direct_client_tls_def

lemma handshake_iff:
  assumes "x509 clientCert = Inr (Ed25519 clientKey)" and "x509 serverCert = Inr (Ed25519 ownKey)"
  shows "handshake ok (direct_client_tls x509 clientCert serverKey sni) (directServerTLS x509 serverCert allowed)
      \<longleftrightarrow> ownKey = serverKey \<and> (allowed = {} \<or> clientKey \<in> allowed)"
    and "handshake ok (client_tlsConfig x509 clientCert serverKey) (server_tlsConfig x509 serverCert allowed)
      \<longleftrightarrow> ownKey = serverKey \<and> (allowed = {} \<or> clientKey \<in> allowed)"
  using assms
  by (auto simp: handshake_def tls_defs Let_def server_verify_def direct_server_verify_def
      client_verify_def direct_client_verify_def split: sum.split)

text \<open>
  C25 (equivalence). A node completes the handshake of the direct path with a server exactly when it
  completes that of the mesh path, whatever SNI it fakes, and exactly when the server's certificate
  carries the key it was configured with and its own key is on the whitelist of the server, or the
  whitelist is empty. No chain verification takes part in the decision.
\<close>

theorem both_paths_admit_alike:
  assumes "x509 clientCert = Inr (Ed25519 clientKey)" and "x509 serverCert = Inr (Ed25519 ownKey)"
  shows "handshake ok (direct_client_tls x509 clientCert serverKey sni) (directServerTLS x509 serverCert allowed)
      = handshake ok (client_tlsConfig x509 clientCert serverKey) (server_tlsConfig x509 serverCert allowed)
    \<and> handshake ok (client_tlsConfig x509 clientCert serverKey) (server_tlsConfig x509 serverCert allowed)
      = (ownKey = serverKey \<and> (allowed = {} \<or> clientKey \<in> allowed))"
  by (simp add: handshake_iff [of x509, OF assms])

theorem both_paths_admit_alike_witness:
  "handshake (\<lambda>_ _. False) (direct_client_tls (\<lambda>k. Inr (Ed25519 k)) ''c'' ''s'' ''example.org'')
     (directServerTLS (\<lambda>k. Inr (Ed25519 k)) ''s'' {''c'', ''d''})"
  using both_paths_admit_alike [of "\<lambda>k. Inr (Ed25519 k)" "''c''" "''c''" "''s''" "''s''" "\<lambda>_ _. False" "''s''"]
  by simp

section \<open>The UDP listener\<close>

text \<open>
  C29 (error). Starting the UDP listener either fails before a socket exists and leaves the open
  sockets as they were, or opens exactly one, on the port of the bind address. When the QUIC layer
  refuses that socket, the function returns an error and the socket stays open with no owner.
\<close>

theorem failed_listener_keeps_its_socket:
  "case startDirectListener LE bind s of
     (Inr sk, s') \<Rightarrow> socks s' = insert sk (socks s) \<and> le_quic LE sk = None
       \<and> (\<exists>ip host port. parseHostPort bind = Inr (host, port) \<and> le_listen LE (ip, port) = Inr sk)
   | (Inl (QUICListenFailed e), s') \<Rightarrow>
       (\<exists>sk. socks s' = insert sk (socks s) \<and> le_quic LE sk = Some e)
   | (Inl _, s') \<Rightarrow> s' = s"
proof -
  have port: "\<exists>host. parseHostPort bind = Inr (host, snd laddr)"
    if "listener_laddr (le_resolver LE) bind = Inr laddr" for laddr
    using that by (auto simp: listener_laddr_def split: sum.splits option.splits)
  show ?thesis
  proof (cases "listener_laddr (le_resolver LE) bind")
    case (Inl e)
    then show ?thesis by (simp add: startDirectListener_def)
  next
    case (Inr laddr)
    with port obtain host where "parseHostPort bind = Inr (host, snd laddr)" by blast
    with Inr show ?thesis
      by (cases laddr) (auto simp: startDirectListener_def Let_def split: sum.split option.split)
  qed
qed

section \<open>Accept loops\<close>

text \<open>Everything accepted before the first error is handed on, in order, and nothing after it.\<close>

lemma accept_loop_all [simp]: "accept_loop (map Accepted cs) = (cs, None)"
  by (induction cs) simp_all

lemma accept_loop_stop: "accept_loop (map Accepted cs @ AcceptFailed e # rest) = (cs, Some e)"
  by (induction cs) simp_all

lemma accept_loop_split:
  "accept_loop as = (cs, e) \<Longrightarrow>
     (case e of
        None \<Rightarrow> as = map Accepted cs
      | Some x \<Rightarrow> \<exists>rest. as = map Accepted cs @ AcceptFailed x # rest)"
  by (induction as arbitrary: cs rule: accept_loop.induct) (auto split: prod.splits option.splits)

section \<open>The counters of the server\<close>

lemma copyCount_counter:
  "\<exists>n. \<forall>c. copyCount src ws (Some c) = (fst (copyCount src ws None), Some (count_tx n c))"
proof -
  have "cnt = None \<Longrightarrow>
      \<exists>n. \<forall>c. copyCount src ws (Some c) = (fst (copyCount src ws None), Some (count_tx n c))" for cnt
  proof (induction src ws cnt rule: copyCount_rounds)
    case (1 src ws cnt d err src')
    note r = copyCount_round [OF 1(1)]
    show ?case
    proof (cases "err = None")
      case False
      then show ?thesis by (auto simp: r intro!: exI [of _ 0])
    next
      case True
      note IH = 1(2) [OF True refl]
      show ?thesis
      proof (cases "d = []")
        case d: True
        from IH [of ws] show ?thesis using True d by (simp add: r)
      next
        case d: False
        obtain n where n: "\<And>c. copyCount src' (tl ws) (Some c) =
            (fst (copyCount src' (tl ws) None), Some (count_tx n c))"
          using IH by blast
        show ?thesis
        proof (cases "\<exists>k us. ws = Some k # us")
          case True
          with d \<open>err = None\<close> show ?thesis
            by (intro exI [of _ "length d"]) (auto simp: r Let_def)
        next
          case False
          with d \<open>err = None\<close> n show ?thesis
            by (intro exI [of _ "length d + n"])
              (auto simp: r Let_def count_tx_add split: list.split option.split)
        qed
      qed
    qed
  qed
  then show ?thesis by blast
qed

lemma copyCut_counter:
  "\<exists>n. \<forall>c. copyCut k lt src ws (Some c) = (fst (copyCut k lt src ws None), Some (count_tx n c))"
proof (induction k arbitrary: src ws)
  case 0
  show ?case using copyCount_counter by simp
next
  case (Suc k)
  obtain d err src' where r: "source_Read pipeBufSize src = (d, err, src')" by (metis prod.exhaust)
  obtain n where n: "\<And>c. copyCut k lt src' (tl ws) (Some c) =
      (fst (copyCut k lt src' (tl ws) None), Some (count_tx n c))" using Suc by blast
  obtain m where m: "\<And>c. copyCut k lt src' ws (Some c) =
      (fst (copyCut k lt src' ws None), Some (count_tx m c))" using Suc by blast
  note cut = copyCut_round [OF r, of k lt ws]
  show ?case
  proof (cases "d = [] \<or> err \<noteq> None")
    case True
    then show ?thesis
      by (cases "err = None") (use m in \<open>auto simp del: copyCut.simps simp: cut intro: exI [of _ m] exI [of _ 0]\<close>)
  next
    case False
    show ?thesis
    proof (cases "\<exists>j us. ws = Some j # us")
      case True
      with False show ?thesis
        by (intro exI [of _ "length d"]) (auto simp del: copyCut.simps simp: cut Let_def)
    next
      case w: False
      with False n show ?thesis
        by (intro exI [of _ "length d + n"])
          (auto simp del: copyCut.simps simp: cut Let_def count_tx_add split: list.split option.split)
    qed
  qed
qed

lemma pipe_counters:
  "\<exists>m n. \<forall>crx ctx. pipe cl a b wa wb (Some crx) (Some ctx) =
     ((fst (fst (pipe cl a b wa wb None None)), Some (count_tx m crx)),
      (fst (snd (pipe cl a b wa wb None None)), Some (count_tx n ctx)))"
proof -
  obtain m n where "\<And>c. copyCount b wa (Some c) = (fst (copyCount b wa None), Some (count_tx m c))"
    "\<And>c. copyCount a wb (Some c) = (fst (copyCount a wb None), Some (count_tx n c))"
    using copyCount_counter by metis
  moreover obtain m' n' where
    "\<And>c. copyCut (rounds cl) False b wa (Some c) = (fst (copyCut (rounds cl) False b wa None), Some (count_tx m' c))"
    "\<And>c. copyCut (rounds cl) (late_reads cl) a wb (Some c) =
       (fst (copyCut (rounds cl) (late_reads cl) a wb None), Some (count_tx n' c))"
    using copyCut_counter by metis
  ultimately show ?thesis
    by (intro exI [of _ "if to_a_first cl then m else m'"] exI [of _ "if to_a_first cl then n' else n"])
      (simp add: pipe_def)
qed

text \<open>A handler adds fixed amounts to the two counters and otherwise ignores them.\<close>

definition add_counts :: "nat \<Rightarrow> nat \<Rightarrow> server \<Rightarrow> server" where
  "add_counts m n s = s\<lparr>sv_rx := count_tx m (sv_rx s), sv_tx := count_tx n (sv_tx s)\<rparr>"

lemma add_counts_add: "add_counts m n (add_counts m' n' s) = add_counts (m' + m) (n' + n) s"
  by (simp add: add_counts_def count_tx_add)

lemma add_counts_0 [simp]: "add_counts 0 0 s = s"
  by (simp add: add_counts_def)

text \<open>What a handler did, without the counters.\<close>

fun visible :: "served \<Rightarrow> served" where
  "visible (Copied p u) = Copied (fst p, None) (fst u, None)"
| "visible r = r"

lemma serve_stream_effect:
  "\<exists>m n. \<forall>s. snd (serve_stream si s) = add_counts m n s
     \<and> visible (fst (serve_stream si s)) = visible (serveDirectStream (fst si) (snd si))"
proof -
  obtain SE es where si: "si = (SE, es)" by (cases si)
  obtain h consumed echo r where p: "handleProbeStream es = (h, consumed, echo, r)" by (metis prod.exhaust)
  let ?pipe = "pipe (se_closing SE) (consumed, r) ([], se_upstream SE) (se_write_peer SE) (se_write_up SE)"
  obtain m n where mn: "\<And>crx ctx. ?pipe (Some crx) (Some ctx) =
      ((fst (fst (?pipe None None)), Some (count_tx m crx)), (fst (snd (?pipe None None)), Some (count_tx n ctx)))"
    using pipe_counters by metis
  show ?thesis
  proof (cases "h \<or> \<not> se_dial SE")
    case True
    with si p show ?thesis
      by (intro exI [of _ 0]) (auto simp: serve_stream_def handleStream_def serveDirectStream_def)
  next
    case False
    with si p mn show ?thesis
      by (intro exI [of _ m] exI [of _ n])
        (simp add: serve_stream_def handleStream_def serveDirectStream_def add_counts_def split_beta)
  qed
qed

lemma serve_stream_counts: "\<exists>f g. \<forall>si s. snd (serve_stream si s) = add_counts (f si) (g si) s"
proof -
  have "\<forall>si. \<exists>m n. \<forall>s. snd (serve_stream si s) = add_counts m n s"
    using serve_stream_effect by blast
  then show ?thesis by metis
qed

lemma serve_streams_counts:
  assumes "\<And>si s. snd (serve_stream si s) = add_counts (f si) (g si) s"
  shows "snd (serve_streams sis s) = add_counts (sum_list (map f sis)) (sum_list (map g sis)) s"
proof (induction sis arbitrary: s)
  case (Cons si sis)
  then show ?case
    using assms [of si s] by (simp add: split_beta add_counts_add)
qed simp

lemma serve_streams_visible:
  "map visible (fst (serve_streams sis s)) = map (\<lambda>(SE, es). visible (serveDirectStream SE es)) sis"
proof (induction sis arbitrary: s)
  case (Cons si sis)
  then show ?case using serve_stream_effect [of si] by (auto simp: split_beta)
qed simp

text \<open>
  C24 (equivalence). The handlers of a connection may run in any order: every stream is served the
  same way, and the traffic counters of the server end with the same values. Each stream is also
  served exactly as the UDP listener would serve it, so the channel that carried it is invisible
  to both ends.
\<close>

theorem schedule_and_channel_invisible:
  assumes "mset streams = mset streams'"
  shows "snd (serve_streams streams s) = snd (serve_streams streams' s)
    \<and> mset (map visible (fst (serve_streams streams s))) = mset (map visible (fst (serve_streams streams' s)))
    \<and> map visible (fst (serve_streams streams s))
        = map visible (fst (serveDirectConn (map Accepted streams)))"
proof -
  have sums: "sum_list (map f streams) = sum_list (map f streams')" for f :: "stream_in \<Rightarrow> nat"
    using assms by (metis mset_map sum_mset_sum_list)
  obtain f g where "\<And>si s. snd (serve_stream si s) = add_counts (f si) (g si) s"
    using serve_stream_counts by blast
  note counts = serve_streams_counts [of f g, OF this]
  have "mset (map h streams) = mset (map h streams')" for h :: "stream_in \<Rightarrow> served"
    using assms by (metis mset_map)
  with sums show ?thesis
    by (simp add: counts serve_streams_visible serveDirectConn_def split_beta o_def)
qed

definition sample_streams :: "stream_in list" where
  "sample_streams = [(sample_se, [Data [1, 2, 3], Fin]), (sample_se, [Data [0x59, 0x21], Fin])]"

theorem schedule_and_channel_invisible_witness:
  "snd (serve_streams sample_streams (NewServer \<lparr>so_Dst = ''127.0.0.1:8388'', so_Allowed = {}\<rparr>))
   = snd (serve_streams (rev sample_streams) (NewServer \<lparr>so_Dst = ''127.0.0.1:8388'', so_Allowed = {}\<rparr>))"
proof -
  have "mset sample_streams = mset (rev sample_streams)" by simp
  from schedule_and_channel_invisible [OF this] show ?thesis by blast
qed

end
