(* ===== verification/Startup.thy ===== *)
theory Startup
  imports Config Failover Server
begin

text \<open>
  The start of the program (\<open>main\<close> of \<^verbatim>\<open>cmd/yggss/main.go\<close>): the settings from flags, configuration
  file and SIP003 environment, in the order of the code, and what is then built from them. A run of
  \<open>main\<close> either stops with a fatal error or starts a server or a client with the values collected in
  a plan. Command-line parsing, the core of the node and the sockets are arguments.
\<close>

section \<open>Settings\<close>

record settings =
  bindAddr :: string
  dstAddr :: string
  isServer :: bool
  keyHex :: string
  serverKeyHex :: string
  clientKeyHex :: string
  peerList :: string
  password :: string
  scheme :: string
  tunnel_mode :: string
  sni :: string
  directDialSec :: int
  directRetrySec :: int
  timeoutSec :: int
  logIntervalSec :: int
  failoverFlag :: bool
  failoverSet :: bool
  failoverLatencyMs :: int
  failoverCheckSec :: int

text \<open>The defaults of the flags.\<close>

definition default_settings :: settings where
  "default_settings =
     \<lparr>bindAddr = [], dstAddr = [], isServer = False, keyHex = [], serverKeyHex = [], clientKeyHex = [],
      peerList = [], password = [], scheme = ''tls'', tunnel_mode = ''mesh'', sni = [], directDialSec = 5,
      directRetrySec = 10, timeoutSec = 30, logIntervalSec = 30, failoverFlag = True,
      failoverSet = False, failoverLatencyMs = defaultFailoverLatencyMs,
      failoverCheckSec = defaultFailoverCheckSec\<rparr>"

text \<open>The flags the program knows; \<open>flag.ExitOnError\<close> ends it at any other.\<close>

definition flag_names :: "string list" where
  "flag_names =
     [''b'', ''d'', ''s'', ''key'', ''serverkey'', ''clientkey'', ''peers'', ''password'', ''scheme'', ''mode'',
      ''sni'', ''directdialtimeout'', ''directretry'', ''t'', ''c'', ''loginterval'', ''failover'',
      ''failoverlatency'', ''failovercheck'', ''genkey'', ''v'']"

text \<open>One \<open>if cond { ... }\<close> of the code.\<close>

definition if_do :: "bool \<Rightarrow> ('s \<Rightarrow> 's) \<Rightarrow> 's \<Rightarrow> 's" where
  "if_do c f s = (if c then f s else s)"

section \<open>The configuration file\<close>

text \<open>\<open>F\<close> are the names of the flags given on the command line.\<close>

definition config_strings :: "string set \<Rightarrow> pluginConfig \<Rightarrow> settings \<Rightarrow> settings" where
  "config_strings F cfg st0 =
     (let st1 = if_do (''s'' \<notin> F \<and> cf_Server cfg) (\<lambda>st. st\<lparr>isServer := True\<rparr>) st0;
          st2 = if_do (''b'' \<notin> F \<and> cf_Bind cfg \<noteq> []) (\<lambda>st. st\<lparr>bindAddr := cf_Bind cfg\<rparr>) st1;
          st3 = if_do (''d'' \<notin> F \<and> cf_Destination cfg \<noteq> []) (\<lambda>st. st\<lparr>dstAddr := cf_Destination cfg\<rparr>) st2;
          st4 = if_do (''key'' \<notin> F \<and> cf_Key cfg \<noteq> []) (\<lambda>st. st\<lparr>keyHex := cf_Key cfg\<rparr>) st3;
          st5 = if_do (''serverkey'' \<notin> F \<and> cf_ServerKey cfg \<noteq> []) (\<lambda>st. st\<lparr>serverKeyHex := cf_ServerKey cfg\<rparr>) st4;
          st6 = if_do (''clientkey'' \<notin> F \<and> cf_ClientKey cfg \<noteq> []) (\<lambda>st. st\<lparr>clientKeyHex := cf_ClientKey cfg\<rparr>) st5;
          st7 = if_do (''clientkeys'' \<notin> F \<and> cf_ClientKeys cfg \<noteq> [])
                  (\<lambda>st. st\<lparr>clientKeyHex := strings_Join (cf_ClientKeys cfg) CHR '',''\<rparr>) st6;
          st8 = if_do (''password'' \<notin> F \<and> cf_Password cfg \<noteq> []) (\<lambda>st. st\<lparr>password := cf_Password cfg\<rparr>) st7;
          st9 = if_do (''scheme'' \<notin> F \<and> cf_Scheme cfg \<noteq> []) (\<lambda>st. st\<lparr>scheme := cf_Scheme cfg\<rparr>) st8;
          st10 = if_do (''mode'' \<notin> F \<and> cf_Mode cfg \<noteq> []) (\<lambda>st. st\<lparr>tunnel_mode := cf_Mode cfg\<rparr>) st9
      in if_do (''sni'' \<notin> F \<and> cf_SNI cfg \<noteq> []) (\<lambda>st. st\<lparr>sni := cf_SNI cfg\<rparr>) st10)"

definition config_numbers :: "string set \<Rightarrow> pluginConfig \<Rightarrow> settings \<Rightarrow> settings" where
  "config_numbers F cfg st0 =
     (let st1 = if_do (''directdialtimeout'' \<notin> F \<and> 0 < cf_DirectDialTimeout cfg)
                  (\<lambda>st. st\<lparr>directDialSec := cf_DirectDialTimeout cfg\<rparr>) st0;
          st2 = if_do (''directretry'' \<notin> F \<and> 0 < cf_DirectRetry cfg)
                  (\<lambda>st. st\<lparr>directRetrySec := cf_DirectRetry cfg\<rparr>) st1;
          st3 = if_do (''t'' \<notin> F \<and> 0 < cf_Timeout cfg) (\<lambda>st. st\<lparr>timeoutSec := cf_Timeout cfg\<rparr>) st2;
          st4 = if_do (''loginterval'' \<notin> F \<and> 0 \<le> cf_LogInterval cfg)
                  (\<lambda>st. st\<lparr>logIntervalSec := cf_LogInterval cfg\<rparr>) st3;
          st5 = if_do (''failover'' \<notin> F \<and> cf_Failover cfg \<noteq> None)
                  (\<lambda>st. st\<lparr>failoverFlag := the (cf_Failover cfg), failoverSet := True\<rparr>) st4;
          st6 = if_do (''failoverlatency'' \<notin> F \<and> 0 < cf_FailoverLatency cfg)
                  (\<lambda>st. st\<lparr>failoverLatencyMs := cf_FailoverLatency cfg\<rparr>) st5;
          st7 = if_do (''failovercheck'' \<notin> F \<and> 0 < cf_FailoverCheck cfg)
                  (\<lambda>st. st\<lparr>failoverCheckSec := cf_FailoverCheck cfg\<rparr>) st6
      in if_do (''peers'' \<notin> F \<and> cf_Peers cfg \<noteq> [])
           (\<lambda>st. st\<lparr>peerList := strings_Join (cf_Peers cfg) CHR '',''\<rparr>) st7)"

definition apply_config :: "string set \<Rightarrow> pluginConfig \<Rightarrow> settings \<Rightarrow> settings" where
  "apply_config F cfg st = config_numbers F cfg (config_strings F cfg st)"

section \<open>The SIP003 environment\<close>

text \<open>A numeric option: \<open>Atoi\<close> succeeds and the number is at least \<open>lo\<close>.\<close>

definition sip_number :: "options \<Rightarrow> string \<Rightarrow> int \<Rightarrow> (int \<Rightarrow> settings \<Rightarrow> settings) \<Rightarrow> settings \<Rightarrow> settings" where
  "sip_number opts k lo f st =
     (if opt_get opts k = [] then st
      else case strconv_Atoi (opt_get opts k) of
             None \<Rightarrow> st
           | Some n \<Rightarrow> if lo \<le> n then f n st else st)"

definition sip_string :: "options \<Rightarrow> string \<Rightarrow> (string \<Rightarrow> settings \<Rightarrow> settings) \<Rightarrow> settings \<Rightarrow> settings" where
  "sip_string opts k f st = if_do (opt_get opts k \<noteq> []) (f (opt_get opts k)) st"

definition sip_options :: "options \<Rightarrow> settings \<Rightarrow> settings" where
  "sip_options opts st0 =
     (let st1 = sip_string opts ''key'' (\<lambda>v st. st\<lparr>keyHex := v\<rparr>) st0;
          st2 = sip_string opts ''serverkey'' (\<lambda>v st. st\<lparr>serverKeyHex := v\<rparr>) st1;
          st3 = sip_string opts ''clientkey'' (\<lambda>v st. st\<lparr>clientKeyHex := v\<rparr>) st2;
          st4 = sip_string opts ''peers'' (\<lambda>v st. st\<lparr>peerList := v\<rparr>) st3;
          st5 = sip_string opts ''password'' (\<lambda>v st. st\<lparr>password := v\<rparr>) st4;
          st6 = sip_string opts ''scheme'' (\<lambda>v st. st\<lparr>scheme := v\<rparr>) st5;
          st7 = sip_number opts ''t'' 1 (\<lambda>n st. st\<lparr>timeoutSec := n\<rparr>) st6;
          st8 = sip_number opts ''loginterval'' 0 (\<lambda>n st. st\<lparr>logIntervalSec := n\<rparr>) st7;
          st9 = if_do (opt_get opts ''mode'' = ''mesh'' \<or> opt_get opts ''mode'' = ''direct'')
                  (\<lambda>st. st\<lparr>tunnel_mode := opt_get opts ''mode''\<rparr>) st8;
          st10 = sip_string opts ''sni'' (\<lambda>v st. st\<lparr>sni := v\<rparr>) st9;
          st11 = sip_number opts ''directdialtimeout'' 1 (\<lambda>n st. st\<lparr>directDialSec := n\<rparr>) st10;
          st12 = sip_number opts ''directretry'' 1 (\<lambda>n st. st\<lparr>directRetrySec := n\<rparr>) st11;
          st13 = sip_string opts ''failover''
                   (\<lambda>v st. st\<lparr>failoverFlag := v \<noteq> ''0'' \<and> v \<noteq> ''false'' \<and> v \<noteq> ''off'' \<and> v \<noteq> ''no'',
                             failoverSet := True\<rparr>) st12;
          st14 = sip_number opts ''failover_latency'' 1 (\<lambda>n st. st\<lparr>failoverLatencyMs := n\<rparr>) st13;
          st15 = sip_number opts ''failover_check'' 1 (\<lambda>n st. st\<lparr>failoverCheckSec := n\<rparr>) st14
      in if_do (opts ''s'' \<noteq> None) (\<lambda>st. st\<lparr>isServer := True\<rparr>) st15)"

definition apply_sip003 :: "sip_env \<Rightarrow> settings \<Rightarrow> settings" where
  "apply_sip003 e st =
     (let st1 = sip_options (Options e) st
      in if isServer st1 then st1\<lparr>bindAddr := RemoteAddr e, dstAddr := LocalAddr e\<rparr>
         else st1\<lparr>bindAddr := LocalAddr e, dstAddr := RemoteAddr e\<rparr>)"

text \<open>All sources, in the order of the code.\<close>

definition final_settings :: "string set \<Rightarrow> pluginConfig option \<Rightarrow> sip_env option \<Rightarrow> settings \<Rightarrow> settings" where
  "final_settings F cfg env st =
     (let st1 = (case cfg of None \<Rightarrow> st | Some c \<Rightarrow> apply_config F c st)
      in case env of None \<Rightarrow> st1 | Some e \<Rightarrow> apply_sip003 e st1)"

section \<open>What is started\<close>

fun splitPeers_entries :: "string list \<Rightarrow> string list" where
  "splitPeers_entries [] = []"
| "splitPeers_entries (p # ps) =
     (let p = strings_TrimSpace p in if p \<noteq> [] then p # splitPeers_entries ps else splitPeers_entries ps)"

definition splitPeers :: "string \<Rightarrow> string list" where
  "splitPeers s = splitPeers_entries (strings_Split s CHR '','')"

definition with_scheme :: "string \<Rightarrow> string \<Rightarrow> string" where
  "with_scheme sch addr = (if strings_Contains addr ''://'' then addr else sch @ ''://'' @ addr)"

definition peerURI :: "(string \<Rightarrow> string) \<Rightarrow> settings \<Rightarrow> string" where
  "peerURI queryEscape st =
     (let uri = with_scheme (scheme st) (dstAddr st)
      in if sni st \<noteq> [] \<and> \<not> strings_Contains uri ''?'' then uri @ ''?sni='' @ queryEscape (sni st) else uri)"

datatype fatal =
    NoBind | BadNode node_error | NoDestination | CannotListen string | BadClientKey key_parse_error
  | CannotServeDirect listener_error | NoServerKey | BadServerKey key_parse_error

text \<open>
  What runs after the start. \<open>sp_calls\<close> and \<open>cp_calls\<close> are the calls into the core of the node, in
  their order; \<open>sp_socket\<close> is the UDP socket of the direct mode.
\<close>

record server_plan =
  sp_listenURI :: string
  sp_socket :: "nat option"
  sp_server :: server
  sp_logInterval :: duration
  sp_calls :: "core_call list"

record client_plan =
  cp_serverKey :: key
  cp_peerURI :: string
  cp_direct :: "direct_options option"
  cp_client :: client_state
  cp_failover :: "failover_monitor option"
  cp_logInterval :: duration
  cp_calls :: "core_call list"

datatype started_as = Fatal fatal | Server server_plan | Client client_plan

text \<open>
  The outside: what a node is made of, its core, the sockets of the listener, the escape function
  and the host of a parsed URL.
\<close>

record ('c, 'k) world =
  w_node :: "('c, 'k) node_env"
  w_core :: core_env
  w_listener :: listener_env
  w_escape :: "string \<Rightarrow> string"
  w_urlHost :: "string \<Rightarrow> string option"

text \<open>The loop over the extra peers: a peer that cannot be added is only logged.\<close>

fun add_peers :: "core_env \<Rightarrow> string list \<Rightarrow> core_call list \<Rightarrow> core_call list" where
  "add_peers K [] calls = calls"
| "add_peers K (p # ps) calls = add_peers K ps (snd (AddPeer K p calls))"

definition no_sockets :: net_state where
  "no_sockets = \<lparr>dead = {}, trs = {}, socks = {}, trace = []\<rparr>"

definition start_server :: "('c, 'k) world \<Rightarrow> settings \<Rightarrow> core_call list \<Rightarrow> started_as" where
  "start_server W st calls =
     (if dstAddr st = [] then Fatal NoDestination
      else
        (let listenURI = with_scheme (scheme st) (bindAddr st)
         in case Listen (w_core W) listenURI calls of
              (Some e, _) \<Rightarrow> Fatal (CannotListen e)
            | (None, calls1) \<Rightarrow>
                (case whitelist (clientKeyHex st) of
                   Inl e \<Rightarrow> Fatal (BadClientKey e)
                 | Inr allowed \<Rightarrow>
                     (let plan = \<lparr>sp_listenURI = listenURI, sp_socket = None,
                            sp_server = NewServer \<lparr>so_Dst = dstAddr st, so_Allowed = allowed\<rparr>,
                            sp_logInterval = dur_mul (logIntervalSec st) second, sp_calls = calls1\<rparr>
                      in if tunnel_mode st = ''direct'' then
                           (case fst (startDirectListener (w_listener W) (bindAddr st) no_sockets) of
                              Inl e \<Rightarrow> Fatal (CannotServeDirect e)
                            | Inr sk \<Rightarrow> Server (plan\<lparr>sp_socket := Some sk\<rparr>))
                         else Server plan))))"

definition client_direct :: "settings \<Rightarrow> direct_options option" where
  "client_direct st =
     (if tunnel_mode st = ''direct'' then
        Some \<lparr>o_node = True, o_serverAddr = dstAddr st, o_timeout = dur_mul (directDialSec st) second,
              o_retryPeriod = dur_mul (directRetrySec st) second\<rparr>
      else None)"

definition client_failover :: "('c, 'k) world \<Rightarrow> settings \<Rightarrow> key \<Rightarrow> failover_monitor option" where
  "client_failover W st serverKey =
     (if failoverSet st \<or> splitPeers (peerList st) \<noteq> [] then
        (if \<not> failoverSet st \<or> failoverFlag st then
           newFailoverMonitor (w_urlHost W) (peerURI (w_escape W) st) serverKey
             (failoverLatencyMs st) (failoverCheckSec st)
         else None)
      else None)"

definition start_client :: "('c, 'k) world \<Rightarrow> settings \<Rightarrow> core_call list \<Rightarrow> started_as" where
  "start_client W st calls =
     (if serverKeyHex st = [] then Fatal NoServerKey
      else if dstAddr st = [] then Fatal NoDestination
      else case parseKey (serverKeyHex st) PublicKeySize of
             Inl e \<Rightarrow> Fatal (BadServerKey e)
           | Inr serverKey \<Rightarrow>
               (let uri = peerURI (w_escape W) st
                in Client \<lparr>cp_serverKey = serverKey, cp_peerURI = uri, cp_direct = client_direct st,
                     cp_client = NewClient \<lparr>co_node = True, co_timeout = dur_mul (timeoutSec st) second,
                       co_direct = map_option NewDirectClient (client_direct st)\<rparr> 0,
                     cp_failover = client_failover W st serverKey,
                     cp_logInterval = dur_mul (logIntervalSec st) second,
                     cp_calls = snd (AddPeer (w_core W) uri calls)\<rparr>))"

definition run_main :: "('c, 'k) world \<Rightarrow> settings \<Rightarrow> started_as" where
  "run_main W st =
     (if bindAddr st = [] then Fatal NoBind
      else case NewNode (w_node W) (keyHex st) (password st) of
             Inl e \<Rightarrow> Fatal (BadNode e)
           | Inr _ \<Rightarrow>
               (let calls = add_peers (w_core W) (splitPeers (peerList st)) []
                in if isServer st then start_server W st calls else start_client W st calls))"

section \<open>Serving and the end\<close>

text \<open>
  The last steps of \<open>main\<close>. A client opens its listener, which must succeed (\<open>None\<close> is the fatal
  error), and serves until a signal arrives; the deferred calls then stop the node. A server serves
  until its accept loop returns an error, which is fatal, so that the node is not stopped.
\<close>

definition client_serve :: "bool \<Rightarrow> time \<Rightarrow> client_plan \<Rightarrow> client_plan option" where
  "client_serve listens now p =
     (case client_Run listens now (cp_client p) of
        (True, s) \<Rightarrow> Some (p\<lparr>cp_client := s\<rparr>)
      | (False, s) \<Rightarrow> None)"

definition client_exit :: "client_plan \<Rightarrow> client_plan" where
  "client_exit p = p\<lparr>cp_calls := node_Stop (cp_calls p)\<rparr>"

definition server_serve ::
    "string option \<Rightarrow> stream_in accepted list accepted list \<Rightarrow> server_plan
       \<Rightarrow> run_error option \<times> (served list \<times> bool) list \<times> server_plan" where
  "server_serve listen as p =
     (case server_Run listen as (sp_server p) of (e, xs, s) \<Rightarrow> (e, xs, p\<lparr>sp_server := s\<rparr>))"

section \<open>The whole program\<close>

text \<open>
  \<open>genAndPrintKey\<close>: the generated public and private key, and the rendering of the address that
  belongs to the public key.
\<close>

definition private_label :: string where
  "private_label = ''private key (hex):  ''"

definition public_label :: string where
  "public_label = ''public key (hex):   ''"

definition genAndPrintKey :: "string + key \<times> key \<Rightarrow> (key \<Rightarrow> string) \<Rightarrow> string + string list" where
  "genAndPrintKey gen addr =
     (case gen of
        Inl e \<Rightarrow> Inl e
      | Inr (pub, priv) \<Rightarrow>
          Inr [private_label @ hex_EncodeToString priv, public_label @ hex_EncodeToString pub,
               ''yggdrasil address:  '' @ addr pub])"

text \<open>What the command line gives: the values and the names of the flags, and the flags of \<open>main\<close> itself.\<close>

record command_line =
  cl_flags :: settings
  cl_given :: "string set"
  cl_configPath :: string
  cl_genKey :: bool
  cl_showVersion :: bool

record 'b files =
  readFile :: "string \<Rightarrow> string + 'b"
  unmarshal :: "'b \<Rightarrow> pluginConfig \<Rightarrow> string + pluginConfig"

definition config_path :: "(string \<Rightarrow> string) \<Rightarrow> options \<Rightarrow> command_line \<Rightarrow> string" where
  "config_path uni vars cl =
     (if cl_configPath cl = [] then
        (case detectSIP003 uni vars of
           Some _ \<Rightarrow> configPathFromOptions uni (opt_get vars ''SS_PLUGIN_OPTIONS'')
         | None \<Rightarrow> cl_configPath cl)
      else cl_configPath cl)"

datatype outcome =
    PrintedVersion
  | Panicked string
  | PrintedKeys "string list"
  | ConfigError config_error
  | Started started_as

definition yggss_main ::
    "(string \<Rightarrow> string) \<Rightarrow> options \<Rightarrow> 'b files \<Rightarrow> string + key \<times> key \<Rightarrow> (key \<Rightarrow> string)
       \<Rightarrow> ('c, 'k) world \<Rightarrow> command_line \<Rightarrow> outcome" where
  "yggss_main uni vars fs gen addr W cl =
     (if cl_showVersion cl then PrintedVersion
      else if cl_genKey cl then
        (case genAndPrintKey gen addr of Inl e \<Rightarrow> Panicked e | Inr ls \<Rightarrow> PrintedKeys ls)
      else
        (let path = config_path uni vars cl; env = detectSIP003 uni vars
         in if path \<noteq> [] then
              (case loadConfigFile (readFile fs) (unmarshal fs) path of
                 Inl e \<Rightarrow> ConfigError e
               | Inr cfg \<Rightarrow> Started (run_main W (final_settings (cl_given cl) (Some cfg) env (cl_flags cl))))
            else Started (run_main W (final_settings (cl_given cl) None env (cl_flags cl)))))"

section \<open>The identity check\<close>

text \<open>
  The goroutine that waits for the server's key among the peers: round \<open>i\<close> reads the clock and the
  peerings, sleeps half a second and goes on until the deadline. \<open>True\<close> is the verified identity,
  \<open>False\<close> the warning.
\<close>

definition identity_deadline :: "time \<Rightarrow> duration \<Rightarrow> time" where
  "identity_deadline now timeout = now + wrap64 (timeout + 10 * second)"

partial_function (option) identity_check ::
    "(nat \<Rightarrow> time) \<Rightarrow> (nat \<Rightarrow> peer_info list) \<Rightarrow> key \<Rightarrow> time \<Rightarrow> nat \<Rightarrow> bool option" where
  "identity_check clock peers serverKey deadline i =
     (if \<not> clock i < deadline then Some False
      else if serverKey \<in> set (PeerKeys (peers i)) then Some True
      else identity_check clock peers serverKey deadline (Suc i))"

end
