(* ===== verification/StartupProps.thy ===== *)
theory StartupProps
  imports Startup TunnelProps
begin

text \<open>
  Properties of the start of the program: which source wins for each setting, the addresses of a
  SIP003 plugin, what a started server and a started client satisfy, and the settings for which the
  code does not follow its documented precedence.
\<close>

section \<open>Precedence\<close>

text \<open>
  The documented rule for one setting: the environment if it gives a value, else the flag if it was
  given, else the configuration file if it gives a value, else the flag's default.
\<close>

definition chosen :: "'v option \<Rightarrow> bool \<Rightarrow> 'v option \<Rightarrow> 'v \<Rightarrow> 'v" where
  "chosen sip flag_given conf cmd =
     (case sip of Some v \<Rightarrow> v | None \<Rightarrow> if flag_given then cmd else (case conf of Some v \<Rightarrow> v | None \<Rightarrow> cmd))"

text \<open>What the environment and the file give for a string and for a positive number.\<close>

definition sip_str :: "sip_env option \<Rightarrow> string \<Rightarrow> string option" where
  "sip_str env k =
     (case env of None \<Rightarrow> None
      | Some e \<Rightarrow> if opt_get (Options e) k = [] then None else Some (opt_get (Options e) k))"

definition opt_num :: "options \<Rightarrow> string \<Rightarrow> int \<Rightarrow> int option" where
  "opt_num opts k lo =
     (if opt_get opts k = [] then None
      else case strconv_Atoi (opt_get opts k) of None \<Rightarrow> None | Some n \<Rightarrow> if lo \<le> n then Some n else None)"

definition sip_num :: "sip_env option \<Rightarrow> string \<Rightarrow> int option" where
  "sip_num env k = (case env of None \<Rightarrow> None | Some e \<Rightarrow> opt_num (Options e) k 1)"

definition conf_str :: "pluginConfig option \<Rightarrow> (pluginConfig \<Rightarrow> string) \<Rightarrow> string option" where
  "conf_str cfg f = (case cfg of None \<Rightarrow> None | Some c \<Rightarrow> if f c = [] then None else Some (f c))"

definition conf_num :: "pluginConfig option \<Rightarrow> (pluginConfig \<Rightarrow> int) \<Rightarrow> int option" where
  "conf_num cfg f = (case cfg of None \<Rightarrow> None | Some c \<Rightarrow> if 0 < f c then Some (f c) else None)"

text \<open>
  One step of the chain leaves a field alone when its update does; the rules are instantiated for the
  selectors below, so that a field is followed through the chain without case distinctions.
\<close>

lemma if_do_same: "(\<And>s. sel (f s) = sel s) \<Longrightarrow> sel (if_do c f s) = sel s"
  by (simp add: if_do_def)

lemma sip_string_same: "(\<And>v s. sel (f v s) = sel s) \<Longrightarrow> sel (sip_string opts k f s) = sel s"
  by (simp add: sip_string_def if_do_def)

lemma sip_number_same: "(\<And>n s. sel (f n s) = sel s) \<Longrightarrow> sel (sip_number opts k lo f s) = sel s"
  by (simp add: sip_number_def split: option.split)

lemmas if_do_same_fields =
  if_do_same [where sel = keyHex] if_do_same [where sel = serverKeyHex]
  if_do_same [where sel = password] if_do_same [where sel = scheme]
  if_do_same [where sel = sni] if_do_same [where sel = clientKeyHex]
  if_do_same [where sel = peerList] if_do_same [where sel = timeoutSec]
  if_do_same [where sel = directDialSec] if_do_same [where sel = directRetrySec]
  if_do_same [where sel = failoverLatencyMs] if_do_same [where sel = failoverCheckSec]
  if_do_same [where sel = logIntervalSec] if_do_same [where sel = isServer]
  if_do_same [where sel = bindAddr] if_do_same [where sel = dstAddr]
  if_do_same [where sel = failoverSet] if_do_same [where sel = failoverFlag]
  if_do_same [where sel = tunnel_mode]

lemmas sip_string_same_fields =
  sip_string_same [where sel = keyHex] sip_string_same [where sel = serverKeyHex]
  sip_string_same [where sel = password] sip_string_same [where sel = scheme]
  sip_string_same [where sel = sni] sip_string_same [where sel = clientKeyHex]
  sip_string_same [where sel = peerList] sip_string_same [where sel = timeoutSec]
  sip_string_same [where sel = directDialSec] sip_string_same [where sel = directRetrySec]
  sip_string_same [where sel = failoverLatencyMs] sip_string_same [where sel = failoverCheckSec]
  sip_string_same [where sel = logIntervalSec] sip_string_same [where sel = isServer]
  sip_string_same [where sel = bindAddr] sip_string_same [where sel = dstAddr]
  sip_string_same [where sel = failoverSet] sip_string_same [where sel = failoverFlag]
  sip_string_same [where sel = tunnel_mode]

lemmas sip_number_same_fields =
  sip_number_same [where sel = keyHex] sip_number_same [where sel = serverKeyHex]
  sip_number_same [where sel = password] sip_number_same [where sel = scheme]
  sip_number_same [where sel = sni] sip_number_same [where sel = clientKeyHex]
  sip_number_same [where sel = peerList] sip_number_same [where sel = timeoutSec]
  sip_number_same [where sel = directDialSec] sip_number_same [where sel = directRetrySec]
  sip_number_same [where sel = failoverLatencyMs] sip_number_same [where sel = failoverCheckSec]
  sip_number_same [where sel = logIntervalSec] sip_number_same [where sel = isServer]
  sip_number_same [where sel = bindAddr] sip_number_same [where sel = dstAddr]
  sip_number_same [where sel = failoverSet] sip_number_same [where sel = failoverFlag]
  sip_number_same [where sel = tunnel_mode]

lemma if_do_set:
  "keyHex (if_do c (\<lambda>st. st\<lparr>keyHex := v\<rparr>) s) = (if c then v else keyHex s)"
  "serverKeyHex (if_do c (\<lambda>st. st\<lparr>serverKeyHex := v\<rparr>) s) = (if c then v else serverKeyHex s)"
  "password (if_do c (\<lambda>st. st\<lparr>password := v\<rparr>) s) = (if c then v else password s)"
  "scheme (if_do c (\<lambda>st. st\<lparr>scheme := v\<rparr>) s) = (if c then v else scheme s)"
  "sni (if_do c (\<lambda>st. st\<lparr>sni := v\<rparr>) s) = (if c then v else sni s)"
  "clientKeyHex (if_do c (\<lambda>st. st\<lparr>clientKeyHex := v\<rparr>) s) = (if c then v else clientKeyHex s)"
  "peerList (if_do c (\<lambda>st. st\<lparr>peerList := v\<rparr>) s) = (if c then v else peerList s)"
  "tunnel_mode (if_do c (\<lambda>st. st\<lparr>tunnel_mode := v\<rparr>) s) = (if c then v else tunnel_mode s)"
  "timeoutSec (if_do c (\<lambda>st. st\<lparr>timeoutSec := n\<rparr>) s) = (if c then n else timeoutSec s)"
  "directDialSec (if_do c (\<lambda>st. st\<lparr>directDialSec := n\<rparr>) s) = (if c then n else directDialSec s)"
  "directRetrySec (if_do c (\<lambda>st. st\<lparr>directRetrySec := n\<rparr>) s) = (if c then n else directRetrySec s)"
  "failoverLatencyMs (if_do c (\<lambda>st. st\<lparr>failoverLatencyMs := n\<rparr>) s) = (if c then n else failoverLatencyMs s)"
  "failoverCheckSec (if_do c (\<lambda>st. st\<lparr>failoverCheckSec := n\<rparr>) s) = (if c then n else failoverCheckSec s)"
  "logIntervalSec (if_do c (\<lambda>st. st\<lparr>logIntervalSec := n\<rparr>) s) = (if c then n else logIntervalSec s)"
  "isServer (if_do c (\<lambda>st. st\<lparr>isServer := w\<rparr>) s) = (if c then w else isServer s)"
  "bindAddr (if_do c (\<lambda>st. st\<lparr>bindAddr := v\<rparr>) s) = (if c then v else bindAddr s)"
  "dstAddr (if_do c (\<lambda>st. st\<lparr>dstAddr := v\<rparr>) s) = (if c then v else dstAddr s)"
  by (simp_all add: if_do_def)

lemma sip_string_set:
  "keyHex (sip_string opts k (\<lambda>v st. st\<lparr>keyHex := v\<rparr>) s) =
     (if opt_get opts k \<noteq> [] then opt_get opts k else keyHex s)"
  "serverKeyHex (sip_string opts k (\<lambda>v st. st\<lparr>serverKeyHex := v\<rparr>) s) =
     (if opt_get opts k \<noteq> [] then opt_get opts k else serverKeyHex s)"
  "password (sip_string opts k (\<lambda>v st. st\<lparr>password := v\<rparr>) s) =
     (if opt_get opts k \<noteq> [] then opt_get opts k else password s)"
  "scheme (sip_string opts k (\<lambda>v st. st\<lparr>scheme := v\<rparr>) s) =
     (if opt_get opts k \<noteq> [] then opt_get opts k else scheme s)"
  "sni (sip_string opts k (\<lambda>v st. st\<lparr>sni := v\<rparr>) s) =
     (if opt_get opts k \<noteq> [] then opt_get opts k else sni s)"
  "clientKeyHex (sip_string opts k (\<lambda>v st. st\<lparr>clientKeyHex := v\<rparr>) s) =
     (if opt_get opts k \<noteq> [] then opt_get opts k else clientKeyHex s)"
  "peerList (sip_string opts k (\<lambda>v st. st\<lparr>peerList := v\<rparr>) s) =
     (if opt_get opts k \<noteq> [] then opt_get opts k else peerList s)"
  by (simp_all add: sip_string_def if_do_def)

lemma sip_number_set:
  "timeoutSec (sip_number opts k lo (\<lambda>n st. st\<lparr>timeoutSec := n\<rparr>) s) =
     (case opt_num opts k lo of None \<Rightarrow> timeoutSec s | Some n \<Rightarrow> n)"
  "directDialSec (sip_number opts k lo (\<lambda>n st. st\<lparr>directDialSec := n\<rparr>) s) =
     (case opt_num opts k lo of None \<Rightarrow> directDialSec s | Some n \<Rightarrow> n)"
  "directRetrySec (sip_number opts k lo (\<lambda>n st. st\<lparr>directRetrySec := n\<rparr>) s) =
     (case opt_num opts k lo of None \<Rightarrow> directRetrySec s | Some n \<Rightarrow> n)"
  "failoverLatencyMs (sip_number opts k lo (\<lambda>n st. st\<lparr>failoverLatencyMs := n\<rparr>) s) =
     (case opt_num opts k lo of None \<Rightarrow> failoverLatencyMs s | Some n \<Rightarrow> n)"
  "failoverCheckSec (sip_number opts k lo (\<lambda>n st. st\<lparr>failoverCheckSec := n\<rparr>) s) =
     (case opt_num opts k lo of None \<Rightarrow> failoverCheckSec s | Some n \<Rightarrow> n)"
  "logIntervalSec (sip_number opts k lo (\<lambda>n st. st\<lparr>logIntervalSec := n\<rparr>) s) =
     (case opt_num opts k lo of None \<Rightarrow> logIntervalSec s | Some n \<Rightarrow> n)"
  by (simp_all add: sip_number_def opt_num_def split: option.split)

lemmas chain_rules = if_do_same_fields sip_string_same_fields sip_number_same_fields
  if_do_set sip_string_set sip_number_set Let_def

lemma failover_set:
  "failoverSet (if_do c (\<lambda>st. st\<lparr>failoverFlag := b, failoverSet := True\<rparr>) s) = (c \<or> failoverSet s)"
  "failoverSet (sip_string opts k (\<lambda>v st. st\<lparr>failoverFlag := g v, failoverSet := True\<rparr>) s)
     = (opt_get opts k \<noteq> [] \<or> failoverSet s)"
  by (simp_all add: if_do_def sip_string_def)

text \<open>The settings after the file and after the environment's options, field by field.\<close>

lemma config_fields:
  "keyHex (apply_config F c st) = (if ''key'' \<notin> F \<and> cf_Key c \<noteq> [] then cf_Key c else keyHex st)"
  "serverKeyHex (apply_config F c st) =
     (if ''serverkey'' \<notin> F \<and> cf_ServerKey c \<noteq> [] then cf_ServerKey c else serverKeyHex st)"
  "password (apply_config F c st) = (if ''password'' \<notin> F \<and> cf_Password c \<noteq> [] then cf_Password c else password st)"
  "scheme (apply_config F c st) = (if ''scheme'' \<notin> F \<and> cf_Scheme c \<noteq> [] then cf_Scheme c else scheme st)"
  "sni (apply_config F c st) = (if ''sni'' \<notin> F \<and> cf_SNI c \<noteq> [] then cf_SNI c else sni st)"
  "timeoutSec (apply_config F c st) = (if ''t'' \<notin> F \<and> 0 < cf_Timeout c then cf_Timeout c else timeoutSec st)"
  "directDialSec (apply_config F c st) =
     (if ''directdialtimeout'' \<notin> F \<and> 0 < cf_DirectDialTimeout c then cf_DirectDialTimeout c else directDialSec st)"
  "directRetrySec (apply_config F c st) =
     (if ''directretry'' \<notin> F \<and> 0 < cf_DirectRetry c then cf_DirectRetry c else directRetrySec st)"
  "failoverLatencyMs (apply_config F c st) =
     (if ''failoverlatency'' \<notin> F \<and> 0 < cf_FailoverLatency c then cf_FailoverLatency c else failoverLatencyMs st)"
  "failoverCheckSec (apply_config F c st) =
     (if ''failovercheck'' \<notin> F \<and> 0 < cf_FailoverCheck c then cf_FailoverCheck c else failoverCheckSec st)"
  by (simp_all add: apply_config_def config_numbers_def config_strings_def chain_rules)

lemma config_special_fields:
  "clientKeyHex (apply_config F c st) =
     (if ''clientkeys'' \<notin> F \<and> cf_ClientKeys c \<noteq> [] then strings_Join (cf_ClientKeys c) CHR '',''
      else if ''clientkey'' \<notin> F \<and> cf_ClientKey c \<noteq> [] then cf_ClientKey c else clientKeyHex st)"
  "logIntervalSec (apply_config F c st) =
     (if ''loginterval'' \<notin> F \<and> 0 \<le> cf_LogInterval c then cf_LogInterval c else logIntervalSec st)"
  "failoverSet (apply_config F c st) \<longleftrightarrow> ''failover'' \<notin> F \<and> cf_Failover c \<noteq> None \<or> failoverSet st"
  "isServer (apply_config F c st) \<longleftrightarrow> ''s'' \<notin> F \<and> cf_Server c \<or> isServer st"
  by (simp_all add: apply_config_def config_numbers_def config_strings_def chain_rules failover_set
      del: not_None_eq)

lemma options_fields:
  "keyHex (sip_options os st) = (if opt_get os ''key'' \<noteq> [] then opt_get os ''key'' else keyHex st)"
  "serverKeyHex (sip_options os st) = (if opt_get os ''serverkey'' \<noteq> [] then opt_get os ''serverkey'' else serverKeyHex st)"
  "password (sip_options os st) = (if opt_get os ''password'' \<noteq> [] then opt_get os ''password'' else password st)"
  "scheme (sip_options os st) = (if opt_get os ''scheme'' \<noteq> [] then opt_get os ''scheme'' else scheme st)"
  "sni (sip_options os st) = (if opt_get os ''sni'' \<noteq> [] then opt_get os ''sni'' else sni st)"
  "clientKeyHex (sip_options os st) = (if opt_get os ''clientkey'' \<noteq> [] then opt_get os ''clientkey'' else clientKeyHex st)"
  "timeoutSec (sip_options os st) = (case opt_num os ''t'' 1 of None \<Rightarrow> timeoutSec st | Some n \<Rightarrow> n)"
  "directDialSec (sip_options os st) = (case opt_num os ''directdialtimeout'' 1 of None \<Rightarrow> directDialSec st | Some n \<Rightarrow> n)"
  "directRetrySec (sip_options os st) = (case opt_num os ''directretry'' 1 of None \<Rightarrow> directRetrySec st | Some n \<Rightarrow> n)"
  "failoverLatencyMs (sip_options os st) =
     (case opt_num os ''failover_latency'' 1 of None \<Rightarrow> failoverLatencyMs st | Some n \<Rightarrow> n)"
  "failoverCheckSec (sip_options os st) =
     (case opt_num os ''failover_check'' 1 of None \<Rightarrow> failoverCheckSec st | Some n \<Rightarrow> n)"
  "logIntervalSec (sip_options os st) = (case opt_num os ''loginterval'' 0 of None \<Rightarrow> logIntervalSec st | Some n \<Rightarrow> n)"
  "isServer (sip_options os st) \<longleftrightarrow> os ''s'' \<noteq> None \<or> isServer st"
  by (simp_all add: sip_options_def chain_rules cong: option.case_cong del: not_None_eq)

lemma sip_fields:
  "keyHex (apply_sip003 e st) = keyHex (sip_options (Options e) st)"
  "serverKeyHex (apply_sip003 e st) = serverKeyHex (sip_options (Options e) st)"
  "password (apply_sip003 e st) = password (sip_options (Options e) st)"
  "scheme (apply_sip003 e st) = scheme (sip_options (Options e) st)"
  "sni (apply_sip003 e st) = sni (sip_options (Options e) st)"
  "timeoutSec (apply_sip003 e st) = timeoutSec (sip_options (Options e) st)"
  "directDialSec (apply_sip003 e st) = directDialSec (sip_options (Options e) st)"
  "directRetrySec (apply_sip003 e st) = directRetrySec (sip_options (Options e) st)"
  "failoverLatencyMs (apply_sip003 e st) = failoverLatencyMs (sip_options (Options e) st)"
  "failoverCheckSec (apply_sip003 e st) = failoverCheckSec (sip_options (Options e) st)"
  "isServer (apply_sip003 e st) = isServer (sip_options (Options e) st)"
  "clientKeyHex (apply_sip003 e st) = clientKeyHex (sip_options (Options e) st)"
  "logIntervalSec (apply_sip003 e st) = logIntervalSec (sip_options (Options e) st)"
  by (simp_all add: apply_sip003_def Let_def)

lemma chosen_str:
  "chosen (sip_str env k) g (conf_str cfg f) d =
     (let d = (case cfg of None \<Rightarrow> d | Some c \<Rightarrow> if k' \<notin> F \<and> f c \<noteq> [] then f c else d)
      in case env of None \<Rightarrow> d | Some e \<Rightarrow> if opt_get (Options e) k \<noteq> [] then opt_get (Options e) k else d)"
  if "g \<longleftrightarrow> k' \<in> F"
  using that by (simp add: chosen_def sip_str_def conf_str_def split: option.split)

lemma chosen_num:
  "chosen (sip_num env k) g (conf_num cfg f) d =
     (let d = (case cfg of None \<Rightarrow> d | Some c \<Rightarrow> if k' \<notin> F \<and> 0 < f c then f c else d)
      in case env of None \<Rightarrow> d | Some e \<Rightarrow> (case opt_num (Options e) k 1 of None \<Rightarrow> d | Some n \<Rightarrow> n))"
  if "g \<longleftrightarrow> k' \<in> F"
  using that by (simp add: chosen_def sip_num_def conf_num_def split: option.split)

text \<open>
  C34 (functional). For the node key, the server key, the password, the scheme, the SNI, the
  timeouts, the retry period and the failover parameters, the documented precedence holds exactly:
  the environment wins, then an explicit flag, then the configuration file, then the default.
\<close>

theorem settings_precedence:
  "keyHex (final_settings F cfg env st) =
     chosen (sip_str env ''key'') (''key'' \<in> F) (conf_str cfg cf_Key) (keyHex st)
   \<and> serverKeyHex (final_settings F cfg env st) =
     chosen (sip_str env ''serverkey'') (''serverkey'' \<in> F) (conf_str cfg cf_ServerKey) (serverKeyHex st)
   \<and> password (final_settings F cfg env st) =
     chosen (sip_str env ''password'') (''password'' \<in> F) (conf_str cfg cf_Password) (password st)
   \<and> scheme (final_settings F cfg env st) =
     chosen (sip_str env ''scheme'') (''scheme'' \<in> F) (conf_str cfg cf_Scheme) (scheme st)
   \<and> sni (final_settings F cfg env st) =
     chosen (sip_str env ''sni'') (''sni'' \<in> F) (conf_str cfg cf_SNI) (sni st)
   \<and> timeoutSec (final_settings F cfg env st) =
     chosen (sip_num env ''t'') (''t'' \<in> F) (conf_num cfg cf_Timeout) (timeoutSec st)
   \<and> directDialSec (final_settings F cfg env st) =
     chosen (sip_num env ''directdialtimeout'') (''directdialtimeout'' \<in> F)
       (conf_num cfg cf_DirectDialTimeout) (directDialSec st)
   \<and> directRetrySec (final_settings F cfg env st) =
     chosen (sip_num env ''directretry'') (''directretry'' \<in> F) (conf_num cfg cf_DirectRetry) (directRetrySec st)
   \<and> failoverLatencyMs (final_settings F cfg env st) =
     chosen (sip_num env ''failover_latency'') (''failoverlatency'' \<in> F)
       (conf_num cfg cf_FailoverLatency) (failoverLatencyMs st)
   \<and> failoverCheckSec (final_settings F cfg env st) =
     chosen (sip_num env ''failover_check'') (''failovercheck'' \<in> F)
       (conf_num cfg cf_FailoverCheck) (failoverCheckSec st)"
  by (intro conjI; unfold chosen_str [OF refl] chosen_num [OF refl]; cases cfg; cases env;
      simp only: final_settings_def Let_def option.case sip_fields options_fields config_fields)

section \<open>Well-formed settings\<close>

text \<open>
  The ranges every consumer of the settings relies on: positive periods and thresholds that are
  64-bit integers, and a scheme. A configuration decoded from JSON has 64-bit integers, of any sign.
\<close>

definition wf_settings :: "settings \<Rightarrow> bool" where
  "wf_settings st \<longleftrightarrow>
     list_all (\<lambda>n. 0 < n \<and> fits64 n)
       [timeoutSec st, directDialSec st, directRetrySec st, failoverLatencyMs st, failoverCheckSec st]
     \<and> 0 \<le> logIntervalSec st \<and> fits64 (logIntervalSec st) \<and> scheme st \<noteq> []"

definition wf_config :: "pluginConfig \<Rightarrow> bool" where
  "wf_config c \<longleftrightarrow>
     list_all fits64 [cf_Timeout c, cf_DirectDialTimeout c, cf_DirectRetry c, cf_LogInterval c,
       cf_FailoverLatency c, cf_FailoverCheck c]"

lemma wf_default: "wf_settings default_settings"
  by (simp add: wf_settings_def default_settings_def fits64_def failover_consts)

lemma opt_num_range: "opt_num opts k lo = Some n \<Longrightarrow> lo \<le> n \<and> fits64 n"
  by (auto simp: opt_num_def Atoi_range split: if_splits option.splits)

lemma wf_apply_config: "wf_settings st \<Longrightarrow> wf_config c \<Longrightarrow> wf_settings (apply_config F c st)"
  by (simp add: wf_settings_def wf_config_def config_fields config_special_fields)

lemma opt_num_positive: "0 < d \<and> fits64 d \<Longrightarrow>
    0 < (case opt_num opts k 1 of None \<Rightarrow> d | Some n \<Rightarrow> n) \<and> fits64 (case opt_num opts k 1 of None \<Rightarrow> d | Some n \<Rightarrow> n)"
  using opt_num_range [of opts k 1] by (cases "opt_num opts k 1") auto

lemma opt_num_nonneg: "0 \<le> d \<and> fits64 d \<Longrightarrow>
    0 \<le> (case opt_num opts k 0 of None \<Rightarrow> d | Some n \<Rightarrow> n) \<and> fits64 (case opt_num opts k 0 of None \<Rightarrow> d | Some n \<Rightarrow> n)"
  using opt_num_range [of opts k 0] by (cases "opt_num opts k 0") auto

lemma wf_apply_sip003: "wf_settings st \<Longrightarrow> wf_settings (apply_sip003 e st)"
  by (simp add: wf_settings_def sip_fields options_fields opt_num_positive opt_num_nonneg)

text \<open>
  C28 (type). Well-formedness is preserved by every source of settings: whatever numbers and strings
  the configuration file and the options of the environment contain, negative, zero, empty or not
  numbers at all, the final settings keep positive 64-bit periods and thresholds and a scheme.
\<close>

theorem settings_well_formed:
  assumes "wf_settings st" and "pred_option wf_config cfg"
  shows "wf_settings (final_settings F cfg env st)"
  using assms
  by (auto simp: final_settings_def Let_def wf_apply_config wf_apply_sip003 split: option.split)

theorem settings_well_formed_witness:
  "wf_settings (final_settings {} (Some (zero_config\<lparr>cf_Timeout := - 5, cf_FailoverCheck := 7\<rparr>)) None default_settings)"
proof -
  have "pred_option wf_config (Some (zero_config\<lparr>cf_Timeout := - 5, cf_FailoverCheck := 7\<rparr>))"
    by (simp add: wf_config_def zero_config_def fits64_def)
  from settings_well_formed [OF wf_default this] show ?thesis .
qed

text \<open>
  Periods become durations by a product that may wrap around. A monitor whose check period is
  beyond about 292 years has a negative period, for which \<open>time.NewTicker\<close> panics.
\<close>

lemma failover_period_wraps:
  "\<exists>m. newFailoverMonitor (\<lambda>_. Some ''h:1'') ''tls://h:1'' (replicate 32 CHR ''k'') 1000 9223372037 = Some m
     \<and> fm_checkEvery m < 0"
  by (simp add: newFailoverMonitor_def PublicKeySize_def Let_def dur_mul_def wrap64_def second_def)

section \<open>Where the precedence is not followed\<close>

text \<open>
  C35 (functional). Without a SIP003 environment, the client keys are the list of the configuration
  file, when it has one: there is no flag that could protect the client key given on the command
  line, and the single key of the file, documented as combined with the list, is lost.
\<close>

theorem client_keys_override_the_flag:
  assumes "F \<subseteq> set flag_names" and "cf_ClientKeys c \<noteq> []"
  shows "clientKeyHex (final_settings F (Some c) None st) = strings_Join (cf_ClientKeys c) CHR '',''"
proof -
  have "''clientkeys'' \<notin> F" using assms(1) by (auto simp: flag_names_def)
  with assms(2) show ?thesis by (simp add: final_settings_def config_special_fields)
qed

definition sample_file :: pluginConfig where
  "sample_file = zero_config\<lparr>cf_ClientKeys := [''aa'', ''bb''], cf_ClientKey := ''cc''\<rparr>"

theorem client_keys_override_the_flag_witness:
  "clientKeyHex (final_settings {''clientkey''} (Some sample_file) None
     (default_settings\<lparr>clientKeyHex := ''dd''\<rparr>)) = ''aa,bb''"
proof -
  have "{''clientkey''} \<subseteq> set flag_names" "cf_ClientKeys sample_file \<noteq> []"
    by (simp_all add: flag_names_def sample_file_def zero_config_def)
  from client_keys_override_the_flag [OF this] show ?thesis
    by (simp add: sample_file_def zero_config_def)
qed

text \<open>
  C36 (functional). The failover flag of the command line is never consulted: as long as neither the
  file nor the environment sets failover, the monitor is started exactly when there are peers,
  whatever the flag says; \<open>-failover=false\<close> does not turn it off.
\<close>

theorem failover_flag_ignored:
  assumes "\<not> failoverSet st" and "\<And>c. cfg = Some c \<Longrightarrow> cf_Failover c = None"
    and "\<And>e. env = Some e \<Longrightarrow> opt_get (Options e) ''failover'' = []"
  shows "\<not> failoverSet (final_settings F cfg env st)
    \<and> client_failover W (final_settings F cfg env st\<lparr>failoverFlag := b\<rparr>) key =
        (if splitPeers (peerList (final_settings F cfg env st)) = [] then None
         else newFailoverMonitor (w_urlHost W) (peerURI (w_escape W) (final_settings F cfg env st)) key
           (failoverLatencyMs (final_settings F cfg env st)) (failoverCheckSec (final_settings F cfg env st)))"
proof -
  have o: "failoverSet (sip_options os t) = (opt_get os ''failover'' \<noteq> [] \<or> failoverSet t)" for os t
    by (simp add: sip_options_def chain_rules failover_set)
  have "failoverSet (apply_sip003 e t) = failoverSet (sip_options (Options e) t)" for e t
    by (simp add: apply_sip003_def Let_def)
  then have n: "\<not> failoverSet (final_settings F cfg env st)"
    using assms by (cases cfg; cases env) (simp_all add: final_settings_def config_special_fields o)
  have "peerURI q (t\<lparr>failoverFlag := b\<rparr>) = peerURI q t" for q t
    by (simp add: peerURI_def Let_def)
  with n show ?thesis by (simp add: client_failover_def)
qed

definition sample_core :: core_env where
  "sample_core = \<lparr>url_Parse = Inr, core_answer = (\<lambda>_. None)\<rparr>"

definition sample_world :: "(key, nat) world" where
  "sample_world = \<lparr>w_node = \<lparr>ne_generate = Inr (replicate 64 CHR ''k''), ne_certificate = Inr, ne_core = (\<lambda>_ _. Inr 0)\<rparr>,
     w_core = sample_core,
     w_listener = \<lparr>le_resolver = \<lparr>parse_ip = (\<lambda>_. None), lookup_ip = (\<lambda>_. None)\<rparr>, le_listen = (\<lambda>_. Inr 5),
       le_quic = (\<lambda>_. None)\<rparr>,
     w_escape = id, w_urlHost = (\<lambda>_. Some ''192.0.2.1:443'')\<rparr>"

theorem failover_flag_ignored_witness:
  "\<not> failoverSet (final_settings {''failover''} None None (default_settings\<lparr>peerList := ''tls://p:1''\<rparr>))
   \<and> client_failover sample_world
       (final_settings {''failover''} None None (default_settings\<lparr>peerList := ''tls://p:1''\<rparr>)\<lparr>failoverFlag := False\<rparr>)
       sample_key \<noteq> None"
proof -
  let ?st = "default_settings\<lparr>peerList := ''tls://p:1''\<rparr>"
  have "\<not> failoverSet ?st" by (simp add: default_settings_def)
  note f = failover_flag_ignored [OF this, of None None "{''failover''}" sample_world False sample_key]
  have "strings_Split ''tls://p:1'' CHR '','' = [''tls://p:1'']" by (rule strings_Split_none) simp
  moreover have "strings_TrimSpace ''tls://p:1'' = ''tls://p:1''"
    by (auto intro!: trimmed_TrimSpace trimmed_printable)
  ultimately have split: "splitPeers ''tls://p:1'' \<noteq> []" by (simp add: splitPeers_def)
  have "\<not> strings_Contains [] ''://''" by code_simp
  then have "peerURI q ?st \<noteq> []" for q
    by (simp add: peerURI_def with_scheme_def Let_def default_settings_def)
  with f split show ?thesis
    by (simp add: final_settings_def default_settings_def newFailoverMonitor_def sample_world_def
        sample_key_def PublicKeySize_def Let_def)
qed

text \<open>
  A configuration file without \<open>log_interval\<close> turns the status log off, because the missing number
  reads as zero.
\<close>

lemma missing_log_interval_disables:
  assumes "''loginterval'' \<notin> F" and "cf_LogInterval c = 0"
  shows "logIntervalSec (final_settings F (Some c) None st) = 0"
  using assms by (simp add: final_settings_def config_special_fields)

section \<open>Addresses of a plugin\<close>

text \<open>
  C37 (functional). Under SIP003 the bind and destination addresses come from the environment alone:
  a client listens on the local address and tunnels to the remote one, a server the other way round,
  and both addresses split back into the host and the port of their variables.
\<close>

theorem plugin_addresses:
  assumes "detectSIP003 uni vars = Some e"
    and "plain_part (opt_get vars ''SS_LOCAL_HOST'')" "plain_part (opt_get vars ''SS_REMOTE_HOST'')"
    and "plain_part (opt_get vars ''SS_LOCAL_PORT'')" "plain_part (opt_get vars ''SS_REMOTE_PORT'')"
    and "CHR '':'' \<notin> set (opt_get vars ''SS_LOCAL_PORT'')" "CHR '':'' \<notin> set (opt_get vars ''SS_REMOTE_PORT'')"
  shows "let st' = final_settings F cfg (Some e) st;
      here = net_SplitHostPort (if isServer st' then dstAddr st' else bindAddr st');
      there = net_SplitHostPort (if isServer st' then bindAddr st' else dstAddr st')
    in here = Inr (opt_get vars ''SS_LOCAL_HOST'', opt_get vars ''SS_LOCAL_PORT'')
       \<and> there = Inr (opt_get vars ''SS_REMOTE_HOST'', opt_get vars ''SS_REMOTE_PORT'')
       \<and> bindAddr st' \<noteq> [] \<and> dstAddr st' \<noteq> []"
proof -
  have ne: "net_JoinHostPort h p \<noteq> []" for h p by (simp add: net_JoinHostPort_def)
  let ?t = "case cfg of None \<Rightarrow> st | Some c \<Rightarrow> apply_config F c st"
  have st': "final_settings F cfg (Some e) st = apply_sip003 e ?t" by (simp add: final_settings_def)
  have "net_SplitHostPort (LocalAddr e) = Inr (opt_get vars ''SS_LOCAL_HOST'', opt_get vars ''SS_LOCAL_PORT'')"
    "net_SplitHostPort (RemoteAddr e) = Inr (opt_get vars ''SS_REMOTE_HOST'', opt_get vars ''SS_REMOTE_PORT'')"
    unfolding sip003_addresses [OF assms(1)] by (rule Split_Join_HostPort; fact)+
  then show ?thesis
    unfolding st' by (simp add: apply_sip003_def Let_def sip003_addresses [OF assms(1)] ne)
qed

theorem plugin_addresses_witness:
  "\<exists>e. detectSIP003 id sample_environment = Some e
     \<and> isServer (final_settings {} None (Some e) default_settings)
     \<and> net_SplitHostPort (bindAddr (final_settings {} None (Some e) default_settings)) = Inr (''192.0.2.1'', ''443'')"
proof -
  have g: "opt_get sample_environment ''SS_LOCAL_HOST'' = ''127.0.0.1''"
    "opt_get sample_environment ''SS_LOCAL_PORT'' = ''1080''"
    "opt_get sample_environment ''SS_REMOTE_HOST'' = ''192.0.2.1''"
    "opt_get sample_environment ''SS_REMOTE_PORT'' = ''443''"
    by (simp_all add: sample_environment_def opt_get_def)
  have "detectSIP003 id sample_environment \<noteq> None"
    unfolding sip003_detection by (simp add: sample_environment_def)
  then obtain e where e: "detectSIP003 id sample_environment = Some e" by blast
  have "strings_Split ''s;c=/etc/yggss.json'' CHR '';'' = [''s'', ''c=/etc/yggss.json'']" by code_simp
  moreover have "strings_TrimSpace ''s'' = ''s''" "strings_TrimSpace ''c=/etc/yggss.json'' = ''c=/etc/yggss.json''"
    "strings_TrimSpace ''c'' = ''c''"
    by (auto intro!: trimmed_TrimSpace trimmed_printable)
  moreover have "strings_Cut ''s'' CHR ''='' = (''s'', [], False)"
    "strings_Cut ''c=/etc/yggss.json'' CHR ''='' = (''c'', ''/etc/yggss.json'', True)"
    by code_simp+
  ultimately have "parsePluginOptions id ''s;c=/etc/yggss.json'' ''s'' \<noteq> None"
    by (simp add: parsePluginOptions_def strings_ToLower_def is_ascii_def ascii_lower_def)
  then have "Options e ''s'' \<noteq> None"
    using sip003_addresses(3) [OF e] by (simp add: sample_environment_def opt_get_def)
  then have s: "isServer (final_settings {} None (Some e) default_settings)"
    by (simp add: final_settings_def sip_fields options_fields del: not_None_eq)
  from plugin_addresses [OF e, of "{}" None default_settings] g s e show ?thesis
    by (simp add: plain_part_def Let_def)
qed

section \<open>What is started\<close>

text \<open>The calls of the peer loop: one for every entry that parses, in order.\<close>

definition peer_calls :: "core_env \<Rightarrow> string list \<Rightarrow> core_call list" where
  "peer_calls K ps = concat (map (\<lambda>p. case url_Parse K p of Inl _ \<Rightarrow> [] | Inr u \<Rightarrow> [CoreAddPeer u]) ps)"

lemma AddPeer_calls: "snd (AddPeer K p calls) = calls @ peer_calls K [p]"
  by (simp add: core_call_defs peer_calls_def split: sum.split)

lemma add_peers_calls: "add_peers K ps calls = calls @ peer_calls K ps"
  by (induction ps arbitrary: calls) (simp_all add: AddPeer_calls, simp_all add: peer_calls_def)

lemma peer_calls_app: "peer_calls K (ps @ qs) = peer_calls K ps @ peer_calls K qs"
  by (simp add: peer_calls_def)

lemma Listen_ok: "Listen K uri calls = (None, calls') \<Longrightarrow> \<exists>u. url_Parse K uri = Inr u \<and> calls' = calls @ [CoreListen u]"
  by (auto simp: core_call_defs split: sum.splits)

lemma parseKey_length: "parseKey s n = Inr key \<Longrightarrow> length key = n"
  by (auto simp: parseKey_def split: option.splits if_splits)

text \<open>
  C33 (error). The program never starts half-configured. A server has a destination, listens on its
  URI after its peers were added, and serves the tunnel with exactly the whitelist of its settings,
  in direct mode also on an open UDP socket; a client has a server key of 32 bytes, a destination, has
  asked the node for its peers and then for the server, whose URI is the destination with the
  scheme in front when it has none and the SNI as a query when it has no query, and in direct mode
  runs one prober, which dials the destination. Every other outcome is a fatal error.
\<close>

theorem started_fully_configured:
  "case run_main W st of
     Fatal f \<Rightarrow> True
   | Server p \<Rightarrow> isServer st \<and> dstAddr st \<noteq> [] \<and> bindAddr st \<noteq> []
       \<and> sv_dst (sp_server p) = dstAddr st \<and> whitelist (clientKeyHex st) = Inr (sv_allowed (sp_server p))
       \<and> (\<exists>u. url_Parse (w_core W) (with_scheme (scheme st) (bindAddr st)) = Inr u
            \<and> sp_calls p = peer_calls (w_core W) (splitPeers (peerList st)) @ [CoreListen u])
       \<and> (sp_socket p \<noteq> None \<longleftrightarrow> tunnel_mode st = ''direct'')
       \<and> (\<forall>sk. sp_socket p = Some sk \<longrightarrow> le_quic (w_listener W) sk = None)
   | Client p \<Rightarrow> \<not> isServer st \<and> length (cp_serverKey p) = 32 \<and> dstAddr st \<noteq> [] \<and> bindAddr st \<noteq> []
       \<and> parseKey (serverKeyHex st) 32 = Inr (cp_serverKey p)
       \<and> cp_calls p = peer_calls (w_core W) (splitPeers (peerList st) @ [cp_peerURI p])
       \<and> (let uri = (if strings_Contains (dstAddr st) ''://'' then dstAddr st
                       else scheme st @ ''://'' @ dstAddr st)
            in cp_peerURI p = uri @ (if sni st \<noteq> [] \<and> \<not> strings_Contains uri ''?''
                                     then ''?sni='' @ w_escape W (sni st) else []))
       \<and> serverAddr (cp_client p) = (if tunnel_mode st = ''direct'' then dstAddr st else [])
       \<and> (probers (cp_client p) = (if tunnel_mode st = ''direct'' then {0} else {}))
       \<and> (has_direct (cp_client p) \<longleftrightarrow> tunnel_mode st = ''direct'')
       \<and> client_inv (cp_client p) \<and> (\<forall>t. \<not> IsVerified t (cp_client p))"
proof (cases "bindAddr st = []")
  case True
  then show ?thesis by (simp add: run_main_def)
next
  case bound: False
  show ?thesis
  proof (cases "NewNode (w_node W) (keyHex st) (password st)")
    case (Inl e)
    with bound show ?thesis by (simp add: run_main_def)
  next
    case (Inr k)
    let ?calls = "peer_calls (w_core W) (splitPeers (peerList st))"
    note main = bound Inr add_peers_calls
    show ?thesis
    proof (cases "isServer st")
      case True
      have quic: "le_quic (w_listener W) sk = None"
        if "fst (startDirectListener (w_listener W) (bindAddr st) no_sockets) = Inr sk" for sk
        using that by (auto simp: startDirectListener_def Let_def split: sum.splits option.splits)
      from True main show ?thesis
        by (auto simp: run_main_def start_server_def Let_def NewServer_def dest: Listen_ok quic
            split: option.split sum.split prod.split)
    next
      case c: False
      note defs = client_inv_def direct_inv_def transport_inv_def mesh_inv_def IsVerified_def NewClient_def
        NewDirectClient_def no_direct_def startProber_def direct_client.defs client_direct_def
      from c main show ?thesis
        by (auto simp: run_main_def start_client_def PublicKeySize_def parseKey_length AddPeer_calls
            peer_calls_app Let_def defs peerURI_def with_scheme_def split: sum.split)
    qed
  qed
qed

lemma started_client_key: "run_main W st = Client p \<Longrightarrow> parseKey (serverKeyHex st) 32 = Inr (cp_serverKey p)"
  by (auto simp: run_main_def start_client_def start_server_def PublicKeySize_def Let_def
      split: if_splits sum.splits option.splits prod.splits)

lemma started_server_whitelist:
  "run_main W st = Server p \<Longrightarrow> whitelist (clientKeyHex st) = Inr (sv_allowed (sp_server p))"
  by (auto simp: run_main_def start_client_def start_server_def NewServer_def Let_def
      split: if_splits sum.splits option.splits prod.splits)

definition sample_settings :: settings where
  "sample_settings = default_settings\<lparr>bindAddr := ''127.0.0.1:1080'', dstAddr := ''192.0.2.1:443'',
     serverKeyHex := hex_EncodeToString sample_key, tunnel_mode := ''direct''\<rparr>"

theorem started_fully_configured_witness:
  "\<exists>p. run_main sample_world sample_settings = Client p \<and> cp_serverKey p = sample_key
     \<and> probers (cp_client p) = {0} \<and> client_inv (cp_client p)"
proof -
  have key: "parseKey (hex_EncodeToString sample_key) 32 = Inr sample_key"
    by (rule parseKey_hex) (simp add: sample_key_def)
  moreover have "hex_EncodeToString sample_key \<noteq> []"
    by (rule hex_not_Nil) (simp add: sample_key_def)
  moreover obtain n where "NewNode (w_node sample_world) [] [] = Inr n"
    by (simp add: NewNode_def NewNode_key_def sample_world_def)
  ultimately obtain p where p: "run_main sample_world sample_settings = Client p"
    by (simp add: run_main_def start_client_def sample_settings_def default_settings_def PublicKeySize_def
        Let_def)
  with started_fully_configured [where W = sample_world and st = sample_settings] key show ?thesis
    by (simp add: sample_settings_def)
qed

section \<open>Generated keys\<close>

text \<open>
  The keys that \<open>-genkey\<close> prints can be used as they stand: behind its label, the
  private key is accepted as the key of a node and gives the generated key back, and the public key is
  accepted as a server key and as a client whitelist that admits exactly that key.
\<close>

lemma generated_keys_are_accepted:
  assumes "length priv = 64" and "length pub = 32"
    and "genAndPrintKey (Inr (pub, priv)) addr = Inr ls"
  shows "NewNode_key gen (drop (length private_label) (ls ! 0)) = Inr priv
    \<and> parseKey (drop (length public_label) (ls ! 1)) 32 = Inr pub
    \<and> whitelist (drop (length public_label) (ls ! 1)) = Inr {pub}"
proof -
  from assms(3) have lines: "ls ! 0 = private_label @ hex_EncodeToString priv"
    "ls ! 1 = public_label @ hex_EncodeToString pub"
    by (auto simp: genAndPrintKey_def)
  have key: "parseKey (hex_EncodeToString pub) 32 = Inr pub" by (rule parseKey_hex [OF assms(2)])
  moreover have ne: "hex_EncodeToString pub \<noteq> []" "hex_EncodeToString priv \<noteq> []"
    using assms(1,2) by (auto intro!: hex_not_Nil)
  moreover have "whitelist (hex_EncodeToString pub) = Inr {pub}"
    using key ne
    by (auto simp: whitelist_def strings_Split_none [OF hex_no_comma] hex_trimmed PublicKeySize_def)
  moreover have "NewNode_key gen (hex_EncodeToString priv) = Inr priv"
    using assms(1) ne by (auto simp: NewNode_key_def hex_trimmed hex_roundtrip PrivateKeySize_def)
  ultimately show ?thesis unfolding lines by simp
qed

lemma generated_keys_are_accepted_sample:
  "\<exists>ls. genAndPrintKey (Inr (sample_key, replicate 64 CHR ''p'')) (\<lambda>_. ''200::1'') = Inr ls
     \<and> whitelist (drop (length public_label) (ls ! 1)) = Inr {sample_key}"
proof -
  obtain ls where g: "genAndPrintKey (Inr (sample_key, replicate 64 CHR ''p'')) (\<lambda>_. ''200::1'') = Inr ls"
    by (simp add: genAndPrintKey_def)
  have "length (replicate 64 CHR ''p'') = 64" "length sample_key = 32" by (simp_all add: sample_key_def)
  from generated_keys_are_accepted [OF this g] g show ?thesis by blast
qed

section \<open>The identity check ends\<close>

lemma identity_check_from:
  assumes "\<And>j. clock j + 500 * millisecond \<le> clock (Suc j)"
  shows "\<exists>r. identity_check clock peers k dl i = Some r
    \<and> (r \<longleftrightarrow> (\<exists>j \<ge> i. clock j < dl \<and> k \<in> set (PeerKeys (peers j))))"
proof (induction "nat (dl - clock i)" arbitrary: i rule: less_induct)
  case less
  have mono: "clock i \<le> clock j" if "i \<le> j" for i j
    using that
  proof (induction rule: dec_induct)
    case (step n)
    with assms [of n] show ?case by (simp add: millisecond_def)
  qed simp
  note step = identity_check.simps [of clock peers k dl i]
  show ?case
  proof (cases "clock i < dl")
    case False
    then show ?thesis using mono [of i] by (force simp: step)
  next
    case True
    show ?thesis
    proof (cases "k \<in> set (PeerKeys (peers i))")
      case key: True
      with True show ?thesis by (auto simp: step)
    next
      case key: False
      have "clock i < clock (Suc i)" using assms [of i] by (simp add: millisecond_def)
      with True have "nat (dl - clock (Suc i)) < nat (dl - clock i)" by simp
      from less [OF this] obtain r where r: "identity_check clock peers k dl (Suc i) = Some r"
        "r \<longleftrightarrow> (\<exists>j \<ge> Suc i. clock j < dl \<and> k \<in> set (PeerKeys (peers j)))" by blast
      have "(\<exists>j \<ge> i. clock j < dl \<and> k \<in> set (PeerKeys (peers j))) \<longleftrightarrow> r"
        using key r(2) by (metis Suc_leD Suc_leI le_neq_implies_less)
      with True key r(1) show ?thesis by (simp add: step)
    qed
  qed
qed

text \<open>
  C27 (termination). The goroutine that checks the server's identity always ends, whatever the
  peerings do, because every round sleeps at least half a second of the time that is left; it reports
  a verified identity exactly when some round before the deadline saw the server's key on a peering
  that was up.
\<close>

theorem identity_check_ends:
  assumes "\<And>j. clock j + 500 * millisecond \<le> clock (Suc j)"
  shows "\<exists>r. identity_check clock peers key (identity_deadline (clock 0) timeout) 0 = Some r
    \<and> (r \<longleftrightarrow> (\<exists>j. clock j < identity_deadline (clock 0) timeout \<and> length key = 32
                 \<and> (\<exists>p \<in> set (peers j). p_Up p \<and> p_Key p = key)))"
  using identity_check_from [of clock peers key "identity_deadline (clock 0) timeout" 0] assms
  by (auto simp: set_PeerKeys PublicKeySize_def)

theorem identity_check_ends_witness:
  "\<exists>r. identity_check (\<lambda>i. int i * second) (\<lambda>i. if i < 3 then [] else [sample_peer]) sample_key
     (identity_deadline 0 (30 * second)) 0 = Some r \<and> r"
proof -
  have "int j * second + 500 * millisecond \<le> int (Suc j) * second" for j
    by (simp add: unit_defs)
  from identity_check_ends [of "\<lambda>i. int i * second", OF this, of "\<lambda>i. if i < 3 then [] else [sample_peer]"
      sample_key "30 * second"]
  obtain r where r: "identity_check (\<lambda>i. int i * second) (\<lambda>i. if i < 3 then [] else [sample_peer]) sample_key
      (identity_deadline 0 (30 * second)) 0 = Some r"
    "r \<longleftrightarrow> (\<exists>j. int j * second < identity_deadline 0 (30 * second) \<and> length sample_key = 32
        \<and> (\<exists>p \<in> set (if j < 3 then [] else [sample_peer]). p_Up p \<and> p_Key p = sample_key))"
    by auto
  have "fits64 (30 * second + 10 * second)" by (simp add: fits64_def second_def)
  then have "int 3 * second < identity_deadline 0 (30 * second)"
    by (simp add: identity_deadline_def wrap64_id second_def)
  moreover have "p_Up sample_peer \<and> p_Key sample_peer = sample_key \<and> length sample_key = 32"
    by (simp add: sample_peer_def sample_key_def)
  ultimately have r by (unfold r(2)) (rule exI [of _ 3], simp)
  with r(1) show ?thesis by blast
qed

end
