(* ===== verification/System.thy ===== *)
theory System
  imports ProberProps StartupProps "HOL-Library.Multiset"
begin

text \<open>
  The client as a concurrent system: goroutines interleave, but each section under \<open>d.mu\<close>, \<open>d.verifyMu\<close>,
  \<open>d.probeMu\<close> or \<open>c.mu\<close> is one step. What a goroutine still has to do after it released a lock is a
  pending task. The step relation allows every operation at every moment, so its reachable states
  include those of every schedule. A new stop channel differs from all earlier ones.
\<close>

section \<open>Steps\<close>

text \<open>
  Pending work: the end of \<open>openStream\<close> after a failed dial; its end after a successful one (start
  the watcher, open the stream); a watcher waiting for its connection; the end of a cutover. A task that
  runs does one section, after which it is done (\<open>None\<close>) or goes on as another task. A watcher
  only runs once its connection is dead.
\<close>

datatype task = OpenFailed | Opened nat | Watcher nat | CutoverTail

inductive task_step :: "task \<Rightarrow> client_state \<Rightarrow> task option \<Rightarrow> client_state \<Rightarrow> bool" where
  failed_tail: "task_step OpenFailed s None (openStream_failed s)"
| spawn: "task_step (Opened c) s (Some (Watcher c)) (snd (openStream_new E c (spawn_watch c s)))"
| watch_current: "c \<in> dead s \<Longrightarrow> watch_locked c now s = (True, s') \<Longrightarrow>
    task_step (Watcher c) s (Some CutoverTail) s'"
| watch_stale: "c \<in> dead s \<Longrightarrow> watch_locked c now s = (False, s') \<Longrightarrow> task_step (Watcher c) s None s'"
| cutover_tail: "task_step CutoverTail s None (owner_fallback (MarkFailed s))"

inductive_cases task_step_cases:
  "task_step (Opened c) s k s'" "task_step (Watcher c) s k s'" "task_step CutoverTail s k s'"

text \<open>A task that runs to its end with nothing in between.\<close>

inductive task_runs :: "task \<Rightarrow> client_state \<Rightarrow> client_state \<Rightarrow> bool" where
  runs_end: "task_step k s None s' \<Longrightarrow> task_runs k s s'"
| runs_on: "task_step k s (Some j) s1 \<Longrightarrow> task_runs j s1 s' \<Longrightarrow> task_runs k s s'"

inductive_cases task_runs_cases:
  "task_runs (Opened c) s s'" "task_runs (Watcher c) s s'" "task_runs CutoverTail s s'"

text \<open>
  The steps of the whole client. Streams are opened by the prober and by the connections of the
  application; only the goroutine of a prober that was started cuts over on its own account, rates
  round trips and verifies the path. \<open>startProber\<close> is no step: only \<open>NewClient\<close> calls it, before the
  client is handed out. \<open>Run\<close> makes the mesh transport and opens the listener.
\<close>

type_synonym sys = "client_state \<times> task multiset"

inductive sys_step :: "sys \<Rightarrow> sys \<Rightarrow> bool" where
  open_returned: "openStream_locked E s = (Returned r, s') \<Longrightarrow> sys_step (s, T) (s', T)"
| open_failed: "openStream_locked E s = (DialFailure e, s') \<Longrightarrow> sys_step (s, T) (s', add_mset OpenFailed T)"
| open_dialled: "openStream_locked E s = (Dialled c, s') \<Longrightarrow> sys_step (s, T) (s', add_mset (Opened c) T)"
| run_task: "task_step k s k' s' \<Longrightarrow>
    sys_step (s, add_mset k T) (s', case k' of None \<Rightarrow> T | Some j \<Rightarrow> add_mset j T)"
| prober_drop: "probers s \<noteq> {} \<Longrightarrow> sys_step (s, T) (drop_cooldown now s, add_mset CutoverTail T)"
| prober_verified: "probers s \<noteq> {} \<Longrightarrow> sys_step (s, T) (MarkVerified now ttl s, T)"
| prober_rated: "probers s \<noteq> {} \<Longrightarrow> sys_step (s, T) (snd (probeHealthy rtt s), T)"
| mark_failed: "sys_step (s, T) (MarkFailed s, T)"
| probe_state: "sys_step (s, T) (setProbeState p s, T)"
| close_direct: "sys_step (s, T) (direct_Close s, T)"
| run_client: "sys_step (s, T) (snd (client_Run listens now s), T)"
| mesh_open: "sys_step (s, T) (snd (mesh_openStream M s), T)"
| mesh_watch: "c \<in> dead s \<Longrightarrow> sys_step (s, T) (watchMeshConn c s, T)"
| touch: "sys_step (s, T) (touchActivity now s, T)"
| conn_dies: "sys_step (s, T) (s\<lparr>dead := insert c (dead s)\<rparr>, T)"

inductive sys_reach :: "sys \<Rightarrow> sys \<Rightarrow> bool" where
  reach_refl: "sys_reach x x"
| reach_step: "sys_reach x y \<Longrightarrow> sys_step y z \<Longrightarrow> sys_reach x z"

lemma reach_trans: "sys_reach y z \<Longrightarrow> sys_reach x y \<Longrightarrow> sys_reach x z"
  by (induction rule: sys_reach.induct) (auto intro: reach_step)

lemma reach_one: "sys_step x y \<Longrightarrow> sys_reach x y"
  by (rule reach_step [OF reach_refl])

lemma task_runs_reach: "task_runs k s s' \<Longrightarrow> sys_reach (s, add_mset k T) (s', T)"
proof (induction rule: task_runs.induct)
  case (runs_end k s s')
  from reach_one [OF run_task [OF this, of T]] show ?case by simp
next
  case (runs_on k s j s1 s')
  from reach_trans [OF runs_on.IH reach_one [OF run_task [OF runs_on.hyps(1), of T, simplified]]]
  show ?case .
qed

text \<open>Rule inversion: what a system without pending tasks can do.\<close>

inductive_cases sys_step_quiet_E: "sys_step (s, {#}) (s', T')"

section \<open>The invariant of all schedules\<close>

definition watched :: "client_state \<Rightarrow> task multiset \<Rightarrow> bool" where
  "watched s T \<longleftrightarrow> (\<forall>c. d_qconn s = Some c \<longrightarrow> Opened c \<in># T \<or> Watcher c \<in># T)"

definition sys_inv :: "sys \<Rightarrow> bool" where
  "sys_inv x \<longleftrightarrow> transport_inv (fst x) \<and> mesh_inv (fst x) \<and> watched (fst x) (snd x)"

lemma watched_frame: "watched s T \<Longrightarrow> d_qconn s' = d_qconn s \<or> d_qconn s' = None \<Longrightarrow> T \<subseteq># T' \<Longrightarrow> watched s' T'"
  unfolding watched_def by (metis mset_subset_eqD option.distinct(1))

lemma locked_qconn:
  assumes "openStream_locked E s = (r, s')" and "transport_inv s"
  shows "(\<forall>c. r = Dialled c \<longrightarrow> d_qconn s' = Some c)
    \<and> ((\<forall>c. r \<noteq> Dialled c) \<longrightarrow> d_qconn s' = d_qconn s \<or> d_qconn s' = None)"
  using assms
proof (cases rule: locked_cases)
  case (redialled s1)
  from redialled(1-4) show ?thesis by (cases rule: redial_cases) auto
qed auto

lemma mesh_inv_frames [simp]:
  "mesh_inv (MarkVerified now ttl s) = mesh_inv s" "mesh_inv (MarkFailed s) = mesh_inv s"
  "mesh_inv (setProbeState p s) = mesh_inv s" "mesh_inv (owner_fallback s) = mesh_inv s"
  "mesh_inv (openStream_failed s) = mesh_inv s" "mesh_inv (spawn_watch c s) = mesh_inv s"
  "mesh_inv (touchActivity now s) = mesh_inv s" "mesh_inv (s\<lparr>probeRTT := x\<rparr>) = mesh_inv s"
  "mesh_inv (snd (client_Run listens now s)) = mesh_inv s"
  by (simp_all add: mesh_inv_def state_defs openStream_failed_def spawn_watch_def touchActivity_def client_Run_def
      Let_def)

lemma mesh_inv_grow: "mesh_inv s \<Longrightarrow> mesh_inv (s\<lparr>dead := insert c (dead s)\<rparr>)"
  by (auto simp: mesh_inv_def)

lemma mesh_inv_drop: "mesh_inv s \<Longrightarrow> mesh_inv (dropConnLocked s)"
  by (rule same_mesh_inv [OF same_mesh_drop]) auto

lemma mesh_inv_drop_cooldown: "mesh_inv s \<Longrightarrow> mesh_inv (drop_cooldown now s)"
  using mesh_inv_drop [of s] by (simp add: drop_cooldown_def mesh_inv_def)

lemma mesh_inv_locked: "mesh_inv s \<Longrightarrow> mesh_inv (snd (openStream_locked E s))"
  using locked_grows [of E s "fst (openStream_locked E s)" "snd (openStream_locked E s)"]
  by (intro same_mesh_inv [OF same_mesh_locked]) auto

lemma transport_inv_more [simp]:
  "transport_inv (openStream_failed s) = transport_inv s"
  "transport_inv (snd (client_Run listens now s)) = transport_inv s"
  "transport_inv (touchActivity now s) = transport_inv s" "transport_inv (s\<lparr>probeRTT := x\<rparr>) = transport_inv s"
  by (simp_all add: transport_inv_def openStream_failed_def state_defs touchActivity_def client_Run_def Let_def)

lemma qconn_frames [simp]:
  "d_qconn (MarkVerified now ttl s) = d_qconn s" "d_qconn (setProbeState p s) = d_qconn s"
  "d_qconn (openStream_failed s) = d_qconn s" "d_qconn (snd (client_Run listens now s)) = d_qconn s"
  "d_qconn (touchActivity now s) = d_qconn s"
  by (simp_all add: state_defs openStream_failed_def touchActivity_def client_Run_def Let_def)

lemma Close_fields [simp]:
  "d_qconn (direct_Close s) = None" "transport_inv (direct_Close s) = transport_inv (dropConnLocked s)"
  "mesh_inv (direct_Close s) = mesh_inv (dropConnLocked s)"
  by (simp_all add: direct_Close_def stopProber_def transport_inv_def mesh_inv_def split: option.split)

lemma same_direct_transport: "same_direct s s' \<Longrightarrow> dead s \<subseteq> dead s' \<Longrightarrow> transport_inv s \<Longrightarrow> transport_inv s'"
  by (auto simp: same_direct_def transport_inv_def)

lemma mesh_open_transport: "transport_inv s \<Longrightarrow> transport_inv (snd (mesh_openStream M s))"
  using same_direct_transport [OF same_direct_mesh [of s M]] mesh_openStream_grows [of s M] by blast

lemma mesh_open_qconn: "d_qconn (snd (mesh_openStream M s)) = d_qconn s"
  using same_direct_mesh [of s M] by (simp add: same_direct_def)

lemma healthy_qconn: "d_qconn (snd (probeHealthy rtt s)) = d_qconn s"
  using probeHealthy_cases [of rtt s] by auto

lemma mesh_watch_qconn: "d_qconn (watchMeshConn c s) = d_qconn s"
  by (simp add: watchMeshConn_def)

lemma spawn_fields [simp]:
  "d_qconn (spawn_watch c s) = d_qconn s" "d_conns (spawn_watch c s) = d_conns s"
  "dead (spawn_watch c s) = dead s"
  by (simp_all add: spawn_watch_def)

lemma new_fields:
  "d_qconn (snd (openStream_new E c s)) = d_qconn s"
  "mesh_inv s \<Longrightarrow> mesh_inv (snd (openStream_new E c s))"
  by (simp_all add: openStream_new_def Let_def mesh_inv_wait split: option.split)

lemma watch_lockedD:
  "watch_locked c now s = (b, s') \<Longrightarrow>
     (if b then d_qconn s = Some c \<and> s' = drop_cooldown now s else d_qconn s \<noteq> Some c \<and> s' = s)"
  by (auto simp: watch_locked_def split: if_splits)

lemma task_step_inv:
  assumes "task_step k s k' s'" and "transport_inv s" and "mesh_inv s" and "watched s (add_mset k T)"
  shows "transport_inv s' \<and> mesh_inv s' \<and> watched s' (case k' of None \<Rightarrow> T | Some j \<Rightarrow> add_mset j T)"
  using assms
proof (cases rule: task_step.cases)
  case (spawn c E)
  with assms show ?thesis
    using new_transport_inv [of "spawn_watch c s" E c] new_fields(1) [of E c "spawn_watch c s"]
      new_fields(2) [of "spawn_watch c s" E c]
    by (auto simp: watched_def)
next
  case (watch_current c now)
  with assms show ?thesis
    using watch_lockedD [of c now s True s']
    by (auto simp: watched_def transport_inv_drop_cooldown mesh_inv_drop_cooldown)
next
  case (watch_stale c now)
  with assms show ?thesis using watch_lockedD [of c now s False s'] by (auto simp: watched_def)
qed (auto simp: watched_def)

lemma sys_step_inv: "sys_step x y \<Longrightarrow> sys_inv x \<Longrightarrow> sys_inv y"
proof (induction rule: sys_step.induct)
  case (open_returned E s r s' T)
  then show ?case
    using locked_transport_inv [of s E] mesh_inv_locked [of s E] locked_qconn [of E s "Returned r" s']
    by (auto simp: sys_inv_def intro: watched_frame)
next
  case (open_failed E s e s' T)
  then show ?case
    using locked_transport_inv [of s E] mesh_inv_locked [of s E] locked_qconn [of E s "DialFailure e" s']
    by (auto simp: sys_inv_def intro: watched_frame)
next
  case (open_dialled E s c s' T)
  then show ?case
    using locked_transport_inv [of s E] mesh_inv_locked [of s E] locked_qconn [of E s "Dialled c" s']
    by (auto simp: sys_inv_def watched_def)
next
  case (run_task k s k' s' T)
  then show ?case using task_step_inv [of k s k' s' T] by (simp add: sys_inv_def)
next
  case (prober_rated s T rtt)
  then show ?case using probeHealthy_cases [of rtt s] by (auto simp: sys_inv_def watched_def)
next
  case (mesh_watch c s T)
  then show ?case by (auto simp: sys_inv_def watched_def watchMeshConn_def mesh_inv_def transport_inv_def)
next
  case (conn_dies s T c)
  then show ?case by (auto simp: sys_inv_def watched_def mesh_inv_def transport_inv_def)
qed (auto simp: sys_inv_def watched_def transport_inv_drop transport_inv_drop_cooldown mesh_inv_drop
    mesh_inv_drop_cooldown mesh_open_transport mesh_openStream_inv mesh_open_qconn)

lemma sys_reach_inv: "sys_reach x y \<Longrightarrow> sys_inv x \<Longrightarrow> sys_inv y"
  by (induction rule: sys_reach.induct) (auto dest: sys_step_inv)

text \<open>The client as the program starts it, with no task pending.\<close>

definition fresh_client :: "duration \<Rightarrow> direct_options option \<Rightarrow> client_state" where
  "fresh_client t o_direct =
     NewClient \<lparr>co_node = True, co_timeout = t, co_direct = map_option NewDirectClient o_direct\<rparr> 0"

lemma fresh_inv: "sys_inv (fresh_client t od, {#})"
  by (cases od) (simp_all add: fresh_client_def sys_inv_def watched_def transport_inv_def mesh_inv_def NewClient_def
      NewDirectClient_def no_direct_def startProber_def direct_client.defs)

lemma reachable_inv: "sys_reach (fresh_client t od, {#}) (s, T) \<Longrightarrow> transport_inv s \<and> mesh_inv s \<and> watched s T"
  using sys_reach_inv [OF _ fresh_inv] by (fastforce simp: sys_inv_def)

text \<open>
  C21 (invariant). In every state that a client can reach from its construction, under any schedule of its
  goroutines and any behaviour of the network: the open QUIC transports of the direct path are exactly
  that of the cached connection, every live direct or mesh connection is the cached one, and a
  cached direct connection has a watcher, or the goroutine that dialled it is about to start one.
\<close>

theorem no_leak_under_any_schedule:
  assumes "sys_reach (fresh_client t od, {#}) (s, T)"
  shows "trs s = set_option (d_tr s) \<and> (d_tr s = None \<longleftrightarrow> d_qconn s = None)
    \<and> d_conns s - dead s \<subseteq> set_option (d_qconn s) \<and> m_conns s - dead s \<subseteq> set_option (c_qconn s)
    \<and> (\<forall>c. d_qconn s = Some c \<longrightarrow> Watcher c \<in># T \<or> Opened c \<in># T)"
  using reachable_inv [OF assms] by (auto simp: transport_inv_def mesh_inv_def watched_def)

text \<open>A client that runs, with a connection on each of its two channels.\<close>

definition sample_fresh :: client_state where
  "sample_fresh = fresh_client (30 * second) (Some \<lparr>o_node = True, o_serverAddr = ''192.0.2.1:443'',
     o_timeout = 5 * second, o_retryPeriod = 10 * second\<rparr>)"

lemma sample_fresh_runs: "snd (client_Run True 0 sample_fresh) = sample_client"
  by (simp add: sample_fresh_def fresh_client_def sample_client_def sample_direct_def)

lemma sample_client_on_mesh:
  "snd (mesh_openStream (sample_mesh (Inr 5) None) sample_client) =
     sample_client\<lparr>c_qconn := Some 5, m_conns := {5}, m_watching := {5},
       trace := [CallOpenStream 5 openStreamTimeout, CallDialMesh (10 * second)]\<rparr>"
  by (simp add: mesh_openStream_def mesh_drop_dead_def mesh_drop_blackhole_def mesh_dial_def
      mesh_dial_timeout_def sample_mesh_def sample_client_eq state_defs second_def)

lemma sample_both_channels:
  "\<exists>s. sys_reach (sample_fresh, {#}) (s, {#Opened 3#}) \<and> d_qconn s = Some 3 \<and> c_qconn s = Some 5
     \<and> dead s = {} \<and> socks s = {7}"
proof -
  let ?s = "snd (mesh_openStream (sample_mesh (Inr 5) None) sample_client)"
  have "sys_reach (sample_fresh, {#}) (sample_client, {#})"
    using reach_one [OF run_client [of sample_fresh "{#}" True 0]] by (simp add: sample_fresh_runs)
  from reach_step [OF this mesh_open] have r: "sys_reach (sample_fresh, {#}) (?s, {#})" .
  obtain s where s: "openStream_locked (sample_env 0 (Inr 3) None) ?s = (Dialled 3, s)"
    "d_qconn s = Some 3" "c_qconn s = Some 5" "dead s = {}" "socks s = {7}"
    unfolding sample_client_on_mesh
    by (simp add: openStream_defs sample_client_eq sample_env_def sample_dial_def sample_parse state_defs
        direct_consts second_def)
  from reach_step [OF r open_dialled [OF s(1), of "{#}"]] s(2-5) show ?thesis by blast
qed

theorem no_leak_under_any_schedule_witness:
  "\<exists>s T. sys_reach (sample_fresh, {#}) (s, T) \<and> d_conns s - dead s \<subseteq> {3} \<and> m_conns s - dead s \<subseteq> {5}
     \<and> d_qconn s = Some 3 \<and> c_qconn s = Some 5"
proof -
  obtain s where s: "sys_reach (sample_fresh, {#}) (s, {#Opened 3#})" "d_qconn s = Some 3" "c_qconn s = Some 5"
    using sample_both_channels by blast
  from no_leak_under_any_schedule [OF s(1) [unfolded sample_fresh_def]] s show ?thesis
    by (intro exI [of _ s] exI [of _ "{#Opened 3#}"]) simp
qed

section \<open>Sockets\<close>










lemma socks_client_frames [simp]:
  "socks (touchActivity now s) = socks s" "socks (watchMeshConn c s) = socks s"
  "socks (snd (client_Run listens now s)) = socks s" "socks (snd (mesh_openStream M s)) = socks s"
  using same_direct_mesh [of s M]
  by (simp_all add: touchActivity_def watchMeshConn_def client_Run_def same_direct_def Let_def)






section \<open>Progress\<close>

text \<open>A watcher of the current connection cuts over; a goroutine that has just dialled starts one first.\<close>

lemma watcher_cuts_over:
  assumes "c \<in> dead s" and "d_qconn s = Some c"
  shows "task_runs (Watcher c) s (dropAndFail now s)"
    and "task_runs (Watcher c) s s' \<Longrightarrow> \<exists>now. s' = dropAndFail now s"
proof -
  have w: "watch_locked c now s = (True, drop_cooldown now s)" for now
    using assms(2) by (simp add: watch_locked_def)
  show "task_runs (Watcher c) s (dropAndFail now s)"
    unfolding dropAndFail_def by (intro runs_on [OF watch_current [OF assms(1) w [of now]]] runs_end cutover_tail)
  show "\<exists>now. s' = dropAndFail now s" if "task_runs (Watcher c) s s'"
    using that
    by (elim task_runs_cases task_step_cases) (auto simp: w dropAndFail_def elim!: task_runs_cases task_step_cases)
qed

lemma opener_cuts_over:
  assumes "c \<in> dead s" and "d_qconn s = Some c"
  shows "\<exists>s'. task_runs (Opened c) s s'"
    and "task_runs (Opened c) s s' \<Longrightarrow> \<exists>E now. s' = dropAndFail now (snd (openStream_new E c (spawn_watch c s)))"
proof -
  have q: "c \<in> dead (snd (openStream_new E c (spawn_watch c s)))"
    "d_qconn (snd (openStream_new E c (spawn_watch c s))) = Some c" for E
    using assms by (auto simp: new_fields(1)) (auto simp: openStream_new_def Let_def split: option.split)
  show "\<exists>s'. task_runs (Opened c) s s'"
    using runs_on [OF spawn watcher_cuts_over(1) [OF q]] by blast
  show "\<exists>E now. s' = dropAndFail now (snd (openStream_new E c (spawn_watch c s)))" if "task_runs (Opened c) s s'"
    using that watcher_cuts_over(2) [OF q] by (elim task_runs_cases task_step_cases) blast+
qed

text \<open>
  C32 (liveness). A dead direct connection never gets stuck in the cache. In every reachable state in which
  the cached connection is dead, its own goroutine is pending: its watcher, or the one that dialled
  it and is about to start the watcher. That goroutine can run to its end at once, and however it runs,
  with no step of any other, the cutover is then complete: nothing is cached, no
  transport is open, every connection ever dialled is closed and the path is not verified.
\<close>

theorem dead_connection_is_cut_over:
  assumes "sys_reach (fresh_client t od, {#}) (s, T)" and "d_qconn s = Some c" and "c \<in> dead s"
  shows "\<exists>k \<in> {Opened c, Watcher c}. k \<in># T \<and> (\<exists>s'. task_runs k s s')
    \<and> (\<forall>s'. task_runs k s s' \<longrightarrow> sys_reach (s, T) (s', T - {#k#}) \<and> d_qconn s' = None \<and> trs s' = {}
         \<and> d_conns s' \<subseteq> dead s' \<and> (\<forall>u. \<not> IsVerified u s'))"
proof -
  from reachable_inv [OF assms(1)] have i: "transport_inv s" "watched s T" by simp_all
  have cut: "d_qconn (dropAndFail now u) = None \<and> trs (dropAndFail now u) = {}
      \<and> d_conns (dropAndFail now u) \<subseteq> dead (dropAndFail now u) \<and> (\<forall>v. \<not> IsVerified v (dropAndFail now u))"
    if "transport_inv u" for now u
    using that by (auto simp: dropAndFail_def transport_inv_def IsVerified_def)
  have inv: "transport_inv (snd (openStream_new E c (spawn_watch c s)))" for E
    using new_transport_inv [of "spawn_watch c s" E c] i(1) by simp
  have goal: ?thesis if k: "k \<in># T" "k \<in> {Opened c, Watcher c}" "\<exists>s'. task_runs k s s'"
    and ends: "\<And>s'. task_runs k s s' \<Longrightarrow> \<exists>now u. s' = dropAndFail now u \<and> transport_inv u" for k
  proof (rule bexI [OF _ k(2)], intro conjI allI impI)
    fix s' assume "task_runs k s s'"
    with task_runs_reach [OF this, of "T - {#k#}"] k(1) show "sys_reach (s, T) (s', T - {#k#})" by simp
    from ends [OF \<open>task_runs k s s'\<close>] obtain now u where "s' = dropAndFail now u" "transport_inv u" by blast
    with cut [of u now] show "d_qconn s' = None" "trs s' = {}" "d_conns s' \<subseteq> dead s'" "\<not> IsVerified v s'" for v
      by simp_all
  qed (rule k)+
  from i(2) assms(2) consider "Watcher c \<in># T" | "Opened c \<in># T" unfolding watched_def by blast
  then show ?thesis
  proof cases
    case 1
    show ?thesis
      by (rule goal [OF 1]) (use watcher_cuts_over [OF assms(3,2)] i(1) in blast)+
  next
    case 2
    show ?thesis
      by (rule goal [OF 2]) (use opener_cuts_over [OF assms(3,2)] inv in blast)+
  qed
qed

theorem dead_connection_is_cut_over_witness:
  "\<exists>s s'. sys_reach (sample_fresh, {#}) (s, {#Opened 3#}) \<and> d_qconn s = Some 3 \<and> 3 \<in> dead s
     \<and> task_runs (Opened 3) s s' \<and> d_qconn s' = None \<and> trs s' = {}"
proof -
  obtain s where s: "sys_reach (sample_fresh, {#}) (s, {#Opened 3#})" "d_qconn s = Some 3"
    using sample_both_channels by blast
  let ?s = "s\<lparr>dead := insert 3 (dead s)\<rparr>"
  have r: "sys_reach (sample_fresh, {#}) (?s, {#Opened 3#})" by (rule reach_step [OF s(1) conn_dies])
  have q: "d_qconn ?s = Some 3" "3 \<in> dead ?s" using s(2) by simp_all
  have w: "Watcher 3 \<notin># {#Opened (3 :: nat)#}" by simp
  from dead_connection_is_cut_over [OF r [unfolded sample_fresh_def] q] obtain s' where
    "task_runs (Opened 3) ?s s'" "d_qconn s' = None" "trs s' = {}" using w by blast
  with r q show ?thesis by blast
qed

text \<open>Without pending tasks, a connection only appears together with the task that starts its watcher.\<close>

lemma connection_comes_with_watcher:
  assumes "sys_step (s, {#}) (s', T')" and "sys_inv (s, {#})" and "d_qconn s' = Some c"
  shows "T' = {#Opened c#}"
proof -
  have "transport_inv s" "d_qconn s = None"
    using assms(2) by (auto simp: sys_inv_def watched_def)
  with assms(1,3) show ?thesis
    by (elim sys_step_quiet_E)
      (auto simp: healthy_qconn mesh_watch_qconn mesh_open_qconn dest!: locked_qconn split: if_splits)
qed


section \<open>Prober goroutines\<close>

text \<open>The fields that only \<open>startProber\<close> and \<open>stopProber\<close> write.\<close>

definition prober_fields :: "'a direct_client_scheme \<Rightarrow> nat set \<times> nat set \<times> nat option \<times> bool" where
  "prober_fields s = (probers s, stopped s, probeStop s, probeActive s)"

lemma prober_fields_frames [simp]:
  "prober_fields (dropConnLocked s) = prober_fields s" "prober_fields (wait_open c D s) = prober_fields s"
  "prober_fields (MarkVerified now ttl s) = prober_fields s" "prober_fields (MarkFailed s) = prober_fields s"
  "prober_fields (setProbeState p s) = prober_fields s" "prober_fields (owner_fallback s) = prober_fields s"
  "prober_fields (drop_cooldown now s) = prober_fields s" "prober_fields (openStream_failed s) = prober_fields s"
  "prober_fields (spawn_watch c s) = prober_fields s" "prober_fields (s\<lparr>dead := X\<rparr>) = prober_fields s"
  "prober_fields (s\<lparr>probeRTT := x\<rparr>) = prober_fields s" "prober_fields (s\<lparr>failUntil := u\<rparr>) = prober_fields s"
  by (simp_all add: prober_fields_def state_defs drop_cooldown_def openStream_failed_def spawn_watch_def)

lemma prober_fields_client [simp]:
  "prober_fields (touchActivity now s) = prober_fields s" "prober_fields (watchMeshConn c s) = prober_fields s"
  "prober_fields (snd (client_Run listens now s)) = prober_fields s"
  "prober_fields (snd (mesh_openStream M s)) = prober_fields s"
  using same_direct_mesh [of s M]
  by (simp_all add: prober_fields_def touchActivity_def watchMeshConn_def client_Run_def same_direct_def Let_def)

lemma prober_fields_dial: "prober_fields (snd (directDialTransport E a t s)) = prober_fields s"
  by (simp add: directDialTransport_def prober_fields_def state_defs Let_def split: sum.split option.split)

lemma prober_fields_redial: "prober_fields (snd (redial E s)) = prober_fields s"
  using prober_fields_dial [of "oe_dial E" "serverAddr s" "d_timeout s" s]
  by (auto simp: redial_def prober_fields_def split: prod.split sum.split)

lemma prober_fields_locked: "openStream_locked E s = (r, s') \<Longrightarrow> prober_fields s' = prober_fields s"
proof -
  have "prober_fields (snd (openStream_locked E s)) = prober_fields s"
    by (simp add: openStream_locked_def Let_def prober_fields_redial split: option.split)
  then show "openStream_locked E s = (r, s') \<Longrightarrow> prober_fields s' = prober_fields s" by simp
qed

lemma prober_fields_open: "prober_fields (snd (openStream_new E c s)) = prober_fields s"
  by (simp add: openStream_new_def Let_def split: option.split)

lemma prober_fields_healthy: "prober_fields (snd (probeHealthy rtt s)) = prober_fields s"
  using probeHealthy_cases [of rtt s] by auto

definition one_prober :: "'a direct_client_scheme \<Rightarrow> bool" where
  "one_prober s \<longleftrightarrow>
     (case prober_fields s of (ps, st, stop, active) \<Rightarrow>
        st \<subseteq> ps \<and> ps - st = set_option stop \<and> (active \<longleftrightarrow> stop \<noteq> None))"

lemma one_prober_frame: "prober_fields s' = prober_fields s \<Longrightarrow> one_prober s \<Longrightarrow> one_prober s'"
  by (simp add: one_prober_def)

lemma one_prober_close: "one_prober s \<Longrightarrow> one_prober (direct_Close s)"
  using one_prober_frame [of "dropConnLocked s" s]
  by (auto simp: direct_Close_def stopProber_def one_prober_def prober_fields_def split: option.split)

lemma task_step_prober: "task_step k s k' s' \<Longrightarrow> prober_fields s' = prober_fields s"
  by (induction rule: task_step.induct) (auto simp: prober_fields_open dest!: watch_lockedD split: if_splits)

lemma sys_step_prober: "sys_step x y \<Longrightarrow> one_prober (fst x) \<Longrightarrow> one_prober (fst y)"
  by (induction rule: sys_step.induct)
    (auto simp: one_prober_close prober_fields_healthy
      intro: one_prober_frame one_prober_frame [OF prober_fields_locked] one_prober_frame [OF task_step_prober]
        one_prober_frame [OF prober_fields_healthy])

lemma reachable_prober: "sys_reach x y \<Longrightarrow> one_prober (fst x) \<Longrightarrow> one_prober (fst y)"
  by (induction rule: sys_reach.induct) (auto dest: sys_step_prober)

text \<open>
  Under any schedule at most one prober goroutine of a client is running: the one that its construction
  started, until \<open>Close\<close> closes its stop channel, which happens once however often \<open>Close\<close> is called.
\<close>

lemma one_prober_at_most:
  assumes "sys_reach (fresh_client t od, {#}) (s, T)"
  shows "probers s - stopped s = set_option (probeStop s) \<and> stopped s \<subseteq> probers s
    \<and> (probeActive s \<longleftrightarrow> probeStop s \<noteq> None)
    \<and> (\<forall>ch. probeStop s = Some ch \<longrightarrow> ch \<notin> stopped s)
    \<and> probers (direct_Close s) = stopped (direct_Close s)"
proof -
  have "one_prober (fresh_client t od)"
    by (cases od) (simp_all add: one_prober_def prober_fields_def fresh_client_def NewClient_def
        NewDirectClient_def no_direct_def startProber_def direct_client.defs)
  with reachable_prober [OF assms] have i: "one_prober s" by simp
  then show ?thesis
    by (auto simp: one_prober_def prober_fields_def direct_Close_def stopProber_def split: option.split)
qed

end
