(* ===== verification/Spec2Isabelle.thy ===== *)
theory Spec2Isabelle
  imports Prelude GoStrings Address Interfaces Float64 Direct DirectProps Node Tunnel TunnelProps
    ChannelProps Prober ProberProps Failover Auth Pipe PipeProps Stats StatsProps Config Server
    ServerProps Startup StartupProps System
begin

text \<open>
  A verification development for yggss (\<^verbatim>\<open>src/\<close>), a shadowsocks plugin written in Go. The client
  accepts TCP connections of a local shadowsocks, carries each over a QUIC stream to the server, and the
  server connects the stream to the real shadowsocks server. A stream travels over one of two channels:
  the yggdrasil mesh (QUIC packets carried by an embedded yggdrasil node), which is always there, or plain
  UDP (the direct path), which is only used while a background prober has recently verified it. Both
  ends authenticate by their ed25519 keys. A failover monitor may remove and restore the yggdrasil
  peering with the server, and a logger reports the state of everything at intervals.

  \<^bold>\<open>How the parts interact.\<close> \<^verbatim>\<open>main.go\<close> collects the settings (flags, configuration file, SIP003
  environment), makes the node, its peerings and the client or the server. \<open>Client.handle\<close> opens a stream
  (\<open>client_openStream\<close>): direct if \<open>IsVerified\<close>, else mesh. The prober, the watcher of the direct
  connection and the failure paths of the streams write the verified cache; the prober asks the
  client for its last activity, and the handlers of the server answer its probes.

  \<^bold>\<open>Theories and the code they model.\<close> Names of definitions are those of the code wherever Isabelle
  allows; a suffix such as \<open>_locked\<close> or \<open>_new\<close> marks a section of a function between two locks.
  \<^item> \<open>Prelude\<close>: 64-bit durations with wrap-around, points in time, generic lemmas and the collection
    \<open>state_defs\<close>. \<open>GoStrings\<close>: the parts of Go's \<open>strings\<close>, \<open>strconv\<close>, \<open>hex\<close> and \<open>net\<close> that are
    called. \<open>Float64\<close>: the binary64 operations of the round-trip baseline (rational arithmetic with
    explicit rounding). \<open>Address\<close>: \<open>parseHostPort\<close>, \<open>resolveUDP\<close> and the choice of sockets in
    \<^verbatim>\<open>direct.go\<close>, \<open>portOf\<close> in \<^verbatim>\<open>failover.go\<close>.
  \<^item> \<open>Interfaces\<close>: the contracts between components as locales, all interpreted on the model itself:
    \<open>verify_cache\<close> (by \<open>IsVerified\<close>, \<open>MarkVerified\<close>, \<open>MarkFailed\<close>), \<open>stream_channel\<close> (by \<open>openStream\<close> and by
    \<open>mesh_openStream\<close>), \<open>streak_counter\<close> (by the two counters of the failover monitor) and \<open>key_gate\<close>
    (by the four certificate callbacks).
  \<^item> \<open>Direct\<close>, \<open>DirectProps\<close>: \<open>directClient\<close> of \<^verbatim>\<open>direct.go\<close>. The record \<open>direct_client\<close> has the fields of
    the struct, and as ghost fields the open transports and the UDP sockets under them, the dead
    connections, the stop channels and the calls made. \<open>Close\<close> of a transport does not close the socket
    that was handed to it, so the two are kept apart. What the outside answers in a call (clock, dial, \<open>OpenStreamSync\<close>) is a record \<open>open_env\<close>.
  \<^item> \<open>Tunnel\<close>, \<open>TunnelProps\<close>, \<open>ChannelProps\<close>: \<open>Client\<close> of \<^verbatim>\<open>tunnel.go\<close>. \<open>client_state\<close> extends
    \<open>direct_client\<close>; \<open>mesh_openStream\<close> and \<open>client_openStream\<close> are the two halves of \<open>openStream\<close>.
  \<^item> \<open>Prober\<close>, \<open>ProberProps\<close>: one round of the goroutine of \<open>startProber\<close> (\<open>prober_step\<close>): which signal wakes
    it, the probe and every \<open>continue\<close>, with the local variables of the goroutine in the record \<open>prober\<close>.
  \<^item> \<open>Pipe\<close>, \<open>PipeProps\<close>: \<open>copyCount\<close>, \<open>pipe\<close>, \<open>handleProbeStream\<close> and the stream handlers of both listeners.
    A connection is the list of what its \<open>Read\<close> calls return; the traffic counters are 64-bit words.
    \<open>pipe\<close> closes both ends when its first direction ends: a \<open>closing\<close> says which one that is and after
    how many rounds it cuts the other one off (\<open>copyCut\<close>).
  \<^item> \<open>Auth\<close>, \<open>Server\<close>, \<open>ServerProps\<close>: the certificate callbacks, the whitelist, the TLS and QUIC
    configurations, \<open>startDirectListener\<close>, the accept loops and the mesh server.
  \<^item> \<open>Node\<close>: queries, construction and calls into the core of \<^verbatim>\<open>node.go\<close>. \<open>Failover\<close>: one tick of the loop of
    \<^verbatim>\<open>failover.go\<close>. \<open>Stats\<close>, \<open>StatsProps\<close>: the reports of \<^verbatim>\<open>stats.go\<close>.
  \<^item> \<open>Config\<close>: \<^verbatim>\<open>config.go\<close> and \<^verbatim>\<open>sip003.go\<close>. \<open>Startup\<close>, \<open>StartupProps\<close>: \<^verbatim>\<open>cmd/yggss/main.go\<close>, as the final
    settings, what is started from them (a record \<open>world\<close>), the end of the program and the key generation.
  \<^item> \<open>System\<close>: the client as goroutines that interleave, one step per section under a lock, with the
    multiset of pending tasks; \<open>task_step\<close> is one section of such a task, \<open>sys_step\<close> any step of the client. This theory: the properties that join client, server and start.

  \<^bold>\<open>What the lemmas show.\<close> \<open>DirectProps\<close>: transports and connections are owned and released on every branch, a
  cutover forgets connection and cache together, waits are bounded, the cache and the baseline behave as
  documented. \<open>TunnelProps\<close>, \<open>ChannelProps\<close>: which channel a stream gets, its downgrade, availability of the
  mesh and the length of a wait. \<open>ProberProps\<close>: only a completed round trip verifies the path, when the
  path is given up, which ticker is armed, when the prober keeps silent. \<open>PipeProps\<close>, \<open>ServerProps\<close>: delivery
  in order and, without cut-off, of every byte; probe detection, counters independent of the schedule, the same admission on both listeners.
  \<open>Failover\<close>: the monitor implements a debouncing specification stated over histories of samples (\<open>implements\<close>,
  a refinement), and reacts. \<open>Config\<close>, \<open>StartupProps\<close>: round trip of the plugin options, precedence of the
  sources, well-formed settings, termination of the identity check. \<open>StatsProps\<close>: accuracy of the rendered
  numbers and what the log cannot show. \<open>System\<close>: under every schedule no leaked
  transport or connection, at most one prober, every dead connection with a goroutine pending that cuts it
  over, and UDP sockets that pile up because nothing closes them.

  \<^bold>\<open>Bounds and termination.\<close> No definition uses fuel. Loops that follow a list recurse on it; \<open>copyCount\<close>
  terminates by the bytes and events left, \<open>fb_loop\<close> by the quotient; the identity check polls until a
  deadline and is a \<open>partial_function (option)\<close> whose end is proved when the clock advances. Durations and
  counters wrap at 64 bits as in Go; hypotheses that exclude a wrap-around name the bound.

  \<^bold>\<open>Not modelled.\<close> quic-go, the yggdrasil core, the chain check of \<open>crypto/tls\<close>, \<open>crypto/x509\<close>, \<open>encoding/json\<close>, the
  file system, the resolver and \<open>net.ParseIP\<close> are arguments or their answers are inputs. The parsing of the command
  line and the texts of log lines other than those of the report are left out, and so are the accessors of
  the node and the packet methods that pass their arguments to the core, the aliases in \<^verbatim>\<open>api.go\<close>
  and \<open>quicSNI\<close>, which nothing uses. Memory below the level of locked sections (data races) is outside the model.

  \<^bold>\<open>Plan.\<close> Next: the rounds of the prober and of the monitor as tasks of \<open>System\<close> with their tickers; the server side
  as a step relation with its connections; progress under fairness for the upgrade to the direct path.
\<close>

section \<open>Data from end to end\<close>

text \<open>
  What the application sends to the client's listener, \<open>conn\<close>, is copied into the tunnel stream; the
  server sees these bytes, or the part that arrives before the stream breaks, as \<open>es\<close>, cut into
  packets in any way. What the server answers comes back to the client as \<open>stream\<close>.
\<close>



section \<open>The upgrade to the direct path\<close>

lemma open_success:
  assumes "openStream E s = (Inr c, s1)" and "direct_inv s"
  shows "d_node s \<and> \<not> before (oe_now E) (failUntil s)"
proof -
  have "before (oe_now E) (failUntil s) \<Longrightarrow> fst (openStream E s) = Inl Cooldown"
    "\<not> d_node s \<Longrightarrow> \<exists>e. fst (openStream E s) = Inl e"
    by (auto simp: openStream_def openStream_locked_def)
  with assms(1) show ?thesis by auto
qed

lemma open_keeps:
  assumes "openStream E s = (Inr c, s1)"
  shows "failUntil s1 = failUntil s" and "d_node s1 = d_node s" and "retryPeriod s1 = retryPeriod s"
  using assms
  by (auto simp: openStream_def openStream_locked_def redial_def directDialTransport_def openStream_new_def
      spawn_watch_def state_defs dropConnLocked_def Let_def
      split: if_splits sum.splits option.splits prod.splits)


text \<open>
  C1 (liveness). A path that works gets used. A prober round with an active mesh and a recently active
  user opens its stream and writes the signature; the server answers it, and the answer is back within
  a second. Then the path is verified for the lifetime of the cache, and a user stream opened in that
  time, on a connection that is still alive and accepts it, is carried by the direct connection.
\<close>

theorem working_path_is_used:
  assumes "direct_inv s" and "has_direct s"
    and "meshActive (pe_peers PE)" and "pe_now PE - lastActivity s \<le> 10 * minute"
    and "probe_open PE s = (Inr c, s1)" and "pe_write PE = None" and "pe_read PE = None"
    and "take 2 (early es) = probePing" and "serveDirectStream SE es = ProbeEchoed (pe_echo PE)"
    and "pe_elapsed PE \<le> second" and "probe_body PE p s = (p', s')"
    and "oe_now (pe_open PE) \<le> oe_now (ce_direct CE)" and "ce_now CE < pe_end PE + verifyTTL s"
    and "c \<notin> dead s'" and "oe_open (ce_direct CE) = None"
  shows "IsVerified (ce_now CE) s' \<and> verifiedC p' \<and> fst (client_openStream CE s') = Inr (DirectStream c)"
proof -
  let ?t = "probe_sync (pe_now PE) s" and ?E = "ce_direct CE"
  have due: "probe_due PE s" using assms(3,4) by (simp add: probe_due_def idle_too_long_def probe_consts)
  obtain s2 D where o: "openStream (pe_open PE) ?t = (Inr c, s2)" and s1: "s1 = s2\<lparr>dead := dead s2 \<union> D\<rparr>"
    using assms(5) by (auto simp: probe_open_def split: prod.splits sum.splits)
  have t: "direct_inv ?t" using assms(1) by simp
  have t2: "failUntil ?t = failUntil s" "d_node ?t = d_node s" "has_direct ?t = has_direct s"
    by (simp_all add: probe_sync_def state_defs)
  note opened = open_success [OF o t] open_keeps [OF o] openStream_summary(4) [OF o t refl]
  have "same_mesh ?t s2" using same_mesh_openStream [of ?t "pe_open PE"] o by simp
  then have hd: "has_direct s1" using s1 t2(3) assms(2) by (simp add: same_mesh_def)
  have echo: "round_trip PE = None"
  proof -
    have "pe_echo PE = probePing"
      using assms(8,9) handleProbeStream_cases [of es] by (auto simp: serveDirectStream_def split: prod.splits if_splits)
    with assms(6,7) show ?thesis by (simp add: round_trip_def)
  qed
  obtain s3 where h: "probeHealthy (pe_elapsed PE) s1 = (True, s3)" and s3: "s3 = s1 \<or> (\<exists>x. s3 = s1\<lparr>probeRTT := x\<rparr>)"
  proof
    have "fst (probeHealthy (pe_elapsed PE) s1)"
      using probe_threshold_ge [of "probeRTT s1"] assms(10) by (auto simp: probeHealthy_def)
    then show "probeHealthy (pe_elapsed PE) s1 = (True, snd (probeHealthy (pe_elapsed PE) s1))"
      by (metis prod.collapse)
  qed (rule probeHealthy_cases)
  from probe_body_answers [OF due assms(5) echo, of p] assms(11) h
  have s': "p' = slow_cadence (p\<lparr>failStreak := 0\<rparr>)" "s' = setProbeState PathH2H3 (MarkVerified (pe_end PE) (verifyTTL s3) s3)"
    by (simp_all add: probe_rated_def)
  have f: "verifyTTL s3 = verifyTTL s" "d_qconn s' = Some c" "failUntil s' = failUntil s" "d_node s'"
    "has_direct s'" "verifiedUntil s' = Some (pe_end PE + verifyTTL s3)" "dead s' = dead s1"
    using s3 s1 opened hd t2 open_keeps(3) [OF o] unfolding s'(2)
    by (auto simp: state_defs verifyTTL_def)
  have "\<not> before (oe_now ?E) (failUntil s')"
    using opened(1) assms(12) f(3) t2(1) before_mono by metis
  then have "fst (openStream ?E s') = Inr c"
    using f assms(14,15) by (simp add: openStream_def openStream_locked_def connAliveLocked_def Let_def)
  moreover have "IsVerified (ce_now CE) s'" using assms(13) f(1,6) by (simp add: IsVerified_def)
  moreover have "verifiedC p'" by (simp add: s'(1) slow_cadence_def)
  ultimately show ?thesis
    using f(5) by (auto simp: client_openStream_def split: prod.split)
qed

theorem working_path_is_used_witness:
  "fst (client_openStream (sample_ce (sample_env 12 (Inr 4) None) (sample_mesh (Inr 5) None))
     (snd (probe_body sample_round new_prober sample_client))) = Inr (DirectStream 3)"
proof -
  let ?CE = "sample_ce (sample_env 12 (Inr 4) None) (sample_mesh (Inr 5) None)"
  let ?s = "snd (probe_body sample_round new_prober sample_client)"
  have b: "probe_body sample_round new_prober sample_client = (slow_cadence new_prober, ?s)"
    by (simp add: sample_round_verifies)
  have i: "direct_inv sample_client" using sample_client_inv by (simp add: client_inv_def)
  have sync: "probe_sync 9 sample_client = sample_client"
    by (simp add: probe_sync_def PathState_def sample_client_eq IsVerified_def)
  obtain s1 where o: "probe_open sample_round sample_client = (Inr 3, s1)"
    by (simp add: probe_open_def sample_round_def sync sample_round_opens)
  have echo: "serveDirectStream sample_se [Data [0x59], Data [0x21], Fin] = ProbeEchoed (pe_echo sample_round)"
    by (simp add: serveDirectStream_def handleProbeStream_def probePing_def sample_round_def)
  have "verifyTTL sample_client = 20 * second"
    by (simp add: verifyTTL_small sample_client_eq second_def)
  then have late: "ce_now ?CE < pe_end sample_round + verifyTTL sample_client"
    by (simp add: sample_ce_def sample_env_def sample_round_def second_def)
  have alive: "3 \<notin> dead ?s" unfolding sample_round_verifies by (simp add: sample_client_eq state_defs)
  show ?thesis
    by (rule working_path_is_used [OF i _ _ _ o _ _ _ echo _ b _ late alive, THEN conjunct2, THEN conjunct2])
      (simp_all add: sample_client_eq sample_round_def sample_ce_def sample_env_def lastActivity_def
        probePing_def unit_defs)
qed

section \<open>From generated keys to a handshake\<close>

text \<open>
  C26 (roundtrip). Two nodes configured with the keys that \<open>-genkey\<close> printed for each other connect.
  When the server's settings hold the printed public key of the client and the client's settings that
  of the server, and both programs start, then on either path the started server accepts a peer
  exactly when the peer has the client's key, and the started client accepts the server.
\<close>

theorem configured_pair_connects:
  assumes "genAndPrintKey (Inr (cpub, cpriv)) addr = Inr cls" and "length cpub = 32" and "length cpriv = 64"
    and "genAndPrintKey (Inr (spub, spriv)) addr' = Inr sls" and "length spub = 32" and "length spriv = 64"
    and "clientKeyHex sst = drop (length public_label) (cls ! 1)"
    and "serverKeyHex cst = drop (length public_label) (sls ! 1)"
    and "run_main W cst = Client cp" and "run_main W' sst = Server sp"
    and "x509 peerCert = Inr (Ed25519 peerKey)" and "x509 serverCert = Inr (Ed25519 spub)"
  shows "(handshake ok (client_tlsConfig x509 peerCert (cp_serverKey cp))
            (server_tlsConfig x509 serverCert (sv_allowed (sp_server sp))) \<longleftrightarrow> peerKey = cpub)
    \<and> (handshake ok (direct_client_tls x509 peerCert (cp_serverKey cp) fakeSNI)
            (directServerTLS x509 serverCert (sv_allowed (sp_server sp))) \<longleftrightarrow> peerKey = cpub)"
proof -
  have "whitelist (clientKeyHex sst) = Inr {cpub}"
    using generated_keys_are_accepted [OF assms(3,2,1)] assms(7) by simp
  with started_server_whitelist [OF assms(10)] have "sv_allowed (sp_server sp) = {cpub}" by simp
  moreover have "parseKey (serverKeyHex cst) 32 = Inr spub"
    using generated_keys_are_accepted [OF assms(6,5,4)] assms(8) by simp
  with started_client_key [OF assms(9)] have "cp_serverKey cp = spub" by simp
  ultimately show ?thesis using handshake_iff [of x509 peerCert peerKey serverCert spub, OF assms(11,12)] by simp
qed

definition sample_other_key :: key where
  "sample_other_key = replicate 32 CHR ''c''"

theorem configured_pair_connects_witness:
  "\<exists>cp sst sp. handshake (\<lambda>_ _. False) (client_tlsConfig (\<lambda>k. Inr (Ed25519 k)) sample_other_key (cp_serverKey cp))
      (server_tlsConfig (\<lambda>k. Inr (Ed25519 k)) sample_key (sv_allowed (sp_server sp)))
    \<and> run_main sample_world sample_settings = Client cp \<and> run_main sample_world sst = Server sp"
proof -
  let ?priv = "replicate 64 CHR ''p''"
  obtain cls where c: "genAndPrintKey (Inr (sample_other_key, ?priv)) id = Inr cls"
    "drop (length public_label) (cls ! 1) = hex_EncodeToString sample_other_key"
    by (simp add: genAndPrintKey_def)
  obtain sls where s: "genAndPrintKey (Inr (sample_key, ?priv)) id = Inr sls"
    "drop (length public_label) (sls ! 1) = hex_EncodeToString sample_key"
    by (simp add: genAndPrintKey_def)
  have l: "length sample_other_key = 32" "length sample_key = 32" "length ?priv = 64"
    by (simp_all add: sample_other_key_def sample_key_def)
  note accepted = generated_keys_are_accepted [OF l(3,1) c(1)] generated_keys_are_accepted [OF l(3,2) s(1)]
  have "parseKey (hex_EncodeToString sample_key) 32 = Inr sample_key" "hex_EncodeToString sample_key \<noteq> []"
    using accepted(2) s(2) hex_not_Nil [of sample_key] l(2) by (metis, fastforce)
  then obtain cp where cp: "run_main sample_world sample_settings = Client cp"
    by (simp add: run_main_def start_client_def sample_settings_def default_settings_def PublicKeySize_def
        NewNode_def NewNode_key_def sample_world_def Let_def)
  let ?sst = "default_settings\<lparr>isServer := True, bindAddr := ''[::]:443'', dstAddr := ''127.0.0.1:8388'',
    clientKeyHex := hex_EncodeToString sample_other_key\<rparr>"
  obtain sp where sp: "run_main sample_world ?sst = Server sp"
    using accepted(1) c(2)
    by (simp add: run_main_def start_server_def default_settings_def NewNode_def NewNode_key_def
        sample_world_def sample_core_def core_call_defs Let_def)
  have "serverKeyHex sample_settings = drop (length public_label) (sls ! 1)"
    "clientKeyHex ?sst = drop (length public_label) (cls ! 1)"
    by (simp_all only: s(2) c(2)) (simp_all add: sample_settings_def)
  from configured_pair_connects [OF c(1) l(1,3) s(1) l(2,3) this(2,1) cp sp,
      of "\<lambda>k. Inr (Ed25519 k)" sample_other_key sample_other_key sample_key "\<lambda>_ _. False"] cp sp
  show ?thesis by (intro exI [of _ cp] exI [of _ ?sst] exI [of _ sp]) simp
qed

end
